(* ===== verification/Prelude.thy ===== *)
theory Prelude
  imports Main "HOL-Library.Word"
begin

text \<open>
  Shared vocabulary of the development: the result type of fallible Rust code, collections of
  simplification rules, the decimal rendering of unsigned integers used by \<^verbatim>\<open>to_string\<close>, and
  the list and association-list lemmas several components use.
\<close>

named_theorems outcome_simps
named_theorems machine_defs
named_theorems adapt_defs

section \<open>Results of fallible code\<close>

text \<open>
  A Rust call of type \<^verbatim>\<open>Result<A, E>\<close> returns \<open>Ok a\<close> or \<open>Err e\<close>, or does not return because it
  panics (\<^verbatim>\<open>panic!\<close>, \<^verbatim>\<open>unreachable!\<close>, \<^verbatim>\<open>expect\<close>, an index out of range); the panic is a value of the
  model, so that its absence is a theorem.
\<close>

datatype ('e, 'a) outcome = Ok 'a | Err 'e | Panic string

fun bind_outcome :: "('e, 'a) outcome \<Rightarrow> ('a \<Rightarrow> ('e, 'b) outcome) \<Rightarrow> ('e, 'b) outcome" where
  "bind_outcome (Ok a) f = f a"
| "bind_outcome (Err e) f = Err e"
| "bind_outcome (Panic s) f = Panic s"

fun map_err :: "('e \<Rightarrow> 'f) \<Rightarrow> ('e, 'a) outcome \<Rightarrow> ('f, 'a) outcome" where
  "map_err f (Ok a) = Ok a"
| "map_err f (Err e) = Err (f e)"
| "map_err f (Panic s) = Panic s"

text \<open>\<^verbatim>\<open>expect(msg)\<close>: an error becomes a panic.\<close>

fun expect :: "string \<Rightarrow> ('e, 'a) outcome \<Rightarrow> ('f, 'a) outcome" where
  "expect msg (Ok a) = Ok a"
| "expect msg (Err e) = Panic msg"
| "expect msg (Panic s) = Panic s"

fun is_ok :: "('e, 'a) outcome \<Rightarrow> bool" where
  "is_ok (Ok a) = True"
| "is_ok r = False"

fun is_panic :: "('e, 'a) outcome \<Rightarrow> bool" where
  "is_panic (Panic s) = True"
| "is_panic r = False"

lemma bind_outcome_Ok_iff [outcome_simps]:
  "bind_outcome r f = Ok b \<longleftrightarrow> (\<exists>a. r = Ok a \<and> f a = Ok b)"
  by (cases r) auto

lemma bind_outcome_assoc:
  "bind_outcome (bind_outcome r f) g = bind_outcome r (\<lambda>a. bind_outcome (f a) g)"
  by (cases r) auto

lemma is_panic_bind [outcome_simps]:
  "is_panic (bind_outcome r f) \<longleftrightarrow> is_panic r \<or> (\<exists>a. r = Ok a \<and> is_panic (f a))"
  by (cases r) auto

lemma is_panic_map_err [simp]: "is_panic (map_err f r) = is_panic r"
  by (cases r) auto

lemma map_err_Ok_iff [simp]: "map_err f r = Ok a \<longleftrightarrow> r = Ok a"
  by (cases r) auto

lemma expect_Ok_iff [simp]: "expect msg r = Ok a \<longleftrightarrow> r = Ok a"
  by (cases r) auto

lemma is_panic_expect [simp]: "is_panic (expect msg r) \<longleftrightarrow> \<not> is_ok r"
  by (cases r) auto

section \<open>Decimal rendering\<close>

definition digit_char :: "nat \<Rightarrow> char" where
  "digit_char d = char_of (48 + d)"

fun show_nat :: "nat \<Rightarrow> string" where
  "show_nat n = (if n < 10 then [digit_char n] else show_nat (n div 10) @ [digit_char (n mod 10)])"

declare show_nat.simps [simp del]

definition show_u32 :: "32 word \<Rightarrow> string" where
  "show_u32 w = show_nat (unat w)"

fun read_digits :: "nat \<Rightarrow> string \<Rightarrow> nat" where
  "read_digits acc [] = acc"
| "read_digits acc (c # cs) = read_digits (10 * acc + (of_char c - 48)) cs"

lemma of_char_digit_char [simp]: "d < 10 \<Longrightarrow> of_char (digit_char d) = 48 + d"
  by (simp add: digit_char_def)

lemma read_digits_append:
  "read_digits acc (xs @ ys) = read_digits (read_digits acc xs) ys"
  by (induction xs arbitrary: acc) auto

lemma read_show_nat [simp]: "read_digits 0 (show_nat n) = n"
proof (induction n rule: show_nat.induct)
  case (1 n)
  show ?case
  proof (cases "n < 10")
    case True
    then show ?thesis by (subst show_nat.simps) simp
  next
    case False
    then show ?thesis using 1
      by (subst show_nat.simps) (simp add: read_digits_append)
  qed
qed

lemma show_nat_inject [simp]: "show_nat m = show_nat n \<longleftrightarrow> m = n"
  by (metis read_show_nat)

lemma show_u32_inject [simp]: "show_u32 a = show_u32 b \<longleftrightarrow> a = b"
  by (simp add: show_u32_def flip: word_unat_eq_iff)

section \<open>Sums over lists\<close>

definition weigh :: "('a \<Rightarrow> nat) \<Rightarrow> 'a list \<Rightarrow> nat" where
  "weigh w xs = sum_list (map w xs)"

lemma weigh_simps [simp]:
  "weigh w [] = 0"
  "weigh w (x # xs) = w x + weigh w xs"
  "weigh w (xs @ ys) = weigh w xs + weigh w ys"
  by (simp_all add: weigh_def)

end
