(* ===== verification/Fsm.thy ===== *)
theory Fsm
  imports Prelude
begin

text \<open>
  The state-machine runtime of \<^verbatim>\<open>fsm/rustfsm_trait\<close> and of the code the \<^verbatim>\<open>fsm!\<close> macro of
  \<^verbatim>\<open>fsm/rustfsm_procmacro\<close> generates: transition results, the generated \<^verbatim>\<open>on_event\<close>, and the lemmas
  every machine shares.  A machine is given by its transition function, one arm of the generated
  \<^verbatim>\<open>match\<close> per transition; \<open>Unmatched\<close> is the arm the macro adds for every other event.
\<close>

section \<open>Errors and transition results\<close>

datatype 'e MachineError = InvalidTransition | Underlying 'e

datatype ('c, 'st, 'e) TransitionResult =
    TR_InvalidTransition
  | TR_Ok (tr_commands: "'c list") (tr_new_state: 'st)
  | TR_Err 'e

definition tr_ok :: "'c list \<Rightarrow> 'st \<Rightarrow> ('c, 'st, 'e) TransitionResult" where
  "tr_ok commands new_state = TR_Ok commands new_state"

definition tr_from :: "('cur \<Rightarrow> 'st) \<Rightarrow> 'cur \<Rightarrow> ('c, 'st, 'e) TransitionResult" where
  "tr_from into current_state = TR_Ok [] (into current_state)"

definition tr_with_commands :: "'st \<Rightarrow> 'c list \<Rightarrow> ('c, 'st, 'e) TransitionResult" where
  "tr_with_commands default_state commands = TR_Ok commands default_state"

definition tr_default :: "'st \<Rightarrow> ('c, 'st, 'e) TransitionResult" where
  "tr_default default_state = TR_Ok [] default_state"

fun into_general :: "('d \<Rightarrow> 'st) \<Rightarrow> ('c, 'd, 'e) TransitionResult \<Rightarrow> ('c, 'st, 'e) TransitionResult" where
  "into_general into TR_InvalidTransition = TR_InvalidTransition"
| "into_general into (TR_Ok commands new_state) = TR_Ok commands (into new_state)"
| "into_general into (TR_Err e) = TR_Err e"

fun into_cmd_result ::
  "('c, 'st, 'e) TransitionResult \<Rightarrow> ('e MachineError, 'c list \<times> 'st) outcome" where
  "into_cmd_result (TR_Ok commands new_state) = Ok (commands, new_state)"
| "into_cmd_result TR_InvalidTransition = Err InvalidTransition"
| "into_cmd_result (TR_Err e) = Err (Underlying e)"

lemmas tr_defs [simp] = tr_ok_def tr_from_def tr_with_commands_def tr_default_def

section \<open>The generated machine\<close>

text \<open>
  \<open>Arm sh r\<close> is a matched transition whose handler left the shared state \<open>sh\<close> and returned \<open>r\<close>;
  \<open>Arm_panic\<close> is a handler that panicked.
\<close>

datatype ('st, 'sh, 'c, 'e) arm =
    Unmatched
  | Arm 'sh "('c, 'st, 'e) TransitionResult"
  | Arm_panic string

type_synonym ('st, 'sh, 'ev, 'c, 'e) transitions = "'st \<Rightarrow> 'sh \<Rightarrow> 'ev \<Rightarrow> ('st, 'sh, 'c, 'e) arm"

record ('st, 'sh) machine =
  mstate :: "'st option"
  shared_state :: 'sh

definition from_parts :: "'st \<Rightarrow> 'sh \<Rightarrow> ('st, 'sh) machine" where
  "from_parts st shared = \<lparr> mstate = Some st, shared_state = shared \<rparr>"

definition get_state :: "('st, 'sh) machine \<Rightarrow> ('e, 'st) outcome" where
  "get_state m = (case mstate m of
      Some st \<Rightarrow> Ok st
    | None \<Rightarrow> Panic ''called `Option::unwrap()` on a `None` value'')"

definition set_state :: "('st, 'sh) machine \<Rightarrow> 'st \<Rightarrow> ('st, 'sh) machine" where
  "set_state m new = m\<lparr> mstate := Some new \<rparr>"

definition has_reached_final_state ::
  "('st \<Rightarrow> bool) \<Rightarrow> ('st, 'sh) machine \<Rightarrow> ('e, bool) outcome" where
  "has_reached_final_state is_final m = bind_outcome (get_state m) (\<lambda>st. Ok (is_final st))"

definition on_event ::
  "('st, 'sh, 'ev, 'c, 'e) transitions \<Rightarrow> ('st, 'sh) machine \<Rightarrow> 'ev \<Rightarrow>
   ('e MachineError, 'c list) outcome \<times> ('st, 'sh) machine" where
  "on_event tf m ev = (case mstate m of
      None \<Rightarrow> (Err InvalidTransition, m)
    | Some st \<Rightarrow> (case tf st (shared_state m) ev of
          Unmatched \<Rightarrow> (Err InvalidTransition, m\<lparr> mstate := Some st \<rparr>)
        | Arm_panic s \<Rightarrow> (Panic s, m\<lparr> mstate := None \<rparr>)
        | Arm sh res \<Rightarrow> (case into_cmd_result res of
              Ok (cmds, new_state) \<Rightarrow> (Ok cmds, \<lparr> mstate = Some new_state, shared_state = sh \<rparr>)
            | Err e \<Rightarrow> (Err e, \<lparr> mstate = None, shared_state = sh \<rparr>)
            | Panic s \<Rightarrow> (Panic s, \<lparr> mstate = None, shared_state = sh \<rparr>))))"

lemma from_parts_sel [simp]:
  "mstate (from_parts st sh) = Some st" "shared_state (from_parts st sh) = sh"
  by (simp_all add: from_parts_def)

text \<open>What a successful \<^verbatim>\<open>on_event\<close> says about the transition taken.\<close>

lemma on_event_OkE:
  assumes "on_event tf m ev = (Ok cmds, m')"
  obtains st sh st' where "mstate m = Some st" "tf st (shared_state m) ev = Arm sh (TR_Ok cmds st')"
    "m' = from_parts st' sh"
proof -
  obtain st where st: "mstate m = Some st"
    using assms by (cases "mstate m") (auto simp: on_event_def)
  then obtain sh res where arm: "tf st (shared_state m) ev = Arm sh res"
    using assms by (cases "tf st (shared_state m) ev") (auto simp: on_event_def)
  then show thesis
    using assms st that by (cases res) (auto simp: on_event_def from_parts_def)
qed

lemma on_event_Arm_Ok [simp]:
  "tf st sh ev = Arm sh' (TR_Ok cmds st') \<Longrightarrow>
   on_event tf (from_parts st sh) ev = (Ok cmds, from_parts st' sh')"
  by (simp add: on_event_def from_parts_def)

text \<open>An event with no transition leaves the machine as it was; a failed handler leaves it without a state.\<close>

lemma on_event_Unmatched:
  "mstate m = Some st \<Longrightarrow> tf st (shared_state m) ev = Unmatched \<Longrightarrow>
   on_event tf m ev = (Err InvalidTransition, m)"
  by (cases m) (simp add: on_event_def)

lemma on_event_error_poisons:
  assumes "on_event tf m ev = (Err e, m')" "mstate m = Some st"
    and "tf st (shared_state m) ev \<noteq> Unmatched"
  shows "mstate m' = None"
  using assms
  by (auto simp: on_event_def split: arm.splits TransitionResult.splits outcome.splits)

lemma on_event_poisoned:
  "mstate m = None \<Longrightarrow> on_event tf m ev = (Err InvalidTransition, m)"
  by (simp add: on_event_def)

lemma on_event_Panic_arm:
  "on_event tf m ev = (Panic s, m') \<Longrightarrow> mstate m = Some st \<Longrightarrow> tf st (shared_state m) ev = Arm_panic s"
  by (auto simp: on_event_def split: arm.splits outcome.splits prod.splits elim!: into_cmd_result.elims)

fun feed ::
  "('st, 'sh, 'ev, 'c, 'e) transitions \<Rightarrow> ('st, 'sh) machine \<Rightarrow> 'ev list \<Rightarrow>
   ('e MachineError, 'c list) outcome list \<times> ('st, 'sh) machine" where
  "feed tf m [] = ([], m)"
| "feed tf m (ev # evs) = (let (r, m') = on_event tf m ev; (rs, m'') = feed tf m' evs
     in (r # rs, m''))"

lemma feed_poisoned:
  "mstate m = None \<Longrightarrow> feed tf m evs = (replicate (length evs) (Err InvalidTransition), m)"
  by (induction evs) (simp_all add: on_event_poisoned)

section \<open>Invariants of a transition function\<close>

definition machine_inv :: "('st \<Rightarrow> 'sh \<Rightarrow> bool) \<Rightarrow> ('st, 'sh) machine \<Rightarrow> bool" where
  "machine_inv ok_state m = (case mstate m of None \<Rightarrow> False | Some st \<Rightarrow> ok_state st (shared_state m))"

lemma machine_inv_from_parts [simp]: "machine_inv ok_state (from_parts st sh) = ok_state st sh"
  by (simp add: machine_inv_def)

lemma machine_invE:
  assumes "machine_inv ok_state m"
  obtains st where "mstate m = Some st" "ok_state st (shared_state m)" "m = from_parts st (shared_state m)"
  using assms that
  by (cases m) (auto simp: machine_inv_def from_parts_def split: option.splits)

text \<open>
  \<open>ok_event\<close> restricts the events a machine is fed in a shared state, for machines whose callers
  choose the event from the shared state.
\<close>

locale fsm_invariant =
  fixes tf :: "('st, 'sh, 'ev, 'c, 'e) transitions"
    and ok_state :: "'st \<Rightarrow> 'sh \<Rightarrow> bool"
    and ok_event :: "'sh \<Rightarrow> 'ev \<Rightarrow> bool"
  assumes arm_keeps: "\<lbrakk> ok_state st sh; ok_event sh ev; tf st sh ev = Arm sh' (TR_Ok cmds st') \<rbrakk> \<Longrightarrow> ok_state st' sh'"
    and arm_no_panic: "\<lbrakk> ok_state st sh; ok_event sh ev \<rbrakk> \<Longrightarrow> tf st sh ev \<noteq> Arm_panic s"
    and arm_no_handler_invalid: "\<lbrakk> ok_state st sh; ok_event sh ev \<rbrakk> \<Longrightarrow> tf st sh ev \<noteq> Arm sh' TR_InvalidTransition"
begin

lemma on_event_keeps:
  "\<lbrakk> machine_inv ok_state m; ok_event (shared_state m) ev; on_event tf m ev = (Ok cmds, m') \<rbrakk> \<Longrightarrow>
   machine_inv ok_state m'"
  by (erule on_event_OkE) (auto simp: machine_inv_def intro: arm_keeps)

lemma on_event_not_Panic:
  "\<lbrakk> machine_inv ok_state m; ok_event (shared_state m) ev \<rbrakk> \<Longrightarrow> on_event tf m ev \<noteq> (Panic s, m')"
  by (erule machine_invE)
    (auto simp: on_event_def arm_no_panic split: arm.splits TransitionResult.splits outcome.splits
      elim: into_cmd_result.elims)

text \<open>In an invariant state an invalid transition is an unmatched event, so the state survives it.\<close>

lemma on_event_Invalid_keeps:
  "\<lbrakk> machine_inv ok_state m; ok_event (shared_state m) ev; on_event tf m ev = (Err InvalidTransition, m') \<rbrakk> \<Longrightarrow>
   m' = m"
  by (erule machine_invE)
    (auto simp: on_event_def arm_no_handler_invalid
      split: arm.splits TransitionResult.splits outcome.splits elim: into_cmd_result.elims)

end

end
