(* ===== verification/Protos.thy ===== *)
theory Protos
  imports Prelude
begin

text \<open>
  The protobuf messages the workflow machines exchange with the server and with the language side,
  and the conversions of \<^verbatim>\<open>sdk-core-protos/src/lib.rs\<close> between them.  A message is a record or a
  datatype with the fields the modelled code reads or writes; fields no modelled code touches are
  left out.  A byte string and a Rust string are both lists of bytes; a string-keyed map is an
  association list; a timestamp or duration is its pair of seconds and nanoseconds.  An enumeration
  received as an \<^verbatim>\<open>i32\<close> is the enumeration type when the code decodes it with a default.
\<close>

section \<open>Common messages\<close>

type_synonym bytes = string
type_synonym u32 = "32 word"
type_synonym Duration = "int \<times> int"
type_synonym Timestamp = "int \<times> int"
type_synonym HistoryEventId = int

record Payload =
  pl_metadata :: "(string \<times> bytes) list"
  pl_data :: bytes

type_synonym Payloads = "Payload list"
type_synonym payload_map = "(string \<times> Payload) list"

record WorkflowExecution =
  we_workflow_id :: string
  we_run_id :: string

record NamespacedWorkflowExecution =
  nwe_namespace :: string
  nwe_workflow_id :: string
  nwe_run_id :: string

record RetryPolicy =
  rp_initial_interval :: "Duration option"
  rp_maximum_interval :: "Duration option"
  rp_maximum_attempts :: int
  rp_non_retryable_error_types :: "string list"

datatype PayloadsToPayloadError = MoreThanOnePayload | NoPayload

definition payload_try_from :: "Payloads \<Rightarrow> (PayloadsToPayloadError, Payload) outcome" where
  "payload_try_from v = (case rev v of
      [] \<Rightarrow> Err NoPayload
    | p # rest \<Rightarrow> if rest = [] then Ok p else Err MoreThanOnePayload)"

definition into_payloads :: "Payload list \<Rightarrow> Payloads option" where
  "into_payloads ps = (if ps = [] then None else Some ps)"

section \<open>Failures\<close>

datatype RetryState =
    RS_Unspecified | RS_InProgress | RS_NonRetryableFailure | RS_Timeout | RS_MaximumAttemptsReached
  | RS_RetryPolicyNotSet | RS_InternalServerError | RS_CancelRequested

datatype TimeoutType =
    TT_Unspecified | TT_StartToClose | TT_ScheduleToStart | TT_ScheduleToClose | TT_Heartbeat

record ActivityFailureInfo =
  afi_scheduled_event_id :: int
  afi_started_event_id :: int
  afi_identity :: string
  afi_activity_type :: "string option"
  afi_activity_id :: string
  afi_retry_state :: RetryState

record ChildWorkflowExecutionFailureInfo =
  cwfi_namespace :: string
  cwfi_workflow_execution :: "WorkflowExecution option"
  cwfi_workflow_type :: "string option"
  cwfi_initiated_event_id :: int
  cwfi_started_event_id :: int
  cwfi_retry_state :: RetryState

record NexusOperationFailureInfo =
  nofi_scheduled_event_id :: int
  nofi_endpoint :: string
  nofi_service :: string
  nofi_operation :: string
  nofi_operation_token :: string

datatype FailureInfo =
    ApplicationFailureInfo (app_type: string) (app_non_retryable: bool) (app_details: "Payloads option")
      (app_next_retry_delay: "Duration option")
  | TimeoutFailureInfo TimeoutType "Payloads option"
  | CanceledFailureInfo "Payloads option"
  | TerminatedFailureInfo
  | ServerFailureInfo bool
  | ResetWorkflowFailureInfo "Payloads option"
  | ActivityFailureInfo ActivityFailureInfo
  | ChildWorkflowExecutionFailureInfo ChildWorkflowExecutionFailureInfo
  | NexusOperationExecutionFailureInfo NexusOperationFailureInfo
  | NexusHandlerFailureInfo string

datatype Failure = Failure (failure_message: string) (failure_source: string)
    (failure_stack_trace: string) (failure_cause: "Failure option") (failure_info: "FailureInfo option")

definition failure_default :: Failure where
  "failure_default = Failure '''' '''' '''' None None"

text \<open>\<^verbatim>\<open>Failure { message, cause, failure_info, ..Default::default() }\<close>.\<close>

definition mk_failure :: "string \<Rightarrow> Failure option \<Rightarrow> FailureInfo option \<Rightarrow> Failure" where
  "mk_failure msg cause info = Failure msg '''' '''' cause info"

section \<open>Updates and versions\<close>

record UpdateMeta =
  um_update_id :: string
  um_identity :: string

record UpdateInput =
  ui_header :: "payload_map option"
  ui_name :: string
  ui_args :: "Payloads option"

record UpdateRequestMsg =
  urq_meta :: "UpdateMeta option"
  urq_input :: "UpdateInput option"

record WorkerDeploymentVersion =
  wdv_deployment_name :: string
  wdv_build_id :: string

record UserMetadata =
  umd_summary :: "Payload option"
  umd_details :: "Payload option"

datatype VersioningIntent = VI_Unspecified | VI_Compatible | VI_Default

section \<open>Failure causes\<close>

datatype SignalExternalWorkflowExecutionFailedCause =
    SEFC_Unspecified | SEFC_ExternalWorkflowExecutionNotFound | SEFC_NamespaceNotFound
  | SEFC_SignalCountLimitExceeded

datatype CancelExternalWorkflowExecutionFailedCause =
    CEFC_Unspecified | CEFC_ExternalWorkflowExecutionNotFound | CEFC_NamespaceNotFound

end
