(* ===== verification/HistoryEvents.thy ===== *)
theory HistoryEvents
  imports Protos
begin

text \<open>
  History events: the event types and the attribute messages of the server API, with the functions
  of \<^verbatim>\<open>sdk-core-protos/src/lib.rs\<close> on them.  The attribute constructors carry the fields the workflow
  machines read.
\<close>

section \<open>Event types\<close>

datatype (plugins only: code) EventType =
    ET_Unspecified | ET_WorkflowExecutionStarted | ET_WorkflowExecutionCompleted
  | ET_WorkflowExecutionFailed | ET_WorkflowExecutionTimedOut | ET_WorkflowTaskScheduled
  | ET_WorkflowTaskStarted | ET_WorkflowTaskCompleted | ET_WorkflowTaskTimedOut
  | ET_WorkflowTaskFailed | ET_ActivityTaskScheduled | ET_ActivityTaskStarted
  | ET_ActivityTaskCompleted | ET_ActivityTaskFailed | ET_ActivityTaskTimedOut
  | ET_ActivityTaskCancelRequested | ET_ActivityTaskCanceled | ET_TimerStarted | ET_TimerFired
  | ET_TimerCanceled | ET_WorkflowExecutionCancelRequested | ET_WorkflowExecutionCanceled
  | ET_RequestCancelExternalWorkflowExecutionInitiated
  | ET_RequestCancelExternalWorkflowExecutionFailed | ET_ExternalWorkflowExecutionCancelRequested
  | ET_MarkerRecorded | ET_WorkflowExecutionSignaled | ET_WorkflowExecutionTerminated
  | ET_WorkflowExecutionContinuedAsNew | ET_StartChildWorkflowExecutionInitiated
  | ET_StartChildWorkflowExecutionFailed | ET_ChildWorkflowExecutionStarted
  | ET_ChildWorkflowExecutionCompleted | ET_ChildWorkflowExecutionFailed
  | ET_ChildWorkflowExecutionCanceled | ET_ChildWorkflowExecutionTimedOut
  | ET_ChildWorkflowExecutionTerminated | ET_SignalExternalWorkflowExecutionInitiated
  | ET_SignalExternalWorkflowExecutionFailed | ET_ExternalWorkflowExecutionSignaled
  | ET_UpsertWorkflowSearchAttributes | ET_WorkflowExecutionUpdateAdmitted
  | ET_WorkflowExecutionUpdateAccepted | ET_WorkflowExecutionUpdateRejected
  | ET_WorkflowExecutionUpdateCompleted | ET_WorkflowPropertiesModifiedExternally
  | ET_ActivityPropertiesModifiedExternally | ET_WorkflowPropertiesModified
  | ET_NexusOperationScheduled | ET_NexusOperationStarted | ET_NexusOperationCompleted
  | ET_NexusOperationFailed | ET_NexusOperationCanceled | ET_NexusOperationTimedOut
  | ET_NexusOperationCancelRequested | ET_WorkflowExecutionOptionsUpdated
  | ET_NexusOperationCancelRequestCompleted | ET_NexusOperationCancelRequestFailed

section \<open>Event attributes\<close>

record WorkflowExecutionStartedEventAttributes =
  wes_workflow_type :: "string option"
  wes_input :: "Payloads option"
  wes_header :: "payload_map option"
  wes_identity :: string
  wes_parent_workflow_namespace :: string
  wes_parent_workflow_execution :: "WorkflowExecution option"
  wes_workflow_execution_timeout :: "Duration option"
  wes_workflow_run_timeout :: "Duration option"
  wes_workflow_task_timeout :: "Duration option"
  wes_continued_execution_run_id :: string
  wes_initiator :: int
  wes_continued_failure :: "Failure option"
  wes_last_completion_result :: "Payloads option"
  wes_original_execution_run_id :: string
  wes_first_execution_run_id :: string
  wes_retry_policy :: "RetryPolicy option"
  wes_attempt :: int
  wes_cron_schedule :: string
  wes_workflow_execution_expiration_time :: "Timestamp option"
  wes_first_workflow_task_backoff :: "Duration option"
  wes_memo :: "payload_map option"
  wes_search_attributes :: "payload_map option"
  wes_root_workflow_execution :: "WorkflowExecution option"

record WorkflowExecutionSignaledEventAttributes =
  wsg_signal_name :: string
  wsg_input :: "Payloads option"
  wsg_identity :: string
  wsg_header :: "payload_map option"

record WorkflowExecutionUpdateAcceptedEventAttributes =
  wua_protocol_instance_id :: string
  wua_accepted_request_message_id :: string
  wua_accepted_request_sequencing_event_id :: int
  wua_accepted_request :: "UpdateRequestMsg option"

record WorkflowTaskCompletedMetadata =
  tcm_core_used_flags :: "u32 list"
  tcm_lang_used_flags :: "u32 list"
  tcm_sdk_name :: string
  tcm_sdk_version :: string

record WorkflowTaskStartedEventAttributes =
  wts_scheduled_event_id :: int
  wts_suggest_continue_as_new :: bool
  wts_history_size_bytes :: int

record WorkflowTaskCompletedEventAttributes =
  wtc_scheduled_event_id :: int
  wtc_started_event_id :: int
  wtc_sdk_metadata :: "WorkflowTaskCompletedMetadata option"
  wtc_worker_version :: "string option"
  wtc_worker_deployment_name :: string
  wtc_worker_deployment_version :: string
  wtc_deployment_version :: "WorkerDeploymentVersion option"

datatype WorkflowTaskFailedCause = WTFC_Unspecified | WTFC_ResetWorkflow | WTFC_Other

record WorkflowTaskFailedEventAttributes =
  wtf_scheduled_event_id :: int
  wtf_cause :: WorkflowTaskFailedCause
  wtf_new_run_id :: string

record ActivityTaskScheduledEventAttributes =
  ats_activity_id :: string
  ats_activity_type :: "string option"

record ActivityTaskCompletedEventAttributes =
  atc_result :: "Payloads option"
  atc_scheduled_event_id :: int
  atc_started_event_id :: int

record ActivityTaskFailedEventAttributes =
  atf_failure :: "Failure option"
  atf_scheduled_event_id :: int
  atf_started_event_id :: int
  atf_identity :: string
  atf_retry_state :: RetryState

record ActivityTaskTimedOutEventAttributes =
  ato_failure :: "Failure option"
  ato_scheduled_event_id :: int
  ato_started_event_id :: int
  ato_retry_state :: RetryState

record ActivityTaskCanceledEventAttributes =
  atx_details :: "Payloads option"
  atx_latest_cancel_requested_event_id :: int
  atx_scheduled_event_id :: int
  atx_started_event_id :: int
  atx_identity :: string

record TimerFiredEventAttributes =
  tfa_timer_id :: string
  tfa_started_event_id :: int

record MarkerRecordedEventAttributes =
  mra_marker_name :: string
  mra_details :: "(string \<times> Payloads) list"
  mra_failure :: "Failure option"

record StartChildWorkflowExecutionInitiatedEventAttributes =
  sci_workflow_id :: string
  sci_workflow_type :: "string option"

record StartChildWorkflowExecutionFailedEventAttributes =
  scf_cause :: int
  scf_initiated_event_id :: int

record ChildWorkflowExecutionFailedEventAttributes =
  cwf_failure :: "Failure option"
  cwf_namespace :: string
  cwf_workflow_execution :: "WorkflowExecution option"
  cwf_workflow_type :: "string option"
  cwf_initiated_event_id :: int
  cwf_started_event_id :: int
  cwf_retry_state :: RetryState

record NexusOperationStartedEventAttributes =
  nos_scheduled_event_id :: int
  nos_operation_token :: string

record NexusOperationCompletedEventAttributes =
  noc_scheduled_event_id :: int
  noc_result :: "Payload option"

record NexusOperationFailedEventAttributes =
  nof_scheduled_event_id :: int
  nof_failure :: "Failure option"

record NexusOperationTimedOutEventAttributes =
  not_scheduled_event_id :: int
  not_failure :: "Failure option"

record NexusOperationCanceledEventAttributes =
  nox_scheduled_event_id :: int
  nox_failure :: "Failure option"

text \<open>
  An attribute message whose only field of interest is an event id carries that id; the others carry
  their record, or no field when no modelled code reads one.  A cancel request carries its cause, an
  admitted update its request, a search attribute upsert the attributes.
\<close>

datatype (plugins only: code) Attributes =
    WorkflowExecutionStartedEventAttributes WorkflowExecutionStartedEventAttributes
  | WorkflowExecutionCompletedEventAttributes
  | WorkflowExecutionFailedEventAttributes | WorkflowExecutionTimedOutEventAttributes
  | WorkflowTaskScheduledEventAttributes
  | WorkflowTaskStartedEventAttributes WorkflowTaskStartedEventAttributes
  | WorkflowTaskCompletedEventAttributes WorkflowTaskCompletedEventAttributes
  | WorkflowTaskTimedOutEventAttributes int
  | WorkflowTaskFailedEventAttributes WorkflowTaskFailedEventAttributes
  | ActivityTaskScheduledEventAttributes ActivityTaskScheduledEventAttributes
  | ActivityTaskStartedEventAttributes int
  | ActivityTaskCompletedEventAttributes ActivityTaskCompletedEventAttributes
  | ActivityTaskFailedEventAttributes ActivityTaskFailedEventAttributes
  | ActivityTaskTimedOutEventAttributes ActivityTaskTimedOutEventAttributes
  | ActivityTaskCancelRequestedEventAttributes int
  | ActivityTaskCanceledEventAttributes ActivityTaskCanceledEventAttributes
  | TimerStartedEventAttributes | TimerFiredEventAttributes TimerFiredEventAttributes
  | TimerCanceledEventAttributes int | WorkflowExecutionCancelRequestedEventAttributes string
  | WorkflowExecutionCanceledEventAttributes
  | RequestCancelExternalWorkflowExecutionInitiatedEventAttributes
  | RequestCancelExternalWorkflowExecutionFailedEventAttributes CancelExternalWorkflowExecutionFailedCause int
  | ExternalWorkflowExecutionCancelRequestedEventAttributes int
  | MarkerRecordedEventAttributes MarkerRecordedEventAttributes
  | WorkflowExecutionSignaledEventAttributes WorkflowExecutionSignaledEventAttributes
  | WorkflowExecutionTerminatedEventAttributes
  | WorkflowExecutionContinuedAsNewEventAttributes
  | StartChildWorkflowExecutionInitiatedEventAttributes StartChildWorkflowExecutionInitiatedEventAttributes
  | StartChildWorkflowExecutionFailedEventAttributes StartChildWorkflowExecutionFailedEventAttributes
  | ChildWorkflowExecutionStartedEventAttributes "WorkflowExecution option" int
  | ChildWorkflowExecutionCompletedEventAttributes "Payloads option" int
  | ChildWorkflowExecutionFailedEventAttributes ChildWorkflowExecutionFailedEventAttributes
  | ChildWorkflowExecutionCanceledEventAttributes int
  | ChildWorkflowExecutionTimedOutEventAttributes RetryState int
  | ChildWorkflowExecutionTerminatedEventAttributes int
  | SignalExternalWorkflowExecutionInitiatedEventAttributes
  | SignalExternalWorkflowExecutionFailedEventAttributes SignalExternalWorkflowExecutionFailedCause int
  | ExternalWorkflowExecutionSignaledEventAttributes int
  | UpsertWorkflowSearchAttributesEventAttributes "payload_map option"
  | WorkflowExecutionUpdateAdmittedEventAttributes "UpdateRequestMsg option"
  | WorkflowExecutionUpdateAcceptedEventAttributes WorkflowExecutionUpdateAcceptedEventAttributes
  | WorkflowExecutionUpdateRejectedEventAttributes
  | WorkflowExecutionUpdateCompletedEventAttributes
  | WorkflowPropertiesModifiedExternallyEventAttributes
  | ActivityPropertiesModifiedExternallyEventAttributes
  | WorkflowPropertiesModifiedEventAttributes | NexusOperationScheduledEventAttributes
  | NexusOperationStartedEventAttributes NexusOperationStartedEventAttributes
  | NexusOperationCompletedEventAttributes NexusOperationCompletedEventAttributes
  | NexusOperationFailedEventAttributes NexusOperationFailedEventAttributes
  | NexusOperationCanceledEventAttributes NexusOperationCanceledEventAttributes
  | NexusOperationTimedOutEventAttributes NexusOperationTimedOutEventAttributes
  | NexusOperationCancelRequestedEventAttributes int
  | WorkflowExecutionOptionsUpdatedEventAttributes
  | NexusOperationCancelRequestCompletedEventAttributes int
  | NexusOperationCancelRequestFailedEventAttributes "Failure option" int

definition attributes_event_type :: "Attributes \<Rightarrow> EventType" where
  "attributes_event_type a = (case a of
      WorkflowExecutionStartedEventAttributes _ \<Rightarrow> ET_WorkflowExecutionStarted
    | WorkflowExecutionCompletedEventAttributes \<Rightarrow> ET_WorkflowExecutionCompleted
    | WorkflowExecutionFailedEventAttributes \<Rightarrow> ET_WorkflowExecutionFailed
    | WorkflowExecutionTimedOutEventAttributes \<Rightarrow> ET_WorkflowExecutionTimedOut
    | WorkflowTaskScheduledEventAttributes \<Rightarrow> ET_WorkflowTaskScheduled
    | WorkflowTaskStartedEventAttributes _ \<Rightarrow> ET_WorkflowTaskStarted
    | WorkflowTaskCompletedEventAttributes _ \<Rightarrow> ET_WorkflowTaskCompleted
    | WorkflowTaskTimedOutEventAttributes _ \<Rightarrow> ET_WorkflowTaskTimedOut
    | WorkflowTaskFailedEventAttributes _ \<Rightarrow> ET_WorkflowTaskFailed
    | ActivityTaskScheduledEventAttributes _ \<Rightarrow> ET_ActivityTaskScheduled
    | ActivityTaskStartedEventAttributes _ \<Rightarrow> ET_ActivityTaskStarted
    | ActivityTaskCompletedEventAttributes _ \<Rightarrow> ET_ActivityTaskCompleted
    | ActivityTaskFailedEventAttributes _ \<Rightarrow> ET_ActivityTaskFailed
    | ActivityTaskTimedOutEventAttributes _ \<Rightarrow> ET_ActivityTaskTimedOut
    | ActivityTaskCancelRequestedEventAttributes _ \<Rightarrow> ET_ActivityTaskCancelRequested
    | ActivityTaskCanceledEventAttributes _ \<Rightarrow> ET_ActivityTaskCanceled
    | TimerStartedEventAttributes \<Rightarrow> ET_TimerStarted
    | TimerFiredEventAttributes _ \<Rightarrow> ET_TimerFired
    | TimerCanceledEventAttributes _ \<Rightarrow> ET_TimerCanceled
    | WorkflowExecutionCancelRequestedEventAttributes _ \<Rightarrow> ET_WorkflowExecutionCancelRequested
    | WorkflowExecutionCanceledEventAttributes \<Rightarrow> ET_WorkflowExecutionCanceled
    | RequestCancelExternalWorkflowExecutionInitiatedEventAttributes \<Rightarrow> ET_RequestCancelExternalWorkflowExecutionInitiated
    | RequestCancelExternalWorkflowExecutionFailedEventAttributes _ _ \<Rightarrow> ET_RequestCancelExternalWorkflowExecutionFailed
    | ExternalWorkflowExecutionCancelRequestedEventAttributes _ \<Rightarrow> ET_ExternalWorkflowExecutionCancelRequested
    | MarkerRecordedEventAttributes _ \<Rightarrow> ET_MarkerRecorded
    | WorkflowExecutionSignaledEventAttributes _ \<Rightarrow> ET_WorkflowExecutionSignaled
    | WorkflowExecutionTerminatedEventAttributes \<Rightarrow> ET_WorkflowExecutionTerminated
    | WorkflowExecutionContinuedAsNewEventAttributes \<Rightarrow> ET_WorkflowExecutionContinuedAsNew
    | StartChildWorkflowExecutionInitiatedEventAttributes _ \<Rightarrow> ET_StartChildWorkflowExecutionInitiated
    | StartChildWorkflowExecutionFailedEventAttributes _ \<Rightarrow> ET_StartChildWorkflowExecutionFailed
    | ChildWorkflowExecutionStartedEventAttributes _ _ \<Rightarrow> ET_ChildWorkflowExecutionStarted
    | ChildWorkflowExecutionCompletedEventAttributes _ _ \<Rightarrow> ET_ChildWorkflowExecutionCompleted
    | ChildWorkflowExecutionFailedEventAttributes _ \<Rightarrow> ET_ChildWorkflowExecutionFailed
    | ChildWorkflowExecutionCanceledEventAttributes _ \<Rightarrow> ET_ChildWorkflowExecutionCanceled
    | ChildWorkflowExecutionTimedOutEventAttributes _ _ \<Rightarrow> ET_ChildWorkflowExecutionTimedOut
    | ChildWorkflowExecutionTerminatedEventAttributes _ \<Rightarrow> ET_ChildWorkflowExecutionTerminated
    | SignalExternalWorkflowExecutionInitiatedEventAttributes \<Rightarrow> ET_SignalExternalWorkflowExecutionInitiated
    | SignalExternalWorkflowExecutionFailedEventAttributes _ _ \<Rightarrow> ET_SignalExternalWorkflowExecutionFailed
    | ExternalWorkflowExecutionSignaledEventAttributes _ \<Rightarrow> ET_ExternalWorkflowExecutionSignaled
    | UpsertWorkflowSearchAttributesEventAttributes _ \<Rightarrow> ET_UpsertWorkflowSearchAttributes
    | WorkflowExecutionUpdateAdmittedEventAttributes _ \<Rightarrow> ET_WorkflowExecutionUpdateAdmitted
    | WorkflowExecutionUpdateAcceptedEventAttributes _ \<Rightarrow> ET_WorkflowExecutionUpdateAccepted
    | WorkflowExecutionUpdateRejectedEventAttributes \<Rightarrow> ET_WorkflowExecutionUpdateRejected
    | WorkflowExecutionUpdateCompletedEventAttributes \<Rightarrow> ET_WorkflowExecutionUpdateCompleted
    | WorkflowPropertiesModifiedExternallyEventAttributes \<Rightarrow> ET_WorkflowPropertiesModifiedExternally
    | ActivityPropertiesModifiedExternallyEventAttributes \<Rightarrow> ET_ActivityPropertiesModifiedExternally
    | WorkflowPropertiesModifiedEventAttributes \<Rightarrow> ET_WorkflowPropertiesModified
    | NexusOperationScheduledEventAttributes \<Rightarrow> ET_NexusOperationScheduled
    | NexusOperationStartedEventAttributes _ \<Rightarrow> ET_NexusOperationStarted
    | NexusOperationCompletedEventAttributes _ \<Rightarrow> ET_NexusOperationCompleted
    | NexusOperationFailedEventAttributes _ \<Rightarrow> ET_NexusOperationFailed
    | NexusOperationCanceledEventAttributes _ \<Rightarrow> ET_NexusOperationCanceled
    | NexusOperationTimedOutEventAttributes _ \<Rightarrow> ET_NexusOperationTimedOut
    | NexusOperationCancelRequestedEventAttributes _ \<Rightarrow> ET_NexusOperationCancelRequested
    | WorkflowExecutionOptionsUpdatedEventAttributes \<Rightarrow> ET_WorkflowExecutionOptionsUpdated
    | NexusOperationCancelRequestCompletedEventAttributes _ \<Rightarrow> ET_NexusOperationCancelRequestCompleted
    | NexusOperationCancelRequestFailedEventAttributes _ _ \<Rightarrow> ET_NexusOperationCancelRequestFailed)"

section \<open>Events\<close>

record HistoryEvent =
  event_id :: int
  event_time :: "Timestamp option"
  event_type :: EventType
  worker_may_ignore :: bool
  attributes :: "Attributes option"

definition command_event_types :: "EventType list" where
  "command_event_types =
    [ET_ActivityTaskScheduled,
     ET_ActivityTaskCancelRequested,
     ET_MarkerRecorded,
     ET_RequestCancelExternalWorkflowExecutionInitiated,
     ET_SignalExternalWorkflowExecutionInitiated,
     ET_StartChildWorkflowExecutionInitiated,
     ET_TimerCanceled,
     ET_TimerStarted,
     ET_UpsertWorkflowSearchAttributes,
     ET_WorkflowPropertiesModified,
     ET_NexusOperationScheduled,
     ET_NexusOperationCancelRequested,
     ET_WorkflowExecutionCanceled,
     ET_WorkflowExecutionCompleted,
     ET_WorkflowExecutionContinuedAsNew,
     ET_WorkflowExecutionFailed,
     ET_WorkflowExecutionUpdateAccepted,
     ET_WorkflowExecutionUpdateRejected,
     ET_WorkflowExecutionUpdateCompleted]"

definition is_command_event :: "HistoryEvent \<Rightarrow> bool" where
  "is_command_event e = (event_type e \<in> set command_event_types)"

definition get_initial_command_event_id :: "HistoryEvent \<Rightarrow> int option" where
  "get_initial_command_event_id e = (case attributes e of None \<Rightarrow> None | Some a \<Rightarrow> (case a of
      ActivityTaskStartedEventAttributes i \<Rightarrow> Some i
    | ActivityTaskCompletedEventAttributes r \<Rightarrow> Some (atc_scheduled_event_id r)
    | ActivityTaskFailedEventAttributes r \<Rightarrow> Some (atf_scheduled_event_id r)
    | ActivityTaskTimedOutEventAttributes r \<Rightarrow> Some (ato_scheduled_event_id r)
    | ActivityTaskCancelRequestedEventAttributes i \<Rightarrow> Some i
    | ActivityTaskCanceledEventAttributes r \<Rightarrow> Some (atx_scheduled_event_id r)
    | TimerFiredEventAttributes r \<Rightarrow> Some (tfa_started_event_id r)
    | TimerCanceledEventAttributes i \<Rightarrow> Some i
    | RequestCancelExternalWorkflowExecutionFailedEventAttributes c i \<Rightarrow> Some i
    | ExternalWorkflowExecutionCancelRequestedEventAttributes i \<Rightarrow> Some i
    | StartChildWorkflowExecutionFailedEventAttributes r \<Rightarrow> Some (scf_initiated_event_id r)
    | ChildWorkflowExecutionStartedEventAttributes w i \<Rightarrow> Some i
    | ChildWorkflowExecutionCompletedEventAttributes p i \<Rightarrow> Some i
    | ChildWorkflowExecutionFailedEventAttributes r \<Rightarrow> Some (cwf_initiated_event_id r)
    | ChildWorkflowExecutionCanceledEventAttributes i \<Rightarrow> Some i
    | ChildWorkflowExecutionTimedOutEventAttributes s i \<Rightarrow> Some i
    | ChildWorkflowExecutionTerminatedEventAttributes i \<Rightarrow> Some i
    | SignalExternalWorkflowExecutionFailedEventAttributes c i \<Rightarrow> Some i
    | ExternalWorkflowExecutionSignaledEventAttributes i \<Rightarrow> Some i
    | WorkflowTaskStartedEventAttributes r \<Rightarrow> Some (wts_scheduled_event_id r)
    | WorkflowTaskCompletedEventAttributes r \<Rightarrow> Some (wtc_scheduled_event_id r)
    | WorkflowTaskTimedOutEventAttributes i \<Rightarrow> Some i
    | WorkflowTaskFailedEventAttributes r \<Rightarrow> Some (wtf_scheduled_event_id r)
    | NexusOperationStartedEventAttributes r \<Rightarrow> Some (nos_scheduled_event_id r)
    | NexusOperationCompletedEventAttributes r \<Rightarrow> Some (noc_scheduled_event_id r)
    | NexusOperationFailedEventAttributes r \<Rightarrow> Some (nof_scheduled_event_id r)
    | NexusOperationTimedOutEventAttributes r \<Rightarrow> Some (not_scheduled_event_id r)
    | NexusOperationCanceledEventAttributes r \<Rightarrow> Some (nox_scheduled_event_id r)
    | NexusOperationCancelRequestedEventAttributes i \<Rightarrow> Some i
    | NexusOperationCancelRequestCompletedEventAttributes i \<Rightarrow> Some i
    | NexusOperationCancelRequestFailedEventAttributes f i \<Rightarrow> Some i
    | _ \<Rightarrow> None))"

definition get_protocol_instance_id :: "HistoryEvent \<Rightarrow> string option" where
  "get_protocol_instance_id e = (case attributes e of
      Some (WorkflowExecutionUpdateAcceptedEventAttributes a) \<Rightarrow> Some (wua_protocol_instance_id a)
    | _ \<Rightarrow> None)"

definition is_final_wf_execution_event :: "HistoryEvent \<Rightarrow> bool" where
  "is_final_wf_execution_event e = (case event_type e of
      ET_WorkflowExecutionCompleted \<Rightarrow> True
    | ET_WorkflowExecutionCanceled \<Rightarrow> True
    | ET_WorkflowExecutionFailed \<Rightarrow> True
    | ET_WorkflowExecutionTimedOut \<Rightarrow> True
    | ET_WorkflowExecutionContinuedAsNew \<Rightarrow> True
    | ET_WorkflowExecutionTerminated \<Rightarrow> True
    | _ \<Rightarrow> False)"

definition is_wft_closed_event :: "HistoryEvent \<Rightarrow> bool" where
  "is_wft_closed_event e = (case event_type e of
      ET_WorkflowTaskCompleted \<Rightarrow> True
    | ET_WorkflowTaskFailed \<Rightarrow> True
    | ET_WorkflowTaskTimedOut \<Rightarrow> True
    | _ \<Rightarrow> False)"

definition extract_original_run_id_from_events :: "HistoryEvent list \<Rightarrow> (string, string) outcome" where
  "extract_original_run_id_from_events events = (case events of
      e # _ \<Rightarrow> (case attributes e of
          Some (WorkflowExecutionStartedEventAttributes a) \<Rightarrow> Ok (wes_original_execution_run_id a)
        | _ \<Rightarrow> Err ''First event is not WorkflowExecutionStarted?!?'')
    | [] \<Rightarrow> Err ''First event is not WorkflowExecutionStarted?!?'')"

section \<open>Attribute patterns\<close>

text \<open>
  The patterns \<^verbatim>\<open>if let Some(history_event::Attributes::X(attrs)) = e.attributes\<close> of the machines: the
  attributes as a given message, if they are that message.
\<close>

definition as_task_failed :: "Attributes option \<Rightarrow> WorkflowTaskFailedEventAttributes option" where
  "as_task_failed a = (case a of Some (WorkflowTaskFailedEventAttributes x) \<Rightarrow> Some x | _ \<Rightarrow> None)"

definition as_activity_scheduled :: "Attributes option \<Rightarrow> ActivityTaskScheduledEventAttributes option" where
  "as_activity_scheduled a = (case a of Some (ActivityTaskScheduledEventAttributes x) \<Rightarrow> Some x | _ \<Rightarrow> None)"

definition as_activity_completed :: "Attributes option \<Rightarrow> ActivityTaskCompletedEventAttributes option" where
  "as_activity_completed a = (case a of Some (ActivityTaskCompletedEventAttributes x) \<Rightarrow> Some x | _ \<Rightarrow> None)"

definition as_started :: "Attributes option \<Rightarrow> WorkflowExecutionStartedEventAttributes option" where
  "as_started a = (case a of Some (WorkflowExecutionStartedEventAttributes x) \<Rightarrow> Some x | _ \<Rightarrow> None)"

definition as_signaled :: "Attributes option \<Rightarrow> WorkflowExecutionSignaledEventAttributes option" where
  "as_signaled a = (case a of Some (WorkflowExecutionSignaledEventAttributes x) \<Rightarrow> Some x | _ \<Rightarrow> None)"

definition as_cancel_requested :: "Attributes option \<Rightarrow> string option" where
  "as_cancel_requested a = (case a of Some (WorkflowExecutionCancelRequestedEventAttributes x) \<Rightarrow> Some x | _ \<Rightarrow> None)"

definition as_upserted :: "Attributes option \<Rightarrow> payload_map option option" where
  "as_upserted a = (case a of Some (UpsertWorkflowSearchAttributesEventAttributes x) \<Rightarrow> Some x | _ \<Rightarrow> None)"

definition as_update_admitted :: "Attributes option \<Rightarrow> UpdateRequestMsg option option" where
  "as_update_admitted a = (case a of Some (WorkflowExecutionUpdateAdmittedEventAttributes x) \<Rightarrow> Some x | _ \<Rightarrow> None)"

definition as_update_accepted :: "Attributes option \<Rightarrow> WorkflowExecutionUpdateAcceptedEventAttributes option" where
  "as_update_accepted a = (case a of Some (WorkflowExecutionUpdateAcceptedEventAttributes x) \<Rightarrow> Some x | _ \<Rightarrow> None)"

definition as_task_started :: "Attributes option \<Rightarrow> WorkflowTaskStartedEventAttributes option" where
  "as_task_started a = (case a of Some (WorkflowTaskStartedEventAttributes x) \<Rightarrow> Some x | _ \<Rightarrow> None)"

definition as_task_completed :: "Attributes option \<Rightarrow> WorkflowTaskCompletedEventAttributes option" where
  "as_task_completed a = (case a of Some (WorkflowTaskCompletedEventAttributes x) \<Rightarrow> Some x | _ \<Rightarrow> None)"

definition as_activity_failed :: "Attributes option \<Rightarrow> ActivityTaskFailedEventAttributes option" where
  "as_activity_failed a = (case a of Some (ActivityTaskFailedEventAttributes x) \<Rightarrow> Some x | _ \<Rightarrow> None)"

definition as_activity_timed_out :: "Attributes option \<Rightarrow> ActivityTaskTimedOutEventAttributes option" where
  "as_activity_timed_out a = (case a of Some (ActivityTaskTimedOutEventAttributes x) \<Rightarrow> Some x | _ \<Rightarrow> None)"

definition as_activity_canceled :: "Attributes option \<Rightarrow> ActivityTaskCanceledEventAttributes option" where
  "as_activity_canceled a = (case a of Some (ActivityTaskCanceledEventAttributes x) \<Rightarrow> Some x | _ \<Rightarrow> None)"

definition as_timer_fired :: "Attributes option \<Rightarrow> TimerFiredEventAttributes option" where
  "as_timer_fired a = (case a of Some (TimerFiredEventAttributes x) \<Rightarrow> Some x | _ \<Rightarrow> None)"

definition as_marker_recorded :: "Attributes option \<Rightarrow> MarkerRecordedEventAttributes option" where
  "as_marker_recorded a = (case a of Some (MarkerRecordedEventAttributes x) \<Rightarrow> Some x | _ \<Rightarrow> None)"

definition as_child_initiated :: "Attributes option \<Rightarrow> StartChildWorkflowExecutionInitiatedEventAttributes option" where
  "as_child_initiated a = (case a of Some (StartChildWorkflowExecutionInitiatedEventAttributes x) \<Rightarrow> Some x | _ \<Rightarrow> None)"

definition as_child_start_failed :: "Attributes option \<Rightarrow> StartChildWorkflowExecutionFailedEventAttributes option" where
  "as_child_start_failed a = (case a of Some (StartChildWorkflowExecutionFailedEventAttributes x) \<Rightarrow> Some x | _ \<Rightarrow> None)"

definition as_child_started :: "Attributes option \<Rightarrow> (WorkflowExecution option) option" where
  "as_child_started a = (case a of Some (ChildWorkflowExecutionStartedEventAttributes x i) \<Rightarrow> Some x | _ \<Rightarrow> None)"

definition as_child_completed :: "Attributes option \<Rightarrow> (Payloads option) option" where
  "as_child_completed a = (case a of Some (ChildWorkflowExecutionCompletedEventAttributes x i) \<Rightarrow> Some x | _ \<Rightarrow> None)"

definition as_child_failed :: "Attributes option \<Rightarrow> ChildWorkflowExecutionFailedEventAttributes option" where
  "as_child_failed a = (case a of Some (ChildWorkflowExecutionFailedEventAttributes x) \<Rightarrow> Some x | _ \<Rightarrow> None)"

definition as_child_timed_out :: "Attributes option \<Rightarrow> RetryState option" where
  "as_child_timed_out a = (case a of Some (ChildWorkflowExecutionTimedOutEventAttributes x i) \<Rightarrow> Some x | _ \<Rightarrow> None)"

definition as_signal_failed :: "Attributes option \<Rightarrow> SignalExternalWorkflowExecutionFailedCause option" where
  "as_signal_failed a = (case a of Some (SignalExternalWorkflowExecutionFailedEventAttributes x i) \<Rightarrow> Some x | _ \<Rightarrow> None)"

definition as_cancel_failed :: "Attributes option \<Rightarrow> CancelExternalWorkflowExecutionFailedCause option" where
  "as_cancel_failed a = (case a of Some (RequestCancelExternalWorkflowExecutionFailedEventAttributes x i) \<Rightarrow> Some x | _ \<Rightarrow> None)"

definition as_nexus_started :: "Attributes option \<Rightarrow> NexusOperationStartedEventAttributes option" where
  "as_nexus_started a = (case a of Some (NexusOperationStartedEventAttributes x) \<Rightarrow> Some x | _ \<Rightarrow> None)"

definition as_nexus_completed :: "Attributes option \<Rightarrow> NexusOperationCompletedEventAttributes option" where
  "as_nexus_completed a = (case a of Some (NexusOperationCompletedEventAttributes x) \<Rightarrow> Some x | _ \<Rightarrow> None)"

definition as_nexus_failed :: "Attributes option \<Rightarrow> NexusOperationFailedEventAttributes option" where
  "as_nexus_failed a = (case a of Some (NexusOperationFailedEventAttributes x) \<Rightarrow> Some x | _ \<Rightarrow> None)"

definition as_nexus_timed_out :: "Attributes option \<Rightarrow> NexusOperationTimedOutEventAttributes option" where
  "as_nexus_timed_out a = (case a of Some (NexusOperationTimedOutEventAttributes x) \<Rightarrow> Some x | _ \<Rightarrow> None)"

definition as_nexus_canceled :: "Attributes option \<Rightarrow> NexusOperationCanceledEventAttributes option" where
  "as_nexus_canceled a = (case a of Some (NexusOperationCanceledEventAttributes x) \<Rightarrow> Some x | _ \<Rightarrow> None)"

lemma attribute_patterns [simp]:
  "as_task_failed (Some (WorkflowTaskFailedEventAttributes x1)) = Some x1"
  "as_task_failed None = None"
  "as_started (Some (WorkflowExecutionStartedEventAttributes y1)) = Some y1" "as_started None = None"
  "as_signaled (Some (WorkflowExecutionSignaledEventAttributes y2)) = Some y2" "as_signaled None = None"
  "as_cancel_requested (Some (WorkflowExecutionCancelRequestedEventAttributes y3)) = Some y3"
  "as_cancel_requested None = None"
  "as_upserted (Some (UpsertWorkflowSearchAttributesEventAttributes y4)) = Some y4" "as_upserted None = None"
  "as_update_admitted (Some (WorkflowExecutionUpdateAdmittedEventAttributes y5)) = Some y5"
  "as_update_admitted None = None"
  "as_update_accepted (Some (WorkflowExecutionUpdateAcceptedEventAttributes y6)) = Some y6"
  "as_update_accepted None = None"
  "as_task_started (Some (WorkflowTaskStartedEventAttributes y7)) = Some y7" "as_task_started None = None"
  "as_task_completed (Some (WorkflowTaskCompletedEventAttributes y8)) = Some y8" "as_task_completed None = None"
  "as_activity_scheduled (Some (ActivityTaskScheduledEventAttributes x2)) = Some x2"
  "as_activity_scheduled None = None"
  "as_activity_completed (Some (ActivityTaskCompletedEventAttributes x3)) = Some x3"
  "as_activity_completed None = None"
  "as_activity_failed (Some (ActivityTaskFailedEventAttributes x4)) = Some x4"
  "as_activity_failed None = None"
  "as_activity_timed_out (Some (ActivityTaskTimedOutEventAttributes x5)) = Some x5"
  "as_activity_timed_out None = None"
  "as_activity_canceled (Some (ActivityTaskCanceledEventAttributes x6)) = Some x6"
  "as_activity_canceled None = None"
  "as_timer_fired (Some (TimerFiredEventAttributes x7)) = Some x7"
  "as_timer_fired None = None"
  "as_marker_recorded (Some (MarkerRecordedEventAttributes x8)) = Some x8"
  "as_marker_recorded None = None"
  "as_child_initiated (Some (StartChildWorkflowExecutionInitiatedEventAttributes x9)) = Some x9"
  "as_child_initiated None = None"
  "as_child_start_failed (Some (StartChildWorkflowExecutionFailedEventAttributes x10)) = Some x10"
  "as_child_start_failed None = None"
  "as_child_started (Some (ChildWorkflowExecutionStartedEventAttributes x11 i)) = Some x11"
  "as_child_started None = None"
  "as_child_completed (Some (ChildWorkflowExecutionCompletedEventAttributes x12 i)) = Some x12"
  "as_child_completed None = None"
  "as_child_failed (Some (ChildWorkflowExecutionFailedEventAttributes x13)) = Some x13"
  "as_child_failed None = None"
  "as_child_timed_out (Some (ChildWorkflowExecutionTimedOutEventAttributes x14 i)) = Some x14"
  "as_child_timed_out None = None"
  "as_signal_failed (Some (SignalExternalWorkflowExecutionFailedEventAttributes x15 i)) = Some x15"
  "as_signal_failed None = None"
  "as_cancel_failed (Some (RequestCancelExternalWorkflowExecutionFailedEventAttributes x16 i)) = Some x16"
  "as_cancel_failed None = None"
  "as_nexus_started (Some (NexusOperationStartedEventAttributes x17)) = Some x17"
  "as_nexus_started None = None"
  "as_nexus_completed (Some (NexusOperationCompletedEventAttributes x18)) = Some x18"
  "as_nexus_completed None = None"
  "as_nexus_failed (Some (NexusOperationFailedEventAttributes x19)) = Some x19"
  "as_nexus_failed None = None"
  "as_nexus_timed_out (Some (NexusOperationTimedOutEventAttributes x20)) = Some x20"
  "as_nexus_timed_out None = None"
  "as_nexus_canceled (Some (NexusOperationCanceledEventAttributes x21)) = Some x21"
  "as_nexus_canceled None = None"
  by (simp_all add: as_started_def as_signaled_def as_cancel_requested_def as_upserted_def as_update_admitted_def
      as_update_accepted_def as_task_started_def as_task_completed_def as_task_failed_def as_activity_scheduled_def as_activity_completed_def as_activity_failed_def as_activity_timed_out_def as_activity_canceled_def as_timer_fired_def as_marker_recorded_def as_child_initiated_def as_child_start_failed_def as_child_started_def as_child_completed_def as_child_failed_def as_child_timed_out_def as_signal_failed_def as_cancel_failed_def as_nexus_started_def as_nexus_completed_def as_nexus_failed_def as_nexus_timed_out_def as_nexus_canceled_def)

text \<open>An event whose type tag agrees with its attributes, as the server sends them.\<close>

definition well_typed_event :: "HistoryEvent \<Rightarrow> bool" where
  "well_typed_event e = (case attributes e of
      Some a \<Rightarrow> event_type e = attributes_event_type a
    | None \<Rightarrow> False)"

text \<open>The event with the given id and attributes, as the server records it.\<close>

definition recorded_event :: "int \<Rightarrow> Attributes \<Rightarrow> HistoryEvent" where
  "recorded_event i a = \<lparr> event_id = i, event_time = None, event_type = attributes_event_type a,
     worker_may_ignore = False, attributes = Some a \<rparr>"

lemma recorded_event_well_typed [simp]: "well_typed_event (recorded_event i a)"
  by (simp add: well_typed_event_def recorded_event_def)

end
