(* ===== verification/Commands.thy ===== *)
theory Commands
  imports Protos
begin

text \<open>
  What the machines produce: the commands lang sends to core, the commands and protocol messages core
  sends to the server, the activation jobs core sends to lang, and the machine responses that carry
  them; with the conversions of \<^verbatim>\<open>sdk-core-protos/src/lib.rs\<close> from lang commands to server commands.
\<close>

section \<open>Commands from lang\<close>

record StartTimer =
  st_seq :: u32
  st_start_to_fire_timeout :: "Duration option"

record CancelTimer =
  ct_seq :: u32

record ScheduleActivity =
  sa_seq :: u32
  sa_activity_id :: string
  sa_activity_type :: string
  sa_task_queue :: string
  sa_headers :: payload_map
  sa_arguments :: "Payload list"
  sa_schedule_to_close_timeout :: "Duration option"
  sa_schedule_to_start_timeout :: "Duration option"
  sa_start_to_close_timeout :: "Duration option"
  sa_heartbeat_timeout :: "Duration option"
  sa_retry_policy :: "RetryPolicy option"
  sa_cancellation_type :: int
  sa_do_not_eagerly_execute :: bool
  sa_versioning_intent :: VersioningIntent

record StartChildWorkflowExecution =
  sc_seq :: u32
  sc_namespace :: string
  sc_workflow_id :: string
  sc_workflow_type :: string
  sc_task_queue :: string
  sc_input :: "Payload list"
  sc_workflow_execution_timeout :: "Duration option"
  sc_workflow_run_timeout :: "Duration option"
  sc_workflow_task_timeout :: "Duration option"
  sc_parent_close_policy :: int
  sc_workflow_id_reuse_policy :: int
  sc_retry_policy :: "RetryPolicy option"
  sc_cron_schedule :: string
  sc_headers :: payload_map
  sc_memo :: payload_map
  sc_search_attributes :: payload_map
  sc_cancellation_type :: int
  sc_versioning_intent :: VersioningIntent

record ContinueAsNewWorkflowExecution =
  can_workflow_type :: string
  can_task_queue :: string
  can_arguments :: "Payload list"
  can_workflow_run_timeout :: "Duration option"
  can_workflow_task_timeout :: "Duration option"
  can_memo :: payload_map
  can_headers :: payload_map
  can_search_attributes :: payload_map
  can_retry_policy :: "RetryPolicy option"
  can_versioning_intent :: VersioningIntent

datatype SignalTarget =
    ST_WorkflowExecution NamespacedWorkflowExecution
  | ST_ChildWorkflowId string

record SignalExternalWorkflowExecution =
  se_seq :: u32
  se_target :: "SignalTarget option"
  se_signal_name :: string
  se_args :: "Payload list"
  se_headers :: payload_map

record ScheduleNexusOperation =
  sn_seq :: u32
  sn_endpoint :: string
  sn_service :: string
  sn_operation :: string
  sn_input :: "Payload option"
  sn_schedule_to_close_timeout :: "Duration option"
  sn_nexus_header :: "(string \<times> string) list"
  sn_cancellation_type :: int

datatype UpdateResponseBody = UR_Accepted | UR_Rejected Failure | UR_Completed Payload

record UpdateResponse =
  ur_protocol_instance_id :: string
  ur_response :: "UpdateResponseBody option"

section \<open>Commands to the server\<close>

datatype CommandType =
    CT_Unspecified | CT_ScheduleActivityTask | CT_RequestCancelActivityTask | CT_StartTimer
  | CT_CompleteWorkflowExecution | CT_FailWorkflowExecution | CT_CancelTimer
  | CT_CancelWorkflowExecution | CT_RequestCancelExternalWorkflowExecution | CT_RecordMarker
  | CT_ContinueAsNewWorkflowExecution | CT_StartChildWorkflowExecution
  | CT_SignalExternalWorkflowExecution | CT_UpsertWorkflowSearchAttributes | CT_ProtocolMessage
  | CT_ModifyWorkflowProperties | CT_ScheduleNexusOperation | CT_RequestCancelNexusOperation

record ScheduleActivityTaskCommandAttributes =
  sat_activity_id :: string
  sat_activity_type :: "string option"
  sat_task_queue :: "string option"
  sat_header :: "payload_map option"
  sat_input :: "Payloads option"
  sat_schedule_to_close_timeout :: "Duration option"
  sat_schedule_to_start_timeout :: "Duration option"
  sat_start_to_close_timeout :: "Duration option"
  sat_heartbeat_timeout :: "Duration option"
  sat_retry_policy :: "RetryPolicy option"
  sat_request_eager_execution :: bool
  sat_use_workflow_build_id :: bool

record RequestCancelExternalWorkflowExecutionCommandAttributes =
  rce_namespace :: string
  rce_workflow_id :: string
  rce_run_id :: string
  rce_child_workflow_only :: bool
  rce_reason :: string

record RecordMarkerCommandAttributes =
  rm_marker_name :: string
  rm_details :: "(string \<times> Payloads) list"
  rm_failure :: "Failure option"

record ContinueAsNewWorkflowExecutionCommandAttributes =
  cana_workflow_type :: "string option"
  cana_task_queue :: "string option"
  cana_input :: "Payloads option"
  cana_workflow_run_timeout :: "Duration option"
  cana_workflow_task_timeout :: "Duration option"
  cana_retry_policy :: "RetryPolicy option"
  cana_header :: "payload_map option"
  cana_memo :: "payload_map option"
  cana_search_attributes :: "payload_map option"
  cana_inherit_build_id :: bool

record StartChildWorkflowExecutionCommandAttributes =
  sca_namespace :: string
  sca_workflow_id :: string
  sca_workflow_type :: "string option"
  sca_task_queue :: "string option"
  sca_input :: "Payloads option"
  sca_workflow_execution_timeout :: "Duration option"
  sca_workflow_run_timeout :: "Duration option"
  sca_workflow_task_timeout :: "Duration option"
  sca_parent_close_policy :: int
  sca_control :: string
  sca_workflow_id_reuse_policy :: int
  sca_retry_policy :: "RetryPolicy option"
  sca_cron_schedule :: string
  sca_header :: "payload_map option"
  sca_memo :: "payload_map option"
  sca_search_attributes :: "payload_map option"
  sca_inherit_build_id :: bool

record SignalExternalWorkflowExecutionCommandAttributes =
  sea_namespace :: string
  sea_execution :: "WorkflowExecution option"
  sea_signal_name :: string
  sea_input :: "Payloads option"
  sea_child_workflow_only :: bool
  sea_header :: "payload_map option"

record ScheduleNexusOperationCommandAttributes =
  sno_endpoint :: string
  sno_service :: string
  sno_operation :: string
  sno_input :: "Payload option"
  sno_schedule_to_close_timeout :: "Duration option"
  sno_nexus_header :: "(string \<times> string) list"

datatype CommandAttributes =
    ScheduleActivityTaskCommandAttributes ScheduleActivityTaskCommandAttributes
  | StartTimerCommandAttributes string "Duration option"
  | CompleteWorkflowExecutionCommandAttributes "Payloads option"
  | FailWorkflowExecutionCommandAttributes "Failure option"
  | RequestCancelActivityTaskCommandAttributes int
  | CancelTimerCommandAttributes string
  | CancelWorkflowExecutionCommandAttributes "Payloads option"
  | RequestCancelExternalWorkflowExecutionCommandAttributes
      RequestCancelExternalWorkflowExecutionCommandAttributes
  | RecordMarkerCommandAttributes RecordMarkerCommandAttributes
  | ContinueAsNewWorkflowExecutionCommandAttributes ContinueAsNewWorkflowExecutionCommandAttributes
  | StartChildWorkflowExecutionCommandAttributes StartChildWorkflowExecutionCommandAttributes
  | SignalExternalWorkflowExecutionCommandAttributes SignalExternalWorkflowExecutionCommandAttributes
  | UpsertWorkflowSearchAttributesCommandAttributes "payload_map option"
  | ProtocolMessageCommandAttributes string
  | ModifyWorkflowPropertiesCommandAttributes "payload_map option"
  | ScheduleNexusOperationCommandAttributes ScheduleNexusOperationCommandAttributes
  | RequestCancelNexusOperationCommandAttributes int

record Command =
  cmd_command_type :: CommandType
  cmd_attributes :: "CommandAttributes option"
  cmd_user_metadata :: "UserMetadata option"

definition as_type :: "CommandAttributes \<Rightarrow> CommandType" where
  "as_type a = (case a of
      ScheduleActivityTaskCommandAttributes _ \<Rightarrow> CT_ScheduleActivityTask
    | StartTimerCommandAttributes _ _ \<Rightarrow> CT_StartTimer
    | CompleteWorkflowExecutionCommandAttributes _ \<Rightarrow> CT_CompleteWorkflowExecution
    | FailWorkflowExecutionCommandAttributes _ \<Rightarrow> CT_FailWorkflowExecution
    | RequestCancelActivityTaskCommandAttributes _ \<Rightarrow> CT_RequestCancelActivityTask
    | CancelTimerCommandAttributes _ \<Rightarrow> CT_CancelTimer
    | CancelWorkflowExecutionCommandAttributes _ \<Rightarrow> CT_CancelWorkflowExecution
    | RequestCancelExternalWorkflowExecutionCommandAttributes _ \<Rightarrow>
        CT_RequestCancelExternalWorkflowExecution
    | RecordMarkerCommandAttributes _ \<Rightarrow> CT_RecordMarker
    | ContinueAsNewWorkflowExecutionCommandAttributes _ \<Rightarrow> CT_ContinueAsNewWorkflowExecution
    | StartChildWorkflowExecutionCommandAttributes _ \<Rightarrow> CT_StartChildWorkflowExecution
    | SignalExternalWorkflowExecutionCommandAttributes _ \<Rightarrow> CT_SignalExternalWorkflowExecution
    | UpsertWorkflowSearchAttributesCommandAttributes _ \<Rightarrow> CT_UpsertWorkflowSearchAttributes
    | ProtocolMessageCommandAttributes _ \<Rightarrow> CT_ProtocolMessage
    | ModifyWorkflowPropertiesCommandAttributes _ \<Rightarrow> CT_ModifyWorkflowProperties
    | ScheduleNexusOperationCommandAttributes _ \<Rightarrow> CT_ScheduleNexusOperation
    | RequestCancelNexusOperationCommandAttributes _ \<Rightarrow> CT_RequestCancelNexusOperation)"

text \<open>
  \<^verbatim>\<open>impl From<command::Attributes> for Command\<close>: the attribute kinds it does not list are
  \<^verbatim>\<open>unimplemented!()\<close>.
\<close>

definition command_from :: "CommandAttributes \<Rightarrow> ('e, Command) outcome" where
  "command_from a = (let mk = (\<lambda>t. Ok \<lparr> cmd_command_type = t, cmd_attributes = Some a, cmd_user_metadata = None \<rparr>) in case a of
      StartTimerCommandAttributes _ _ \<Rightarrow> mk CT_StartTimer
    | CancelTimerCommandAttributes _ \<Rightarrow> mk CT_CancelTimer
    | CompleteWorkflowExecutionCommandAttributes _ \<Rightarrow> mk CT_CompleteWorkflowExecution
    | FailWorkflowExecutionCommandAttributes _ \<Rightarrow> mk CT_FailWorkflowExecution
    | ScheduleActivityTaskCommandAttributes _ \<Rightarrow> mk CT_ScheduleActivityTask
    | RequestCancelActivityTaskCommandAttributes _ \<Rightarrow> mk CT_RequestCancelActivityTask
    | ContinueAsNewWorkflowExecutionCommandAttributes _ \<Rightarrow> mk CT_ContinueAsNewWorkflowExecution
    | CancelWorkflowExecutionCommandAttributes _ \<Rightarrow> mk CT_CancelWorkflowExecution
    | RecordMarkerCommandAttributes _ \<Rightarrow> mk CT_RecordMarker
    | ProtocolMessageCommandAttributes _ \<Rightarrow> mk CT_ProtocolMessage
    | RequestCancelNexusOperationCommandAttributes _ \<Rightarrow> mk CT_RequestCancelNexusOperation
    | _ \<Rightarrow> Panic ''not implemented'')"

section \<open>From lang commands to server commands\<close>

definition attributes_from_StartTimer :: "StartTimer \<Rightarrow> CommandAttributes" where
  "attributes_from_StartTimer s =
     StartTimerCommandAttributes (show_u32 (st_seq s)) (st_start_to_fire_timeout s)"

definition attributes_from_CancelTimer :: "CancelTimer \<Rightarrow> CommandAttributes" where
  "attributes_from_CancelTimer s = CancelTimerCommandAttributes (show_u32 (ct_seq s))"

definition attributes_from_Upsert :: "payload_map \<Rightarrow> CommandAttributes" where
  "attributes_from_Upsert search_attributes =
     UpsertWorkflowSearchAttributesCommandAttributes (Some search_attributes)"

definition attributes_from_ModifyWorkflowProperties :: "payload_map option \<Rightarrow> CommandAttributes" where
  "attributes_from_ModifyWorkflowProperties upserted_memo =
     ModifyWorkflowPropertiesCommandAttributes upserted_memo"

definition schedule_activity_cmd_to_api :: "ScheduleActivity \<Rightarrow> bool \<Rightarrow> CommandAttributes" where
  "schedule_activity_cmd_to_api s use_workflow_build_id = ScheduleActivityTaskCommandAttributes \<lparr>
     sat_activity_id = sa_activity_id s,
     sat_activity_type = Some (sa_activity_type s),
     sat_task_queue = Some (sa_task_queue s),
     sat_header = Some (sa_headers s),
     sat_input = into_payloads (sa_arguments s),
     sat_schedule_to_close_timeout = sa_schedule_to_close_timeout s,
     sat_schedule_to_start_timeout = sa_schedule_to_start_timeout s,
     sat_start_to_close_timeout = sa_start_to_close_timeout s,
     sat_heartbeat_timeout = sa_heartbeat_timeout s,
     sat_retry_policy = sa_retry_policy s,
     sat_request_eager_execution = (\<not> sa_do_not_eagerly_execute s),
     sat_use_workflow_build_id = use_workflow_build_id \<rparr>"

definition start_child_workflow_cmd_to_api ::
  "StartChildWorkflowExecution \<Rightarrow> bool \<Rightarrow> CommandAttributes" where
  "start_child_workflow_cmd_to_api s inherit_build_id = StartChildWorkflowExecutionCommandAttributes \<lparr>
     sca_namespace = sc_namespace s,
     sca_workflow_id = sc_workflow_id s,
     sca_workflow_type = Some (sc_workflow_type s),
     sca_task_queue = Some (sc_task_queue s),
     sca_input = into_payloads (sc_input s),
     sca_workflow_execution_timeout = sc_workflow_execution_timeout s,
     sca_workflow_run_timeout = sc_workflow_run_timeout s,
     sca_workflow_task_timeout = sc_workflow_task_timeout s,
     sca_parent_close_policy = sc_parent_close_policy s,
     sca_control = '''',
     sca_workflow_id_reuse_policy = sc_workflow_id_reuse_policy s,
     sca_retry_policy = sc_retry_policy s,
     sca_cron_schedule = sc_cron_schedule s,
     sca_header = Some (sc_headers s),
     sca_memo = Some (sc_memo s),
     sca_search_attributes = Some (sc_search_attributes s),
     sca_inherit_build_id = inherit_build_id \<rparr>"

definition attributes_from_Complete :: "Payload option \<Rightarrow> CommandAttributes" where
  "attributes_from_Complete result =
     CompleteWorkflowExecutionCommandAttributes (map_option (\<lambda>p. [p]) result)"

definition attributes_from_Fail :: "Failure option \<Rightarrow> CommandAttributes" where
  "attributes_from_Fail failure = FailWorkflowExecutionCommandAttributes failure"

definition some_unless_empty :: "'a list \<Rightarrow> 'a list option" where
  "some_unless_empty xs = (if xs = [] then None else Some xs)"

definition continue_as_new_cmd_to_api ::
  "ContinueAsNewWorkflowExecution \<Rightarrow> bool \<Rightarrow> CommandAttributes" where
  "continue_as_new_cmd_to_api c inherit_build_id = ContinueAsNewWorkflowExecutionCommandAttributes \<lparr>
     cana_workflow_type = Some (can_workflow_type c),
     cana_task_queue = Some (can_task_queue c),
     cana_input = into_payloads (can_arguments c),
     cana_workflow_run_timeout = can_workflow_run_timeout c,
     cana_workflow_task_timeout = can_workflow_task_timeout c,
     cana_retry_policy = can_retry_policy c,
     cana_header = some_unless_empty (can_headers c),
     cana_memo = some_unless_empty (can_memo c),
     cana_search_attributes = some_unless_empty (can_search_attributes c),
     cana_inherit_build_id = inherit_build_id \<rparr>"

definition attributes_from_Cancel :: CommandAttributes where
  "attributes_from_Cancel = CancelWorkflowExecutionCommandAttributes None"

definition attributes_from_ScheduleNexus :: "ScheduleNexusOperation \<Rightarrow> CommandAttributes" where
  "attributes_from_ScheduleNexus c = ScheduleNexusOperationCommandAttributes \<lparr>
     sno_endpoint = sn_endpoint c,
     sno_service = sn_service c,
     sno_operation = sn_operation c,
     sno_input = sn_input c,
     sno_schedule_to_close_timeout = sn_schedule_to_close_timeout c,
     sno_nexus_header = sn_nexus_header c \<rparr>"

section \<open>Activation jobs\<close>

record DoBackoff =
  bo_attempt :: u32
  bo_backoff_duration :: "Duration option"
  bo_original_schedule_time :: "Timestamp option"

datatype ActivityResolution =
    AR_Completed "Payload option"
  | AR_Failed "Failure option"
  | AR_Cancelled "Failure option"
  | AR_Backoff DoBackoff

record ResolveActivity =
  ra_seq :: u32
  ra_result :: ActivityResolution
  ra_is_local :: bool

datatype ChildWorkflowStartStatus =
    CS_Succeeded string
  | CS_Failed string string int
  | CS_Cancelled "Failure option"

datatype ChildWorkflowResult =
    CR_Completed "Payload option"
  | CR_Failed "Failure option"
  | CR_Cancelled "Failure option"

datatype NexusStartStatus = NS_OperationToken string | NS_StartedSync bool | NS_Failed Failure

datatype NexusOperationResult =
    NR_Completed Payload
  | NR_Failed Failure
  | NR_Cancelled Failure
  | NR_TimedOut Failure

record DoUpdate =
  du_id :: string
  du_protocol_instance_id :: string
  du_name :: string
  du_input :: "Payload list"
  du_headers :: payload_map
  du_meta :: "UpdateMeta option"
  du_run_validator :: bool

record InitializeWorkflow =
  iw_workflow_type :: string
  iw_workflow_id :: string
  iw_arguments :: "Payload list"
  iw_randomness_seed :: "64 word"
  iw_headers :: payload_map
  iw_identity :: string
  iw_parent_workflow_info :: "NamespacedWorkflowExecution option"
  iw_workflow_execution_timeout :: "Duration option"
  iw_workflow_run_timeout :: "Duration option"
  iw_workflow_task_timeout :: "Duration option"
  iw_continued_from_execution_run_id :: string
  iw_continued_initiator :: int
  iw_continued_failure :: "Failure option"
  iw_last_completion_result :: "Payloads option"
  iw_first_execution_run_id :: string
  iw_retry_policy :: "RetryPolicy option"
  iw_attempt :: int
  iw_cron_schedule :: string
  iw_workflow_execution_expiration_time :: "Timestamp option"
  iw_cron_schedule_to_schedule_interval :: "Duration option"
  iw_memo :: "payload_map option"
  iw_search_attributes :: "payload_map option"
  iw_start_time :: "Timestamp option"
  iw_root_workflow :: "WorkflowExecution option"

record SignalWorkflow =
  sw_signal_name :: string
  sw_input :: "Payload list"
  sw_identity :: string
  sw_headers :: payload_map

datatype JobVariant =
    JobInitializeWorkflow InitializeWorkflow
  | FireTimer u32
  | UpdateRandomSeed "64 word"
  | QueryWorkflow string
  | CancelWorkflow string
  | JobSignalWorkflow SignalWorkflow
  | JobResolveActivity ResolveActivity
  | NotifyHasPatch string
  | ResolveChildWorkflowExecutionStart u32 ChildWorkflowStartStatus
  | ResolveChildWorkflowExecution u32 ChildWorkflowResult
  | ResolveSignalExternalWorkflow u32 "Failure option"
  | ResolveRequestCancelExternalWorkflow u32 "Failure option"
  | JobDoUpdate DoUpdate
  | ResolveNexusOperationStart u32 NexusStartStatus
  | ResolveNexusOperation u32 NexusOperationResult
  | RemoveFromCache string

section \<open>Local activities\<close>

datatype ActivityCancellationType = TryCancel | WaitCancellationCompleted | Abandon

definition activity_cancellation_type_try_from :: "int \<Rightarrow> ActivityCancellationType option" where
  "activity_cancellation_type_try_from i =
     (if i = 0 then Some TryCancel else if i = 1 then Some WaitCancellationCompleted
      else if i = 2 then Some Abandon else None)"

datatype LACloseTimeouts = ScheduleOnly int | StartOnly int | Both int int

definition into_sched_and_start :: "LACloseTimeouts \<Rightarrow> int option \<times> int option" where
  "into_sched_and_start t = (case t of
      ScheduleOnly x \<Rightarrow> (Some x, None)
    | StartOnly x \<Rightarrow> (None, Some x)
    | Both sched start \<Rightarrow> (Some sched, Some start))"

record ValidScheduleLA =
  la_seq :: u32
  la_activity_id :: string
  la_activity_type :: string
  la_attempt :: u32
  la_original_schedule_time :: "int option"
  la_headers :: payload_map
  la_arguments :: "Payload list"
  la_schedule_to_start_timeout :: "int option"
  la_close_timeouts :: LACloseTimeouts
  la_retry_policy :: RetryPolicy
  la_local_retry_threshold :: int
  la_cancellation_type :: ActivityCancellationType

section \<open>Machine responses\<close>

record ProtocolMessage =
  pm_id :: string
  pm_protocol_instance_id :: string
  pm_body :: "(string \<times> bytes) option"

datatype MachineResponse =
    PushWFJob JobVariant
  | IssueNewCommand Command
  | IssueNewMessage ProtocolMessage
  | NewCoreOriginatedCommand CommandAttributes
  | IssueFakeLocalActivityMarker u32
  | TriggerWFTaskStarted int int
  | UpdateRunIdOnWorkflowReset string
  | QueueLocalActivity ValidScheduleLA
  | RequestCancelLocalActivity u32
  | AbandonLocalActivity u32
  | UpdateWFTime "int option"

text \<open>
  Every command \<^verbatim>\<open>From<command::Attributes>\<close> builds carries the command type of its attributes, and it
  panics exactly on the six attribute kinds it does not list.
\<close>

lemma command_from_type:
  "command_from a = Ok c \<Longrightarrow> cmd_command_type c = as_type a \<and> cmd_attributes c = Some a"
  by (cases a) (auto simp: command_from_def as_type_def)

definition command_convertible :: "CommandAttributes \<Rightarrow> bool" where
  "command_convertible a = (as_type a \<notin>
     {CT_RequestCancelExternalWorkflowExecution, CT_StartChildWorkflowExecution,
      CT_SignalExternalWorkflowExecution, CT_UpsertWorkflowSearchAttributes,
      CT_ModifyWorkflowProperties, CT_ScheduleNexusOperation})"

lemma command_from_panic_iff: "is_panic (command_from a) \<longleftrightarrow> \<not> command_convertible a"
  by (cases a) (auto simp: command_from_def as_type_def command_convertible_def)

lemma command_from_Ok_iff:
  "command_from a = Ok c \<longleftrightarrow>
     command_convertible a \<and> 
     c = \<lparr> cmd_command_type = as_type a, cmd_attributes = Some a, cmd_user_metadata = None \<rparr>"
  by (cases a) (auto simp: command_from_def as_type_def command_convertible_def)

end
