(* ===== verification/TemporalMachine.thy ===== *)
theory TemporalMachine
  imports Fsm HistoryEvents Commands
begin

text \<open>
  The layer of \<^verbatim>\<open>core/src/worker/workflow/machines/mod.rs\<close> between a generated state machine and the
  workflow machines: conversion of history events and command types to machine events, translation
  of machine commands to machine responses, and the error each failure becomes.  Logging is not
  modelled.  An error carries the format string of its message, with the placeholders of the source.
\<close>

section \<open>Errors of the workflow machines\<close>

datatype WFMachinesError = Nondeterminism string | Fatal string

fun wf_error_from :: "WFMachinesError MachineError \<Rightarrow> WFMachinesError" where
  "wf_error_from InvalidTransition = Nondeterminism ''Invalid transition in state machine''"
| "wf_error_from (Underlying e) = e"

datatype EvictionReason =
    EV_Unspecified | EV_CacheFull | EV_CacheMiss | EV_Nondeterminism | EV_LangFail | EV_LangRequested
  | EV_TaskNotFound | EV_UnhandledCommand | EV_Fatal | EV_PaginationOrHistoryFetch
  | EV_WorkflowExecutionEnding

fun evict_reason :: "WFMachinesError \<Rightarrow> EvictionReason" where
  "evict_reason (Nondeterminism _) = EV_Nondeterminism"
| "evict_reason (Fatal _) = EV_Fatal"

section \<open>Events with context\<close>

record HistEventData =
  hed_event :: HistoryEvent
  hed_replaying :: bool
  hed_current_task_is_last_in_history :: bool

record EventInfo =
  ei_event_id :: int
  ei_event_type :: EventType

definition event_info_of :: "HistEventData \<Rightarrow> EventInfo" where
  "event_info_of d = \<lparr> ei_event_id = event_id (hed_event d), ei_event_type = event_type (hed_event d) \<rparr>"

text \<open>A recorded event applied while not replaying, in the last task of history.\<close>

definition live_event :: "int \<Rightarrow> Attributes \<Rightarrow> HistEventData" where
  "live_event i a = \<lparr> hed_event = recorded_event i a, hed_replaying = False,
     hed_current_task_is_last_in_history = True \<rparr>"

type_synonym responses = "(WFMachinesError, MachineResponse list) outcome"
type_synonym ('m, 'c) adapter = "'m \<Rightarrow> 'c \<Rightarrow> EventInfo option \<Rightarrow> responses"

section \<open>Commands of a machine become responses\<close>

text \<open>The loop of \<^verbatim>\<open>process_machine_commands\<close>: the responses of each command in order, up to the first error.\<close>

fun process_machine_commands ::
  "('m, 'c) adapter \<Rightarrow> 'm \<Rightarrow> 'c list \<Rightarrow> EventInfo option \<Rightarrow> responses" where
  "process_machine_commands adapt m [] info = Ok []"
| "process_machine_commands adapt m (c # cs) info =
     bind_outcome (adapt m c info) (\<lambda>rs.
     bind_outcome (process_machine_commands adapt m cs info) (\<lambda>rest. Ok (rs @ rest)))"

definition handle_event ::
  "('st, 'sh, 'ev, 'c, WFMachinesError) transitions \<Rightarrow>
   (HistEventData \<Rightarrow> (WFMachinesError, 'ev) outcome) \<Rightarrow>
   (('st, 'sh) machine, 'c) adapter \<Rightarrow>
   ('st, 'sh) machine \<Rightarrow> HistEventData \<Rightarrow> responses \<times> ('st, 'sh) machine" where
  "handle_event tf try_from adapt m d = (case try_from d of
      Err e \<Rightarrow> (Err e, m)
    | Panic s \<Rightarrow> (Panic s, m)
    | Ok ev \<Rightarrow> (case on_event tf m ev of
          (Ok cmds, m') \<Rightarrow> (process_machine_commands adapt m' cmds (Some (event_info_of d)), m')
        | (Err InvalidTransition, m') \<Rightarrow>
            (bind_outcome (get_state m')
              (\<lambda>_. Err (Fatal ''{} in state {} says the transition is invalid during event {:?}'')), m')
        | (Err (Underlying e), m') \<Rightarrow> (Err e, m')
        | (Panic s, m') \<Rightarrow> (Panic s, m')))"

definition handle_command ::
  "('st, 'sh, 'ev, 'c, WFMachinesError) transitions \<Rightarrow>
   (CommandType \<Rightarrow> 'ev option) \<Rightarrow>
   (('st, 'sh) machine, 'c) adapter \<Rightarrow>
   ('st, 'sh) machine \<Rightarrow> CommandType \<Rightarrow> responses \<times> ('st, 'sh) machine" where
  "handle_command tf try_cmd adapt m ct = (case try_cmd ct of
      Some ev \<Rightarrow> (case on_event tf m ev of
          (Ok cmds, m') \<Rightarrow> (process_machine_commands adapt m' cmds None, m')
        | (Err InvalidTransition, m') \<Rightarrow>
            (bind_outcome (get_state m') (\<lambda>_. Err (Nondeterminism
              ''Unexpected command producing an invalid transition {:?} in state {}'')), m')
        | (Err (Underlying e), m') \<Rightarrow> (Err e, m')
        | (Panic s, m') \<Rightarrow> (Panic s, m'))
    | None \<Rightarrow> (Err (Nondeterminism ''Unexpected command {:?} generated by a {:?} machine''), m))"

section \<open>What every machine inherits\<close>

lemma process_machine_commands_append:
  "process_machine_commands adapt m (cs @ ds) info =
     bind_outcome (process_machine_commands adapt m cs info) (\<lambda>rs.
     bind_outcome (process_machine_commands adapt m ds info) (\<lambda>rest. Ok (rs @ rest)))"
proof (induction cs)
  case Nil
  then show ?case by (cases "process_machine_commands adapt m ds info") auto
next
  case (Cons c cs)
  then show ?case
    by (cases "adapt m c info"; cases "process_machine_commands adapt m cs info";
        cases "process_machine_commands adapt m ds info") auto
qed

lemma process_machine_commands_no_panic:
  "(\<And>c. c \<in> set cs \<Longrightarrow> \<not> is_panic (adapt m c info)) \<Longrightarrow>
   \<not> is_panic (process_machine_commands adapt m cs info)"
  by (induction cs) (auto simp: outcome_simps)

lemma process_machine_commands_cong:
  "(\<And>c. c \<in> set cs \<Longrightarrow> f m c info = g m c info) \<Longrightarrow>
   process_machine_commands f m cs info = process_machine_commands g m cs info"
  by (induction cs) auto

lemma process_machine_commands_weight:
  assumes "\<And>c rs. c \<in> set cs \<Longrightarrow> adapt m c info = Ok rs \<Longrightarrow> weigh w rs \<le> cw c"
    and "process_machine_commands adapt m cs info = Ok rs"
  shows "weigh w rs \<le> weigh cw cs"
  using assms
  by (induction cs arbitrary: rs) (fastforce simp: outcome_simps intro: add_mono)+

text \<open>
  A machine whose transition function keeps an invariant and never panics, and whose adapter never
  panics on the commands it issues there, handles history events and commands without panicking and
  stays in the invariant as long as it reports no error.  \<open>cw\<close> and \<open>budget\<close> account for the responses
  of interest: a transition pays for the commands it issues out of the budget of its state.
\<close>

locale temporal_machine = fsm_invariant tf ok_state ok_event
  for tf :: "('st, 'sh, 'ev, 'c, WFMachinesError) transitions" and ok_state ok_event +
  fixes try_event :: "HistEventData \<Rightarrow> (WFMachinesError, 'ev) outcome"
    and try_cmd :: "CommandType \<Rightarrow> 'ev option"
    and adapt :: "(('st, 'sh) machine, 'c) adapter"
  assumes try_event_no_panic: "\<not> is_panic (try_event d)"
    and try_event_ok: "try_event d = Ok ev \<Longrightarrow> ok_event sh ev"
    and try_cmd_ok: "try_cmd ct = Some ev \<Longrightarrow> ok_event sh ev"
    and adapt_no_panic: "\<lbrakk> ok_state st sh; ok_event sh ev; tf st sh ev = Arm sh' (TR_Ok cmds st'); c \<in> set cmds \<rbrakk> \<Longrightarrow>
      \<not> is_panic (adapt (from_parts st' sh') c info)"
begin

abbreviation event_step :: "('st, 'sh) machine \<Rightarrow> HistEventData \<Rightarrow> responses \<times> ('st, 'sh) machine" where
  "event_step \<equiv> handle_event tf try_event adapt"

abbreviation command_step :: "('st, 'sh) machine \<Rightarrow> CommandType \<Rightarrow> responses \<times> ('st, 'sh) machine" where
  "command_step \<equiv> handle_command tf try_cmd adapt"

lemma on_event_adapt_no_panic:
  assumes "machine_inv ok_state m" "ok_event (shared_state m) ev" "on_event tf m ev = (Ok cmds, m')"
  shows "\<not> is_panic (process_machine_commands adapt m' cmds info)"
proof -
  obtain st sh st' where "mstate m = Some st" "ok_state st (shared_state m)"
    "tf st (shared_state m) ev = Arm sh (TR_Ok cmds st')" "m' = from_parts st' sh"
    using assms by (auto elim!: on_event_OkE machine_invE)
  then show ?thesis
    using assms(2) by (auto intro!: process_machine_commands_no_panic dest: adapt_no_panic)
qed

lemma on_event_Invalid_state:
  "\<lbrakk> machine_inv ok_state m; ok_event (shared_state m) ev; on_event tf m ev = (Err InvalidTransition, m') \<rbrakk> \<Longrightarrow>
   \<not> is_panic (bind_outcome (get_state m') (\<lambda>_. Err e))"
  by (frule (2) on_event_Invalid_keeps) (auto simp: get_state_def elim: machine_invE split: option.splits)

lemma handle_event_no_panic:
  "machine_inv ok_state m \<Longrightarrow> \<not> is_panic (fst (event_step m d))"
  using try_event_no_panic[of d] on_event_not_Panic[of m] try_event_ok[of d _ "shared_state m"]
  by (auto simp: handle_event_def on_event_adapt_no_panic dest: on_event_Invalid_state
      split: outcome.splits prod.splits MachineError.splits)

lemma handle_command_no_panic:
  "machine_inv ok_state m \<Longrightarrow> \<not> is_panic (fst (command_step m ct))"
  using on_event_not_Panic[of m] try_cmd_ok[of ct _ "shared_state m"]
  by (auto simp: handle_command_def on_event_adapt_no_panic dest: on_event_Invalid_state
      split: outcome.splits prod.splits MachineError.splits option.splits)

text \<open>What a successful call says about the event it was converted to.\<close>

lemma handle_event_OkE:
  assumes "event_step m d = (Ok rs, m')"
  obtains ev cmds where "ok_event (shared_state m) ev" "on_event tf m ev = (Ok cmds, m')"
    "process_machine_commands adapt m' cmds (Some (event_info_of d)) = Ok rs"
proof -
  obtain ev cmds where "try_event d = Ok ev" "on_event tf m ev = (Ok cmds, m')"
    "process_machine_commands adapt m' cmds (Some (event_info_of d)) = Ok rs"
    using assms
    by (auto simp: handle_event_def outcome_simps split: outcome.splits prod.splits MachineError.splits)
  then show thesis using that try_event_ok by blast
qed

lemma handle_command_OkE:
  assumes "command_step m ct = (Ok rs, m')"
  obtains ev cmds where "ok_event (shared_state m) ev" "on_event tf m ev = (Ok cmds, m')"
    "process_machine_commands adapt m' cmds None = Ok rs"
proof -
  obtain ev cmds where "try_cmd ct = Some ev" "on_event tf m ev = (Ok cmds, m')"
    "process_machine_commands adapt m' cmds None = Ok rs"
    using assms
    by (auto simp: handle_command_def outcome_simps
        split: outcome.splits prod.splits MachineError.splits option.splits)
  then show thesis using that try_cmd_ok by blast
qed

lemma handle_event_keeps:
  "\<lbrakk> machine_inv ok_state m; event_step m d = (Ok rs, m') \<rbrakk> \<Longrightarrow> machine_inv ok_state m'"
  by (erule handle_event_OkE) (rule on_event_keeps)

lemma handle_command_keeps:
  "\<lbrakk> machine_inv ok_state m; command_step m ct = (Ok rs, m') \<rbrakk> \<Longrightarrow> machine_inv ok_state m'"
  by (erule handle_command_OkE) (rule on_event_keeps)

end

section \<open>Runs of calls\<close>

text \<open>
  A machine is driven by three kinds of calls: history events, command types (when its command is
  added to a workflow task completion), and the requests of lang such as cancellation.  A run stops
  at the first error, as the caller propagates it with \<^verbatim>\<open>?\<close>; it returns the responses delivered until
  then and how it ended.
\<close>

datatype 'x api_call = HistoryCall HistEventData | CommandCall CommandType | LangCall 'x

definition api_step ::
  "('st, 'sh, 'ev, 'c, WFMachinesError) transitions \<Rightarrow>
   (HistEventData \<Rightarrow> (WFMachinesError, 'ev) outcome) \<Rightarrow> (CommandType \<Rightarrow> 'ev option) \<Rightarrow>
   (('st, 'sh) machine, 'c) adapter \<Rightarrow>
   (('st, 'sh) machine \<Rightarrow> 'x \<Rightarrow> responses \<times> ('st, 'sh) machine) \<Rightarrow>
   ('st, 'sh) machine \<Rightarrow> 'x api_call \<Rightarrow> responses \<times> ('st, 'sh) machine" where
  "api_step tf try_event try_cmd adapt lang m call = (case call of
      HistoryCall d \<Rightarrow> handle_event tf try_event adapt m d
    | CommandCall ct \<Rightarrow> handle_command tf try_cmd adapt m ct
    | LangCall x \<Rightarrow> lang m x)"

text \<open>A machine lang has no call for: the call does nothing.\<close>

definition no_lang :: "'m \<Rightarrow> unit \<Rightarrow> responses \<times> 'm" where
  "no_lang m u = (Ok [], m)"

fun run_calls ::
  "('m \<Rightarrow> 'call \<Rightarrow> responses \<times> 'm) \<Rightarrow> 'm \<Rightarrow> 'call list \<Rightarrow>
   MachineResponse list \<times> (WFMachinesError, unit) outcome \<times> 'm" where
  "run_calls step m [] = ([], Ok (), m)"
| "run_calls step m (c # cs) = (case step m c of
      (Ok rs, m') \<Rightarrow> (let (rest, end, m'') = run_calls step m' cs in (rs @ rest, end, m''))
    | (Err e, m') \<Rightarrow> ([], Err e, m')
    | (Panic s, m') \<Rightarrow> ([], Panic s, m'))"

lemma run_calls_Cons_Ok:
  "run_calls step m (c # cs) = (rs, Ok (), m'') \<longleftrightarrow>
     (\<exists>rs1 m1 rest. step m c = (Ok rs1, m1) \<and> run_calls step m1 cs = (rest, Ok (), m'') \<and> rs = rs1 @ rest)"
  by (auto split: prod.splits outcome.splits)

locale machine_calls =
  fixes step :: "'m \<Rightarrow> 'call \<Rightarrow> responses \<times> 'm"
    and good :: "'m \<Rightarrow> bool"
  assumes step_no_panic: "good m \<Longrightarrow> \<not> is_panic (fst (step m c))"
    and step_keeps: "\<lbrakk> good m; step m c = (Ok rs, m') \<rbrakk> \<Longrightarrow> good m'"
begin

lemma run_no_panic: "good m \<Longrightarrow> run_calls step m cs = (rs, r, m') \<Longrightarrow> \<not> is_panic r"
proof (induction cs arbitrary: m rs)
  case (Cons c cs)
  then show ?case
    using step_no_panic[of m c]
    by (cases "step m c"; cases "fst (step m c)")
      (auto split: prod.splits dest: step_keeps)
qed auto

lemma run_keeps: "\<lbrakk> good m; run_calls step m cs = (rs, Ok (), m') \<rbrakk> \<Longrightarrow> good m'"
proof (induction cs arbitrary: m rs)
  case (Cons c cs)
  then obtain rs1 m1 rest where "step m c = (Ok rs1, m1)" "run_calls step m1 cs = (rest, Ok (), m')"
    unfolding run_calls_Cons_Ok by blast
  with Cons show ?case by (metis step_keeps)
qed auto

end

text \<open>
  Accounting: every successful call pays for the weight of the responses it delivers out of a budget
  of the machine, at most (\<open>machine_budget\<close>) or exactly (\<open>machine_exact\<close>).
\<close>

locale machine_budget = machine_calls step good
  for step :: "'m \<Rightarrow> 'call \<Rightarrow> responses \<times> 'm" and good +
  fixes w :: "MachineResponse \<Rightarrow> nat"
    and budget :: "'m \<Rightarrow> nat"
  assumes step_pays: "\<lbrakk> good m; step m c = (Ok rs, m') \<rbrakk> \<Longrightarrow> weigh w rs + budget m' \<le> budget m"
begin

lemma run_pays:
  "\<lbrakk> good m; run_calls step m cs = (rs, Ok (), m') \<rbrakk> \<Longrightarrow> weigh w rs + budget m' \<le> budget m"
proof (induction cs arbitrary: m rs)
  case (Cons c cs)
  then obtain rs1 m1 rest where *: "step m c = (Ok rs1, m1)" "run_calls step m1 cs = (rest, Ok (), m')"
    "rs = rs1 @ rest" unfolding run_calls_Cons_Ok by blast
  with Cons.IH[of m1 rest] Cons.prems(1) step_keeps[OF Cons.prems(1) *(1)] step_pays[OF Cons.prems(1) *(1)]
  show ?case by simp
qed auto

lemma run_at_most:
  "\<lbrakk> good m; run_calls step m cs = (rs, r, m') \<rbrakk> \<Longrightarrow> weigh w rs \<le> budget m"
proof (induction cs arbitrary: m rs)
  case (Cons c cs)
  show ?case
  proof (cases "step m c")
    case (Pair res m1)
    show ?thesis
    proof (cases res)
      case (Ok rs1)
      obtain rest r2 m2 where run: "run_calls step m1 cs = (rest, r2, m2)"
        by (cases "run_calls step m1 cs")
      have pays: "weigh w rs1 + budget m1 \<le> budget m"
        using Cons.prems(1) Pair Ok step_pays by blast
      have "weigh w rest \<le> budget m1"
        using Cons.IH[of m1 rest] Cons.prems Pair Ok run step_keeps[of m c rs1 m1] by auto
      then show ?thesis
        using Cons.prems(2) Pair Ok run pays by auto
    qed (use Cons.prems Pair in auto)
  qed
qed auto

end

locale machine_exact = machine_budget step good w budget
  for step :: "'m \<Rightarrow> 'call \<Rightarrow> responses \<times> 'm" and good w budget +
  assumes step_exact: "\<lbrakk> good m; step m c = (Ok rs, m') \<rbrakk> \<Longrightarrow> budget m \<le> weigh w rs + budget m'"
begin

lemma run_exact:
  "\<lbrakk> good m; run_calls step m cs = (rs, Ok (), m') \<rbrakk> \<Longrightarrow> weigh w rs + budget m' = budget m"
proof (induction cs arbitrary: m rs)
  case (Cons c cs)
  then obtain rs1 m1 rest where *: "step m c = (Ok rs1, m1)" "run_calls step m1 cs = (rest, Ok (), m')"
    "rs = rs1 @ rest" unfolding run_calls_Cons_Ok by blast
  with Cons.IH[of m1 rest] Cons.prems(1) step_keeps[OF Cons.prems(1) *(1)] step_pays[OF Cons.prems(1) *(1)]
    step_exact[OF Cons.prems(1) *(1)]
  show ?case by simp
qed auto

end

text \<open>A machine with the calls of lang.\<close>

locale temporal_api = temporal_machine tf ok_state ok_event try_event try_cmd adapt
  for tf :: "('st, 'sh, 'ev, 'c, WFMachinesError) transitions"
    and ok_state ok_event try_event try_cmd adapt +
  fixes lang :: "('st, 'sh) machine \<Rightarrow> 'x \<Rightarrow> responses \<times> ('st, 'sh) machine"
  assumes lang_no_panic: "machine_inv ok_state m \<Longrightarrow> \<not> is_panic (fst (lang m x))"
    and lang_keeps: "\<lbrakk> machine_inv ok_state m; lang m x = (Ok rs, m') \<rbrakk> \<Longrightarrow> machine_inv ok_state m'"

sublocale temporal_api \<subseteq> calls: machine_calls "api_step tf try_event try_cmd adapt lang" "machine_inv ok_state"
proof (standard, goal_cases)
  case (1 m c)
  then show ?case
    by (cases c) (simp_all add: api_step_def handle_event_no_panic handle_command_no_panic lang_no_panic)
next
  case (2 m c rs m')
  then show ?case
    by (cases c) (auto simp: api_step_def dest: handle_event_keeps handle_command_keeps lang_keeps)
qed

definition machine_pot :: "('st \<Rightarrow> 'sh \<Rightarrow> nat) \<Rightarrow> ('st, 'sh) machine \<Rightarrow> nat" where
  "machine_pot pot m = (case mstate m of None \<Rightarrow> 0 | Some st \<Rightarrow> pot st (shared_state m))"

lemma machine_pot_from_parts [simp]: "machine_pot pot (from_parts st sh) = pot st sh"
  by (simp add: machine_pot_def)

lemma process_machine_commands_weight_ge:
  assumes "\<And>c rs. c \<in> set cs \<Longrightarrow> adapt m c info = Ok rs \<Longrightarrow> cw c \<le> weigh w rs"
    and "process_machine_commands adapt m cs info = Ok rs"
  shows "weigh cw cs \<le> weigh w rs"
  using assms
  by (induction cs arbitrary: rs) (auto simp: outcome_simps add_mono)

text \<open>The accounting of the transitions, and of the calls made of them.\<close>

locale temporal_accounts = temporal_machine tf ok_state ok_event try_event try_cmd adapt
  for tf :: "('st, 'sh, 'ev, 'c, WFMachinesError) transitions"
    and ok_state ok_event try_event try_cmd adapt +
  fixes w :: "MachineResponse \<Rightarrow> nat"
    and cw :: "'sh \<Rightarrow> 'c \<Rightarrow> nat"
    and pot :: "'st \<Rightarrow> 'sh \<Rightarrow> nat"
  assumes arm_pays: "\<lbrakk> ok_state st sh; ok_event sh ev; tf st sh ev = Arm sh' (TR_Ok cmds st') \<rbrakk> \<Longrightarrow>
      weigh (cw sh') cmds + pot st' sh' \<le> pot st sh"
    and adapt_pays: "\<lbrakk> ok_state st sh; ok_event sh ev; tf st sh ev = Arm sh' (TR_Ok cmds st'); c \<in> set cmds;
      adapt (from_parts st' sh') c info = Ok rs \<rbrakk> \<Longrightarrow> weigh w rs \<le> cw sh' c"
begin

lemma on_event_pays:
  assumes "machine_inv ok_state m" "ok_event (shared_state m) ev" "on_event tf m ev = (Ok cmds, m')"
    and "process_machine_commands adapt m' cmds info = Ok rs"
  shows "weigh w rs + machine_pot pot m' \<le> machine_pot pot m"
proof -
  obtain st sh st' where *: "ok_state st (shared_state m)" "mstate m = Some st"
    "tf st (shared_state m) ev = Arm sh (TR_Ok cmds st')" "m' = from_parts st' sh"
    using assms(1,3) by (auto elim!: on_event_OkE machine_invE)
  then have "weigh w rs \<le> weigh (cw sh) cmds"
    using assms(2,4) by (auto intro!: process_machine_commands_weight adapt_pays)
  with arm_pays[OF *(1) assms(2) *(3)] * show ?thesis
    by (simp add: machine_pot_def)
qed

lemma handle_event_pays:
  "\<lbrakk> machine_inv ok_state m; event_step m d = (Ok rs, m') \<rbrakk> \<Longrightarrow>
   weigh w rs + machine_pot pot m' \<le> machine_pot pot m"
  by (erule handle_event_OkE) (rule on_event_pays)

lemma handle_command_pays:
  "\<lbrakk> machine_inv ok_state m; command_step m ct = (Ok rs, m') \<rbrakk> \<Longrightarrow>
   weigh w rs + machine_pot pot m' \<le> machine_pot pot m"
  by (erule handle_command_OkE) (rule on_event_pays)

end

locale temporal_accounts_exact = temporal_accounts tf ok_state ok_event try_event try_cmd adapt w cw pot
  for tf :: "('st, 'sh, 'ev, 'c, WFMachinesError) transitions"
    and ok_state ok_event try_event try_cmd adapt w cw pot +
  assumes arm_exact: "\<lbrakk> ok_state st sh; ok_event sh ev; tf st sh ev = Arm sh' (TR_Ok cmds st') \<rbrakk> \<Longrightarrow>
      pot st sh \<le> weigh (cw sh') cmds + pot st' sh'"
    and adapt_exact: "\<lbrakk> ok_state st sh; ok_event sh ev; tf st sh ev = Arm sh' (TR_Ok cmds st'); c \<in> set cmds;
      adapt (from_parts st' sh') c info = Ok rs \<rbrakk> \<Longrightarrow> cw sh' c \<le> weigh w rs"
begin

lemma on_event_exact:
  assumes "machine_inv ok_state m" "ok_event (shared_state m) ev" "on_event tf m ev = (Ok cmds, m')"
    and "process_machine_commands adapt m' cmds info = Ok rs"
  shows "machine_pot pot m \<le> weigh w rs + machine_pot pot m'"
proof -
  obtain st sh st' where *: "ok_state st (shared_state m)" "mstate m = Some st"
    "tf st (shared_state m) ev = Arm sh (TR_Ok cmds st')" "m' = from_parts st' sh"
    using assms(1,3) by (auto elim!: on_event_OkE machine_invE)
  then have "weigh (cw sh) cmds \<le> weigh w rs"
    using assms(2,4) by (auto intro!: process_machine_commands_weight_ge adapt_exact)
  with arm_exact[OF *(1) assms(2) *(3)] * show ?thesis
    by (simp add: machine_pot_def)
qed

lemma handle_event_exact:
  "\<lbrakk> machine_inv ok_state m; event_step m d = (Ok rs, m') \<rbrakk> \<Longrightarrow>
   machine_pot pot m \<le> weigh w rs + machine_pot pot m'"
  by (erule handle_event_OkE) (rule on_event_exact)

lemma handle_command_exact:
  "\<lbrakk> machine_inv ok_state m; command_step m ct = (Ok rs, m') \<rbrakk> \<Longrightarrow>
   machine_pot pot m \<le> weigh w rs + machine_pot pot m'"
  by (erule handle_command_OkE) (rule on_event_exact)

end

text \<open>With the calls of lang accounted for, the runs of the machine are.\<close>

locale temporal_budget =
  temporal_api tf ok_state ok_event try_event try_cmd adapt lang +
  temporal_accounts tf ok_state ok_event try_event try_cmd adapt w cw pot
  for tf :: "('st, 'sh, 'ev, 'c, WFMachinesError) transitions"
    and ok_state ok_event try_event try_cmd adapt
    and lang :: "('st, 'sh) machine \<Rightarrow> 'x \<Rightarrow> responses \<times> ('st, 'sh) machine"
    and w cw pot +
  assumes lang_pays: "\<lbrakk> machine_inv ok_state m; lang m x = (Ok rs, m') \<rbrakk> \<Longrightarrow>
      weigh w rs + machine_pot pot m' \<le> machine_pot pot m"

sublocale temporal_budget \<subseteq> runs: machine_budget
  "api_step tf try_event try_cmd adapt lang" "machine_inv ok_state" w "machine_pot pot"
proof (standard, goal_cases)
  case (1 m c rs m')
  then show ?case
    by (cases c) (auto simp: api_step_def dest: handle_event_pays handle_command_pays lang_pays)
qed

locale temporal_exact =
  temporal_budget tf ok_state ok_event try_event try_cmd adapt lang w cw pot +
  temporal_accounts_exact tf ok_state ok_event try_event try_cmd adapt w cw pot
  for tf :: "('st, 'sh, 'ev, 'c, WFMachinesError) transitions"
    and ok_state ok_event try_event try_cmd adapt
    and lang :: "('st, 'sh) machine \<Rightarrow> 'x \<Rightarrow> responses \<times> ('st, 'sh) machine"
    and w cw pot +
  assumes lang_exact: "\<lbrakk> machine_inv ok_state m; lang m x = (Ok rs, m') \<rbrakk> \<Longrightarrow>
      machine_pot pot m \<le> weigh w rs + machine_pot pot m'"

sublocale temporal_exact \<subseteq> exact_runs: machine_exact
  "api_step tf try_event try_cmd adapt lang" "machine_inv ok_state" w "machine_pot pot"
proof (standard, goal_cases)
  case (1 m c rs m')
  then show ?case
    by (cases c) (auto simp: api_step_def dest: handle_event_exact handle_command_exact lang_exact)
qed

section \<open>Machines whose lang calls are events\<close>

text \<open>
  The calls of lang on most machines feed one event to the machine and translate its commands like
  any other event does, or do nothing in a terminal state.
\<close>

locale event_lang = temporal_machine tf ok_state ok_event try_event try_cmd adapt
  for tf :: "('st, 'sh, 'ev, 'c, WFMachinesError) transitions"
    and ok_state ok_event try_event try_cmd adapt +
  fixes lang :: "('st, 'sh) machine \<Rightarrow> 'x \<Rightarrow> responses \<times> ('st, 'sh) machine"
  assumes lang_not_panic: "machine_inv ok_state m \<Longrightarrow> \<not> is_panic (fst (lang m x))"
    and lang_event: "\<lbrakk> machine_inv ok_state m; lang m x = (Ok rs, m') \<rbrakk> \<Longrightarrow> rs = [] \<and> m' = m \<or>
      (\<exists>ev cmds info. ok_event (shared_state m) ev \<and> on_event tf m ev = (Ok cmds, m') \<and>
         process_machine_commands adapt m' cmds info = Ok rs)"

sublocale event_lang \<subseteq> temporal_api
  by standard (auto simp: lang_not_panic dest: lang_event intro: on_event_keeps)

locale event_budget =
  event_lang tf ok_state ok_event try_event try_cmd adapt lang +
  temporal_accounts tf ok_state ok_event try_event try_cmd adapt w cw pot
  for tf :: "('st, 'sh, 'ev, 'c, WFMachinesError) transitions"
    and ok_state ok_event try_event try_cmd adapt
    and lang :: "('st, 'sh) machine \<Rightarrow> 'x \<Rightarrow> responses \<times> ('st, 'sh) machine"
    and w cw pot

sublocale event_budget \<subseteq> temporal_budget
  by (standard, frule (1) lang_event) (auto intro: on_event_pays)

locale event_exact =
  event_budget tf ok_state ok_event try_event try_cmd adapt lang w cw pot +
  temporal_accounts_exact tf ok_state ok_event try_event try_cmd adapt w cw pot
  for tf :: "('st, 'sh, 'ev, 'c, WFMachinesError) transitions"
    and ok_state ok_event try_event try_cmd adapt
    and lang :: "('st, 'sh) machine \<Rightarrow> 'x \<Rightarrow> responses \<times> ('st, 'sh) machine"
    and w cw pot

sublocale event_exact \<subseteq> temporal_exact
  by (standard, frule (1) lang_event) (auto intro: on_event_exact)

section \<open>What a run of an accounted machine amounts to\<close>

context temporal_exact
begin

lemma run_accounts:
  assumes good: "machine_inv ok_state m"
    and run: "run_calls (api_step tf try_event try_cmd adapt lang) m cs = (rs, r, m')"
  shows "\<not> is_panic r \<and> weigh w rs \<le> machine_pot pot m \<and>
    (case (r, mstate m') of
       (Ok _, Some st) \<Rightarrow> ok_state st (shared_state m') \<and>
         weigh w rs = machine_pot pot m - pot st (shared_state m')
     | (Ok _, None) \<Rightarrow> False
     | _ \<Rightarrow> True)"
proof (cases r)
  case (Ok u)
  then have run_ok: "run_calls (api_step tf try_event try_cmd adapt lang) m cs = (rs, Ok (), m')"
    using run by simp
  obtain st where "mstate m' = Some st" "ok_state st (shared_state m')"
    using calls.run_keeps[OF good run_ok] by (rule machine_invE)
  then show ?thesis
    using exact_runs.run_exact[OF good run_ok] Ok by (auto simp: machine_pot_def)
qed (use runs.run_at_most[OF good run] calls.run_no_panic[OF good run] in auto)

end

section \<open>Traces\<close>

text \<open>
  Where the order of the responses matters, an observation of them is predicted by the state: the
  observations of a run complete those of the state it starts from to those of the state it ends in.
\<close>

locale machine_trace = machine_calls step good
  for step :: "'m \<Rightarrow> 'call \<Rightarrow> responses \<times> 'm" and good +
  fixes obs :: "MachineResponse list \<Rightarrow> 'o list"
    and seen :: "'m \<Rightarrow> 'o list"
  assumes obs_append: "obs (rs @ ss) = obs rs @ obs ss"
    and obs_Nil: "obs [] = []"
    and step_trace: "\<lbrakk> good m; step m c = (Ok rs, m') \<rbrakk> \<Longrightarrow> seen m @ obs rs = seen m'"
begin

lemma run_trace_prefix:
  "\<lbrakk> good m; run_calls step m cs = (rs, r, m') \<rbrakk> \<Longrightarrow>
   \<exists>m1. good m1 \<and> seen m @ obs rs = seen m1 \<and> (r = Ok () \<longrightarrow> m1 = m')"
proof (induction cs arbitrary: m rs)
  case Nil
  then show ?case by (auto simp: obs_Nil)
next
  case (Cons c cs)
  obtain res m1 where step: "step m c = (res, m1)" by (cases "step m c")
  show ?case
  proof (cases res)
    case (Ok rs1)
    obtain rest r2 m2 where rest: "run_calls step m1 cs = (rest, r2, m2)" by (cases "run_calls step m1 cs")
    have m1: "good m1" "seen m @ obs rs1 = seen m1"
      using Cons.prems(1) step Ok step_keeps step_trace by blast+
    have eqs: "rs = rs1 @ rest" "r2 = r" "m2 = m'" using Cons.prems(2) step Ok rest by auto
    obtain m3 where "good m3" "seen m1 @ obs rest = seen m3" "r = Ok () \<longrightarrow> m3 = m'"
      using Cons.IH[OF m1(1)] rest eqs by auto
    then show ?thesis
      using m1(2)[symmetric] eqs by (intro exI[of _ m3]) (simp add: obs_append)
  qed (use Cons.prems step in \<open>auto simp: obs_Nil\<close>)
qed

end

definition past_of :: "('st \<Rightarrow> 'o list) \<Rightarrow> ('st, 'sh) machine \<Rightarrow> 'o list" where
  "past_of past m = (case mstate m of Some st \<Rightarrow> past st | None \<Rightarrow> [])"

lemma past_of_from_parts [simp]: "past_of past (from_parts st sh) = past st"
  by (simp add: past_of_def)

locale event_trace = event_lang tf ok_state ok_event try_event try_cmd adapt lang
  for tf :: "('st, 'sh, 'ev, 'c, WFMachinesError) transitions"
    and ok_state ok_event try_event try_cmd adapt
    and lang :: "('st, 'sh) machine \<Rightarrow> 'x \<Rightarrow> responses \<times> ('st, 'sh) machine" +
  fixes see :: "MachineResponse \<Rightarrow> 'o list"
    and csee :: "'c \<Rightarrow> 'o list"
    and past :: "'st \<Rightarrow> 'o list"
  assumes arm_trace: "\<lbrakk> ok_state st sh; ok_event sh ev; tf st sh ev = Arm sh' (TR_Ok cmds st') \<rbrakk> \<Longrightarrow>
      past st @ concat (map csee cmds) = past st'"
    and adapt_trace: "adapt m c info = Ok rs \<Longrightarrow> concat (map see rs) = csee c"
begin

lemma process_trace:
  "process_machine_commands adapt m cmds info = Ok rs \<Longrightarrow> concat (map see rs) = concat (map csee cmds)"
  by (induction cmds arbitrary: rs) (auto simp: outcome_simps adapt_trace)

lemma on_event_trace:
  assumes "machine_inv ok_state m" "ok_event (shared_state m) ev" "on_event tf m ev = (Ok cmds, m')"
    and "process_machine_commands adapt m' cmds info = Ok rs"
  shows "past_of past m @ concat (map see rs) = past_of past m'"
proof -
  obtain st sh st' where "ok_state st (shared_state m)" "mstate m = Some st"
    "tf st (shared_state m) ev = Arm sh (TR_Ok cmds st')" "m' = from_parts st' sh"
    using assms(1,3) by (auto elim!: on_event_OkE machine_invE)
  with assms(2) arm_trace process_trace[OF assms(4)] show ?thesis by (simp add: past_of_def)
qed

end

sublocale event_trace \<subseteq> traces: machine_trace
  "api_step tf try_event try_cmd adapt lang" "machine_inv ok_state" "\<lambda>rs. concat (map see rs)" "past_of past"
proof (standard, goal_cases)
  case (3 m c rs m')
  show ?case
  proof (cases c)
    case (HistoryCall d)
    with 3 show ?thesis by (auto simp: api_step_def elim!: handle_event_OkE intro: on_event_trace)
  next
    case (CommandCall ct)
    with 3 show ?thesis by (auto simp: api_step_def elim!: handle_command_OkE intro: on_event_trace)
  next
    case (LangCall x)
    with 3 lang_event[OF 3(1), of x rs m'] show ?thesis by (auto simp: api_step_def intro: on_event_trace)
  qed
qed simp_all

section \<open>Accounting with income\<close>

text \<open>
  A call may bring budget with it: the responses of a run are paid by the budget of the machine and
  the income of the calls.
\<close>

locale machine_income = machine_calls step good
  for step :: "'m \<Rightarrow> 'call \<Rightarrow> responses \<times> 'm" and good +
  fixes w :: "MachineResponse \<Rightarrow> nat"
    and budget :: "'m \<Rightarrow> nat"
    and income :: "'call \<Rightarrow> nat"
  assumes step_income: "\<lbrakk> good m; step m c = (Ok rs, m') \<rbrakk> \<Longrightarrow> weigh w rs + budget m' \<le> budget m + income c"
begin

lemma run_income:
  "\<lbrakk> good m; run_calls step m cs = (rs, r, m') \<rbrakk> \<Longrightarrow> weigh w rs \<le> budget m + weigh income cs"
proof (induction cs arbitrary: m rs)
  case (Cons c cs)
  obtain res m1 where step: "step m c = (res, m1)" by (cases "step m c")
  show ?case
  proof (cases res)
    case (Ok rs1)
    obtain rest r2 m2 where run: "run_calls step m1 cs = (rest, r2, m2)"
      by (cases "run_calls step m1 cs")
    have pays: "weigh w rs1 + budget m1 \<le> budget m + income c"
      using Cons.prems(1) step Ok step_income by blast
    have "weigh w rest \<le> budget m1 + weigh income cs"
      using Cons.IH[of m1 rest] Cons.prems step Ok run step_keeps[of m c rs1 m1] by auto
    then show ?thesis
      using Cons.prems(2) step Ok run pays by auto
  qed (use Cons.prems step in auto)
qed auto

end

locale event_income = event_lang tf ok_state ok_event try_event try_cmd adapt lang
  for tf :: "('st, 'sh, 'ev, 'c, WFMachinesError) transitions"
    and ok_state ok_event try_event try_cmd adapt
    and lang :: "('st, 'sh) machine \<Rightarrow> 'x \<Rightarrow> responses \<times> ('st, 'sh) machine" +
  fixes w :: "MachineResponse \<Rightarrow> nat"
    and cw :: "'c \<Rightarrow> nat"
    and pot :: "'st \<Rightarrow> 'sh \<Rightarrow> nat"
    and gain :: "'ev \<Rightarrow> nat"
    and lang_gain :: "'x \<Rightarrow> nat"
  assumes arm_income: "\<lbrakk> ok_state st sh; ok_event sh ev; tf st sh ev = Arm sh' (TR_Ok cmds st') \<rbrakk> \<Longrightarrow>
      weigh cw cmds + pot st' sh' \<le> pot st sh + gain ev"
    and adapt_weight: "adapt m c info = Ok rs \<Longrightarrow> weigh w rs \<le> cw c"
    and try_event_gain: "try_event d = Ok ev \<Longrightarrow> gain ev = 0"
    and try_cmd_gain: "try_cmd ct = Some ev \<Longrightarrow> gain ev = 0"
    and lang_income: "\<lbrakk> machine_inv ok_state m; lang m x = (Ok rs, m') \<rbrakk> \<Longrightarrow> rs = [] \<and> m' = m \<or>
      (\<exists>ev cmds info. ok_event (shared_state m) ev \<and> on_event tf m ev = (Ok cmds, m') \<and>
         process_machine_commands adapt m' cmds info = Ok rs \<and> gain ev \<le> lang_gain x)"
begin

lemma on_event_income:
  assumes "machine_inv ok_state m" "ok_event (shared_state m) ev" "on_event tf m ev = (Ok cmds, m')"
    and "process_machine_commands adapt m' cmds info = Ok rs"
  shows "weigh w rs + machine_pot pot m' \<le> machine_pot pot m + gain ev"
proof -
  obtain st sh st' where *: "ok_state st (shared_state m)" "mstate m = Some st"
    "tf st (shared_state m) ev = Arm sh (TR_Ok cmds st')" "m' = from_parts st' sh"
    using assms(1,3) by (auto elim!: on_event_OkE machine_invE)
  have "weigh w rs \<le> weigh cw cmds"
    using assms(4) by (auto intro!: process_machine_commands_weight adapt_weight)
  with arm_income[OF *(1) assms(2) *(3)] * show ?thesis by (simp add: machine_pot_def)
qed

end

sublocale event_income \<subseteq> incomes: machine_income "api_step tf try_event try_cmd adapt lang"
  "machine_inv ok_state" w "machine_pot pot" "\<lambda>c. case c of LangCall x \<Rightarrow> lang_gain x | _ \<Rightarrow> 0"
proof (standard, goal_cases)
  case (1 m c rs m')
  show ?case
  proof (cases c)
    case (HistoryCall d)
    with 1 obtain ev cmds where "try_event d = Ok ev" "on_event tf m ev = (Ok cmds, m')"
      "process_machine_commands adapt m' cmds (Some (event_info_of d)) = Ok rs"
      by (auto simp: api_step_def handle_event_def outcome_simps
          split: outcome.splits prod.splits MachineError.splits)
    then show ?thesis
      using on_event_income[OF 1(1)] try_event_ok try_event_gain HistoryCall by fastforce
  next
    case (CommandCall ct)
    with 1 obtain ev cmds where "try_cmd ct = Some ev" "on_event tf m ev = (Ok cmds, m')"
      "process_machine_commands adapt m' cmds None = Ok rs"
      by (auto simp: api_step_def handle_command_def outcome_simps
          split: outcome.splits prod.splits MachineError.splits option.splits)
    then show ?thesis
      using on_event_income[OF 1(1)] try_cmd_ok try_cmd_gain CommandCall by fastforce
  next
    case (LangCall x)
    with 1 lang_income[OF 1(1), of x rs m'] show ?thesis
      by (fastforce simp: api_step_def dest: on_event_income[OF 1(1)])
  qed
qed

end
