(* ===== verification/TimerMachine.thy ===== *)
theory TimerMachine
  imports TemporalMachine
begin

text \<open>
  \<^verbatim>\<open>machines/timer_state_machine.rs\<close>: the life of one timer, from the start command to its firing or
  cancellation.
\<close>

section \<open>Machine\<close>

datatype TimerMachineState =
    Created | StartCommandCreated | StartCommandRecorded | CancelTimerCommandCreated
  | CancelTimerCommandSent | Canceled | Fired

datatype TimerMachineEvents =
    Schedule | CommandStartTimer | TimerStarted HistoryEventId | Cancel
  | TimerFired TimerFiredEventAttributes | CommandCancelTimer | TimerCanceled

datatype TimerMachineCommand = Complete | IssueCancelCmd CommandAttributes

record TimerSharedState =
  tm_attrs :: StartTimer
  tm_cancelled_before_sent :: bool

type_synonym timer_transition = "(TimerMachineCommand, TimerMachineState, WFMachinesError) TransitionResult"
type_synonym TimerMachine = "(TimerMachineState, TimerSharedState) machine"

definition timer_on_timer_fired :: "TimerSharedState \<Rightarrow> TimerFiredEventAttributes \<Rightarrow> timer_transition" where
  "timer_on_timer_fired dat attrs =
     (if show_u32 (st_seq (tm_attrs dat)) = tfa_timer_id attrs then tr_ok [Complete] Fired
      else TR_Err (Nondeterminism ''Timer fired event did not have expected timer id {}, it was {}!''))"

definition timer_on_cancel_recorded :: "TimerSharedState \<Rightarrow> timer_transition" where
  "timer_on_cancel_recorded dat =
     tr_ok [IssueCancelCmd (attributes_from_CancelTimer \<lparr> ct_seq = st_seq (tm_attrs dat) \<rparr>)]
       CancelTimerCommandCreated"

definition timer_transitions ::
  "(TimerMachineState, TimerSharedState, TimerMachineEvents, TimerMachineCommand, WFMachinesError) transitions" where
  "timer_transitions st dat ev = (case st of
      Created \<Rightarrow> (case ev of
          Schedule \<Rightarrow> Arm dat (tr_default StartCommandCreated)
        | _ \<Rightarrow> Unmatched)
    | StartCommandCreated \<Rightarrow> (case ev of
          CommandStartTimer \<Rightarrow> Arm dat (tr_from id StartCommandCreated)
        | TimerStarted _ \<Rightarrow> Arm dat (tr_default StartCommandRecorded)
        | Cancel \<Rightarrow> Arm (dat\<lparr> tm_cancelled_before_sent := True \<rparr>) (tr_default Canceled)
        | _ \<Rightarrow> Unmatched)
    | StartCommandRecorded \<Rightarrow> (case ev of
          TimerFired attrs \<Rightarrow> Arm dat (timer_on_timer_fired dat attrs)
        | Cancel \<Rightarrow> Arm dat (timer_on_cancel_recorded dat)
        | _ \<Rightarrow> Unmatched)
    | CancelTimerCommandCreated \<Rightarrow> (case ev of
          Cancel \<Rightarrow> Arm dat (tr_from id CancelTimerCommandCreated)
        | CommandCancelTimer \<Rightarrow> Arm dat (tr_ok [] CancelTimerCommandSent)
        | _ \<Rightarrow> Unmatched)
    | CancelTimerCommandSent \<Rightarrow> (case ev of
          TimerCanceled \<Rightarrow> Arm dat (tr_from (\<lambda>_. Canceled) CancelTimerCommandSent)
        | _ \<Rightarrow> Unmatched)
    | Canceled \<Rightarrow> (case ev of
          Cancel \<Rightarrow> Arm dat (tr_from id Canceled)
        | _ \<Rightarrow> Unmatched)
    | Fired \<Rightarrow> (case ev of
          Cancel \<Rightarrow> Arm dat (tr_from id Fired)
        | _ \<Rightarrow> Unmatched))"

section \<open>Construction and cancellation\<close>

definition timer_new :: "StartTimer \<Rightarrow> TimerMachine" where
  "timer_new attribs = from_parts Created \<lparr> tm_attrs = attribs, tm_cancelled_before_sent = False \<rparr>"

definition timer_new_scheduled :: "StartTimer \<Rightarrow> ('e, TimerMachine \<times> CommandAttributes) outcome" where
  "timer_new_scheduled attribs = (case on_event timer_transitions (timer_new attribs) Schedule of
      (Ok _, s) \<Rightarrow> Ok (s, attributes_from_StartTimer (tm_attrs (shared_state s)))
    | (_, s) \<Rightarrow> Panic ''Scheduling timers doesn't fail'')"

definition timer_cancel ::
  "TimerMachine \<Rightarrow> (WFMachinesError MachineError, MachineResponse list) outcome \<times> TimerMachine" where
  "timer_cancel m = (case on_event timer_transitions m Cancel of
      (Ok cmds, m') \<Rightarrow> (case rev cmds of
          [] \<Rightarrow> (Ok [], m')
        | IssueCancelCmd cmd # _ \<Rightarrow> (bind_outcome (command_from cmd) (\<lambda>c. Ok [IssueNewCommand c]), m')
        | Complete # _ \<Rightarrow> (Panic ''Invalid cancel event response {x:?}'', m'))
    | (Err e, m') \<Rightarrow> (Err e, m')
    | (Panic s, m') \<Rightarrow> (Panic s, m'))"

definition timer_was_cancelled_before_sent_to_server :: "TimerMachine \<Rightarrow> bool" where
  "timer_was_cancelled_before_sent_to_server m = tm_cancelled_before_sent (shared_state m)"

section \<open>Conversions and responses\<close>

definition timer_try_from_event :: "HistEventData \<Rightarrow> (WFMachinesError, TimerMachineEvents) outcome" where
  "timer_try_from_event d = (let e = hed_event d in case event_type e of
      ET_TimerStarted \<Rightarrow> Ok (TimerStarted (event_id e))
    | ET_TimerCanceled \<Rightarrow> Ok TimerCanceled
    | ET_TimerFired \<Rightarrow> (case as_timer_fired (attributes e) of
          Some attrs \<Rightarrow> Ok (TimerFired attrs)
        | None \<Rightarrow> Err (Fatal ''Timer fired attribs were unset: {e}''))
    | _ \<Rightarrow> Err (Nondeterminism ''Timer machine does not handle this event: {e}''))"

definition timer_try_from_command :: "CommandType \<Rightarrow> TimerMachineEvents option" where
  "timer_try_from_command c = (case c of
      CT_StartTimer \<Rightarrow> Some CommandStartTimer
    | CT_CancelTimer \<Rightarrow> Some CommandCancelTimer
    | _ \<Rightarrow> None)"

definition timer_adapt_response :: "(TimerMachine, TimerMachineCommand) adapter" where
  "timer_adapt_response m my_command info = (case my_command of
      Complete \<Rightarrow> Ok [PushWFJob (FireTimer (st_seq (tm_attrs (shared_state m))))]
    | IssueCancelCmd c \<Rightarrow> bind_outcome (command_from c) (\<lambda>cmd. Ok [IssueNewCommand cmd]))"

text \<open>The calls a timer receives; lang's cancellation goes through \<^verbatim>\<open>cancel_machine!\<close>, which converts the error.\<close>

definition timer_lang :: "TimerMachine \<Rightarrow> unit \<Rightarrow> responses \<times> TimerMachine" where
  "timer_lang m u = (let (r, m') = timer_cancel m in (map_err wf_error_from r, m'))"

definition timer_step :: "TimerMachine \<Rightarrow> unit api_call \<Rightarrow> responses \<times> TimerMachine" where
  "timer_step = api_step timer_transitions timer_try_from_event timer_try_from_command
     timer_adapt_response timer_lang"

section \<open>Lemmas\<close>

lemma timer_Arm_cases:
  assumes "timer_transitions st dat ev = Arm dat' (TR_Ok cmds st')"
  shows "tm_attrs dat' = tm_attrs dat \<and>
    ((st = StartCommandRecorded \<and> st' = Fired \<and> cmds = [Complete] \<and>
        (\<exists>a. ev = TimerFired a \<and> tfa_timer_id a = show_u32 (st_seq (tm_attrs dat)))) \<or>
     (st = StartCommandRecorded \<and> ev = Cancel \<and> st' = CancelTimerCommandCreated \<and>
        cmds = [IssueCancelCmd (CancelTimerCommandAttributes (show_u32 (st_seq (tm_attrs dat))))]) \<or>
     (cmds = [] \<and> (st' = st \<or> (st, st') \<in> {(Created, StartCommandCreated),
        (StartCommandCreated, StartCommandRecorded), (StartCommandCreated, Canceled),
        (CancelTimerCommandCreated, CancelTimerCommandSent), (CancelTimerCommandSent, Canceled)})))"
  using assms
  by (cases st; cases ev)
    (auto simp: timer_transitions_def timer_on_timer_fired_def timer_on_cancel_recorded_def
      attributes_from_CancelTimer_def split: if_splits)

lemma timer_no_panic_arm: "timer_transitions st dat ev \<noteq> Arm_panic s"
  by (cases st; cases ev) (simp_all add: timer_transitions_def)

lemma timer_no_invalid_arm: "timer_transitions st dat ev \<noteq> Arm dat' TR_InvalidTransition"
  by (cases st; cases ev)
    (simp_all add: timer_transitions_def timer_on_timer_fired_def timer_on_cancel_recorded_def)

lemma timer_cancel_event:
  assumes "timer_cancel m = (Ok rs, m')"
  shows "\<exists>cmds. on_event timer_transitions m Cancel = (Ok cmds, m') \<and>
    process_machine_commands timer_adapt_response m' cmds None = Ok rs"
proof -
  obtain cmds where r: "on_event timer_transitions m Cancel = (Ok cmds, m')"
    using assms
    by (auto simp: timer_cancel_def split: prod.splits outcome.splits list.splits TimerMachineCommand.splits)
  obtain st dat' st' where "timer_transitions st (shared_state m) Cancel = Arm dat' (TR_Ok cmds st')"
    using r by (rule on_event_OkE)
  then have "cmds = [] \<or> (\<exists>a. cmds = [IssueCancelCmd a])"
    using timer_Arm_cases by blast
  then have "process_machine_commands timer_adapt_response m' cmds None = Ok rs"
    using assms r
    by (auto simp: timer_cancel_def timer_adapt_response_def outcome_simps command_from_Ok_iff)
  with r show ?thesis by blast
qed

lemma timer_cancel_no_panic: "mstate m = Some st \<Longrightarrow> \<not> is_panic (fst (timer_cancel m))"
  by (cases st)
    (simp_all add: timer_cancel_def on_event_def timer_transitions_def timer_on_cancel_recorded_def
      attributes_from_CancelTimer_def command_from_def)

section \<open>Interfaces\<close>

text \<open>How often a response tells lang that the timer fired, and how often it asks the server to cancel it.\<close>

definition fires :: "MachineResponse \<Rightarrow> nat" where
  "fires r = (case r of PushWFJob (FireTimer _) \<Rightarrow> 1 | _ \<Rightarrow> 0)"

definition cancel_commands :: "MachineResponse \<Rightarrow> nat" where
  "cancel_commands r = (case r of
      IssueNewCommand c \<Rightarrow> if cmd_command_type c = CT_CancelTimer then 1 else 0 | _ \<Rightarrow> 0)"

text \<open>The two responses a timer with the given attributes may produce.\<close>

definition timer_responses :: "StartTimer \<Rightarrow> MachineResponse list" where
  "timer_responses attribs =
     [PushWFJob (FireTimer (st_seq attribs)),
      IssueNewCommand \<lparr> cmd_command_type = CT_CancelTimer,
        cmd_attributes = Some (CancelTimerCommandAttributes (show_u32 (st_seq attribs))), cmd_user_metadata = None \<rparr>]"

definition timer_foreign :: "StartTimer \<Rightarrow> MachineResponse \<Rightarrow> nat" where
  "timer_foreign attribs r = (if r \<in> set (timer_responses attribs) then 0 else 1)"

definition timer_ok :: "StartTimer \<Rightarrow> TimerMachineState \<Rightarrow> TimerSharedState \<Rightarrow> bool" where
  "timer_ok attribs st dat = (tm_attrs dat = attribs)"

definition timer_once_pot :: "TimerMachineState \<Rightarrow> TimerSharedState \<Rightarrow> nat" where
  "timer_once_pot st dat = (if st \<in> {Created, StartCommandCreated, StartCommandRecorded} then 1 else 0)"

definition timer_fired_pot :: "TimerMachineState \<Rightarrow> TimerSharedState \<Rightarrow> nat" where
  "timer_fired_pot st dat = (if st = Fired then 0 else 1)"

definition timer_fire_cost :: "TimerSharedState \<Rightarrow> TimerMachineCommand \<Rightarrow> nat" where
  "timer_fire_cost dat c = (case c of Complete \<Rightarrow> 1 | IssueCancelCmd _ \<Rightarrow> 0)"

lemmas timer_response_defs = timer_adapt_response_def command_from_def fires_def cancel_commands_def
  timer_foreign_def timer_responses_def timer_fire_cost_def timer_once_pot_def timer_fired_pot_def

interpretation timer: event_lang timer_transitions "timer_ok attribs" "\<lambda>_ _. True" timer_try_from_event
  timer_try_from_command timer_adapt_response timer_lang for attribs
proof (standard, goal_cases)
  case (1 st sh ev sh' cmds st') then show ?case using timer_Arm_cases[OF 1(3)] by (simp add: timer_ok_def)
next
  case (2 st sh ev s) then show ?case by (simp add: timer_no_panic_arm)
next
  case (3 st sh ev sh') then show ?case by (simp add: timer_no_invalid_arm)
next
  case (4 d)
  then show ?case
    by (auto simp: timer_try_from_event_def Let_def split: EventType.splits option.splits)
next
  case (7 st sh ev sh' cmds st' c info)
  then show ?case
    using timer_Arm_cases[OF 7(3)] by (auto simp: timer_adapt_response_def command_from_def)
next
  case (8 m x)
  then show ?case
    by (auto simp: timer_lang_def split: prod.splits elim!: machine_invE dest: timer_cancel_no_panic)
next
  case (9 m x rs m')
  then have "timer_cancel m = (Ok rs, m')" by (simp add: timer_lang_def split: prod.splits)
  then show ?case using timer_cancel_event by blast
qed simp_all

interpretation timer_once: event_budget timer_transitions "timer_ok attribs" "\<lambda>_ _. True" timer_try_from_event
  timer_try_from_command timer_adapt_response timer_lang "\<lambda>r. fires r + cancel_commands r" "\<lambda>_ _. 1"
  timer_once_pot for attribs
  by standard (auto simp: timer_response_defs dest!: timer_Arm_cases)

interpretation timer_fired: event_exact timer_transitions "timer_ok attribs" "\<lambda>_ _. True" timer_try_from_event
  timer_try_from_command timer_adapt_response timer_lang fires timer_fire_cost timer_fired_pot for attribs
  by standard (auto simp: timer_response_defs dest!: timer_Arm_cases)

interpretation timer_only: event_budget timer_transitions "timer_ok attribs" "\<lambda>_ _. True" timer_try_from_event
  timer_try_from_command timer_adapt_response timer_lang "timer_foreign attribs" "\<lambda>_ _. 0" "\<lambda>_ _. 0"
  for attribs
  by standard (auto simp: timer_response_defs timer_ok_def dest!: timer_Arm_cases)

lemma timer_new_scheduled_Ok:
  "timer_new_scheduled attribs =
     Ok (from_parts StartCommandCreated \<lparr> tm_attrs = attribs, tm_cancelled_before_sent = False \<rparr>,
         StartTimerCommandAttributes (show_u32 (st_seq attribs)) (st_start_to_fire_timeout attribs))"
  by (simp add: timer_new_scheduled_def timer_new_def timer_transitions_def attributes_from_StartTimer_def)

lemma weigh_foreign_0: "weigh (timer_foreign attribs) rs = 0 \<Longrightarrow> set rs \<subseteq> set (timer_responses attribs)"
  by (induction rs) (auto simp: timer_foreign_def split: if_splits)

text \<open>
  C17: A timer resolves at most once and only for itself.  Scheduling a timer never fails and issues
  the start command with its sequence number as id.  Then, over any sequence of history events,
  commands and cancellations, the machine never panics; it produces only the firing of its own
  sequence number and the cancel command of its own timer id, at most one of the two in total; and
  after a run without error lang has been told that the timer fired exactly when the machine is in
  the fired state.
\<close>

theorem timer_resolves_at_most_once:
  "case timer_new_scheduled attribs of
      Ok (m, cmd) \<Rightarrow>
        cmd = StartTimerCommandAttributes (show_u32 (st_seq attribs)) (st_start_to_fire_timeout attribs) \<and>
        (case run_calls timer_step m calls of
           (rs, r, m') \<Rightarrow> \<not> is_panic r \<and> set rs \<subseteq> set (timer_responses attribs) \<and>
             weigh fires rs + weigh cancel_commands rs \<le> 1 \<and>
             (case r of Ok _ \<Rightarrow> weigh fires rs = (if mstate m' = Some Fired then 1 else 0) | _ \<Rightarrow> True))
    | _ \<Rightarrow> False"
proof -
  define m where
    "m = from_parts StartCommandCreated \<lparr> tm_attrs = attribs, tm_cancelled_before_sent = False \<rparr>"
  have good: "machine_inv (timer_ok attribs) m" by (simp add: m_def timer_ok_def)
  obtain rs r m' where run: "run_calls timer_step m calls = (rs, r, m')"
    by (cases "run_calls timer_step m calls")
  note run' = run[unfolded timer_step_def]
  have "\<not> is_panic r" using timer.calls.run_no_panic[OF good run'] .
  moreover have "set rs \<subseteq> set (timer_responses attribs)"
    using timer_only.runs.run_at_most[OF good run'] by (intro weigh_foreign_0) (simp add: m_def)
  moreover have "weigh (\<lambda>r. fires r + cancel_commands r) rs \<le> 1"
    using timer_once.runs.run_at_most[OF good run'] by (simp add: m_def timer_once_pot_def)
  then have "weigh fires rs + weigh cancel_commands rs \<le> 1"
    by (simp add: weigh_def sum_list_addf)
  moreover have "weigh fires rs = (if mstate m' = Some Fired then 1 else 0)" if ok: "r = Ok ()"
  proof -
    have run_ok: "run_calls (api_step timer_transitions timer_try_from_event timer_try_from_command
        timer_adapt_response timer_lang) m calls = (rs, Ok (), m')" using run' ok by simp
    obtain st where "mstate m' = Some st" using timer.calls.run_keeps[OF good run_ok] by (rule machine_invE)
    then show ?thesis
      using timer_fired.exact_runs.run_exact[OF good run_ok]
      by (auto simp: m_def machine_pot_def timer_fired_pot_def split: if_splits)
  qed
  ultimately show ?thesis
    using run by (simp add: timer_new_scheduled_Ok m_def[symmetric] split: outcome.splits)
qed

end
