(* ===== verification/RustSets.thy ===== *)
theory RustSets
  imports Prelude
begin

text \<open>
  The two set types of the Rust standard library the program uses, as lists: a \<^verbatim>\<open>HashSet\<close> is a list
  without duplicates in insertion order (the iteration order of the real type is unspecified, so the
  theorems only speak about membership), a \<^verbatim>\<open>BTreeSet\<close> is a strictly sorted list.  One locale states
  what the program relies on, and both types are interpretations of it.
\<close>

fun extend_with :: "('a \<Rightarrow> 's \<Rightarrow> 's) \<Rightarrow> 's \<Rightarrow> 'a list \<Rightarrow> 's" where
  "extend_with ins s [] = s"
| "extend_with ins s (x # xs) = extend_with ins (ins x s) xs"

locale rust_set =
  fixes contains :: "'s \<Rightarrow> 'a \<Rightarrow> bool"
    and ins :: "'a \<Rightarrow> 's \<Rightarrow> 's"
    and iter :: "'s \<Rightarrow> 'a list"
    and valid :: "'s \<Rightarrow> bool"
  assumes contains_ins: "contains (ins x s) y \<longleftrightarrow> y = x \<or> contains s y"
    and ins_valid: "valid s \<Longrightarrow> valid (ins x s)"
    and iter_contains: "set (iter s) = {x. contains s x}"
    and iter_distinct: "valid s \<Longrightarrow> distinct (iter s)"
begin

lemma contains_extend: "contains (extend_with ins s xs) y \<longleftrightarrow> y \<in> set xs \<or> contains s y"
  by (induction xs arbitrary: s) (auto simp: contains_ins)

lemma extend_valid: "valid s \<Longrightarrow> valid (extend_with ins s xs)"
  by (induction xs arbitrary: s) (auto simp: ins_valid)

lemma extend_known: "(\<And>x. x \<in> set xs \<Longrightarrow> contains s x) \<Longrightarrow>
    {y. contains (extend_with ins s xs) y} = {y. contains s y}"
  by (auto simp: contains_extend)

end

definition list_contains :: "'a list \<Rightarrow> 'a \<Rightarrow> bool" where
  "list_contains xs x = (x \<in> set xs)"

definition btree_insert :: "'a::linorder \<Rightarrow> 'a list \<Rightarrow> 'a list" where
  "btree_insert x xs = insort_insert x xs"

definition btree_valid :: "'a::linorder list \<Rightarrow> bool" where
  "btree_valid xs = (sorted xs \<and> distinct xs)"

lemma list_contains_simps [simp]:
  "list_contains [] x = False"
  "list_contains (y # ys) x = (x = y \<or> list_contains ys x)"
  by (auto simp: list_contains_def)

interpretation hash_set: rust_set list_contains List.insert id distinct
  by standard (auto simp: list_contains_def)

interpretation btree_set: rust_set list_contains btree_insert id btree_valid
  by standard
    (auto simp: list_contains_def btree_insert_def btree_valid_def set_insort_insert
      sorted_insort_insert distinct_insort_insert)

end
