(* ===== verification/InternalFlags.thy ===== *)
theory InternalFlags
  imports RustSets HistoryEvents
begin

text \<open>
  \<^verbatim>\<open>core/src/internal_flags.rs\<close>: the flags that record in history which history-altering code paths of
  core and lang a workflow has used, so that a replay takes the same paths.
\<close>

datatype CoreInternalFlags =
    IdAndTypeDeterminismChecks | UpsertSearchAttributeOnPatch | MoveTerminalCommands | TooHigh

definition flag_as_u32 :: "CoreInternalFlags \<Rightarrow> u32" where
  "flag_as_u32 f = (case f of
      IdAndTypeDeterminismChecks \<Rightarrow> 1
    | UpsertSearchAttributeOnPatch \<Rightarrow> 2
    | MoveTerminalCommands \<Rightarrow> 3
    | TooHigh \<Rightarrow> 4294967295)"

definition flag_from_u32 :: "u32 \<Rightarrow> CoreInternalFlags" where
  "flag_from_u32 v =
     (if v = 1 then IdAndTypeDeterminismChecks
      else if v = 2 then UpsertSearchAttributeOnPatch
      else if v = 3 then MoveTerminalCommands
      else TooHigh)"

definition all_except_too_high :: "CoreInternalFlags list" where
  "all_except_too_high =
     filter (\<lambda>f. f \<noteq> TooHigh)
       [IdAndTypeDeterminismChecks, UpsertSearchAttributeOnPatch, MoveTerminalCommands, TooHigh]"

record EnabledFlags =
  fl_core :: "CoreInternalFlags list"
  fl_lang :: "u32 list"
  fl_core_since_last_complete :: "CoreInternalFlags list"
  fl_lang_since_last_complete :: "u32 list"
  fl_last_sdk_name :: string
  fl_last_sdk_version :: string
  fl_sdk_name :: string
  fl_sdk_version :: string

datatype InternalFlags = Enabled EnabledFlags | Disabled

definition internal_flags_new :: "bool \<Rightarrow> string \<Rightarrow> string \<Rightarrow> InternalFlags" where
  "internal_flags_new sdk_metadata sdk_name sdk_version =
     (if sdk_metadata then Enabled \<lparr>
        fl_core = [], fl_lang = [], fl_core_since_last_complete = [], fl_lang_since_last_complete = [],
        fl_last_sdk_name = '''', fl_last_sdk_version = '''',
        fl_sdk_name = sdk_name, fl_sdk_version = sdk_version \<rparr>
      else Disabled)"

definition add_from_complete ::
  "InternalFlags \<Rightarrow> WorkflowTaskCompletedEventAttributes \<Rightarrow> InternalFlags" where
  "add_from_complete fl e = (case fl of
      Disabled \<Rightarrow> Disabled
    | Enabled s \<Rightarrow> (case wtc_sdk_metadata e of
          None \<Rightarrow> Enabled s
        | Some md \<Rightarrow> Enabled (s\<lparr>
            fl_core := extend_with List.insert (fl_core s) (map flag_from_u32 (tcm_core_used_flags md)),
            fl_lang := extend_with btree_insert (fl_lang s) (tcm_lang_used_flags md),
            fl_last_sdk_name :=
              (if tcm_sdk_name md \<noteq> '''' then tcm_sdk_name md else fl_last_sdk_name s),
            fl_last_sdk_version :=
              (if tcm_sdk_version md \<noteq> '''' then tcm_sdk_version md else fl_last_sdk_version s) \<rparr>)))"

definition add_lang_used :: "InternalFlags \<Rightarrow> u32 list \<Rightarrow> InternalFlags" where
  "add_lang_used fl flags = (case fl of
      Enabled s \<Rightarrow> Enabled (s\<lparr> fl_lang_since_last_complete :=
        extend_with List.insert (fl_lang_since_last_complete s) flags \<rparr>)
    | Disabled \<Rightarrow> Disabled)"

definition try_use :: "InternalFlags \<Rightarrow> CoreInternalFlags \<Rightarrow> bool \<Rightarrow> bool \<times> InternalFlags" where
  "try_use fl flag should_record = (case fl of
      Enabled s \<Rightarrow>
        if should_record
        then (True, Enabled (s\<lparr> fl_core_since_last_complete :=
               List.insert flag (fl_core_since_last_complete s) \<rparr>))
        else (list_contains (fl_core s) flag, Enabled s)
    | Disabled \<Rightarrow> (False, Disabled))"

definition write_all_known :: "InternalFlags \<Rightarrow> InternalFlags" where
  "write_all_known fl = (case fl of
      Enabled s \<Rightarrow> Enabled (s\<lparr> fl_core_since_last_complete :=
        extend_with List.insert (fl_core_since_last_complete s) all_except_too_high \<rparr>)
    | Disabled \<Rightarrow> Disabled)"

definition gather_for_wft_complete ::
  "InternalFlags \<Rightarrow> WorkflowTaskCompletedMetadata \<times> InternalFlags" where
  "gather_for_wft_complete fl = (case fl of
      Enabled s \<Rightarrow>
        (let core_newly_used = map flag_as_u32
               (filter (\<lambda>f. \<not> list_contains (fl_core s) f) (fl_core_since_last_complete s));
             lang_newly_used =
               filter (\<lambda>f. \<not> list_contains (fl_lang s) f) (fl_lang_since_last_complete s)
         in (\<lparr> tcm_core_used_flags = core_newly_used, tcm_lang_used_flags = lang_newly_used,
               tcm_sdk_name = (if fl_last_sdk_name s \<noteq> fl_sdk_name s then fl_sdk_name s else ''''),
               tcm_sdk_version =
                 (if fl_last_sdk_version s \<noteq> fl_sdk_version s then fl_sdk_version s else '''') \<rparr>,
             Enabled (s\<lparr>
               fl_core := extend_with List.insert (fl_core s) (fl_core_since_last_complete s),
               fl_lang := extend_with btree_insert (fl_lang s) (fl_lang_since_last_complete s) \<rparr>)))
    | Disabled \<Rightarrow>
        (\<lparr> tcm_core_used_flags = [], tcm_lang_used_flags = [], tcm_sdk_name = '''', tcm_sdk_version = '''' \<rparr>,
         Disabled))"

definition all_lang :: "InternalFlags \<Rightarrow> u32 list" where
  "all_lang fl = (case fl of Enabled s \<Rightarrow> fl_lang s | Disabled \<Rightarrow> [])"

section \<open>Lemmas\<close>

lemma flag_round_trip [simp]: "flag_from_u32 (flag_as_u32 f) = f"
  by (cases f) (simp_all add: flag_as_u32_def flag_from_u32_def)

definition core_known :: "InternalFlags \<Rightarrow> CoreInternalFlags set" where
  "core_known fl = (case fl of Enabled s \<Rightarrow> set (fl_core s) | Disabled \<Rightarrow> {})"

definition lang_known :: "InternalFlags \<Rightarrow> u32 set" where
  "lang_known fl = (case fl of Enabled s \<Rightarrow> set (fl_lang s) | Disabled \<Rightarrow> {})"

definition core_pending :: "InternalFlags \<Rightarrow> CoreInternalFlags set" where
  "core_pending fl = (case fl of Enabled s \<Rightarrow> set (fl_core_since_last_complete s) | Disabled \<Rightarrow> {})"

definition lang_pending :: "InternalFlags \<Rightarrow> u32 set" where
  "lang_pending fl = (case fl of Enabled s \<Rightarrow> set (fl_lang_since_last_complete s) | Disabled \<Rightarrow> {})"

lemmas flag_views = core_known_def lang_known_def core_pending_def lang_pending_def

lemma set_extend_hash [simp]: "set (extend_with List.insert xs ys) = set xs \<union> set ys"
  using hash_set.contains_extend[of xs ys] by (auto simp: list_contains_def)

lemma set_extend_btree [simp]: "set (extend_with btree_insert xs ys) = set xs \<union> set (ys :: 'a::linorder list)"
  using btree_set.contains_extend[of xs ys] by (auto simp: list_contains_def)

text \<open>The duplicate-free and sorted representations, and that every operation keeps them.\<close>

definition flags_valid :: "InternalFlags \<Rightarrow> bool" where
  "flags_valid fl = (case fl of
      Enabled s \<Rightarrow> distinct (fl_core s) \<and> btree_valid (fl_lang s) \<and>
        distinct (fl_core_since_last_complete s) \<and> distinct (fl_lang_since_last_complete s)
    | Disabled \<Rightarrow> True)"

lemma flags_valid_ops:
  "flags_valid (internal_flags_new b n v)"
  "flags_valid fl \<Longrightarrow> flags_valid (add_from_complete fl e)"
  "flags_valid fl \<Longrightarrow> flags_valid (add_lang_used fl fs)"
  "flags_valid fl \<Longrightarrow> flags_valid (snd (try_use fl f r))"
  "flags_valid fl \<Longrightarrow> flags_valid (write_all_known fl)"
  "flags_valid fl \<Longrightarrow> flags_valid (snd (gather_for_wft_complete fl))"
  by (auto simp: flags_valid_def internal_flags_new_def add_from_complete_def add_lang_used_def
      try_use_def write_all_known_def gather_for_wft_complete_def Let_def btree_valid_def[of "[]"]
      intro: hash_set.extend_valid btree_set.extend_valid
      split: InternalFlags.splits option.splits)

text \<open>What each operation adds to the known and to the pending flags.\<close>

lemma try_use_views [simp]:
  "core_known (snd (try_use fl f r)) = core_known fl"
  "lang_known (snd (try_use fl f r)) = lang_known fl"
  "lang_pending (snd (try_use fl f r)) = lang_pending fl"
  "core_pending (snd (try_use (Enabled s) f True)) = insert f (core_pending (Enabled s))"
  "snd (try_use fl f False) = fl"
  by (auto simp: try_use_def flag_views split: InternalFlags.splits)

lemma try_use_result [simp]:
  "fst (try_use fl f False) \<longleftrightarrow> f \<in> core_known fl"
  "fst (try_use (Enabled s) f True)"
  "\<not> fst (try_use Disabled f r)"
  by (auto simp: try_use_def flag_views list_contains_def split: InternalFlags.splits)

lemma gather_views:
  "core_known (snd (gather_for_wft_complete fl)) = core_known fl \<union> core_pending fl"
  "lang_known (snd (gather_for_wft_complete fl)) = lang_known fl \<union> lang_pending fl"
  "set (map flag_from_u32 (tcm_core_used_flags (fst (gather_for_wft_complete fl)))) =
     core_pending fl - core_known fl"
  "set (tcm_lang_used_flags (fst (gather_for_wft_complete fl))) = lang_pending fl - lang_known fl"
  by (auto simp: gather_for_wft_complete_def flag_views Let_def list_contains_def image_iff
      split: InternalFlags.splits)

lemma add_from_complete_views:
  assumes "wtc_sdk_metadata e = Some md"
  shows "core_known (add_from_complete (Enabled s) e) =
           core_known (Enabled s) \<union> set (map flag_from_u32 (tcm_core_used_flags md))"
    and "lang_known (add_from_complete (Enabled s) e) = lang_known (Enabled s) \<union> set (tcm_lang_used_flags md)"
    and "\<exists>t. add_from_complete (Enabled s) e = Enabled t"
  using assms by (auto simp: add_from_complete_def flag_views)

section \<open>Recording and replaying flags\<close>

text \<open>
  The life of the flags of one workflow: in each workflow task core and lang use flags while not
  replaying, and the completion of the task gathers them into the metadata of its completed event;
  the worker may then see that event again when the next task arrives.  A replay starts from fresh
  flags and reads the metadata of the completed events.
\<close>

datatype flag_op = UseCore CoreInternalFlags | UseLang "u32 list" | WriteAllKnown

definition apply_flag_op :: "InternalFlags \<Rightarrow> flag_op \<Rightarrow> InternalFlags" where
  "apply_flag_op fl op = (case op of
      UseCore f \<Rightarrow> snd (try_use fl f True)
    | UseLang fs \<Rightarrow> add_lang_used fl fs
    | WriteAllKnown \<Rightarrow> write_all_known fl)"

definition completed_with :: "WorkflowTaskCompletedMetadata \<Rightarrow> WorkflowTaskCompletedEventAttributes" where
  "completed_with md =
     \<lparr> wtc_scheduled_event_id = 0, wtc_started_event_id = 0, wtc_sdk_metadata = Some md,
       wtc_worker_version = None, wtc_worker_deployment_name = '''', wtc_worker_deployment_version = '''',
       wtc_deployment_version = None \<rparr>"

fun live_tasks ::
  "InternalFlags \<Rightarrow> (flag_op list \<times> bool) list \<Rightarrow> WorkflowTaskCompletedMetadata list \<times> InternalFlags" where
  "live_tasks fl [] = ([], fl)"
| "live_tasks fl ((ops, sees_event) # tasks) =
     (let (md, fl1) = gather_for_wft_complete (foldl apply_flag_op fl ops);
          fl2 = (if sees_event then add_from_complete fl1 (completed_with md) else fl1);
          (mds, fl3) = live_tasks fl2 tasks
      in (md # mds, fl3))"

definition replay_completions :: "InternalFlags \<Rightarrow> WorkflowTaskCompletedMetadata list \<Rightarrow> InternalFlags" where
  "replay_completions fl mds = foldl (\<lambda>f md. add_from_complete f (completed_with md)) fl mds"

definition is_enabled :: "InternalFlags \<Rightarrow> bool" where
  "is_enabled fl = (fl \<noteq> Disabled)"

lemma apply_flag_op_views [simp]:
  "core_known (apply_flag_op fl op) = core_known fl"
  "lang_known (apply_flag_op fl op) = lang_known fl"
  "is_enabled (apply_flag_op fl op) = is_enabled fl"
  by (auto simp: apply_flag_op_def add_lang_used_def write_all_known_def try_use_def flag_views is_enabled_def
      split: flag_op.splits InternalFlags.splits)

lemma foldl_apply_flag_op_views [simp]:
  "core_known (foldl apply_flag_op fl ops) = core_known fl"
  "lang_known (foldl apply_flag_op fl ops) = lang_known fl"
  "is_enabled (foldl apply_flag_op fl ops) = is_enabled fl"
  by (induction ops arbitrary: fl) simp_all

lemma gather_is_enabled [simp]: "is_enabled (snd (gather_for_wft_complete fl)) = is_enabled fl"
  by (auto simp: gather_for_wft_complete_def is_enabled_def Let_def split: InternalFlags.splits)

lemma add_completed_views:
  assumes "is_enabled fl"
  shows "core_known (add_from_complete fl (completed_with md)) =
           core_known fl \<union> set (map flag_from_u32 (tcm_core_used_flags md))"
    and "lang_known (add_from_complete fl (completed_with md)) = lang_known fl \<union> set (tcm_lang_used_flags md)"
    and "is_enabled (add_from_complete fl (completed_with md))"
proof -
  obtain s where s: "fl = Enabled s" using assms by (cases fl) (auto simp: is_enabled_def)
  have md: "wtc_sdk_metadata (completed_with md) = Some md" by (simp add: completed_with_def)
  note views = add_from_complete_views[OF md, of s]
  show "core_known (add_from_complete fl (completed_with md)) =
           core_known fl \<union> set (map flag_from_u32 (tcm_core_used_flags md))"
    and "lang_known (add_from_complete fl (completed_with md)) = lang_known fl \<union> set (tcm_lang_used_flags md)"
    and "is_enabled (add_from_complete fl (completed_with md))"
    using views s by (auto simp: is_enabled_def)
qed

text \<open>One task: what the live worker knows afterwards is what a replayer knows that reads its metadata.\<close>

lemma live_task_step:
  fixes sees :: bool
  assumes "is_enabled live" "is_enabled rep" "core_known rep = core_known live" "lang_known rep = lang_known live"
    and "gather_for_wft_complete (foldl apply_flag_op live ops) = (md, live1)"
  defines "live2 \<equiv> (if sees then add_from_complete live1 (completed_with md) else live1)"
    and "rep1 \<equiv> add_from_complete rep (completed_with md)"
  shows "is_enabled live2 \<and> is_enabled rep1 \<and> core_known rep1 = core_known live2 \<and> lang_known rep1 = lang_known live2"
proof -
  let ?f = "foldl apply_flag_op live ops"
  have md: "md = fst (gather_for_wft_complete ?f)" and live1: "live1 = snd (gather_for_wft_complete ?f)"
    using assms(5) by simp_all
  have en1: "is_enabled live1" using assms(1) live1 by simp
  show ?thesis
    using gather_views[of ?f] add_completed_views[OF en1, of md] add_completed_views[OF assms(2), of md] assms(1-4) en1
    by (auto simp: live2_def rep1_def md live1)
qed

lemma live_replay_agree:
  assumes "is_enabled live" "is_enabled rep" "core_known rep = core_known live" "lang_known rep = lang_known live"
    and "live_tasks live tasks = (mds, live')"
  shows "core_known (replay_completions rep mds) = core_known live' \<and>
         lang_known (replay_completions rep mds) = lang_known live'"
  using assms
proof (induction tasks arbitrary: live rep mds)
  case Nil
  then show ?case by (simp add: replay_completions_def)
next
  case (Cons t tasks)
  obtain ops sees where t: "t = (ops, sees)" by (cases t)
  obtain md live1 where g: "gather_for_wft_complete (foldl apply_flag_op live ops) = (md, live1)"
    by (cases "gather_for_wft_complete (foldl apply_flag_op live ops)")
  let ?live2 = "if sees then add_from_complete live1 (completed_with md) else live1"
  obtain rest where rest: "live_tasks ?live2 tasks = (rest, live')" "mds = md # rest"
    using Cons.prems(5) t g by (auto simp: Let_def split: prod.splits)
  show ?case
    using Cons.IH[of ?live2 "add_from_complete rep (completed_with md)" rest]
      live_task_step[OF Cons.prems(1-4) g, of sees] rest
    by (simp add: replay_completions_def)
qed

text \<open>
  C8: Replaying history restores the internal flags.  Run any sequence of workflow tasks from new
  flags, each using core and lang flags and gathering them on completion, and feed the metadata of the
  completed events to new flags: the replaying worker may use a core flag exactly when the live worker
  may, and both know the same lang flags, so they take the same code paths from there on.
\<close>

theorem flags_replay_matches_live:
  "\<forall>mds live. live_tasks (internal_flags_new True n v) tasks = (mds, live) \<longrightarrow>
     (\<forall>f. fst (try_use (replay_completions (internal_flags_new True n' v') mds) f False)
          \<longleftrightarrow> fst (try_use live f False)) \<and>
     set (all_lang (replay_completions (internal_flags_new True n' v') mds)) = set (all_lang live)"
proof (intro allI impI)
  fix mds live
  assume run: "live_tasks (internal_flags_new True n v) tasks = (mds, live)"
  have lang: "set (all_lang fl) = lang_known fl" for fl
    by (cases fl) (simp_all add: all_lang_def lang_known_def)
  have "core_known (replay_completions (internal_flags_new True n' v') mds) = core_known live \<and>
        lang_known (replay_completions (internal_flags_new True n' v') mds) = lang_known live"
    by (rule live_replay_agree[OF _ _ _ _ run])
      (auto simp: is_enabled_def internal_flags_new_def flag_views)
  then show "(\<forall>f. fst (try_use (replay_completions (internal_flags_new True n' v') mds) f False)
          \<longleftrightarrow> fst (try_use live f False)) \<and>
     set (all_lang (replay_completions (internal_flags_new True n' v') mds)) = set (all_lang live)"
    by (simp add: lang)
qed

theorem flags_replay_matches_live_witness:
  "(let (mds, live) = live_tasks (internal_flags_new True ''core'' ''1'')
       [([UseCore MoveTerminalCommands], True), ([UseLang [7, 3], UseCore IdAndTypeDeterminismChecks], False)]
    in fst (try_use (replay_completions (internal_flags_new True ''core'' ''2'') mds) MoveTerminalCommands False)
       \<and> \<not> fst (try_use (replay_completions (internal_flags_new True ''core'' ''2'') mds)
            UpsertSearchAttributeOnPatch False))"
proof -
  let ?tasks = "[([UseCore MoveTerminalCommands], True), ([UseLang [7, 3], UseCore IdAndTypeDeterminismChecks], False)]"
  obtain mds live where run: "live_tasks (internal_flags_new True ''core'' ''1'') ?tasks = (mds, live)"
    by (cases "live_tasks (internal_flags_new True ''core'' ''1'') ?tasks")
  have live: "fst (try_use live MoveTerminalCommands False) \<and> \<not> fst (try_use live UpsertSearchAttributeOnPatch False)"
    using run by (auto simp: Let_def internal_flags_new_def gather_for_wft_complete_def apply_flag_op_def
        try_use_def add_lang_used_def add_from_complete_def completed_with_def flag_views
        split: prod.splits)
  show ?thesis
    using flags_replay_matches_live[of "''core''" "''1''" ?tasks "''core''" "''2''"] run live by simp
qed

text \<open>
  C28: A flag is written to history once.  After a completion has gathered the flags, a second
  completion with no new use reports no flag, whatever was pending; and the first reports exactly the
  pending flags that were not yet known.
\<close>

theorem flags_gathered_once:
  "let (md1, fl1) = gather_for_wft_complete fl; (md2, fl2) = gather_for_wft_complete fl1
   in tcm_core_used_flags md2 = [] \<and> tcm_lang_used_flags md2 = [] \<and>
      set (map flag_from_u32 (tcm_core_used_flags md1)) = core_pending fl - core_known fl \<and>
      set (tcm_lang_used_flags md1) = lang_pending fl - lang_known fl \<and>
      core_known fl2 = core_known fl \<union> core_pending fl"
proof (cases fl)
  case (Enabled s)
  then show ?thesis
    using gather_views[of fl]
    by (auto simp: gather_for_wft_complete_def Let_def flag_views list_contains_def filter_empty_conv image_image
        split: prod.splits)
next
  case Disabled
  then show ?thesis by (simp add: gather_for_wft_complete_def flag_views)
qed

end
