(* ===== verification/ActivityMachine.thy ===== *)
theory ActivityMachine
  imports TemporalMachine InternalFlags
begin

text \<open>
  \<^verbatim>\<open>machines/activity_state_machine.rs\<close>: one remote activity, from its schedule command to its
  resolution, with the three cancellation types.  The internal flags the machine shares with the
  workflow machines are a field of its shared state; \<^verbatim>\<open>dbg_panic!\<close> is a panic.
\<close>

section \<open>Machine\<close>

datatype ActivityMachineState =
    Created | ScheduleCommandCreated | ScheduledEventRecorded | Started
  | ScheduledActivityCancelCommandCreated | ScheduledActivityCancelEventRecorded
  | StartedActivityCancelCommandCreated | StartedActivityCancelEventRecorded
  | Completed | Failed | TimedOut | Canceled

record ActTaskScheduledData =
  atd_event_id :: int
  atd_act_type :: string
  atd_act_id :: string
  atd_last_task_in_history :: bool

datatype ActivityMachineEvents =
    Schedule | CommandScheduleActivityTask | ActivityTaskScheduled ActTaskScheduledData | Cancel
  | AbandonEvent | ActivityTaskStarted int | ActivityTaskTimedOut ActivityTaskTimedOutEventAttributes
  | ActivityTaskCompleted ActivityTaskCompletedEventAttributes
  | ActivityTaskFailed ActivityTaskFailedEventAttributes
  | CommandRequestCancelActivityTask | ActivityTaskCancelRequested
  | ActivityTaskCanceled ActivityTaskCanceledEventAttributes

datatype ActivityMachineCommand =
    Complete "Payloads option"
  | Fail Failure
  | CancelCmd "ActivityTaskCanceledEventAttributes option"
  | RequestCancellation Command

record ActivitySharedState =
  act_scheduled_event_id :: int
  act_started_event_id :: int
  act_attrs :: ScheduleActivity
  act_cancellation_type :: ActivityCancellationType
  act_cancelled_before_sent :: bool
  act_internal_flags :: InternalFlags

type_synonym activity_transition =
  "(ActivityMachineCommand, ActivityMachineState, WFMachinesError) TransitionResult"
type_synonym activity_arm =
  "(ActivityMachineState, ActivitySharedState, ActivityMachineCommand, WFMachinesError) arm"
type_synonym ActivityMachine = "(ActivityMachineState, ActivitySharedState) machine"

section \<open>Failures sent to lang\<close>

definition activity_fail_info ::
  "string \<Rightarrow> string \<Rightarrow> string option \<Rightarrow> RetryState \<Rightarrow> int \<Rightarrow> int \<Rightarrow> FailureInfo" where
  "activity_fail_info act_type act_id identity retry_state started_event_id scheduled_event_id =
     FailureInfo.ActivityFailureInfo \<lparr>
       afi_scheduled_event_id = scheduled_event_id, afi_started_event_id = started_event_id,
       afi_identity = (case identity of Some i \<Rightarrow> i | None \<Rightarrow> ''''),
       afi_activity_type = Some act_type, afi_activity_id = act_id, afi_retry_state = retry_state \<rparr>"

definition new_failure :: "ActivitySharedState \<Rightarrow> ActivityTaskFailedEventAttributes \<Rightarrow> Failure" where
  "new_failure dat attrs = mk_failure ''Activity task failed'' (atf_failure attrs)
     (Some (activity_fail_info (sa_activity_type (act_attrs dat)) (sa_activity_id (act_attrs dat))
        (Some (atf_identity attrs)) (atf_retry_state attrs)
        (atf_started_event_id attrs) (atf_scheduled_event_id attrs)))"

definition new_timeout_failure :: "ActivitySharedState \<Rightarrow> ActivityTaskTimedOutEventAttributes \<Rightarrow> Failure" where
  "new_timeout_failure dat attrs = mk_failure ''Activity task timed out'' (ato_failure attrs)
     (Some (activity_fail_info (sa_activity_type (act_attrs dat)) (sa_activity_id (act_attrs dat))
        None (ato_retry_state attrs)
        (ato_started_event_id attrs) (ato_scheduled_event_id attrs)))"

definition new_cancel_failure :: "ActivitySharedState \<Rightarrow> ActivityTaskCanceledEventAttributes \<Rightarrow> Failure" where
  "new_cancel_failure dat attrs = mk_failure ''Activity cancelled''
     (Some (mk_failure '''' None (Some (CanceledFailureInfo (atx_details attrs)))))
     (Some (activity_fail_info (sa_activity_type (act_attrs dat)) (sa_activity_id (act_attrs dat))
        (Some (atx_identity attrs)) RS_CancelRequested
        (atx_started_event_id attrs) (atx_scheduled_event_id attrs)))"

section \<open>Transitions\<close>

definition notify_lang_activity_timed_out ::
  "ActivitySharedState \<Rightarrow> ActivityTaskTimedOutEventAttributes \<Rightarrow> activity_transition" where
  "notify_lang_activity_timed_out dat attrs =
     tr_with_commands TimedOut [Fail (new_timeout_failure dat attrs)]"

definition notify_lang_activity_cancelled ::
  "ActivityTaskCanceledEventAttributes option \<Rightarrow> activity_transition" where
  "notify_lang_activity_cancelled canceled_event = tr_with_commands Canceled [CancelCmd canceled_event]"

definition create_request_cancel_activity_task_command ::
  "ActivitySharedState \<Rightarrow> ActivityMachineState \<Rightarrow> activity_transition" where
  "create_request_cancel_activity_task_command dat next_state =
     tr_ok [RequestCancellation \<lparr> cmd_command_type = CT_RequestCancelActivityTask,
        cmd_attributes = Some (RequestCancelActivityTaskCommandAttributes (act_scheduled_event_id dat)), cmd_user_metadata = None \<rparr>]
       next_state"

definition notify_if_not_already_cancelled ::
  "ActivitySharedState \<Rightarrow> ActivityMachineState \<Rightarrow> activity_transition \<Rightarrow> activity_arm" where
  "notify_if_not_already_cancelled dat dest notifier = (case act_cancellation_type dat of
      TryCancel \<Rightarrow> Arm dat (tr_default dest)
    | WaitCancellationCompleted \<Rightarrow> Arm dat notifier
    | Abandon \<Rightarrow> Arm_panic ''Cancellations with type Abandon should go into terminal state immediately.'')"

definition on_activity_task_scheduled ::
  "ActivitySharedState \<Rightarrow> ActTaskScheduledData \<Rightarrow> activity_arm" where
  "on_activity_task_scheduled dat sched_dat =
     (let (used, flags) = try_use (act_internal_flags dat) IdAndTypeDeterminismChecks
            (atd_last_task_in_history sched_dat);
          dat1 = dat\<lparr> act_internal_flags := flags \<rparr>
      in if used \<and> atd_act_id sched_dat \<noteq> sa_activity_id (act_attrs dat)
         then Arm dat1 (TR_Err (Nondeterminism
           ''Activity id of scheduled event {} does not match activity id of activity command {}''))
         else if used \<and> atd_act_type sched_dat \<noteq> sa_activity_type (act_attrs dat)
         then Arm dat1 (TR_Err (Nondeterminism
           ''Activity type of scheduled event {} does not match activity type of activity command {}''))
         else Arm (dat1\<lparr> act_scheduled_event_id := atd_event_id sched_dat \<rparr>)
                (tr_default ScheduledEventRecorded))"

definition on_canceled_before_sent :: "ActivitySharedState \<Rightarrow> activity_arm" where
  "on_canceled_before_sent dat =
     (let dat1 = dat\<lparr> act_cancelled_before_sent := True \<rparr>
      in case act_cancellation_type dat of
          Abandon \<Rightarrow> Arm_panic ''Can't get on_canceled transition with Abandon cancelation type''
        | _ \<Rightarrow> Arm dat1 (notify_lang_activity_cancelled None))"

definition ignored_if_abandoned :: "ActivitySharedState \<Rightarrow> string \<Rightarrow> activity_transition" where
  "ignored_if_abandoned dat msg =
     (if act_cancellation_type dat = Abandon then tr_default Canceled else TR_Err (Nondeterminism msg))"

definition activity_transitions ::
  "(ActivityMachineState, ActivitySharedState, ActivityMachineEvents, ActivityMachineCommand,
    WFMachinesError) transitions" where
  "activity_transitions st dat ev = (case st of
      Created \<Rightarrow> (case ev of
          Schedule \<Rightarrow> Arm dat (tr_default ScheduleCommandCreated)
        | _ \<Rightarrow> Unmatched)
    | ScheduleCommandCreated \<Rightarrow> (case ev of
          CommandScheduleActivityTask \<Rightarrow> Arm dat (tr_from id ScheduleCommandCreated)
        | ActivityTaskScheduled d \<Rightarrow> on_activity_task_scheduled dat d
        | Cancel \<Rightarrow> on_canceled_before_sent dat
        | AbandonEvent \<Rightarrow>
            Arm (dat\<lparr> act_cancelled_before_sent := True \<rparr>) (notify_lang_activity_cancelled None)
        | _ \<Rightarrow> Unmatched)
    | ScheduledEventRecorded \<Rightarrow> (case ev of
          ActivityTaskStarted i \<Rightarrow> Arm (dat\<lparr> act_started_event_id := i \<rparr>) (tr_default Started)
        | ActivityTaskTimedOut attrs \<Rightarrow> Arm dat (notify_lang_activity_timed_out dat attrs)
        | Cancel \<Rightarrow> Arm dat
            (create_request_cancel_activity_task_command dat ScheduledActivityCancelCommandCreated)
        | AbandonEvent \<Rightarrow> Arm dat (notify_lang_activity_cancelled None)
        | _ \<Rightarrow> Unmatched)
    | Started \<Rightarrow> (case ev of
          ActivityTaskCompleted attrs \<Rightarrow> Arm dat (tr_ok [Complete (atc_result attrs)] Completed)
        | ActivityTaskFailed attrs \<Rightarrow> Arm dat (tr_ok [Fail (new_failure dat attrs)] Failed)
        | ActivityTaskTimedOut attrs \<Rightarrow> Arm dat (notify_lang_activity_timed_out dat attrs)
        | Cancel \<Rightarrow> Arm dat
            (create_request_cancel_activity_task_command dat StartedActivityCancelCommandCreated)
        | AbandonEvent \<Rightarrow> Arm dat (notify_lang_activity_cancelled None)
        | _ \<Rightarrow> Unmatched)
    | ScheduledActivityCancelCommandCreated \<Rightarrow> (case ev of
          CommandRequestCancelActivityTask \<Rightarrow> Arm dat (tr_from id ScheduledActivityCancelCommandCreated)
        | ActivityTaskCancelRequested \<Rightarrow>
            Arm dat (tr_from (\<lambda>_. ScheduledActivityCancelEventRecorded) ScheduledActivityCancelCommandCreated)
        | _ \<Rightarrow> Unmatched)
    | ScheduledActivityCancelEventRecorded \<Rightarrow> (case ev of
          ActivityTaskCanceled attrs \<Rightarrow>
            notify_if_not_already_cancelled dat Canceled (notify_lang_activity_cancelled (Some attrs))
        | ActivityTaskStarted i \<Rightarrow>
            Arm dat (tr_from (\<lambda>_. StartedActivityCancelEventRecorded) ScheduledActivityCancelEventRecorded)
        | ActivityTaskTimedOut attrs \<Rightarrow>
            notify_if_not_already_cancelled dat TimedOut (notify_lang_activity_timed_out dat attrs)
        | _ \<Rightarrow> Unmatched)
    | StartedActivityCancelCommandCreated \<Rightarrow> (case ev of
          CommandRequestCancelActivityTask \<Rightarrow> Arm dat (tr_from id StartedActivityCancelCommandCreated)
        | ActivityTaskCancelRequested \<Rightarrow>
            Arm dat (tr_from (\<lambda>_. StartedActivityCancelEventRecorded) StartedActivityCancelCommandCreated)
        | _ \<Rightarrow> Unmatched)
    | StartedActivityCancelEventRecorded \<Rightarrow> (case ev of
          ActivityTaskFailed attrs \<Rightarrow> notify_if_not_already_cancelled dat Failed
            (tr_with_commands Failed [Fail (new_failure dat attrs)])
        | ActivityTaskCompleted attrs \<Rightarrow> notify_if_not_already_cancelled dat Completed
            (tr_with_commands Completed [Complete (atc_result attrs)])
        | ActivityTaskTimedOut attrs \<Rightarrow>
            notify_if_not_already_cancelled dat TimedOut (notify_lang_activity_timed_out dat attrs)
        | ActivityTaskCanceled attrs \<Rightarrow>
            notify_if_not_already_cancelled dat Canceled (notify_lang_activity_cancelled (Some attrs))
        | _ \<Rightarrow> Unmatched)
    | Canceled \<Rightarrow> (case ev of
          ActivityTaskStarted i \<Rightarrow> Arm dat (ignored_if_abandoned dat
            ''Non-Abandon cancel mode activities cannot be started after being cancelled. Seq: {seq_num:?}'')
        | ActivityTaskCompleted attrs \<Rightarrow> Arm dat (ignored_if_abandoned dat
            ''Non-Abandon cancel mode activities cannot be completed after being cancelled: {attrs:?}'')
        | _ \<Rightarrow> Unmatched)
    | Completed \<Rightarrow> Unmatched
    | Failed \<Rightarrow> Unmatched
    | TimedOut \<Rightarrow> Unmatched)"

section \<open>Construction and cancellation\<close>

definition activity_new_scheduled ::
  "ScheduleActivity \<Rightarrow> InternalFlags \<Rightarrow> bool \<Rightarrow> ('e, CommandAttributes \<times> ActivityMachine) outcome" where
  "activity_new_scheduled attrs internal_flags use_compatible_version =
     (let s = from_parts Created \<lparr>
            act_scheduled_event_id = 0, act_started_event_id = 0, act_attrs = attrs,
            act_cancellation_type = (case activity_cancellation_type_try_from (sa_cancellation_type attrs) of
               Some t \<Rightarrow> t | None \<Rightarrow> TryCancel),
            act_cancelled_before_sent = False, act_internal_flags = internal_flags \<rparr>
      in case on_event activity_transitions s Schedule of
          (Ok _, s') \<Rightarrow> Ok (schedule_activity_cmd_to_api (act_attrs (shared_state s')) use_compatible_version, s')
        | (_, s') \<Rightarrow> Panic ''Scheduling activities doesn't fail'')"

definition canceled_attributes_default :: ActivityTaskCanceledEventAttributes where
  "canceled_attributes_default = \<lparr> atx_details = None, atx_latest_cancel_requested_event_id = 0,
     atx_scheduled_event_id = 0, atx_started_event_id = 0, atx_identity = '''' \<rparr>"

definition create_cancelation_resolve ::
  "ActivityMachine \<Rightarrow> ActivityTaskCanceledEventAttributes option \<Rightarrow> ResolveActivity" where
  "create_cancelation_resolve m attrs =
     (let a = (case attrs of Some a \<Rightarrow> a | None \<Rightarrow> canceled_attributes_default)
      in \<lparr> ra_seq = sa_seq (act_attrs (shared_state m)),
           ra_result = AR_Cancelled (Some (new_cancel_failure (shared_state m) a)),
           ra_is_local = False \<rparr>)"

definition machine_responses_from_cancel_request :: "ActivityMachine \<Rightarrow> Command \<Rightarrow> MachineResponse list" where
  "machine_responses_from_cancel_request m cancel_cmd =
     IssueNewCommand cancel_cmd #
     (if act_cancellation_type (shared_state m) \<noteq> WaitCancellationCompleted
      then [PushWFJob (JobResolveActivity (create_cancelation_resolve m None))] else [])"

fun activity_cancel_responses ::
  "ActivityMachine \<Rightarrow> ActivityMachineCommand list \<Rightarrow>
   (WFMachinesError MachineError, MachineResponse list) outcome" where
  "activity_cancel_responses m [] = Ok []"
| "activity_cancel_responses m (amc # rest) =
     bind_outcome (case amc of
         RequestCancellation cmd \<Rightarrow> Ok (machine_responses_from_cancel_request m cmd)
       | CancelCmd details \<Rightarrow> Ok [PushWFJob (JobResolveActivity (create_cancelation_resolve m details))]
       | _ \<Rightarrow> Panic ''Invalid cancel event response {x:?}'')
     (\<lambda>rs. bind_outcome (activity_cancel_responses m rest) (\<lambda>rs'. Ok (rs @ rs')))"

definition activity_cancel ::
  "ActivityMachine \<Rightarrow> (WFMachinesError MachineError, MachineResponse list) outcome \<times> ActivityMachine" where
  "activity_cancel m = (case get_state m of
      Panic s \<Rightarrow> (Panic s, m)
    | Err e \<Rightarrow> (Err e, m)
    | Ok st \<Rightarrow>
        if st \<in> {Completed, Canceled, Failed, TimedOut} then (Ok [], m)
        else (let event = (case act_cancellation_type (shared_state m) of
                     Abandon \<Rightarrow> AbandonEvent | _ \<Rightarrow> Cancel)
              in case on_event activity_transitions m event of
                  (Ok cmds, m') \<Rightarrow> (activity_cancel_responses m' cmds, m')
                | (Err e, m') \<Rightarrow> (Err e, m')
                | (Panic s, m') \<Rightarrow> (Panic s, m')))"

definition activity_was_cancelled_before_sent_to_server :: "ActivityMachine \<Rightarrow> bool" where
  "activity_was_cancelled_before_sent_to_server m = act_cancelled_before_sent (shared_state m)"

section \<open>Conversions and responses\<close>

definition activity_try_from_event :: "HistEventData \<Rightarrow> (WFMachinesError, ActivityMachineEvents) outcome" where
  "activity_try_from_event d = (let e = hed_event d in case event_type e of
      ET_ActivityTaskScheduled \<Rightarrow> (case as_activity_scheduled (attributes e) of
          Some attrs \<Rightarrow> Ok (ActivityTaskScheduled \<lparr>
            atd_event_id = event_id e,
            atd_act_type = (case ats_activity_type attrs of Some n \<Rightarrow> n | None \<Rightarrow> ''''),
            atd_act_id = ats_activity_id attrs,
            atd_last_task_in_history = hed_current_task_is_last_in_history d \<rparr>)
        | None \<Rightarrow> Err (Fatal ''Activity scheduled attributes were unset: {e}''))
    | ET_ActivityTaskStarted \<Rightarrow> Ok (ActivityTaskStarted (event_id e))
    | ET_ActivityTaskCompleted \<Rightarrow> (case as_activity_completed (attributes e) of
          Some attrs \<Rightarrow> Ok (ActivityTaskCompleted attrs)
        | None \<Rightarrow> Err (Fatal ''Activity completion attributes were unset: {e}''))
    | ET_ActivityTaskFailed \<Rightarrow> (case as_activity_failed (attributes e) of
          Some attrs \<Rightarrow> Ok (ActivityTaskFailed attrs)
        | None \<Rightarrow> Err (Fatal ''Activity failure attributes were unset: {e}''))
    | ET_ActivityTaskTimedOut \<Rightarrow> (case as_activity_timed_out (attributes e) of
          Some attrs \<Rightarrow> Ok (ActivityTaskTimedOut attrs)
        | None \<Rightarrow> Err (Fatal ''Activity timeout attributes were unset: {e}''))
    | ET_ActivityTaskCancelRequested \<Rightarrow> Ok ActivityTaskCancelRequested
    | ET_ActivityTaskCanceled \<Rightarrow> (case as_activity_canceled (attributes e) of
          Some attrs \<Rightarrow> Ok (ActivityTaskCanceled attrs)
        | None \<Rightarrow> Err (Fatal ''Activity cancellation attributes were unset: {e}''))
    | _ \<Rightarrow> Err (Nondeterminism ''Activity machine does not handle this event: {e}''))"

definition activity_try_from_command :: "CommandType \<Rightarrow> ActivityMachineEvents option" where
  "activity_try_from_command c = (case c of
      CT_ScheduleActivityTask \<Rightarrow> Some CommandScheduleActivityTask
    | CT_RequestCancelActivityTask \<Rightarrow> Some CommandRequestCancelActivityTask
    | _ \<Rightarrow> None)"

definition activity_convert_payloads ::
  "Payloads option \<Rightarrow> (WFMachinesError, Payload option) outcome" where
  "activity_convert_payloads result = (case result of
      None \<Rightarrow> Ok None
    | Some ps \<Rightarrow> (case payload_try_from ps of
          Ok p \<Rightarrow> Ok (Some p)
        | Err _ \<Rightarrow> Err (Fatal ''Not exactly one payload in activity result ({pe}) for event: {event_info:?}'')
        | Panic s \<Rightarrow> Panic s))"

definition activity_resolution :: "ActivityMachine \<Rightarrow> ActivityResolution \<Rightarrow> MachineResponse" where
  "activity_resolution m res = PushWFJob (JobResolveActivity
     \<lparr> ra_seq = sa_seq (act_attrs (shared_state m)), ra_result = res, ra_is_local = False \<rparr>)"

definition activity_adapt_response :: "(ActivityMachine, ActivityMachineCommand) adapter" where
  "activity_adapt_response m my_command event_info = (case my_command of
      Complete result \<Rightarrow> bind_outcome (activity_convert_payloads result)
        (\<lambda>p. Ok [activity_resolution m (AR_Completed p)])
    | Fail failure \<Rightarrow> Ok [activity_resolution m (AR_Failed (Some failure))]
    | RequestCancellation c \<Rightarrow> Ok (machine_responses_from_cancel_request m c)
    | CancelCmd attrs \<Rightarrow> Ok [PushWFJob (JobResolveActivity (create_cancelation_resolve m attrs))])"

definition activity_lang :: "ActivityMachine \<Rightarrow> unit \<Rightarrow> responses \<times> ActivityMachine" where
  "activity_lang m u = (let (r, m') = activity_cancel m in (map_err wf_error_from r, m'))"

definition activity_step :: "ActivityMachine \<Rightarrow> unit api_call \<Rightarrow> responses \<times> ActivityMachine" where
  "activity_step = api_step activity_transitions activity_try_from_event activity_try_from_command
     activity_adapt_response activity_lang"

section \<open>Lemmas\<close>

lemmas activity_handler_defs = on_activity_task_scheduled_def on_canceled_before_sent_def
  ignored_if_abandoned_def notify_if_not_already_cancelled_def notify_lang_activity_timed_out_def
  notify_lang_activity_cancelled_def create_request_cancel_activity_task_command_def Let_def

definition cancelling_states :: "ActivityMachineState list" where
  "cancelling_states = [ScheduledActivityCancelCommandCreated, ScheduledActivityCancelEventRecorded,
     StartedActivityCancelCommandCreated, StartedActivityCancelEventRecorded]"

definition activity_terminal_states :: "ActivityMachineState list" where
  "activity_terminal_states = [Completed, Failed, TimedOut, Canceled]"

lemmas activity_state_lists = cancelling_states_def activity_terminal_states_def

text \<open>An abandoned activity is never in a state that waits for the outcome of a cancellation.\<close>

definition activity_ok :: "ScheduleActivity \<Rightarrow> ActivityMachineState \<Rightarrow> ActivitySharedState \<Rightarrow> bool" where
  "activity_ok attrs st dat = (act_attrs dat = attrs \<and>
     (st \<in> set cancelling_states \<longrightarrow> act_cancellation_type dat \<noteq> Abandon))"

definition activity_ok_event :: "ActivitySharedState \<Rightarrow> ActivityMachineEvents \<Rightarrow> bool" where
  "activity_ok_event dat ev = (ev = Cancel \<longrightarrow> act_cancellation_type dat \<noteq> Abandon)"

definition resolves_activity :: "MachineResponse \<Rightarrow> nat" where
  "resolves_activity r = (case r of PushWFJob (JobResolveActivity _) \<Rightarrow> 1 | _ \<Rightarrow> 0)"

text \<open>The responses an activity may produce: its own resolution, and a request to cancel it.\<close>

definition activity_own :: "ScheduleActivity \<Rightarrow> MachineResponse \<Rightarrow> bool" where
  "activity_own attrs r = (case r of
      PushWFJob (JobResolveActivity ra) \<Rightarrow> ra_seq ra = sa_seq attrs \<and> \<not> ra_is_local ra
    | IssueNewCommand c \<Rightarrow> cmd_command_type c = CT_RequestCancelActivityTask
    | _ \<Rightarrow> False)"

definition activity_foreign :: "ScheduleActivity \<Rightarrow> MachineResponse \<Rightarrow> nat" where
  "activity_foreign attrs r = (if activity_own attrs r then 0 else 1)"

definition activity_cost :: "ActivitySharedState \<Rightarrow> ActivityMachineCommand \<Rightarrow> nat" where
  "activity_cost dat c = (case c of
      RequestCancellation _ \<Rightarrow> if act_cancellation_type dat = WaitCancellationCompleted then 0 else 1
    | _ \<Rightarrow> 1)"

definition activity_pot :: "ActivityMachineState \<Rightarrow> ActivitySharedState \<Rightarrow> nat" where
  "activity_pot st dat =
     (if st \<in> set activity_terminal_states then 0
      else if st \<in> set cancelling_states then
        (if act_cancellation_type dat = WaitCancellationCompleted then 1 else 0)
      else 1)"

lemmas activity_account_defs = activity_cost_def activity_pot_def activity_state_lists
  resolves_activity_def activity_foreign_def activity_own_def activity_resolution_def
  create_cancelation_resolve_def machine_responses_from_cancel_request_def

lemma activity_Arm_keeps:
  "\<lbrakk> activity_ok attrs st dat; activity_ok_event dat ev;
     activity_transitions st dat ev = Arm dat' (TR_Ok cmds st') \<rbrakk> \<Longrightarrow>
   activity_ok attrs st' dat' \<and> act_cancellation_type dat' = act_cancellation_type dat"
  by (cases st; cases ev; cases "act_cancellation_type dat")
    (auto simp: activity_transitions_def activity_handler_defs activity_ok_def activity_ok_event_def
      activity_state_lists split: if_splits prod.splits)

lemma activity_Arm_exact:
  "\<lbrakk> activity_ok attrs st dat; activity_ok_event dat ev;
     activity_transitions st dat ev = Arm dat' (TR_Ok cmds st') \<rbrakk> \<Longrightarrow>
   weigh (activity_cost dat') cmds + activity_pot st' dat' = activity_pot st dat"
  by (cases st; cases ev; cases "act_cancellation_type dat")
    (auto simp: activity_transitions_def activity_handler_defs activity_ok_def activity_ok_event_def
      activity_account_defs split: if_splits prod.splits)

lemma activity_no_panic_arm:
  "\<lbrakk> activity_ok attrs st dat; activity_ok_event dat ev \<rbrakk> \<Longrightarrow> activity_transitions st dat ev \<noteq> Arm_panic s"
  by (cases st; cases ev; cases "act_cancellation_type dat")
    (auto simp: activity_transitions_def activity_handler_defs activity_ok_def activity_ok_event_def
      activity_state_lists split: prod.splits)

lemma activity_no_invalid_arm: "activity_transitions st dat ev \<noteq> Arm dat' TR_InvalidTransition"
  by (cases st; cases ev; cases "act_cancellation_type dat")
    (auto simp: activity_transitions_def activity_handler_defs split: prod.splits)

lemma activity_issued_cancel:
  "activity_transitions st dat ev = Arm dat' (TR_Ok cmds st') \<Longrightarrow> RequestCancellation c \<in> set cmds \<Longrightarrow>
   cmd_command_type c = CT_RequestCancelActivityTask"
  by (cases st; cases ev; cases "act_cancellation_type dat")
    (auto simp: activity_transitions_def activity_handler_defs split: if_splits prod.splits)

lemma activity_cancel_cmds:
  "activity_transitions st dat ev = Arm dat' (TR_Ok cmds st') \<Longrightarrow> ev \<in> {Cancel, AbandonEvent} \<Longrightarrow>
   (\<exists>c. cmds = [RequestCancellation c]) \<or> (\<exists>d. cmds = [CancelCmd d])"
  by (cases st; cases "act_cancellation_type dat")
    (auto simp: activity_transitions_def activity_handler_defs)

lemma activity_convert_no_panic [simp]: "\<not> is_panic (activity_convert_payloads result)"
  by (auto simp: activity_convert_payloads_def payload_try_from_def split: option.splits list.splits)

lemma activity_adapt_weight:
  "activity_adapt_response m c info = Ok rs \<Longrightarrow> weigh resolves_activity rs = activity_cost (shared_state m) c"
  by (cases c) (auto simp: activity_adapt_response_def activity_account_defs outcome_simps)

lemma activity_cancel_OkE:
  assumes "activity_cancel m = (Ok rs, m')"
  obtains (terminal) "rs = []" "m' = m"
  | (event) ev cmds where "activity_ok_event (shared_state m) ev" "on_event activity_transitions m ev = (Ok cmds, m')"
      "process_machine_commands activity_adapt_response m' cmds None = Ok rs"
proof (cases "rs = [] \<and> m' = m")
  case False
  define ev where "ev = (case act_cancellation_type (shared_state m) of Abandon \<Rightarrow> AbandonEvent | _ \<Rightarrow> Cancel)"
  have ev: "activity_ok_event (shared_state m) ev" "ev \<in> {Cancel, AbandonEvent}"
    by (auto simp: ev_def activity_ok_event_def split: ActivityCancellationType.splits)
  obtain cmds where cmds: "on_event activity_transitions m ev = (Ok cmds, m')" "activity_cancel_responses m' cmds = Ok rs"
    using assms False
    by (auto simp: activity_cancel_def ev_def Let_def split: outcome.splits if_splits prod.splits)
  obtain st dat st' where "activity_transitions st (shared_state m) ev = Arm dat (TR_Ok cmds st')"
    using cmds(1) by (rule on_event_OkE)
  then have "(\<exists>c. cmds = [RequestCancellation c]) \<or> (\<exists>d. cmds = [CancelCmd d])"
    using ev(2) by (rule activity_cancel_cmds)
  then have "process_machine_commands activity_adapt_response m' cmds None = Ok rs"
    using cmds(2) by (auto simp: activity_adapt_response_def)
  then show thesis using event ev(1) cmds(1) by blast
qed (use terminal in blast)

lemma activity_cancel_no_panic:
  assumes "machine_inv (activity_ok attrs) m"
  shows "\<not> is_panic (fst (activity_cancel m))"
proof -
  obtain st where st: "mstate m = Some st" "activity_ok attrs st (shared_state m)"
    using assms by (rule machine_invE)
  then show ?thesis
    by (cases st; cases "act_cancellation_type (shared_state m)")
      (auto simp: activity_cancel_def get_state_def on_event_def activity_transitions_def activity_handler_defs)
qed

section \<open>Interfaces\<close>

interpretation activity: event_lang activity_transitions "activity_ok attrs" activity_ok_event
  activity_try_from_event activity_try_from_command activity_adapt_response activity_lang for attrs
proof (standard, goal_cases)
  case (1 st sh ev sh' cmds st') then show ?case using activity_Arm_keeps by blast
next
  case (2 st sh ev s) then show ?case by (rule activity_no_panic_arm)
next
  case (3 st sh ev sh') then show ?case by (simp add: activity_no_invalid_arm)
next
  case (4 d)
  then show ?case
    by (auto simp: activity_try_from_event_def Let_def split: EventType.splits option.splits)
next
  case (5 d ev sh)
  then show ?case
    by (auto simp: activity_try_from_event_def activity_ok_event_def Let_def
        split: EventType.splits option.splits)
next
  case (6 ct ev sh)
  then show ?case
    by (auto simp: activity_try_from_command_def activity_ok_event_def split: CommandType.splits)
next
  case (7 st sh ev sh' cmds st' c info)
  then show ?case by (cases c) (auto simp: activity_adapt_response_def outcome_simps)
next
  case (8 m x)
  then show ?case
    using activity_cancel_no_panic[of attrs m] by (auto simp: activity_lang_def split: prod.splits)
next
  case (9 m x rs m')
  then have "activity_cancel m = (Ok rs, m')" by (simp add: activity_lang_def split: prod.splits)
  then show ?case by (cases rule: activity_cancel_OkE) auto
qed

interpretation activity_once: event_exact activity_transitions "activity_ok attrs" activity_ok_event
  activity_try_from_event activity_try_from_command activity_adapt_response activity_lang
  resolves_activity activity_cost activity_pot for attrs
  by standard (auto dest: activity_Arm_exact activity_adapt_weight)

interpretation activity_only: event_budget activity_transitions "activity_ok attrs" activity_ok_event
  activity_try_from_event activity_try_from_command activity_adapt_response activity_lang
  "activity_foreign attrs" "\<lambda>_ _. 0" "\<lambda>_ _. 0" for attrs
proof (standard, goal_cases)
  case (1 st sh ev sh' cmds st') then show ?case by (simp add: weigh_def)
next
  case (2 st sh ev sh' cmds st' c info rs)
  have "act_attrs sh' = attrs" using activity_Arm_keeps[OF 2(1,2,3)] by (simp add: activity_ok_def)
  then show ?case
    using 2(4,5) activity_issued_cancel[OF 2(3)]
    by (cases c) (auto simp: activity_adapt_response_def activity_account_defs outcome_simps)
qed

section \<open>Properties\<close>

definition activity_initial :: "ScheduleActivity \<Rightarrow> InternalFlags \<Rightarrow> ActivitySharedState" where
  "activity_initial attrs flags = \<lparr> act_scheduled_event_id = 0, act_started_event_id = 0, act_attrs = attrs,
     act_cancellation_type = (case activity_cancellation_type_try_from (sa_cancellation_type attrs) of
       Some t \<Rightarrow> t | None \<Rightarrow> TryCancel),
     act_cancelled_before_sent = False, act_internal_flags = flags \<rparr>"

lemma activity_new_scheduled_Ok:
  "activity_new_scheduled attrs flags b =
     Ok (schedule_activity_cmd_to_api attrs b, from_parts ScheduleCommandCreated (activity_initial attrs flags))"
  by (simp add: activity_new_scheduled_def activity_initial_def activity_transitions_def Let_def)

lemma weigh_activity_foreign_0: "weigh (activity_foreign attrs) rs = 0 \<Longrightarrow> list_all (activity_own attrs) rs"
  by (induction rs) (auto simp: activity_foreign_def split: if_splits)

text \<open>
  C1: An activity is resolved to lang exactly once.  Scheduling never fails.  Over any sequence of
  history events, commands and cancellations, and for every cancellation type, the machine never
  panics (no \<^verbatim>\<open>unreachable!\<close> is reached), produces only its own resolution and cancel requests, and
  resolves at most once.  After a run without error it has resolved exactly when it is in a terminal
  state, or has requested a cancellation whose completion lang does not wait for.
\<close>

theorem activity_resolves_exactly_once:
  "case activity_new_scheduled attrs flags use_compatible_version of
      Ok (cmd, m) \<Rightarrow> cmd = schedule_activity_cmd_to_api attrs use_compatible_version \<and>
        (case run_calls activity_step m calls of
           (rs, r, m') \<Rightarrow> \<not> is_panic r \<and> list_all (activity_own attrs) rs \<and>
             weigh resolves_activity rs \<le> 1 \<and>
             (case (r, mstate m') of
                (Ok _, Some st) \<Rightarrow> weigh resolves_activity rs = 1 - activity_pot st (shared_state m')
              | (Ok _, None) \<Rightarrow> False
              | _ \<Rightarrow> True))
    | _ \<Rightarrow> False"
proof -
  define m where "m = from_parts ScheduleCommandCreated (activity_initial attrs flags)"
  have good: "machine_inv (activity_ok attrs) m"
    by (simp add: m_def activity_ok_def activity_initial_def activity_state_lists)
  have pot: "machine_pot activity_pot m = 1"
    by (simp add: m_def activity_pot_def activity_state_lists)
  obtain rs r m' where run: "run_calls activity_step m calls = (rs, r, m')"
    by (cases "run_calls activity_step m calls")
  note run' = run[unfolded activity_step_def]
  have "\<not> is_panic r" using activity.calls.run_no_panic[OF good run'] .
  moreover have "list_all (activity_own attrs) rs"
    using activity_only.runs.run_at_most[OF good run']
    by (intro weigh_activity_foreign_0) (simp add: m_def)
  moreover have "weigh resolves_activity rs \<le> 1"
    using activity_once.runs.run_at_most[OF good run'] pot by simp
  moreover have "\<exists>st. mstate m' = Some st \<and> weigh resolves_activity rs = 1 - activity_pot st (shared_state m')"
    if ok: "r = Ok ()"
  proof -
    have run_ok: "run_calls (api_step activity_transitions activity_try_from_event activity_try_from_command
        activity_adapt_response activity_lang) m calls = (rs, Ok (), m')" using run' ok by simp
    obtain st where "mstate m' = Some st" using activity.calls.run_keeps[OF good run_ok] by (rule machine_invE)
    then show ?thesis
      using activity_once.exact_runs.run_exact[OF good run_ok] pot by (simp add: machine_pot_def)
  qed
  ultimately show ?thesis
    using run by (auto simp: activity_new_scheduled_Ok m_def[symmetric] split: outcome.splits)
qed

definition abandoned_calls :: "ScheduleActivity \<Rightarrow> Attributes \<Rightarrow> unit api_call list" where
  "abandoned_calls attrs outcome_attributes =
     [CommandCall CT_ScheduleActivityTask,
      HistoryCall (live_event 5 (ActivityTaskScheduledEventAttributes
        \<lparr> ats_activity_id = sa_activity_id attrs, ats_activity_type = Some (sa_activity_type attrs) \<rparr>)),
      HistoryCall (live_event 6 (ActivityTaskStartedEventAttributes 5)),
      LangCall (),
      HistoryCall (live_event 10 outcome_attributes)]"

lemmas activity_eval = activity_step_def api_step_def handle_event_def handle_command_def
  activity_try_from_event_def activity_try_from_command_def live_event_def recorded_event_def
  attributes_event_type_def on_event_def from_parts_def activity_transitions_def activity_handler_defs
  activity_adapt_response_def activity_lang_def activity_cancel_def get_state_def abandoned_calls_def
  create_cancelation_resolve_def activity_initial_def activity_cancellation_type_try_from_def
  machine_responses_from_cancel_request_def

text \<open>
  C29: An abandoned activity that fails breaks its workflow task.  Schedule an activity with
  cancellation type abandon, let it be recorded and started, and cancel it: lang is told at once that
  it was cancelled.  If the activity then completes the machine ignores it, as intended; if it fails
  or times out instead, the machine has no transition and the workflow task ends in a fatal error.
\<close>

theorem abandoned_activity_failure_is_fatal:
  "case activity_new_scheduled (attrs\<lparr> sa_cancellation_type := 2 \<rparr>) (internal_flags_new b n v) c of
      Ok (cmd, m) \<Rightarrow>
        (case run_calls activity_step m (abandoned_calls attrs (ActivityTaskCompletedEventAttributes completed)) of
           (rs, r, m') \<Rightarrow> r = Ok () \<and> weigh resolves_activity rs = 1 \<and> mstate m' = Some Canceled) \<and>
        (case run_calls activity_step m (abandoned_calls attrs (ActivityTaskFailedEventAttributes failed)) of
           (rs, r, m') \<Rightarrow> r = Err (Fatal ''{} in state {} says the transition is invalid during event {:?}'')) \<and>
        (case run_calls activity_step m (abandoned_calls attrs (ActivityTaskTimedOutEventAttributes timed_out)) of
           (rs, r, m') \<Rightarrow> r = Err (Fatal ''{} in state {} says the transition is invalid during event {:?}''))
    | _ \<Rightarrow> False"
  by (cases b)
    (simp_all add: activity_new_scheduled_Ok activity_eval resolves_activity_def internal_flags_new_def
      try_use_def)

end
