(* ===== verification/ChildWorkflowMachine.thy ===== *)
theory ChildWorkflowMachine
  imports TemporalMachine InternalFlags
begin

text \<open>
  \<^verbatim>\<open>machines/child_workflow_state_machine.rs\<close>: one child workflow, whose start and whose result are
  resolved to lang separately, with the four cancellation types.
\<close>

section \<open>Machine\<close>

datatype ChildWorkflowMachineState =
    Created | StartCommandCreated | StartEventRecorded | Started | StartFailed
  | Completed | Failed | TimedOut | Terminated | Cancelled (seen_cancelled_event: bool)

datatype ChildWorkflowCancellationType =
    ChildAbandon | ChildTryCancel | ChildWaitCancellationCompleted | ChildWaitCancellationRequested

definition child_cancellation_type :: "int \<Rightarrow> ChildWorkflowCancellationType" where
  "child_cancellation_type i = (if i = 1 then ChildTryCancel
     else if i = 2 then ChildWaitCancellationCompleted
     else if i = 3 then ChildWaitCancellationRequested else ChildAbandon)"

record ChildWorkflowInitiatedData =
  cid_event_id :: int
  cid_wf_type :: string
  cid_wf_id :: string
  cid_last_task_in_history :: bool

datatype ChildWorkflowMachineEvents =
    Schedule | CommandStartChildWorkflowExecution
  | StartChildWorkflowExecutionInitiated ChildWorkflowInitiatedData
  | Cancel string
  | ChildWorkflowExecutionStarted WorkflowExecution int
  | StartChildWorkflowExecutionFailed int
  | ChildWorkflowExecutionCompleted "Payloads option"
  | ChildWorkflowExecutionFailed ChildWorkflowExecutionFailedEventAttributes
  | ChildWorkflowExecutionTimedOut RetryState
  | ChildWorkflowExecutionCancelled
  | ChildWorkflowExecutionTerminated
  | CommandRequestCancelExternalWorkflowExecution

datatype ChildWorkflowCommand =
    Start WorkflowExecution
  | Complete "Payloads option"
  | Fail Failure
  | CancelCmd
  | StartFail int
  | StartCancel Failure
  | IssueCancelAfterStarted string

record ChildSharedState =
  cw_initiated_event_id :: int
  cw_started_event_id :: int
  cw_lang_sequence_number :: u32
  cw_namespace :: string
  cw_workflow_id :: string
  cw_run_id :: string
  cw_workflow_type :: string
  cw_cancelled_before_sent :: bool
  cw_cancel_type :: ChildWorkflowCancellationType
  cw_internal_flags :: InternalFlags

type_synonym child_transition =
  "(ChildWorkflowCommand, ChildWorkflowMachineState, WFMachinesError) TransitionResult"
type_synonym child_arm =
  "(ChildWorkflowMachineState, ChildSharedState, ChildWorkflowCommand, WFMachinesError) arm"
type_synonym ChildWorkflowMachine = "(ChildWorkflowMachineState, ChildSharedState) machine"

definition abandons :: "ChildSharedState \<Rightarrow> bool" where
  "abandons s = (cw_cancel_type s = ChildAbandon)"

definition failure_info_from_state :: "ChildSharedState \<Rightarrow> RetryState \<Rightarrow> FailureInfo option" where
  "failure_info_from_state s retry_state = Some (FailureInfo.ChildWorkflowExecutionFailureInfo \<lparr>
     cwfi_namespace = cw_namespace s,
     cwfi_workflow_execution = Some \<lparr> we_workflow_id = cw_workflow_id s, we_run_id = cw_run_id s \<rparr>,
     cwfi_workflow_type = Some (cw_workflow_type s),
     cwfi_initiated_event_id = cw_initiated_event_id s,
     cwfi_started_event_id = cw_started_event_id s,
     cwfi_retry_state = retry_state \<rparr>)"

definition completion_of_not_abandoned_err :: WFMachinesError where
  "completion_of_not_abandoned_err = Nondeterminism
     ''Child workflows which don't have the ABANDON cancellation type cannot complete after being cancelled.''"

definition canceled_cause :: "Failure option" where
  "canceled_cause = Some (mk_failure '''' None (Some (CanceledFailureInfo None)))"

section \<open>Transitions\<close>

definition cancelled_on_cancelled_event :: "bool \<Rightarrow> child_transition" where
  "cancelled_on_cancelled_event seen =
     (if seen then TR_Err (Fatal
        ''Child workflow has already seen a ChildWorkflowExecutionCanceledEvent, and now another is being applied! This is a bug, please report.'')
      else tr_ok [] (Cancelled True))"

definition cancelled_on_outcome :: "ChildSharedState \<Rightarrow> bool \<Rightarrow> child_transition" where
  "cancelled_on_outcome s seen =
     (if \<not> abandons s then TR_Err completion_of_not_abandoned_err else tr_ok [] (Cancelled seen))"

definition on_start_child_workflow_execution_initiated ::
  "ChildSharedState \<Rightarrow> ChildWorkflowInitiatedData \<Rightarrow> child_arm" where
  "on_start_child_workflow_execution_initiated s event_dat =
     (let (used, flags) = try_use (cw_internal_flags s) IdAndTypeDeterminismChecks
            (cid_last_task_in_history event_dat);
          s1 = s\<lparr> cw_internal_flags := flags \<rparr>
      in if used \<and> cid_wf_id event_dat \<noteq> cw_workflow_id s
         then Arm s1 (TR_Err (Nondeterminism
           ''Child workflow id of scheduled event {} does not match child workflow id of command {}''))
         else if used \<and> cid_wf_type event_dat \<noteq> cw_workflow_type s
         then Arm s1 (TR_Err (Nondeterminism
           ''Child workflow type of scheduled event {} does not match child workflow type of command {}''))
         else Arm (s1\<lparr> cw_initiated_event_id := cid_event_id event_dat \<rparr>) (tr_default StartEventRecorded))"

definition start_command_on_cancelled :: "ChildSharedState \<Rightarrow> string \<Rightarrow> child_arm" where
  "start_command_on_cancelled s reason =
     (let s1 = s\<lparr> cw_cancelled_before_sent := True \<rparr>
      in Arm s1 (tr_with_commands (Cancelled False) [StartCancel
        (mk_failure (''Child Workflow Execution cancelled before scheduled: '' @ reason) canceled_cause
          (failure_info_from_state s1 RS_NonRetryableFailure))]))"

definition on_child_workflow_execution_started :: "ChildSharedState \<Rightarrow> WorkflowExecution \<Rightarrow> int \<Rightarrow> child_arm" where
  "on_child_workflow_execution_started s we started_event_id =
     Arm (s\<lparr> cw_started_event_id := started_event_id, cw_run_id := we_run_id we \<rparr>)
       (tr_with_commands Started [Start we])"

definition started_on_failed ::
  "ChildSharedState \<Rightarrow> ChildWorkflowExecutionFailedEventAttributes \<Rightarrow> child_transition" where
  "started_on_failed s attrs = tr_ok [Fail (mk_failure ''Child Workflow execution failed'' (cwf_failure attrs)
     (failure_info_from_state s (cwf_retry_state attrs)))] Failed"

definition started_on_timed_out :: "ChildSharedState \<Rightarrow> RetryState \<Rightarrow> child_transition" where
  "started_on_timed_out s retry_state = tr_ok [Fail (mk_failure ''Child Workflow execution timed out''
     (Some (mk_failure ''Timed out'' None (Some (TimeoutFailureInfo TT_StartToClose None))))
     (failure_info_from_state s retry_state))] TimedOut"

definition started_on_terminated :: "ChildSharedState \<Rightarrow> child_transition" where
  "started_on_terminated s = tr_ok [Fail (mk_failure ''Child Workflow execution terminated''
     (Some (mk_failure ''Terminated'' None (Some TerminatedFailureInfo)))
     (failure_info_from_state s RS_NonRetryableFailure))] Terminated"

definition started_on_cancelled :: "ChildSharedState \<Rightarrow> string \<Rightarrow> child_transition" where
  "started_on_cancelled s reason = tr_ok [IssueCancelAfterStarted reason]
     (if cw_cancel_type s \<in> {ChildAbandon, ChildTryCancel} then Cancelled False else Started)"

definition child_transitions ::
  "(ChildWorkflowMachineState, ChildSharedState, ChildWorkflowMachineEvents, ChildWorkflowCommand,
    WFMachinesError) transitions" where
  "child_transitions st s ev = (case st of
      Created \<Rightarrow> (case ev of
          Schedule \<Rightarrow> Arm s (tr_default StartCommandCreated)
        | _ \<Rightarrow> Unmatched)
    | StartCommandCreated \<Rightarrow> (case ev of
          CommandStartChildWorkflowExecution \<Rightarrow> Arm s (tr_from id StartCommandCreated)
        | StartChildWorkflowExecutionInitiated d \<Rightarrow> on_start_child_workflow_execution_initiated s d
        | Cancel reason \<Rightarrow> start_command_on_cancelled s reason
        | _ \<Rightarrow> Unmatched)
    | StartEventRecorded \<Rightarrow> (case ev of
          ChildWorkflowExecutionStarted we i \<Rightarrow> on_child_workflow_execution_started s we i
        | StartChildWorkflowExecutionFailed cause \<Rightarrow> Arm s (tr_ok [StartFail cause] StartFailed)
        | _ \<Rightarrow> Unmatched)
    | Started \<Rightarrow> (case ev of
          ChildWorkflowExecutionCompleted result \<Rightarrow> Arm s (tr_ok [Complete result] Completed)
        | ChildWorkflowExecutionFailed attrs \<Rightarrow> Arm s (started_on_failed s attrs)
        | ChildWorkflowExecutionTimedOut rs \<Rightarrow> Arm s (started_on_timed_out s rs)
        | ChildWorkflowExecutionCancelled \<Rightarrow> Arm s (tr_ok [CancelCmd] (Cancelled True))
        | ChildWorkflowExecutionTerminated \<Rightarrow> Arm s (started_on_terminated s)
        | Cancel reason \<Rightarrow> Arm s (started_on_cancelled s reason)
        | CommandRequestCancelExternalWorkflowExecution \<Rightarrow> Arm s (tr_from id Started)
        | _ \<Rightarrow> Unmatched)
    | Cancelled seen \<Rightarrow> (case ev of
          Cancel reason \<Rightarrow> Arm s (tr_from id (Cancelled seen))
        | ChildWorkflowExecutionCancelled \<Rightarrow> Arm s (cancelled_on_cancelled_event seen)
        | ChildWorkflowExecutionCompleted _ \<Rightarrow> Arm s (cancelled_on_outcome s seen)
        | ChildWorkflowExecutionFailed _ \<Rightarrow> Arm s (cancelled_on_outcome s seen)
        | ChildWorkflowExecutionTimedOut _ \<Rightarrow> Arm s (cancelled_on_outcome s seen)
        | ChildWorkflowExecutionTerminated \<Rightarrow> Arm s (cancelled_on_outcome s seen)
        | _ \<Rightarrow> Unmatched)
    | Failed \<Rightarrow> (case ev of Cancel _ \<Rightarrow> Arm s (tr_from id Failed) | _ \<Rightarrow> Unmatched)
    | StartFailed \<Rightarrow> (case ev of Cancel _ \<Rightarrow> Arm s (tr_from id StartFailed) | _ \<Rightarrow> Unmatched)
    | TimedOut \<Rightarrow> (case ev of Cancel _ \<Rightarrow> Arm s (tr_from id TimedOut) | _ \<Rightarrow> Unmatched)
    | Completed \<Rightarrow> (case ev of Cancel _ \<Rightarrow> Arm s (tr_from id Completed) | _ \<Rightarrow> Unmatched)
    | Terminated \<Rightarrow> Unmatched)"

section \<open>Construction\<close>

definition child_new_scheduled ::
  "StartChildWorkflowExecution \<Rightarrow> InternalFlags \<Rightarrow> bool \<Rightarrow>
   ('e, CommandAttributes \<times> ChildWorkflowMachine) outcome" where
  "child_new_scheduled attribs internal_flags use_compatible_version =
     (let s = from_parts Created \<lparr>
            cw_initiated_event_id = 0, cw_started_event_id = 0,
            cw_lang_sequence_number = sc_seq attribs, cw_namespace = sc_namespace attribs,
            cw_workflow_id = sc_workflow_id attribs, cw_run_id = '''',
            cw_workflow_type = sc_workflow_type attribs, cw_cancelled_before_sent = False,
            cw_cancel_type = child_cancellation_type (sc_cancellation_type attribs),
            cw_internal_flags = internal_flags \<rparr>
      in case on_event child_transitions s Schedule of
          (Ok _, s') \<Rightarrow> Ok (start_child_workflow_cmd_to_api attribs use_compatible_version, s')
        | (_, s') \<Rightarrow> Panic ''Scheduling child workflows doesn't fail'')"

section \<open>Conversions and responses\<close>

definition child_try_from_event :: "HistEventData \<Rightarrow> (WFMachinesError, ChildWorkflowMachineEvents) outcome" where
  "child_try_from_event d = (let e = hed_event d in case event_type e of
      ET_StartChildWorkflowExecutionInitiated \<Rightarrow> (case as_child_initiated (attributes e) of
          Some attrs \<Rightarrow> Ok (StartChildWorkflowExecutionInitiated \<lparr>
            cid_event_id = event_id e,
            cid_wf_type = (case sci_workflow_type attrs of Some n \<Rightarrow> n | None \<Rightarrow> ''''),
            cid_wf_id = sci_workflow_id attrs,
            cid_last_task_in_history = hed_current_task_is_last_in_history d \<rparr>)
        | None \<Rightarrow> Err (Fatal ''StartChildWorkflowExecutionInitiated attributes were unset''))
    | ET_StartChildWorkflowExecutionFailed \<Rightarrow> (case as_child_start_failed (attributes e) of
          Some attrs \<Rightarrow>
            if scf_cause attrs \<in> {0, 1, 2} then Ok (StartChildWorkflowExecutionFailed (scf_cause attrs))
            else Err (Fatal ''Invalid StartChildWorkflowExecutionFailedCause'')
        | None \<Rightarrow> Err (Fatal ''StartChildWorkflowExecutionFailed attributes were unset''))
    | ET_ChildWorkflowExecutionStarted \<Rightarrow> (case as_child_started (attributes e) of
          Some (Some we) \<Rightarrow> Ok (ChildWorkflowExecutionStarted we (event_id e))
        | _ \<Rightarrow> Err (Fatal ''ChildWorkflowExecutionStarted attributes were unset or malformed''))
    | ET_ChildWorkflowExecutionCompleted \<Rightarrow> (case as_child_completed (attributes e) of
          Some result \<Rightarrow> Ok (ChildWorkflowExecutionCompleted result)
        | None \<Rightarrow> Err (Fatal ''ChildWorkflowExecutionCompleted attributes were unset or malformed''))
    | ET_ChildWorkflowExecutionFailed \<Rightarrow> (case as_child_failed (attributes e) of
          Some attrs \<Rightarrow> Ok (ChildWorkflowExecutionFailed attrs)
        | None \<Rightarrow> Err (Fatal ''ChildWorkflowExecutionFailed attributes were unset''))
    | ET_ChildWorkflowExecutionTimedOut \<Rightarrow> (case as_child_timed_out (attributes e) of
          Some rs \<Rightarrow> Ok (ChildWorkflowExecutionTimedOut rs)
        | None \<Rightarrow> Err (Fatal ''ChildWorkflowExecutionTimedOut attributes were unset or malformed''))
    | ET_ChildWorkflowExecutionTerminated \<Rightarrow> Ok ChildWorkflowExecutionTerminated
    | ET_ChildWorkflowExecutionCanceled \<Rightarrow> Ok ChildWorkflowExecutionCancelled
    | _ \<Rightarrow> Err (Nondeterminism ''Child workflow machine does not handle this event: {e:?}''))"

definition child_try_from_command :: "CommandType \<Rightarrow> ChildWorkflowMachineEvents option" where
  "child_try_from_command c = (case c of
      CT_StartChildWorkflowExecution \<Rightarrow> Some CommandStartChildWorkflowExecution
    | CT_RequestCancelExternalWorkflowExecution \<Rightarrow> Some CommandRequestCancelExternalWorkflowExecution
    | _ \<Rightarrow> None)"

definition child_convert_payloads :: "Payloads option \<Rightarrow> (WFMachinesError, Payload option) outcome" where
  "child_convert_payloads result = (case result of
      None \<Rightarrow> Ok None
    | Some ps \<Rightarrow> (case payload_try_from ps of
          Ok p \<Rightarrow> Ok (Some p)
        | Err _ \<Rightarrow> Err (Fatal ''Not exactly one payload in child workflow result ({pe}) for event: {event_info:?}'')
        | Panic s \<Rightarrow> Panic s))"

definition resolve_cancelled_msg :: "ChildWorkflowMachine \<Rightarrow> JobVariant" where
  "resolve_cancelled_msg m = ResolveChildWorkflowExecution (cw_lang_sequence_number (shared_state m))
     (CR_Cancelled (Some (mk_failure ''Child Workflow execution cancelled'' canceled_cause
        (failure_info_from_state (shared_state m) RS_NonRetryableFailure))))"

definition child_adapt_response :: "(ChildWorkflowMachine, ChildWorkflowCommand) adapter" where
  "child_adapt_response m my_command event_info =
     (let s = shared_state m; seq = cw_lang_sequence_number s in case my_command of
      Start we \<Rightarrow> Ok [PushWFJob (ResolveChildWorkflowExecutionStart seq (CS_Succeeded (we_run_id we)))]
    | StartFail cause \<Rightarrow> Ok [PushWFJob (ResolveChildWorkflowExecutionStart seq
        (CS_Failed (cw_workflow_id s) (cw_workflow_type s) cause))]
    | StartCancel failure \<Rightarrow>
        Ok [PushWFJob (ResolveChildWorkflowExecutionStart seq (CS_Cancelled (Some failure)))]
    | Complete result \<Rightarrow> bind_outcome (child_convert_payloads result)
        (\<lambda>p. Ok [PushWFJob (ResolveChildWorkflowExecution seq (CR_Completed p))])
    | Fail failure \<Rightarrow> Ok [PushWFJob (ResolveChildWorkflowExecution seq (CR_Failed (Some failure)))]
    | CancelCmd \<Rightarrow> Ok [PushWFJob (resolve_cancelled_msg m)]
    | IssueCancelAfterStarted reason \<Rightarrow> Ok (
        (if cw_cancel_type s \<noteq> ChildAbandon
         then [NewCoreOriginatedCommand (RequestCancelExternalWorkflowExecutionCommandAttributes \<lparr>
           rce_namespace = cw_namespace s, rce_workflow_id = cw_workflow_id s, rce_run_id = cw_run_id s,
           rce_child_workflow_only = True, rce_reason = reason \<rparr>)] else []) @
        (if cw_cancel_type s \<in> {ChildAbandon, ChildTryCancel}
         then [PushWFJob (resolve_cancelled_msg m)] else [])))"

section \<open>Cancellation\<close>

definition child_cancel_adapt :: "(ChildWorkflowMachine, ChildWorkflowCommand) adapter" where
  "child_cancel_adapt m c info = (case c of
      StartCancel _ \<Rightarrow> child_adapt_response m c info
    | IssueCancelAfterStarted _ \<Rightarrow> child_adapt_response m c info
    | _ \<Rightarrow> Panic ''Invalid cancel event response {x:?}'')"

definition child_cancel ::
  "ChildWorkflowMachine \<Rightarrow> string \<Rightarrow>
   (WFMachinesError MachineError, MachineResponse list) outcome \<times> ChildWorkflowMachine" where
  "child_cancel m reason = (case on_event child_transitions m (Cancel reason) of
      (Ok cmds, m') \<Rightarrow> (map_err Underlying (process_machine_commands child_cancel_adapt m' cmds None), m')
    | (Err e, m') \<Rightarrow> (Err e, m')
    | (Panic s, m') \<Rightarrow> (Panic s, m'))"

definition child_was_cancelled_before_sent_to_server :: "ChildWorkflowMachine \<Rightarrow> bool" where
  "child_was_cancelled_before_sent_to_server m = cw_cancelled_before_sent (shared_state m)"

definition child_lang :: "ChildWorkflowMachine \<Rightarrow> string \<Rightarrow> responses \<times> ChildWorkflowMachine" where
  "child_lang m reason = (let (r, m') = child_cancel m reason in (map_err wf_error_from r, m'))"

definition child_step :: "ChildWorkflowMachine \<Rightarrow> string api_call \<Rightarrow> responses \<times> ChildWorkflowMachine" where
  "child_step = api_step child_transitions child_try_from_event child_try_from_command
     child_adapt_response child_lang"

section \<open>Lemmas\<close>

lemmas child_handler_defs = cancelled_on_cancelled_event_def cancelled_on_outcome_def
  on_start_child_workflow_execution_initiated_def start_command_on_cancelled_def
  on_child_workflow_execution_started_def started_on_failed_def started_on_timed_out_def
  started_on_terminated_def started_on_cancelled_def Let_def

definition child_ok :: "u32 \<Rightarrow> ChildWorkflowMachineState \<Rightarrow> ChildSharedState \<Rightarrow> bool" where
  "child_ok seq st s = (cw_lang_sequence_number s = seq)"

text \<open>Jobs that resolve the start of the child, and jobs after which lang expects nothing more of it.\<close>

definition resolves_child_start :: "MachineResponse \<Rightarrow> nat" where
  "resolves_child_start r = (case r of PushWFJob (ResolveChildWorkflowExecutionStart _ _) \<Rightarrow> 1 | _ \<Rightarrow> 0)"

definition concludes_child :: "MachineResponse \<Rightarrow> nat" where
  "concludes_child r = (case r of
      PushWFJob (ResolveChildWorkflowExecutionStart _ status) \<Rightarrow>
        (case status of CS_Succeeded _ \<Rightarrow> 0 | _ \<Rightarrow> 1)
    | PushWFJob (ResolveChildWorkflowExecution _ _) \<Rightarrow> 1
    | _ \<Rightarrow> 0)"

definition child_own :: "u32 \<Rightarrow> MachineResponse \<Rightarrow> bool" where
  "child_own seq r = (case r of
      PushWFJob (ResolveChildWorkflowExecutionStart s _) \<Rightarrow> s = seq
    | PushWFJob (ResolveChildWorkflowExecution s _) \<Rightarrow> s = seq
    | NewCoreOriginatedCommand (RequestCancelExternalWorkflowExecutionCommandAttributes a) \<Rightarrow>
        rce_child_workflow_only a
    | _ \<Rightarrow> False)"

definition child_foreign :: "u32 \<Rightarrow> MachineResponse \<Rightarrow> nat" where
  "child_foreign seq r = (if child_own seq r then 0 else 1)"

definition child_start_cost :: "ChildSharedState \<Rightarrow> ChildWorkflowCommand \<Rightarrow> nat" where
  "child_start_cost s c = (case c of Start _ \<Rightarrow> 1 | StartFail _ \<Rightarrow> 1 | StartCancel _ \<Rightarrow> 1 | _ \<Rightarrow> 0)"

definition child_start_pot :: "ChildWorkflowMachineState \<Rightarrow> ChildSharedState \<Rightarrow> nat" where
  "child_start_pot st s = (if st \<in> {Created, StartCommandCreated, StartEventRecorded} then 1 else 0)"

definition child_conclude_cost :: "ChildSharedState \<Rightarrow> ChildWorkflowCommand \<Rightarrow> nat" where
  "child_conclude_cost s c = (case c of
      Start _ \<Rightarrow> 0
    | IssueCancelAfterStarted _ \<Rightarrow> if cw_cancel_type s \<in> {ChildAbandon, ChildTryCancel} then 1 else 0
    | _ \<Rightarrow> 1)"

definition child_conclude_pot :: "ChildWorkflowMachineState \<Rightarrow> ChildSharedState \<Rightarrow> nat" where
  "child_conclude_pot st s =
     (if st \<in> {Created, StartCommandCreated, StartEventRecorded, Started} then 1 else 0)"

lemmas child_account_defs = child_start_cost_def child_start_pot_def child_conclude_cost_def
  child_conclude_pot_def resolves_child_start_def concludes_child_def child_own_def child_foreign_def
  resolve_cancelled_msg_def

lemma child_Arm_seq:
  "child_transitions st s ev = Arm s' (TR_Ok cmds st') \<Longrightarrow>
   cw_lang_sequence_number s' = cw_lang_sequence_number s \<and> cw_cancel_type s' = cw_cancel_type s"
  by (cases st; cases ev)
    (auto simp: child_transitions_def child_handler_defs split: if_splits prod.splits)

lemma child_Arm_start:
  "child_transitions st s ev = Arm s' (TR_Ok cmds st') \<Longrightarrow>
   weigh (child_start_cost s') cmds + child_start_pot st' s' = child_start_pot st s"
  by (cases st; cases ev)
    (auto simp: child_transitions_def child_handler_defs child_account_defs split: if_splits prod.splits)

lemma child_Arm_conclude:
  "child_transitions st s ev = Arm s' (TR_Ok cmds st') \<Longrightarrow>
   weigh (child_conclude_cost s') cmds + child_conclude_pot st' s' = child_conclude_pot st s"
  by (cases st; cases ev)
    (auto simp: child_transitions_def child_handler_defs child_account_defs split: if_splits prod.splits)

lemma child_no_panic_arm: "child_transitions st s ev \<noteq> Arm_panic msg"
  by (cases st; cases ev) (auto simp: child_transitions_def child_handler_defs split: prod.splits)

lemma child_no_invalid_arm: "child_transitions st s ev \<noteq> Arm s' TR_InvalidTransition"
  by (cases st; cases ev) (auto simp: child_transitions_def child_handler_defs split: prod.splits)

lemma child_cancel_cmds:
  "child_transitions st s (Cancel reason) = Arm s' (TR_Ok cmds st') \<Longrightarrow>
   c \<in> set cmds \<Longrightarrow> child_cancel_adapt m c info = child_adapt_response m c info"
  by (cases st) (auto simp: child_transitions_def child_handler_defs child_cancel_adapt_def)

lemma child_convert_no_panic [simp]: "\<not> is_panic (child_convert_payloads result)"
  by (auto simp: child_convert_payloads_def payload_try_from_def split: option.splits list.splits)

lemma child_adapt_no_panic [simp]: "\<not> is_panic (child_adapt_response m c info)"
  by (cases c) (auto simp: child_adapt_response_def outcome_simps Let_def)

lemma child_adapt_weights:
  assumes "child_adapt_response m c info = Ok rs"
  shows "weigh resolves_child_start rs = child_start_cost (shared_state m) c"
    and "weigh concludes_child rs = child_conclude_cost (shared_state m) c"
    and "weigh (child_foreign (cw_lang_sequence_number (shared_state m))) rs = 0"
  using assms
  by (cases c; auto simp: child_adapt_response_def child_account_defs outcome_simps Let_def)+

lemma child_cancel_process:
  "on_event child_transitions m (Cancel reason) = (Ok cmds, m') \<Longrightarrow>
   process_machine_commands child_cancel_adapt m' cmds None =
   process_machine_commands child_adapt_response m' cmds None"
  by (rule process_machine_commands_cong) (auto elim!: on_event_OkE dest: child_cancel_cmds)

lemma child_lang_no_panic:
  assumes "machine_inv ok m"
  shows "\<not> is_panic (fst (child_lang m reason))"
proof (cases "on_event child_transitions m (Cancel reason)")
  case (Pair r m')
  show ?thesis
  proof (cases r)
    case (Ok cmds)
    then show ?thesis
      using Pair child_cancel_process[of m reason cmds m']
        process_machine_commands_no_panic[of cmds child_adapt_response m' None]
      by (simp add: child_lang_def child_cancel_def)
  next
    case (Panic s)
    then show ?thesis using Pair assms child_no_panic_arm on_event_Panic_arm by (metis machine_invE)
  qed (simp add: Pair child_lang_def child_cancel_def)
qed

section \<open>Interfaces\<close>

interpretation child: event_lang child_transitions "child_ok seq" "\<lambda>_ _. True"
  child_try_from_event child_try_from_command child_adapt_response child_lang for seq
proof (standard, goal_cases)
  case (1 st sh ev sh' cmds st') then show ?case using child_Arm_seq by (simp add: child_ok_def)
next
  case (2 st sh ev s) then show ?case by (simp add: child_no_panic_arm)
next
  case (3 st sh ev sh') then show ?case by (simp add: child_no_invalid_arm)
next
  case (4 d)
  then show ?case
    by (auto simp: child_try_from_event_def Let_def split: EventType.splits option.splits)
next
  case (8 m x) then show ?case by (rule child_lang_no_panic)
next
  case (9 m x rs m')
  then obtain cmds where "on_event child_transitions m (Cancel x) = (Ok cmds, m')"
    "process_machine_commands child_cancel_adapt m' cmds None = Ok rs"
    by (auto simp: child_lang_def child_cancel_def split: prod.splits outcome.splits)
  then show ?case using child_cancel_process[of m x cmds m'] by auto
qed simp_all

interpretation child_start: event_exact child_transitions "child_ok seq" "\<lambda>_ _. True"
  child_try_from_event child_try_from_command child_adapt_response child_lang
  resolves_child_start child_start_cost child_start_pot for seq
  by standard (auto dest: child_Arm_start child_adapt_weights)

interpretation child_conclude: event_exact child_transitions "child_ok seq" "\<lambda>_ _. True"
  child_try_from_event child_try_from_command child_adapt_response child_lang
  concludes_child child_conclude_cost child_conclude_pot for seq
  by standard (auto dest: child_Arm_conclude child_adapt_weights)

interpretation child_only: event_budget child_transitions "child_ok seq" "\<lambda>_ _. True"
  child_try_from_event child_try_from_command child_adapt_response child_lang
  "child_foreign seq" "\<lambda>_ _. 0" "\<lambda>_ _. 0" for seq
proof (standard, goal_cases)
  case (1 st sh ev sh' cmds st') then show ?case by (simp add: weigh_def)
next
  case (2 st sh ev sh' cmds st' c info rs)
  then show ?case using child_Arm_seq[OF 2(3)] child_adapt_weights(3)[OF 2(5)] by (simp add: child_ok_def)
qed

section \<open>Properties\<close>

definition child_initial :: "StartChildWorkflowExecution \<Rightarrow> InternalFlags \<Rightarrow> ChildSharedState" where
  "child_initial attribs flags = \<lparr>
     cw_initiated_event_id = 0, cw_started_event_id = 0,
     cw_lang_sequence_number = sc_seq attribs, cw_namespace = sc_namespace attribs,
     cw_workflow_id = sc_workflow_id attribs, cw_run_id = '''',
     cw_workflow_type = sc_workflow_type attribs, cw_cancelled_before_sent = False,
     cw_cancel_type = child_cancellation_type (sc_cancellation_type attribs),
     cw_internal_flags = flags \<rparr>"

lemma child_new_scheduled_Ok:
  "child_new_scheduled attribs flags b =
     Ok (start_child_workflow_cmd_to_api attribs b, from_parts StartCommandCreated (child_initial attribs flags))"
  by (simp add: child_new_scheduled_def child_initial_def child_transitions_def Let_def)

lemma weigh_child_foreign_0: "weigh (child_foreign seq) rs = 0 \<Longrightarrow> list_all (child_own seq) rs"
  by (induction rs) (auto simp: child_foreign_def split: if_splits)

text \<open>
  C9: The start and the outcome of a child workflow are each resolved once.  Over any sequence of
  history events, commands and cancellations, for every cancellation type, the machine never panics
  and produces only jobs of its own sequence number and requests to cancel the child.  Lang is told at
  most once how the start went and at most once how the child ended (a failed or cancelled start ends
  it); after a run without error the start has been resolved exactly when the machine has left the
  states before it, and the end exactly when the machine is in a state after it.
\<close>

theorem child_workflow_resolves_once:
  "case child_new_scheduled attribs flags use_compatible_version of
      Ok (cmd, m) \<Rightarrow> cmd = start_child_workflow_cmd_to_api attribs use_compatible_version \<and>
        (case run_calls child_step m calls of
           (rs, r, m') \<Rightarrow> \<not> is_panic r \<and> list_all (child_own (sc_seq attribs)) rs \<and>
             weigh resolves_child_start rs \<le> 1 \<and> weigh concludes_child rs \<le> 1 \<and>
             (case (r, mstate m') of
                (Ok _, Some st) \<Rightarrow>
                  weigh resolves_child_start rs = 1 - child_start_pot st (shared_state m') \<and>
                  weigh concludes_child rs = 1 - child_conclude_pot st (shared_state m')
              | (Ok _, None) \<Rightarrow> False
              | _ \<Rightarrow> True))
    | _ \<Rightarrow> False"
proof -
  define m where "m = from_parts StartCommandCreated (child_initial attribs flags)"
  have good: "machine_inv (child_ok (sc_seq attribs)) m"
    by (simp add: m_def child_ok_def child_initial_def)
  have pot: "machine_pot child_start_pot m = 1" "machine_pot child_conclude_pot m = 1"
    by (simp_all add: m_def child_start_pot_def child_conclude_pot_def)
  obtain rs r m' where run: "run_calls child_step m calls = (rs, r, m')"
    by (cases "run_calls child_step m calls")
  note run' = run[unfolded child_step_def]
  have "\<not> is_panic r" using child.calls.run_no_panic[OF good run'] .
  moreover have "list_all (child_own (sc_seq attribs)) rs"
    using child_only.runs.run_at_most[OF good run'] by (intro weigh_child_foreign_0) (simp add: m_def)
  moreover have "weigh resolves_child_start rs \<le> 1" "weigh concludes_child rs \<le> 1"
    using child_start.runs.run_at_most[OF good run'] child_conclude.runs.run_at_most[OF good run'] pot
    by simp_all
  moreover have "\<exists>st. mstate m' = Some st \<and>
      weigh resolves_child_start rs = 1 - child_start_pot st (shared_state m') \<and>
      weigh concludes_child rs = 1 - child_conclude_pot st (shared_state m')"
    if ok: "r = Ok ()"
  proof -
    have run_ok: "run_calls (api_step child_transitions child_try_from_event child_try_from_command
        child_adapt_response child_lang) m calls = (rs, Ok (), m')" using run' ok by simp
    obtain st where "mstate m' = Some st" using child.calls.run_keeps[OF good run_ok] by (rule machine_invE)
    then show ?thesis
      using child_start.exact_runs.run_exact[OF good run_ok] child_conclude.exact_runs.run_exact[OF good run_ok] pot
      by (simp add: machine_pot_def) arith
  qed
  ultimately show ?thesis
    using run by (auto simp: child_new_scheduled_Ok m_def[symmetric] split: outcome.splits)
qed

definition cancelled_then_completed :: "StartChildWorkflowExecution \<Rightarrow> Payloads option \<Rightarrow> string api_call list" where
  "cancelled_then_completed attribs result =
     [CommandCall CT_StartChildWorkflowExecution,
      HistoryCall (live_event 5 (StartChildWorkflowExecutionInitiatedEventAttributes
        \<lparr> sci_workflow_id = sc_workflow_id attribs, sci_workflow_type = Some (sc_workflow_type attribs) \<rparr>)),
      HistoryCall (live_event 6 (ChildWorkflowExecutionStartedEventAttributes
        (Some \<lparr> we_workflow_id = sc_workflow_id attribs, we_run_id = ''run'' \<rparr>) 5)),
      LangCall ''reason'',
      HistoryCall (live_event 12 (ChildWorkflowExecutionCompletedEventAttributes result 5))]"

lemmas child_eval = child_step_def api_step_def handle_event_def handle_command_def
  child_try_from_event_def child_try_from_command_def live_event_def recorded_event_def
  attributes_event_type_def on_event_def from_parts_def child_transitions_def child_handler_defs
  child_adapt_response_def child_lang_def child_cancel_def child_cancel_adapt_def
  cancelled_then_completed_def child_initial_def child_cancellation_type_def abandons_def

text \<open>
  C30: Cancelling a started child with the try-cancel type is a race the machine loses.  Lang is told at
  once that the child was cancelled and the server is asked to cancel it; if the child completes before
  that request reaches it, as the type allows, its completion event is a nondeterminism error.  The
  same history with the abandon type is accepted.
\<close>

theorem try_cancelled_child_cannot_complete:
  "(case child_new_scheduled (attribs\<lparr> sc_cancellation_type := 1 \<rparr>) (internal_flags_new b n v) c of
      Ok (cmd, m) \<Rightarrow> (case run_calls child_step m (cancelled_then_completed attribs result) of
         (rs, r, m') \<Rightarrow> weigh concludes_child rs = 1 \<and> r = Err completion_of_not_abandoned_err)
    | _ \<Rightarrow> False) \<and>
   (case child_new_scheduled (attribs\<lparr> sc_cancellation_type := 0 \<rparr>) (internal_flags_new b n v) c of
      Ok (cmd, m) \<Rightarrow> (case run_calls child_step m (cancelled_then_completed attribs result) of
         (rs, r, m') \<Rightarrow> weigh concludes_child rs = 1 \<and> r = Ok ())
    | _ \<Rightarrow> False)"
  by (cases b; simp add: child_new_scheduled_Ok child_eval concludes_child_def resolve_cancelled_msg_def
      internal_flags_new_def try_use_def)

end
