(* ===== verification/NexusOperationMachine.thy ===== *)
theory NexusOperationMachine
  imports TemporalMachine
begin

text \<open>
  \<^verbatim>\<open>machines/nexus_operation_state_machine.rs\<close>: one Nexus operation, whose start and whose result are
  resolved to lang separately.
\<close>

section \<open>Machine\<close>

datatype NexusOperationMachineState =
    ScheduleCommandCreated | ScheduledEventRecorded | Started | Completed | Failed | TimedOut | Cancelled

datatype NexusOperationCancellationType =
    NexusWaitCancellationCompleted | NexusAbandon | NexusTryCancel | NexusWaitCancellationRequested

definition nexus_cancellation_type :: "int \<Rightarrow> NexusOperationCancellationType" where
  "nexus_cancellation_type i = (if i = 1 then NexusAbandon else if i = 2 then NexusTryCancel
     else if i = 3 then NexusWaitCancellationRequested else NexusWaitCancellationCompleted)"

datatype NexusOperationMachineEvents =
    CommandScheduleNexusOperation
  | NexusOperationScheduled int
  | Cancel
  | CommandRequestCancelNexusOperation
  | NexusOperationCancelRequested
  | NexusOperationCompleted NexusOperationCompletedEventAttributes
  | NexusOperationFailed NexusOperationFailedEventAttributes
  | NexusOperationCanceled NexusOperationCanceledEventAttributes
  | NexusOperationTimedOut NexusOperationTimedOutEventAttributes
  | NexusOperationStarted NexusOperationStartedEventAttributes

datatype NexusOperationCommand =
    Start string | StartSync | FailBeforeStart Failure | Complete "Payload option" | Fail Failure
  | CancelCmd Failure | TimedOutCmd Failure | IssueCancel

record NexusSharedState =
  nx_lang_seq_num :: u32
  nx_scheduled_event_id :: int
  nx_endpoint :: string
  nx_service :: string
  nx_operation :: string
  nx_cancelled_before_sent :: bool
  nx_cancel_sent :: bool
  nx_cancel_type :: NexusOperationCancellationType
  nx_operation_token :: "string option"

type_synonym nexus_transition =
  "(NexusOperationCommand, NexusOperationMachineState, WFMachinesError) TransitionResult"
type_synonym nexus_arm =
  "(NexusOperationMachineState, NexusSharedState, NexusOperationCommand, WFMachinesError) arm"
type_synonym NexusOperationMachine = "(NexusOperationMachineState, NexusSharedState) machine"

definition nexus_cancelled_failure :: "NexusSharedState \<Rightarrow> string \<Rightarrow> Failure" where
  "nexus_cancelled_failure ss message = mk_failure message
     (Some (mk_failure '''' None (Some (CanceledFailureInfo None))))
     (Some (NexusOperationExecutionFailureInfo \<lparr>
        nofi_scheduled_event_id = nx_scheduled_event_id ss, nofi_endpoint = nx_endpoint ss,
        nofi_service = nx_service ss, nofi_operation = nx_operation ss,
        nofi_operation_token = (case nx_operation_token ss of Some t \<Rightarrow> t | None \<Rightarrow> '''') \<rparr>))"

definition nexus_completion_of_not_abandoned_err :: WFMachinesError where
  "nexus_completion_of_not_abandoned_err = Nondeterminism
     ''Nexus operation which don't have the ABANDON cancellation type cannot complete after being cancelled.''"

definition failure_or :: "Failure option \<Rightarrow> string \<Rightarrow> Failure" where
  "failure_or f msg = (case f of Some x \<Rightarrow> x | None \<Rightarrow> mk_failure msg None None)"

section \<open>Transitions\<close>

definition nexus_on_cancelled_before_sent :: "NexusSharedState \<Rightarrow> nexus_arm" where
  "nexus_on_cancelled_before_sent ss =
     (let ss1 = ss\<lparr> nx_cancelled_before_sent := True \<rparr>
      in Arm ss1 (tr_with_commands Cancelled
        [FailBeforeStart (nexus_cancelled_failure ss1 ''Nexus Operation cancelled before scheduled'')]))"

definition scheduled_on_issue_cancel :: "NexusSharedState \<Rightarrow> nexus_arm" where
  "scheduled_on_issue_cancel ss =
     (if \<not> nx_cancel_sent ss
      then Arm (ss\<lparr> nx_cancel_sent := True \<rparr>) (tr_with_commands ScheduledEventRecorded [IssueCancel])
      else Arm ss (tr_default ScheduledEventRecorded))"

definition started_on_issue_cancel :: "NexusSharedState \<Rightarrow> nexus_arm" where
  "started_on_issue_cancel ss =
     (if \<not> nx_cancel_sent ss
      then Arm (ss\<lparr> nx_cancel_sent := True \<rparr>) (tr_ok [IssueCancel]
        (if nx_cancel_type ss \<in> {NexusAbandon, NexusTryCancel} then Cancelled else Started))
      else Arm ss (tr_ok [] Started))"

definition nexus_on_started :: "NexusSharedState \<Rightarrow> NexusOperationStartedEventAttributes \<Rightarrow> nexus_arm" where
  "nexus_on_started ss sa = Arm (ss\<lparr> nx_operation_token := Some (nos_operation_token sa) \<rparr>)
     (tr_with_commands Started [Start (nos_operation_token sa)])"

definition nexus_cancelled_on_outcome :: "NexusSharedState \<Rightarrow> nexus_transition" where
  "nexus_cancelled_on_outcome ss =
     (if nx_cancel_type ss = NexusAbandon then TR_Err nexus_completion_of_not_abandoned_err
      else tr_ok [] Cancelled)"

definition nexus_transitions ::
  "(NexusOperationMachineState, NexusSharedState, NexusOperationMachineEvents, NexusOperationCommand,
    WFMachinesError) transitions" where
  "nexus_transitions st ss ev = (case st of
      ScheduleCommandCreated \<Rightarrow> (case ev of
          CommandScheduleNexusOperation \<Rightarrow> Arm ss (tr_from id ScheduleCommandCreated)
        | NexusOperationScheduled i \<Rightarrow>
            Arm (ss\<lparr> nx_scheduled_event_id := i \<rparr>) (tr_default ScheduledEventRecorded)
        | Cancel \<Rightarrow> nexus_on_cancelled_before_sent ss
        | _ \<Rightarrow> Unmatched)
    | ScheduledEventRecorded \<Rightarrow> (case ev of
          Cancel \<Rightarrow> scheduled_on_issue_cancel ss
        | CommandRequestCancelNexusOperation \<Rightarrow> Arm ss (tr_from id ScheduledEventRecorded)
        | NexusOperationCancelRequested \<Rightarrow> Arm ss (tr_from id ScheduledEventRecorded)
        | NexusOperationCompleted ca \<Rightarrow>
            Arm ss (tr_with_commands Completed [StartSync, Complete (noc_result ca)])
        | NexusOperationFailed fa \<Rightarrow> Arm ss (tr_with_commands Failed [FailBeforeStart
            (failure_or (nof_failure fa) ''Nexus operation failed but failure field was not populated'')])
        | NexusOperationCanceled ca \<Rightarrow> Arm ss (tr_with_commands Cancelled [FailBeforeStart
            (failure_or (nox_failure ca) ''Nexus operation was cancelled but failure field was not populated'')])
        | NexusOperationTimedOut toa \<Rightarrow> Arm ss (tr_with_commands TimedOut [FailBeforeStart
            (failure_or (not_failure toa) ''Nexus operation timed out but failure field was not populated'')])
        | NexusOperationStarted sa \<Rightarrow> nexus_on_started ss sa
        | _ \<Rightarrow> Unmatched)
    | Started \<Rightarrow> (case ev of
          Cancel \<Rightarrow> started_on_issue_cancel ss
        | CommandRequestCancelNexusOperation \<Rightarrow> Arm ss (tr_from id Started)
        | NexusOperationCancelRequested \<Rightarrow> Arm ss (tr_from id Started)
        | NexusOperationCompleted ca \<Rightarrow> Arm ss (tr_with_commands Completed [Complete (noc_result ca)])
        | NexusOperationFailed fa \<Rightarrow> Arm ss (tr_with_commands Failed [Fail
            (failure_or (nof_failure fa) ''Nexus operation failed but failure field was not populated'')])
        | NexusOperationCanceled ca \<Rightarrow> Arm ss (tr_with_commands Cancelled [CancelCmd
            (failure_or (nox_failure ca) ''Nexus operation was cancelled but failure field was not populated'')])
        | NexusOperationTimedOut toa \<Rightarrow> Arm ss (tr_with_commands TimedOut [TimedOutCmd
            (failure_or (not_failure toa) ''Nexus operation timed out but failure field was not populated'')])
        | _ \<Rightarrow> Unmatched)
    | Cancelled \<Rightarrow> (case ev of
          Cancel \<Rightarrow> Arm ss (tr_from id Cancelled)
        | CommandRequestCancelNexusOperation \<Rightarrow> Arm ss (tr_from id Cancelled)
        | NexusOperationCancelRequested \<Rightarrow> Arm ss (tr_from id Cancelled)
        | NexusOperationCompleted _ \<Rightarrow> Arm ss (nexus_cancelled_on_outcome ss)
        | NexusOperationFailed _ \<Rightarrow> Arm ss (nexus_cancelled_on_outcome ss)
        | NexusOperationTimedOut _ \<Rightarrow> Arm ss (nexus_cancelled_on_outcome ss)
        | NexusOperationCanceled _ \<Rightarrow> Arm ss (tr_from id Cancelled)
        | _ \<Rightarrow> Unmatched)
    | Completed \<Rightarrow> (case ev of Cancel \<Rightarrow> Arm ss (tr_from id Completed) | _ \<Rightarrow> Unmatched)
    | Failed \<Rightarrow> (case ev of Cancel \<Rightarrow> Arm ss (tr_from id Failed) | _ \<Rightarrow> Unmatched)
    | TimedOut \<Rightarrow> (case ev of Cancel \<Rightarrow> Arm ss (tr_from id TimedOut) | _ \<Rightarrow> Unmatched))"

section \<open>Construction, conversions and responses\<close>

definition nexus_new_scheduled :: "ScheduleNexusOperation \<Rightarrow> CommandAttributes \<times> NexusOperationMachine" where
  "nexus_new_scheduled attribs =
     (attributes_from_ScheduleNexus attribs,
      from_parts ScheduleCommandCreated \<lparr>
        nx_lang_seq_num = sn_seq attribs, nx_scheduled_event_id = 0, nx_endpoint = sn_endpoint attribs,
        nx_service = sn_service attribs, nx_operation = sn_operation attribs,
        nx_cancelled_before_sent = False, nx_cancel_sent = False,
        nx_cancel_type = nexus_cancellation_type (sn_cancellation_type attribs),
        nx_operation_token = None \<rparr>)"

definition nexus_try_from_event :: "HistEventData \<Rightarrow> (WFMachinesError, NexusOperationMachineEvents) outcome" where
  "nexus_try_from_event d = (let e = hed_event d in case event_type e of
      ET_NexusOperationScheduled \<Rightarrow>
        if attributes e = Some NexusOperationScheduledEventAttributes
        then Ok (NexusOperationScheduled (event_id e))
        else Err (Nondeterminism ''NexusOperationScheduled attributes were unset or malformed'')
    | ET_NexusOperationStarted \<Rightarrow> (case as_nexus_started (attributes e) of
          Some sa \<Rightarrow> Ok (NexusOperationStarted sa)
        | None \<Rightarrow> Err (Nondeterminism ''NexusOperationStarted attributes were unset or malformed''))
    | ET_NexusOperationCompleted \<Rightarrow> (case as_nexus_completed (attributes e) of
          Some ca \<Rightarrow> Ok (NexusOperationCompleted ca)
        | None \<Rightarrow> Err (Nondeterminism ''NexusOperationCompleted attributes were unset or malformed''))
    | ET_NexusOperationFailed \<Rightarrow> (case as_nexus_failed (attributes e) of
          Some fa \<Rightarrow> Ok (NexusOperationFailed fa)
        | None \<Rightarrow> Err (Nondeterminism ''NexusOperationFailed attributes were unset or malformed''))
    | ET_NexusOperationCanceled \<Rightarrow> (case as_nexus_canceled (attributes e) of
          Some ca \<Rightarrow> Ok (NexusOperationCanceled ca)
        | None \<Rightarrow> Err (Nondeterminism ''NexusOperationCanceled attributes were unset or malformed''))
    | ET_NexusOperationTimedOut \<Rightarrow> (case as_nexus_timed_out (attributes e) of
          Some toa \<Rightarrow> Ok (NexusOperationTimedOut toa)
        | None \<Rightarrow> Err (Nondeterminism ''NexusOperationTimedOut attributes were unset or malformed''))
    | ET_NexusOperationCancelRequested \<Rightarrow> Ok NexusOperationCancelRequested
    | _ \<Rightarrow> Err (Nondeterminism ''Nexus operation machine does not handle this event: {e:?}''))"

definition nexus_try_from_command :: "CommandType \<Rightarrow> NexusOperationMachineEvents option" where
  "nexus_try_from_command c = (case c of
      CT_ScheduleNexusOperation \<Rightarrow> Some CommandScheduleNexusOperation
    | CT_RequestCancelNexusOperation \<Rightarrow> Some CommandRequestCancelNexusOperation
    | _ \<Rightarrow> None)"

definition payload_default :: Payload where
  "payload_default = \<lparr> pl_metadata = [], pl_data = '''' \<rparr>"

definition nexus_adapt_response :: "(NexusOperationMachine, NexusOperationCommand) adapter" where
  "nexus_adapt_response m my_command info =
     (let ss = shared_state m; seq = nx_lang_seq_num ss;
          resolve_start = (\<lambda>st. Ok [PushWFJob (ResolveNexusOperationStart seq st)]);
          resolve = (\<lambda>res. Ok [PushWFJob (ResolveNexusOperation seq res)])
      in case my_command of
      StartSync \<Rightarrow> resolve_start (NS_StartedSync True)
    | Start operation_token \<Rightarrow> resolve_start (NS_OperationToken operation_token)
    | FailBeforeStart failure \<Rightarrow> resolve_start (NS_Failed failure)
    | Complete c \<Rightarrow> resolve (NR_Completed (case c of Some p \<Rightarrow> p | None \<Rightarrow> payload_default))
    | Fail f \<Rightarrow> resolve (NR_Failed f)
    | CancelCmd f \<Rightarrow> resolve (NR_Cancelled f)
    | TimedOutCmd f \<Rightarrow> resolve (NR_TimedOut f)
    | IssueCancel \<Rightarrow>
        bind_outcome (if nx_cancel_type ss \<noteq> NexusAbandon
          then bind_outcome
            (command_from (RequestCancelNexusOperationCommandAttributes (nx_scheduled_event_id ss)))
            (\<lambda>c. Ok [IssueNewCommand c])
          else Ok []) (\<lambda>resps.
        Ok (resps @ (if nx_cancel_type ss \<in> {NexusAbandon, NexusTryCancel}
          then [PushWFJob (ResolveNexusOperation seq (NR_Cancelled
                 (nexus_cancelled_failure ss ''Nexus operation cancelled after starting'')))]
          else []))))"

section \<open>Cancellation\<close>

definition nexus_cancel ::
  "NexusOperationMachine \<Rightarrow>
   (WFMachinesError MachineError, MachineResponse list) outcome \<times> NexusOperationMachine" where
  "nexus_cancel m = (case on_event nexus_transitions m Cancel of
      (Ok cmds, m') \<Rightarrow> (map_err Underlying (process_machine_commands nexus_adapt_response m' cmds None), m')
    | (Err e, m') \<Rightarrow> (Err e, m')
    | (Panic s, m') \<Rightarrow> (Panic s, m'))"

definition nexus_was_cancelled_before_sent_to_server :: "NexusOperationMachine \<Rightarrow> bool" where
  "nexus_was_cancelled_before_sent_to_server m = nx_cancelled_before_sent (shared_state m)"

definition nexus_lang :: "NexusOperationMachine \<Rightarrow> unit \<Rightarrow> responses \<times> NexusOperationMachine" where
  "nexus_lang m u = (let (r, m') = nexus_cancel m in (map_err wf_error_from r, m'))"

definition nexus_step :: "NexusOperationMachine \<Rightarrow> unit api_call \<Rightarrow> responses \<times> NexusOperationMachine" where
  "nexus_step = api_step nexus_transitions nexus_try_from_event nexus_try_from_command
     nexus_adapt_response nexus_lang"

section \<open>Lemmas\<close>

lemmas nexus_handler_defs = nexus_on_cancelled_before_sent_def scheduled_on_issue_cancel_def
  started_on_issue_cancel_def nexus_on_started_def nexus_cancelled_on_outcome_def Let_def

definition immediate :: "NexusSharedState \<Rightarrow> bool" where
  "immediate ss = (nx_cancel_type ss \<in> {NexusAbandon, NexusTryCancel})"

text \<open>
  Jobs that resolve the start of the operation, and jobs after which lang expects nothing more of it:
  a failed start, or the result.
\<close>

definition resolves_nexus_start :: "MachineResponse \<Rightarrow> nat" where
  "resolves_nexus_start r = (case r of PushWFJob (ResolveNexusOperationStart _ _) \<Rightarrow> 1 | _ \<Rightarrow> 0)"

definition concludes_nexus :: "MachineResponse \<Rightarrow> nat" where
  "concludes_nexus r = (case r of
      PushWFJob (ResolveNexusOperationStart _ (NS_Failed _)) \<Rightarrow> 1
    | PushWFJob (ResolveNexusOperation _ _) \<Rightarrow> 1
    | _ \<Rightarrow> 0)"

definition nexus_ok :: "bool \<Rightarrow> NexusOperationMachineState \<Rightarrow> NexusSharedState \<Rightarrow> bool" where
  "nexus_ok imm st ss = (immediate ss = imm)"

definition nexus_start_cost :: "NexusSharedState \<Rightarrow> NexusOperationCommand \<Rightarrow> nat" where
  "nexus_start_cost ss c = (case c of Start _ \<Rightarrow> 1 | StartSync \<Rightarrow> 1 | FailBeforeStart _ \<Rightarrow> 1 | _ \<Rightarrow> 0)"

definition nexus_start_pot :: "NexusOperationMachineState \<Rightarrow> NexusSharedState \<Rightarrow> nat" where
  "nexus_start_pot st ss = (if st \<in> {ScheduleCommandCreated, ScheduledEventRecorded} then 1 else 0)"

definition nexus_conclude_cost :: "NexusSharedState \<Rightarrow> NexusOperationCommand \<Rightarrow> nat" where
  "nexus_conclude_cost ss c = (case c of
      Start _ \<Rightarrow> 0 | StartSync \<Rightarrow> 0 | IssueCancel \<Rightarrow> if immediate ss then 1 else 0 | _ \<Rightarrow> 1)"

definition nexus_conclude_pot :: "NexusOperationMachineState \<Rightarrow> NexusSharedState \<Rightarrow> nat" where
  "nexus_conclude_pot st ss = (case st of
      ScheduleCommandCreated \<Rightarrow> if immediate ss then 2 else 1
    | ScheduledEventRecorded \<Rightarrow> if immediate ss \<and> \<not> nx_cancel_sent ss then 2 else 1
    | Started \<Rightarrow> 1
    | _ \<Rightarrow> 0)"

lemmas nexus_account_defs = resolves_nexus_start_def concludes_nexus_def nexus_start_cost_def
  nexus_start_pot_def nexus_conclude_cost_def nexus_conclude_pot_def immediate_def

lemma nexus_Arm_type:
  "nexus_transitions st ss ev = Arm ss' (TR_Ok cmds st') \<Longrightarrow> nx_cancel_type ss' = nx_cancel_type ss"
  by (cases st; cases ev) (auto simp: nexus_transitions_def nexus_handler_defs split: if_splits)

lemma nexus_Arm_start:
  "nexus_transitions st ss ev = Arm ss' (TR_Ok cmds st') \<Longrightarrow>
   weigh (nexus_start_cost ss') cmds + nexus_start_pot st' ss' = nexus_start_pot st ss"
  by (cases st; cases ev)
    (auto simp: nexus_transitions_def nexus_handler_defs nexus_account_defs split: if_splits)

lemma nexus_Arm_conclude:
  "nexus_transitions st ss ev = Arm ss' (TR_Ok cmds st') \<Longrightarrow>
   weigh (nexus_conclude_cost ss') cmds + nexus_conclude_pot st' ss' \<le> nexus_conclude_pot st ss"
  by (cases st; cases ev)
    (auto simp: nexus_transitions_def nexus_handler_defs nexus_account_defs split: if_splits)

lemma nexus_Arm_conclude_wait:
  "nexus_transitions st ss ev = Arm ss' (TR_Ok cmds st') \<Longrightarrow> \<not> immediate ss \<Longrightarrow>
   nexus_conclude_pot st ss \<le> weigh (nexus_conclude_cost ss') cmds + nexus_conclude_pot st' ss'"
  by (cases st; cases ev)
    (auto simp: nexus_transitions_def nexus_handler_defs nexus_account_defs split: if_splits)

lemma nexus_no_panic_arm: "nexus_transitions st ss ev \<noteq> Arm_panic msg"
  by (cases st; cases ev) (auto simp: nexus_transitions_def nexus_handler_defs)

lemma nexus_no_invalid_arm: "nexus_transitions st ss ev \<noteq> Arm ss' TR_InvalidTransition"
  by (cases st; cases ev) (auto simp: nexus_transitions_def nexus_handler_defs)

lemma nexus_adapt_no_panic [simp]: "\<not> is_panic (nexus_adapt_response m c info)"
  by (cases c) (auto simp: nexus_adapt_response_def outcome_simps Let_def command_from_def)

lemma nexus_adapt_weights:
  assumes "nexus_adapt_response m c info = Ok rs"
  shows "weigh resolves_nexus_start rs = nexus_start_cost (shared_state m) c"
    and "weigh concludes_nexus rs = nexus_conclude_cost (shared_state m) c"
  using assms
  by (cases c; auto simp: nexus_adapt_response_def nexus_account_defs outcome_simps Let_def
      command_from_Ok_iff split: if_splits)+

section \<open>Interfaces\<close>

interpretation nexus: event_lang nexus_transitions "nexus_ok imm" "\<lambda>_ _. True"
  nexus_try_from_event nexus_try_from_command nexus_adapt_response nexus_lang for imm
proof (standard, goal_cases)
  case (1 st sh ev sh' cmds st')
  then show ?case using nexus_Arm_type[OF 1(3)] by (simp add: nexus_ok_def immediate_def)
next
  case (2 st sh ev s) then show ?case by (simp add: nexus_no_panic_arm)
next
  case (3 st sh ev sh') then show ?case by (simp add: nexus_no_invalid_arm)
next
  case (4 d)
  then show ?case
    by (auto simp: nexus_try_from_event_def Let_def split: EventType.splits option.splits)
next
  case (8 m x)
  obtain st where "mstate m = Some st" using 8 by (rule machine_invE)
  then show ?case
    using nexus_no_panic_arm
    by (auto simp: nexus_lang_def nexus_cancel_def process_machine_commands_no_panic
        dest: on_event_Panic_arm split: prod.splits outcome.splits)
next
  case (9 m x rs m')
  then show ?case
    by (auto simp: nexus_lang_def nexus_cancel_def split: prod.splits outcome.splits)
qed simp_all

interpretation nexus_start: event_exact nexus_transitions "nexus_ok imm" "\<lambda>_ _. True"
  nexus_try_from_event nexus_try_from_command nexus_adapt_response nexus_lang
  resolves_nexus_start nexus_start_cost nexus_start_pot for imm
  by standard (auto dest: nexus_Arm_start nexus_adapt_weights)

interpretation nexus_conclude: event_budget nexus_transitions "nexus_ok imm" "\<lambda>_ _. True"
  nexus_try_from_event nexus_try_from_command nexus_adapt_response nexus_lang
  concludes_nexus nexus_conclude_cost nexus_conclude_pot for imm
  by standard (auto dest: nexus_Arm_conclude nexus_adapt_weights)

interpretation nexus_wait: event_exact nexus_transitions "nexus_ok False" "\<lambda>_ _. True"
  nexus_try_from_event nexus_try_from_command nexus_adapt_response nexus_lang
  concludes_nexus nexus_conclude_cost nexus_conclude_pot
  by standard (auto simp: nexus_ok_def dest: nexus_Arm_conclude_wait nexus_adapt_weights)

section \<open>Properties\<close>


definition nexus_scheduled_call :: "unit api_call" where
  "nexus_scheduled_call = HistoryCall (live_event 5 NexusOperationScheduledEventAttributes)"

definition nexus_started_call :: "string \<Rightarrow> unit api_call" where
  "nexus_started_call token = HistoryCall (live_event 6 (NexusOperationStartedEventAttributes
     \<lparr> nos_scheduled_event_id = 5, nos_operation_token = token \<rparr>))"

definition nexus_completed_call :: "Payload option \<Rightarrow> unit api_call" where
  "nexus_completed_call result = HistoryCall (live_event 12 (NexusOperationCompletedEventAttributes
     \<lparr> noc_scheduled_event_id = 5, noc_result = result \<rparr>))"

lemmas nexus_eval = nexus_step_def api_step_def handle_event_def handle_command_def
  nexus_try_from_event_def nexus_try_from_command_def live_event_def recorded_event_def
  attributes_event_type_def on_event_def from_parts_def nexus_transitions_def nexus_handler_defs
  nexus_adapt_response_def nexus_lang_def nexus_cancel_def nexus_new_scheduled_def
  nexus_cancellation_type_def nexus_scheduled_call_def nexus_started_call_def nexus_completed_call_def
  command_from_def

text \<open>
  C31: Cancelling a Nexus operation before it starts can resolve it twice.  With the abandon or the
  try-cancel type, a cancellation while the operation is scheduled tells lang at once that it was
  cancelled, before any start, but leaves the machine waiting; when the operation then starts and
  completes, lang is told again, with the result.
\<close>

theorem nexus_cancel_before_start_resolves_twice:
  "let calls = [nexus_scheduled_call, LangCall (), nexus_started_call token, nexus_completed_call result] in
   (case run_calls nexus_step (snd (nexus_new_scheduled (attribs\<lparr> sn_cancellation_type := 1 \<rparr>))) calls of
      (rs, r, m') \<Rightarrow> r = Ok () \<and> weigh concludes_nexus rs = 2) \<and>
   (case run_calls nexus_step (snd (nexus_new_scheduled (attribs\<lparr> sn_cancellation_type := 2 \<rparr>))) calls of
      (rs, r, m') \<Rightarrow> r = Ok () \<and> weigh concludes_nexus rs = 2)"
  by (simp add: nexus_eval concludes_nexus_def)

text \<open>
  C32: The check on abandoned Nexus operations is inverted.  A started operation cancelled with the
  abandon type and then completing is rejected with the error that only abandoned operations may
  complete after being cancelled, while with the try-cancel type the completion is accepted.
\<close>

theorem nexus_abandon_check_inverted:
  "let calls = [nexus_scheduled_call, nexus_started_call token, LangCall (), nexus_completed_call result] in
   (case run_calls nexus_step (snd (nexus_new_scheduled (attribs\<lparr> sn_cancellation_type := 1 \<rparr>))) calls of
      (rs, r, m') \<Rightarrow> r = Err nexus_completion_of_not_abandoned_err) \<and>
   (case run_calls nexus_step (snd (nexus_new_scheduled (attribs\<lparr> sn_cancellation_type := 2 \<rparr>))) calls of
      (rs, r, m') \<Rightarrow> r = Ok ())"
  by (simp add: nexus_eval)

end
