(* ===== verification/ExternalMachines.thy ===== *)
theory ExternalMachines
  imports TemporalMachine
begin

text \<open>
  \<^verbatim>\<open>machines/signal_external_state_machine.rs\<close> and \<^verbatim>\<open>machines/cancel_external_state_machine.rs\<close>:
  signalling and cancelling another workflow.  \<open>show_cause\<close> stands for the \<^verbatim>\<open>Display\<close> instance of the
  failure causes, which the build generates.
\<close>

section \<open>Signalling an external workflow\<close>

datatype SignalExternalMachineState =
    Created | SignalExternalCommandCreated | SignalExternalCommandRecorded | Signaled | Failed | Cancelled

datatype SignalExternalMachineEvents =
    Schedule | CommandSignalExternalWorkflowExecution | Cancel
  | SignalExternalWorkflowExecutionInitiated | ExternalWorkflowExecutionSignaled
  | SignalExternalWorkflowExecutionFailed SignalExternalWorkflowExecutionFailedCause

datatype SignalExternalCommand =
    SignaledCmd | FailedCmd SignalExternalWorkflowExecutionFailedCause | CancelledCmd

record SignalSharedState =
  sg_seq :: u32

type_synonym SignalExternalMachine = "(SignalExternalMachineState, SignalSharedState) machine"

definition signal_transitions ::
  "(SignalExternalMachineState, SignalSharedState, SignalExternalMachineEvents, SignalExternalCommand,
    WFMachinesError) transitions" where
  "signal_transitions st dat ev = (case st of
      Created \<Rightarrow> (case ev of
          Schedule \<Rightarrow> Arm dat (tr_default SignalExternalCommandCreated)
        | _ \<Rightarrow> Unmatched)
    | SignalExternalCommandCreated \<Rightarrow> (case ev of
          CommandSignalExternalWorkflowExecution \<Rightarrow> Arm dat (tr_from id SignalExternalCommandCreated)
        | Cancel \<Rightarrow> Arm dat (tr_with_commands Cancelled [CancelledCmd])
        | SignalExternalWorkflowExecutionInitiated \<Rightarrow> Arm dat (tr_default SignalExternalCommandRecorded)
        | _ \<Rightarrow> Unmatched)
    | SignalExternalCommandRecorded \<Rightarrow> (case ev of
          Cancel \<Rightarrow> Arm dat (tr_from id SignalExternalCommandRecorded)
        | ExternalWorkflowExecutionSignaled \<Rightarrow> Arm dat (tr_with_commands Signaled [SignaledCmd])
        | SignalExternalWorkflowExecutionFailed cause \<Rightarrow>
            Arm dat (tr_with_commands Failed [FailedCmd cause])
        | _ \<Rightarrow> Unmatched)
    | Cancelled \<Rightarrow> (case ev of Cancel \<Rightarrow> Arm dat (tr_from id Cancelled) | _ \<Rightarrow> Unmatched)
    | Signaled \<Rightarrow> (case ev of Cancel \<Rightarrow> Arm dat (tr_from id Signaled) | _ \<Rightarrow> Unmatched)
    | Failed \<Rightarrow> Unmatched)"

definition new_external_signal ::
  "SignalExternalWorkflowExecution \<Rightarrow> string \<Rightarrow>
   (WFMachinesError, CommandAttributes \<times> SignalExternalMachine) outcome" where
  "new_external_signal attrs this_namespace =
     bind_outcome (case se_target attrs of
         None \<Rightarrow> Err (Fatal ''Signal external workflow command had empty target field'')
       | Some (ST_ChildWorkflowId wfid) \<Rightarrow>
           Ok (\<lparr> nwe_namespace = this_namespace, nwe_workflow_id = wfid, nwe_run_id = '''' \<rparr>, True)
       | Some (ST_WorkflowExecution we) \<Rightarrow> Ok (we, False))
     (\<lambda>(we, only_child).
       case on_event signal_transitions (from_parts Created \<lparr> sg_seq = se_seq attrs \<rparr>) Schedule of
         (Ok _, s) \<Rightarrow> Ok (SignalExternalWorkflowExecutionCommandAttributes \<lparr>
             sea_namespace = nwe_namespace we,
             sea_execution = Some \<lparr> we_workflow_id = nwe_workflow_id we, we_run_id = nwe_run_id we \<rparr>,
             sea_signal_name = se_signal_name attrs,
             sea_input = into_payloads (se_args attrs),
             sea_child_workflow_only = only_child,
             sea_header = some_unless_empty (se_headers attrs) \<rparr>, s)
       | _ \<Rightarrow> Panic ''Scheduling signal external wf command doesn't fail'')"

definition signal_try_from_command :: "CommandType \<Rightarrow> SignalExternalMachineEvents option" where
  "signal_try_from_command c = (case c of
      CT_SignalExternalWorkflowExecution \<Rightarrow> Some CommandSignalExternalWorkflowExecution
    | _ \<Rightarrow> None)"

definition signal_try_from_event :: "HistEventData \<Rightarrow> (WFMachinesError, SignalExternalMachineEvents) outcome" where
  "signal_try_from_event d = (let e = hed_event d in case event_type e of
      ET_ExternalWorkflowExecutionSignaled \<Rightarrow> Ok ExternalWorkflowExecutionSignaled
    | ET_SignalExternalWorkflowExecutionInitiated \<Rightarrow> Ok SignalExternalWorkflowExecutionInitiated
    | ET_SignalExternalWorkflowExecutionFailed \<Rightarrow> (case as_signal_failed (attributes e) of
          Some cause \<Rightarrow> Ok (SignalExternalWorkflowExecutionFailed cause)
        | None \<Rightarrow> Err (Fatal ''Signal workflow failed attributes were unset: {e}''))
    | _ \<Rightarrow> Err (Nondeterminism ''Signal external WF machine does not handle this event: {e}''))"

definition signal_failure_reason :: "SignalExternalWorkflowExecutionFailedCause \<Rightarrow> string" where
  "signal_failure_reason f = (case f of
      SEFC_Unspecified \<Rightarrow> ''unknown''
    | SEFC_ExternalWorkflowExecutionNotFound \<Rightarrow> ''it was not found''
    | SEFC_NamespaceNotFound \<Rightarrow> ''it was not found''
    | SEFC_SignalCountLimitExceeded \<Rightarrow> ''The per-workflow signal limit was exceeded'')"

definition signal_adapt_response ::
  "(SignalExternalWorkflowExecutionFailedCause \<Rightarrow> string) \<Rightarrow>
   (SignalExternalMachine, SignalExternalCommand) adapter" where
  "signal_adapt_response show_cause m my_command info = (case my_command of
      SignaledCmd \<Rightarrow> Ok [PushWFJob (ResolveSignalExternalWorkflow (sg_seq (shared_state m)) None)]
    | FailedCmd f \<Rightarrow> Ok [PushWFJob (ResolveSignalExternalWorkflow (sg_seq (shared_state m))
        (Some (mk_failure (''Unable to signal external workflow because '' @ signal_failure_reason f) None
          (Some (ApplicationFailureInfo (show_cause f) False None None)))))]
    | CancelledCmd \<Rightarrow> Panic ''Cancelled command not expected as part of non-cancel transition'')"

definition signal_cancel ::
  "SignalExternalMachine \<Rightarrow>
   (WFMachinesError MachineError, MachineResponse list) outcome \<times> SignalExternalMachine" where
  "signal_cancel m = (case on_event signal_transitions m Cancel of
      (Ok res, m') \<Rightarrow> (case res of
          CancelledCmd # _ \<Rightarrow> (Ok [PushWFJob (ResolveSignalExternalWorkflow (sg_seq (shared_state m'))
            (Some (mk_failure ''Signal was cancelled before being sent'' None
              (Some (CanceledFailureInfo None)))))], m')
        | [] \<Rightarrow> (Ok [], m')
        | _ \<Rightarrow> (Panic ''Signal external machine cancel produced unexpected result'', m'))
    | (Err e, m') \<Rightarrow> (Err e, m')
    | (Panic s, m') \<Rightarrow> (Panic s, m'))"

definition signal_was_cancelled_before_sent_to_server :: "SignalExternalMachine \<Rightarrow> ('e, bool) outcome" where
  "signal_was_cancelled_before_sent_to_server m = bind_outcome (get_state m) (\<lambda>st. Ok (st = Cancelled))"

definition signal_lang :: "SignalExternalMachine \<Rightarrow> unit \<Rightarrow> responses \<times> SignalExternalMachine" where
  "signal_lang m u = (let (r, m') = signal_cancel m in (map_err wf_error_from r, m'))"

definition signal_step ::
  "(SignalExternalWorkflowExecutionFailedCause \<Rightarrow> string) \<Rightarrow>
   SignalExternalMachine \<Rightarrow> unit api_call \<Rightarrow> responses \<times> SignalExternalMachine" where
  "signal_step show_cause = api_step signal_transitions signal_try_from_event signal_try_from_command
     (signal_adapt_response show_cause) signal_lang"

section \<open>Cancelling an external workflow\<close>

datatype CancelExternalMachineState =
    CE_Created | RequestCancelExternalCommandCreated | RequestCancelExternalCommandRecorded
  | CancelRequested | RequestCancelFailed

datatype CancelExternalMachineEvents =
    CE_Schedule | CommandRequestCancelExternalWorkflowExecution
  | RequestCancelExternalWorkflowExecutionInitiated | ExternalWorkflowExecutionCancelRequested
  | RequestCancelExternalWorkflowExecutionFailed CancelExternalWorkflowExecutionFailedCause

datatype CancelExternalCommand = Requested | RequestFailed CancelExternalWorkflowExecutionFailedCause

record CancelExternalSharedState =
  cx_seq :: u32

type_synonym CancelExternalMachine = "(CancelExternalMachineState, CancelExternalSharedState) machine"

definition cancel_external_transitions ::
  "(CancelExternalMachineState, CancelExternalSharedState, CancelExternalMachineEvents,
    CancelExternalCommand, WFMachinesError) transitions" where
  "cancel_external_transitions st dat ev = (case st of
      CE_Created \<Rightarrow> (case ev of
          CE_Schedule \<Rightarrow> Arm dat (tr_default RequestCancelExternalCommandCreated)
        | _ \<Rightarrow> Unmatched)
    | RequestCancelExternalCommandCreated \<Rightarrow> (case ev of
          CommandRequestCancelExternalWorkflowExecution \<Rightarrow>
            Arm dat (tr_from id RequestCancelExternalCommandCreated)
        | RequestCancelExternalWorkflowExecutionInitiated \<Rightarrow>
            Arm dat (tr_default RequestCancelExternalCommandRecorded)
        | _ \<Rightarrow> Unmatched)
    | RequestCancelExternalCommandRecorded \<Rightarrow> (case ev of
          ExternalWorkflowExecutionCancelRequested \<Rightarrow>
            Arm dat (tr_with_commands CancelRequested [Requested])
        | RequestCancelExternalWorkflowExecutionFailed cause \<Rightarrow>
            Arm dat (tr_with_commands RequestCancelFailed [RequestFailed cause])
        | _ \<Rightarrow> Unmatched)
    | CancelRequested \<Rightarrow> Unmatched
    | RequestCancelFailed \<Rightarrow> Unmatched)"

definition new_external_cancel ::
  "u32 \<Rightarrow> NamespacedWorkflowExecution \<Rightarrow> bool \<Rightarrow> string \<Rightarrow>
   ('e, CommandAttributes \<times> CancelExternalMachine) outcome" where
  "new_external_cancel seq workflow_execution only_child reason =
     (case on_event cancel_external_transitions (from_parts CE_Created \<lparr> cx_seq = seq \<rparr>) CE_Schedule of
        (Ok _, s) \<Rightarrow> Ok (RequestCancelExternalWorkflowExecutionCommandAttributes \<lparr>
            rce_namespace = nwe_namespace workflow_execution,
            rce_workflow_id = nwe_workflow_id workflow_execution,
            rce_run_id = nwe_run_id workflow_execution,
            rce_child_workflow_only = only_child, rce_reason = reason \<rparr>, s)
      | _ \<Rightarrow> Panic ''Scheduling cancel external wf command doesn't fail'')"

definition cancel_external_try_from_command :: "CommandType \<Rightarrow> CancelExternalMachineEvents option" where
  "cancel_external_try_from_command c = (case c of
      CT_RequestCancelExternalWorkflowExecution \<Rightarrow> Some CommandRequestCancelExternalWorkflowExecution
    | _ \<Rightarrow> None)"

definition cancel_external_try_from_event ::
  "HistEventData \<Rightarrow> (WFMachinesError, CancelExternalMachineEvents) outcome" where
  "cancel_external_try_from_event d = (let e = hed_event d in case event_type e of
      ET_ExternalWorkflowExecutionCancelRequested \<Rightarrow> Ok ExternalWorkflowExecutionCancelRequested
    | ET_RequestCancelExternalWorkflowExecutionInitiated \<Rightarrow> Ok RequestCancelExternalWorkflowExecutionInitiated
    | ET_RequestCancelExternalWorkflowExecutionFailed \<Rightarrow> (case as_cancel_failed (attributes e) of
          Some cause \<Rightarrow> Ok (RequestCancelExternalWorkflowExecutionFailed cause)
        | None \<Rightarrow> Err (Fatal ''Cancelworkflow failed attributes were unset: {e}''))
    | _ \<Rightarrow> Err (Nondeterminism ''Cancel external WF machine does not handle this event: {e}''))"

definition cancel_failure_reason :: "CancelExternalWorkflowExecutionFailedCause \<Rightarrow> string" where
  "cancel_failure_reason f = (case f of
      CEFC_Unspecified \<Rightarrow> ''unknown''
    | CEFC_ExternalWorkflowExecutionNotFound \<Rightarrow> ''not found''
    | CEFC_NamespaceNotFound \<Rightarrow> ''not found'')"

definition cancel_external_adapt_response ::
  "(CancelExternalWorkflowExecutionFailedCause \<Rightarrow> string) \<Rightarrow>
   (CancelExternalMachine, CancelExternalCommand) adapter" where
  "cancel_external_adapt_response show_cause m my_command info = (case my_command of
      Requested \<Rightarrow> Ok [PushWFJob (ResolveRequestCancelExternalWorkflow (cx_seq (shared_state m)) None)]
    | RequestFailed f \<Rightarrow> Ok [PushWFJob (ResolveRequestCancelExternalWorkflow (cx_seq (shared_state m))
        (Some (mk_failure (''Unable to cancel external workflow because '' @ cancel_failure_reason f) None
          (Some (ApplicationFailureInfo (show_cause f) False None None)))))])"

definition cancel_external_step ::
  "(CancelExternalWorkflowExecutionFailedCause \<Rightarrow> string) \<Rightarrow>
   CancelExternalMachine \<Rightarrow> unit api_call \<Rightarrow> responses \<times> CancelExternalMachine" where
  "cancel_external_step show_cause = api_step cancel_external_transitions cancel_external_try_from_event
     cancel_external_try_from_command (cancel_external_adapt_response show_cause) no_lang"

section \<open>Lemmas\<close>

definition resolves_signal :: "MachineResponse \<Rightarrow> nat" where
  "resolves_signal r = (case r of PushWFJob (ResolveSignalExternalWorkflow _ _) \<Rightarrow> 1 | _ \<Rightarrow> 0)"

definition signal_pot :: "SignalExternalMachineState \<Rightarrow> SignalSharedState \<Rightarrow> nat" where
  "signal_pot st dat = (if st \<in> {Signaled, Failed, Cancelled} then 0 else 1)"

definition signal_ok_event :: "SignalSharedState \<Rightarrow> SignalExternalMachineEvents \<Rightarrow> bool" where
  "signal_ok_event dat ev = (ev \<noteq> Cancel)"

definition resolves_cancel_request :: "MachineResponse \<Rightarrow> nat" where
  "resolves_cancel_request r = (case r of PushWFJob (ResolveRequestCancelExternalWorkflow _ _) \<Rightarrow> 1 | _ \<Rightarrow> 0)"

definition cancel_external_pot :: "CancelExternalMachineState \<Rightarrow> CancelExternalSharedState \<Rightarrow> nat" where
  "cancel_external_pot st dat = (if st \<in> {CancelRequested, RequestCancelFailed} then 0 else 1)"

interpretation signal: temporal_exact signal_transitions "\<lambda>_ _. True" signal_ok_event signal_try_from_event
  signal_try_from_command "signal_adapt_response show_cause" signal_lang resolves_signal "\<lambda>_ _. 1" signal_pot
  for show_cause
proof (standard, goal_cases)
  case (1 st sh ev sh' cmds st') then show ?case by simp
next
  case (2 st sh ev s)
  then show ?case by (cases st; cases ev) (auto simp: signal_transitions_def)
next
  case (3 st sh ev sh')
  then show ?case by (cases st; cases ev) (auto simp: signal_transitions_def)
next
  case (4 d)
  then show ?case by (auto simp: signal_try_from_event_def Let_def split: EventType.splits option.splits)
next
  case (5 d ev sh)
  then show ?case
    by (auto simp: signal_try_from_event_def signal_ok_event_def Let_def split: EventType.splits option.splits)
next
  case (6 ct ev sh)
  then show ?case by (auto simp: signal_try_from_command_def signal_ok_event_def split: CommandType.splits)
next
  case (7 st sh ev sh' cmds st' c info)
  then show ?case
    by (cases st; cases ev) (auto simp: signal_transitions_def signal_adapt_response_def signal_ok_event_def)
next
  case (8 m x)
  then show ?case
    by (elim machine_invE, cases "the (mstate m)")
      (auto simp: signal_lang_def signal_cancel_def on_event_def signal_transitions_def)
next
  case (9 m x rs m')
  then show ?case
    by (elim machine_invE, cases "the (mstate m)")
      (auto simp: signal_lang_def signal_cancel_def on_event_def signal_transitions_def machine_inv_def)
next
  case (10 st sh ev sh' cmds st')
  then show ?case by (cases st; cases ev) (auto simp: signal_transitions_def signal_pot_def)
next
  case (11 st sh ev sh' cmds st' c info rs)
  then show ?case by (cases c) (auto simp: signal_adapt_response_def resolves_signal_def)
next
  case (12 m x rs m')
  then show ?case
    by (elim machine_invE, cases "the (mstate m)")
      (auto simp: signal_lang_def signal_cancel_def on_event_def signal_transitions_def machine_pot_def
        signal_pot_def resolves_signal_def)
next
  case (13 st sh ev sh' cmds st')
  then show ?case by (cases st; cases ev) (auto simp: signal_transitions_def signal_pot_def)
next
  case (14 st sh ev sh' cmds st' c info rs)
  then show ?case by (cases c) (auto simp: signal_adapt_response_def resolves_signal_def)
next
  case (15 m x rs m')
  then show ?case
    by (elim machine_invE, cases "the (mstate m)")
      (auto simp: signal_lang_def signal_cancel_def on_event_def signal_transitions_def machine_pot_def
        signal_pot_def resolves_signal_def)
qed

interpretation cancel_external: event_exact cancel_external_transitions "\<lambda>_ _. True" "\<lambda>_ _. True"
  cancel_external_try_from_event cancel_external_try_from_command "cancel_external_adapt_response show_cause"
  no_lang resolves_cancel_request "\<lambda>_ _. 1" cancel_external_pot for show_cause
proof (standard, goal_cases)
  case (2 st sh ev s)
  then show ?case by (cases st; cases ev) (auto simp: cancel_external_transitions_def)
next
  case (3 st sh ev sh')
  then show ?case by (cases st; cases ev) (auto simp: cancel_external_transitions_def)
next
  case (4 d)
  then show ?case
    by (auto simp: cancel_external_try_from_event_def Let_def split: EventType.splits option.splits)
next
  case (7 st sh ev sh' cmds st' c info)
  then show ?case by (cases c) (auto simp: cancel_external_adapt_response_def)
next
  case (10 st sh ev sh' cmds st')
  then show ?case by (cases st; cases ev) (auto simp: cancel_external_transitions_def cancel_external_pot_def)
next
  case (11 st sh ev sh' cmds st' c info rs)
  then show ?case by (cases c) (auto simp: cancel_external_adapt_response_def resolves_cancel_request_def)
next
  case (12 st sh ev sh' cmds st')
  then show ?case by (cases st; cases ev) (auto simp: cancel_external_transitions_def cancel_external_pot_def)
next
  case (13 st sh ev sh' cmds st' c info rs)
  then show ?case by (cases c) (auto simp: cancel_external_adapt_response_def resolves_cancel_request_def)
qed (simp_all add: no_lang_def)

section \<open>Properties\<close>

lemma new_external_signal_Ok:
  "new_external_signal attrs ns = (case se_target attrs of
      None \<Rightarrow> Err (Fatal ''Signal external workflow command had empty target field'')
    | Some t \<Rightarrow> Ok (SignalExternalWorkflowExecutionCommandAttributes (case t of
          ST_ChildWorkflowId wfid \<Rightarrow> \<lparr> sea_namespace = ns,
            sea_execution = Some \<lparr> we_workflow_id = wfid, we_run_id = '''' \<rparr>,
            sea_signal_name = se_signal_name attrs, sea_input = into_payloads (se_args attrs),
            sea_child_workflow_only = True, sea_header = some_unless_empty (se_headers attrs) \<rparr>
        | ST_WorkflowExecution we \<Rightarrow> \<lparr> sea_namespace = nwe_namespace we,
            sea_execution = Some \<lparr> we_workflow_id = nwe_workflow_id we, we_run_id = nwe_run_id we \<rparr>,
            sea_signal_name = se_signal_name attrs, sea_input = into_payloads (se_args attrs),
            sea_child_workflow_only = False, sea_header = some_unless_empty (se_headers attrs) \<rparr>),
        from_parts SignalExternalCommandCreated \<lparr> sg_seq = se_seq attrs \<rparr>))"
  by (simp add: new_external_signal_def on_event_def from_parts_def signal_transitions_def
      split: option.split SignalTarget.split)

text \<open>
  C24: An external signal is resolved to lang exactly once.  A signal command without target is refused;
  one naming a child workflow id goes to the workflow of that id in the own namespace and is restricted
  to children.  Over any sequence of history events, commands and cancellations the machine never
  panics, so the adapter never sees the cancelled command it panics on; it resolves at most once, and
  after a run without error exactly when it is signaled, failed or cancelled.
\<close>

theorem signal_resolves_exactly_once:
  "case new_external_signal attrs ns of
      Ok (cmd, m) \<Rightarrow> se_target attrs \<noteq> None \<and>
        (case (cmd, se_target attrs) of
           (SignalExternalWorkflowExecutionCommandAttributes a, Some (ST_ChildWorkflowId wfid)) \<Rightarrow>
             sea_namespace a = ns \<and> sea_child_workflow_only a \<and>
             sea_execution a = Some \<lparr> we_workflow_id = wfid, we_run_id = '''' \<rparr>
         | (SignalExternalWorkflowExecutionCommandAttributes a, _) \<Rightarrow> \<not> sea_child_workflow_only a
         | _ \<Rightarrow> False) \<and>
        (case run_calls (signal_step show_cause) m calls of
           (rs, r, m') \<Rightarrow> \<not> is_panic r \<and> weigh resolves_signal rs \<le> 1 \<and>
             (case (r, mstate m') of
                (Ok _, Some st) \<Rightarrow> weigh resolves_signal rs = (if st \<in> {Signaled, Failed, Cancelled} then 1 else 0)
              | (Ok _, None) \<Rightarrow> False
              | _ \<Rightarrow> True))
    | Err e \<Rightarrow> se_target attrs = None
    | Panic _ \<Rightarrow> False"
proof -
  define m where "m = from_parts SignalExternalCommandCreated \<lparr> sg_seq = se_seq attrs \<rparr>"
  obtain rs r m' where run: "run_calls (signal_step show_cause) m calls = (rs, r, m')"
    by (cases "run_calls (signal_step show_cause) m calls")
  have "machine_inv (\<lambda>_ _. True) m" "machine_pot signal_pot m = 1"
    by (simp_all add: m_def signal_pot_def)
  with signal.run_accounts[OF _ run[unfolded signal_step_def]] run show ?thesis
    by (auto simp: new_external_signal_Ok m_def[symmetric] signal_pot_def
        split: outcome.splits option.splits SignalTarget.splits if_splits)
qed

text \<open>
  C33: A late cancellation of a failed signal breaks the workflow task.  The transitions meant to ignore
  spurious cancellations after resolution cover a cancelled and a delivered signal, on which a further
  cancellation does nothing; a signal that failed has no such transition, so cancelling it is reported
  as an invalid transition, a nondeterminism error.
\<close>

theorem cancel_of_failed_signal_is_nondeterminism:
  "(case on_event signal_transitions (from_parts SignalExternalCommandRecorded sh)
       (SignalExternalWorkflowExecutionFailed cause) of
      (Ok cmds, m) \<Rightarrow> cmds = [FailedCmd cause] \<and>
        fst (signal_lang m ()) = Err (Nondeterminism ''Invalid transition in state machine'')
    | _ \<Rightarrow> False) \<and>
   signal_lang (from_parts Signaled sh) () = (Ok [], from_parts Signaled sh) \<and>
   signal_lang (from_parts Cancelled sh) () = (Ok [], from_parts Cancelled sh)"
  by (simp add: on_event_def from_parts_def signal_transitions_def signal_lang_def signal_cancel_def)

text \<open>
  C25: A request to cancel an external workflow is resolved to lang exactly once: the machine never
  panics, whatever events and commands it receives, resolves at most once, and after a run without
  error has resolved exactly when the request was delivered or has failed.
\<close>

theorem cancel_request_resolves_exactly_once:
  "case new_external_cancel seq we only_child reason of
      Ok (cmd, m) \<Rightarrow>
        (case run_calls (cancel_external_step show_cause) m calls of
           (rs, r, m') \<Rightarrow> \<not> is_panic r \<and> weigh resolves_cancel_request rs \<le> 1 \<and>
             (case (r, mstate m') of
                (Ok _, Some st) \<Rightarrow> weigh resolves_cancel_request rs =
                  (if st \<in> {CancelRequested, RequestCancelFailed} then 1 else 0)
              | (Ok _, None) \<Rightarrow> False
              | _ \<Rightarrow> True))
    | _ \<Rightarrow> False"
proof -
  define m where "m = from_parts RequestCancelExternalCommandCreated \<lparr> cx_seq = seq \<rparr>"
  obtain rs r m' where run: "run_calls (cancel_external_step show_cause) m calls = (rs, r, m')"
    by (cases "run_calls (cancel_external_step show_cause) m calls")
  have "machine_inv (\<lambda>_ _. True) m" "machine_pot cancel_external_pot m = 1"
    by (simp_all add: m_def cancel_external_pot_def)
  with cancel_external.run_accounts[OF _ run[unfolded cancel_external_step_def]] run show ?thesis
    by (auto simp: new_external_cancel_def on_event_def cancel_external_transitions_def
        m_def[symmetric] from_parts_def[symmetric] cancel_external_pot_def
        split: outcome.splits option.splits if_splits)
qed

end
