(* ===== verification/CommandMachines.thy ===== *)
theory CommandMachines
  imports TemporalMachine InternalFlags
begin

text \<open>
  The machines that only see one command through: the four that end a workflow
  (\<^verbatim>\<open>complete_workflow_state_machine.rs\<close>, \<^verbatim>\<open>fail_workflow_state_machine.rs\<close>,
  \<^verbatim>\<open>cancel_workflow_state_machine.rs\<close>, \<^verbatim>\<open>continue_as_new_workflow_state_machine.rs\<close>) and the two that
  change attributes of a workflow (\<^verbatim>\<open>upsert_search_attributes_state_machine.rs\<close>,
  \<^verbatim>\<open>modify_workflow_properties_state_machine.rs\<close>).  Lang has no call on them: an input is a history
  event or the type of the command being sent.  Machines without commands have the command type
  \<^typ>\<open>unit\<close>, and no transition of theirs produces one.
\<close>

section \<open>Inputs\<close>

type_synonym machine_input = "HistEventData + CommandType"

definition input_step ::
  "('st, 'sh, 'ev, 'c, WFMachinesError) transitions \<Rightarrow>
   (HistEventData \<Rightarrow> (WFMachinesError, 'ev) outcome) \<Rightarrow> (CommandType \<Rightarrow> 'ev option) \<Rightarrow>
   (('st, 'sh) machine, 'c) adapter \<Rightarrow>
   ('st, 'sh) machine \<Rightarrow> machine_input \<Rightarrow> responses \<times> ('st, 'sh) machine" where
  "input_step tf try_event try_cmd adapt m input = (case input of
      Inl d \<Rightarrow> handle_event tf try_event adapt m d
    | Inr ct \<Rightarrow> handle_command tf try_cmd adapt m ct)"

section \<open>Completing a workflow\<close>

datatype CompleteWorkflowMachineState =
    CompleteCreated "Payload option" | CompleteWorkflowCommandCreated | CompleteWorkflowCommandRecorded
datatype CompleteWorkflowMachineEvents =
    CompleteSchedule | CommandCompleteWorkflowExecution | WorkflowExecutionCompleted
datatype CompleteWFCommand = CompleteAddCommand CommandAttributes

definition complete_transitions ::
  "(CompleteWorkflowMachineState, unit, CompleteWorkflowMachineEvents, CompleteWFCommand,
    WFMachinesError) transitions" where
  "complete_transitions st dat ev = (case st of
      CompleteCreated attribs \<Rightarrow> (case ev of
          CompleteSchedule \<Rightarrow> Arm dat (tr_with_commands CompleteWorkflowCommandCreated
            [CompleteAddCommand (attributes_from_Complete attribs)])
        | _ \<Rightarrow> Unmatched)
    | CompleteWorkflowCommandCreated \<Rightarrow> (case ev of
          CommandCompleteWorkflowExecution \<Rightarrow> Arm dat (tr_from id CompleteWorkflowCommandCreated)
        | WorkflowExecutionCompleted \<Rightarrow>
            Arm dat (tr_from (\<lambda>_. CompleteWorkflowCommandRecorded) CompleteWorkflowCommandCreated)
        | _ \<Rightarrow> Unmatched)
    | CompleteWorkflowCommandRecorded \<Rightarrow> Unmatched)"

definition complete_workflow ::
  "Payload option \<Rightarrow> ('e, CommandAttributes \<times> (CompleteWorkflowMachineState, unit) machine) outcome" where
  "complete_workflow attribs =
     (case on_event complete_transitions (from_parts (CompleteCreated attribs) ()) CompleteSchedule of
        (Ok cmds, machine) \<Rightarrow> (case rev cmds of
            CompleteAddCommand c # _ \<Rightarrow> Ok (c, machine)
          | [] \<Rightarrow> Panic ''complete wf machine on_schedule must produce command'')
      | _ \<Rightarrow> Panic ''Scheduling complete wf machines doesn't fail'')"

definition complete_try_from_event ::
  "HistEventData \<Rightarrow> (WFMachinesError, CompleteWorkflowMachineEvents) outcome" where
  "complete_try_from_event d = (if event_type (hed_event d) = ET_WorkflowExecutionCompleted
     then Ok WorkflowExecutionCompleted
     else Err (Nondeterminism ''Complete workflow machine does not handle this event: {e}''))"

definition complete_try_from_command :: "CommandType \<Rightarrow> CompleteWorkflowMachineEvents option" where
  "complete_try_from_command c =
     (if c = CT_CompleteWorkflowExecution then Some CommandCompleteWorkflowExecution else None)"

definition complete_adapt_response ::
  "((CompleteWorkflowMachineState, unit) machine, CompleteWFCommand) adapter" where
  "complete_adapt_response m my_command info = Ok []"

definition complete_step where
  "complete_step = input_step complete_transitions complete_try_from_event complete_try_from_command
     complete_adapt_response"

section \<open>Failing a workflow\<close>

datatype FailWorkflowMachineState =
    FailCreated "Failure option" | FailWorkflowCommandCreated | FailWorkflowCommandRecorded
datatype FailWorkflowMachineEvents =
    FailSchedule | CommandFailWorkflowExecution | WorkflowExecutionFailed
datatype FailWFCommand = FailAddCommand CommandAttributes

definition fail_transitions ::
  "(FailWorkflowMachineState, unit, FailWorkflowMachineEvents, FailWFCommand, WFMachinesError) transitions" where
  "fail_transitions st dat ev = (case st of
      FailCreated attribs \<Rightarrow> (case ev of
          FailSchedule \<Rightarrow> Arm dat (tr_with_commands FailWorkflowCommandCreated
            [FailAddCommand (attributes_from_Fail attribs)])
        | _ \<Rightarrow> Unmatched)
    | FailWorkflowCommandCreated \<Rightarrow> (case ev of
          CommandFailWorkflowExecution \<Rightarrow> Arm dat (tr_from id FailWorkflowCommandCreated)
        | WorkflowExecutionFailed \<Rightarrow>
            Arm dat (tr_from (\<lambda>_. FailWorkflowCommandRecorded) FailWorkflowCommandCreated)
        | _ \<Rightarrow> Unmatched)
    | FailWorkflowCommandRecorded \<Rightarrow> Unmatched)"

definition fail_workflow ::
  "Failure option \<Rightarrow> ('e, CommandAttributes \<times> (FailWorkflowMachineState, unit) machine) outcome" where
  "fail_workflow attribs =
     (case on_event fail_transitions (from_parts (FailCreated attribs) ()) FailSchedule of
        (Ok cmds, machine) \<Rightarrow> (case rev cmds of
            FailAddCommand c # _ \<Rightarrow> Ok (c, machine)
          | [] \<Rightarrow> Panic ''Fail wf machine on_schedule must produce command'')
      | _ \<Rightarrow> Panic ''Scheduling fail wf machines doesn't fail'')"

definition fail_try_from_event :: "HistEventData \<Rightarrow> (WFMachinesError, FailWorkflowMachineEvents) outcome" where
  "fail_try_from_event d = (if event_type (hed_event d) = ET_WorkflowExecutionFailed
     then Ok WorkflowExecutionFailed
     else Err (Nondeterminism ''Fail workflow machine does not handle this event: {e}''))"

definition fail_try_from_command :: "CommandType \<Rightarrow> FailWorkflowMachineEvents option" where
  "fail_try_from_command c = (if c = CT_FailWorkflowExecution then Some CommandFailWorkflowExecution else None)"

definition fail_adapt_response :: "((FailWorkflowMachineState, unit) machine, FailWFCommand) adapter" where
  "fail_adapt_response m my_command info = Ok []"

definition fail_step where
  "fail_step = input_step fail_transitions fail_try_from_event fail_try_from_command fail_adapt_response"

section \<open>Cancelling a workflow\<close>

datatype CancelWorkflowMachineState =
    CancelCreated | CancelWorkflowCommandCreated | CancelWorkflowCommandRecorded
datatype CancelWorkflowMachineEvents =
    CancelSchedule | CommandCancelWorkflowExecution | WorkflowExecutionCanceled

definition cancel_wf_transitions ::
  "(CancelWorkflowMachineState, unit, CancelWorkflowMachineEvents, unit, WFMachinesError) transitions" where
  "cancel_wf_transitions st dat ev = (case st of
      CancelCreated \<Rightarrow> (case ev of
          CancelSchedule \<Rightarrow> Arm dat (tr_default CancelWorkflowCommandCreated)
        | _ \<Rightarrow> Unmatched)
    | CancelWorkflowCommandCreated \<Rightarrow> (case ev of
          CommandCancelWorkflowExecution \<Rightarrow> Arm dat (tr_from id CancelWorkflowCommandCreated)
        | WorkflowExecutionCanceled \<Rightarrow>
            Arm dat (tr_from (\<lambda>_. CancelWorkflowCommandRecorded) CancelWorkflowCommandCreated)
        | _ \<Rightarrow> Unmatched)
    | CancelWorkflowCommandRecorded \<Rightarrow> Unmatched)"

definition cancel_workflow ::
  "('e, CommandAttributes \<times> (CancelWorkflowMachineState, unit) machine) outcome" where
  "cancel_workflow =
     (case on_event cancel_wf_transitions (from_parts CancelCreated ()) CancelSchedule of
        (Ok _, machine) \<Rightarrow> Ok (attributes_from_Cancel, machine)
      | _ \<Rightarrow> Panic ''Scheduling continue as new machine doesn't fail'')"

definition cancel_wf_try_from_event ::
  "HistEventData \<Rightarrow> (WFMachinesError, CancelWorkflowMachineEvents) outcome" where
  "cancel_wf_try_from_event d = (if event_type (hed_event d) = ET_WorkflowExecutionCanceled
     then Ok WorkflowExecutionCanceled
     else Err (Nondeterminism ''Cancel workflow machine does not handle this event: {e}''))"

definition cancel_wf_try_from_command :: "CommandType \<Rightarrow> CancelWorkflowMachineEvents option" where
  "cancel_wf_try_from_command c =
     (if c = CT_CancelWorkflowExecution then Some CommandCancelWorkflowExecution else None)"

definition cancel_wf_adapt_response :: "((CancelWorkflowMachineState, unit) machine, unit) adapter" where
  "cancel_wf_adapt_response m my_command info = Ok []"

definition cancel_wf_step where
  "cancel_wf_step = input_step cancel_wf_transitions cancel_wf_try_from_event cancel_wf_try_from_command
     cancel_wf_adapt_response"

section \<open>Continuing as new\<close>

datatype ContinueAsNewWorkflowMachineState =
    CANCreated | ContinueAsNewWorkflowCommandCreated | ContinueAsNewWorkflowCommandRecorded
datatype ContinueAsNewWorkflowMachineEvents =
    CANSchedule | CommandContinueAsNewWorkflowExecution | WorkflowExecutionContinuedAsNew

definition can_transitions ::
  "(ContinueAsNewWorkflowMachineState, unit, ContinueAsNewWorkflowMachineEvents, unit,
    WFMachinesError) transitions" where
  "can_transitions st dat ev = (case st of
      CANCreated \<Rightarrow> (case ev of
          CANSchedule \<Rightarrow> Arm dat (tr_default ContinueAsNewWorkflowCommandCreated)
        | _ \<Rightarrow> Unmatched)
    | ContinueAsNewWorkflowCommandCreated \<Rightarrow> (case ev of
          CommandContinueAsNewWorkflowExecution \<Rightarrow> Arm dat (tr_from id ContinueAsNewWorkflowCommandCreated)
        | WorkflowExecutionContinuedAsNew \<Rightarrow>
            Arm dat (tr_from (\<lambda>_. ContinueAsNewWorkflowCommandRecorded) ContinueAsNewWorkflowCommandCreated)
        | _ \<Rightarrow> Unmatched)
    | ContinueAsNewWorkflowCommandRecorded \<Rightarrow> Unmatched)"

definition continue_as_new ::
  "ContinueAsNewWorkflowExecution \<Rightarrow> bool \<Rightarrow>
   ('e, CommandAttributes \<times> (ContinueAsNewWorkflowMachineState, unit) machine) outcome" where
  "continue_as_new attribs use_compatible_version =
     (case on_event can_transitions (from_parts CANCreated ()) CANSchedule of
        (Ok _, machine) \<Rightarrow> Ok (continue_as_new_cmd_to_api attribs use_compatible_version, machine)
      | _ \<Rightarrow> Panic ''Scheduling continue as new machine doesn't fail'')"

definition can_try_from_event ::
  "HistEventData \<Rightarrow> (WFMachinesError, ContinueAsNewWorkflowMachineEvents) outcome" where
  "can_try_from_event d = (if event_type (hed_event d) = ET_WorkflowExecutionContinuedAsNew
     then Ok WorkflowExecutionContinuedAsNew
     else Err (Nondeterminism ''Continue as new workflow machine does not handle this event: {e}''))"

definition can_try_from_command :: "CommandType \<Rightarrow> ContinueAsNewWorkflowMachineEvents option" where
  "can_try_from_command c =
     (if c = CT_ContinueAsNewWorkflowExecution then Some CommandContinueAsNewWorkflowExecution else None)"

definition can_adapt_response :: "((ContinueAsNewWorkflowMachineState, unit) machine, unit) adapter" where
  "can_adapt_response m my_command info = Ok []"

definition can_step where
  "can_step = input_step can_transitions can_try_from_event can_try_from_command can_adapt_response"

section \<open>Upserting search attributes\<close>

datatype UpsertSearchAttributesMachineState = UpsertCreated | UpsertCommandIssued | UpsertDone
datatype UpsertSearchAttributesMachineEvents = UpsertCommandScheduled | UpsertCommandRecorded

definition VERSION_SEARCH_ATTR_KEY :: string where
  "VERSION_SEARCH_ATTR_KEY = ''TemporalChangeVersion''"

definition MAX_SEARCH_ATTR_PAYLOAD_SIZE :: nat where
  "MAX_SEARCH_ATTR_PAYLOAD_SIZE = 2048"

definition upsert_transitions ::
  "(UpsertSearchAttributesMachineState, unit, UpsertSearchAttributesMachineEvents, unit,
    WFMachinesError) transitions" where
  "upsert_transitions st dat ev = (case st of
      UpsertCreated \<Rightarrow> (case ev of
          UpsertCommandScheduled \<Rightarrow> Arm dat (tr_from (\<lambda>_. UpsertCommandIssued) UpsertCreated)
        | _ \<Rightarrow> Unmatched)
    | UpsertCommandIssued \<Rightarrow> (case ev of
          UpsertCommandRecorded \<Rightarrow> Arm dat (tr_default UpsertDone)
        | _ \<Rightarrow> Unmatched)
    | UpsertDone \<Rightarrow> Unmatched)"

definition create_new :: "payload_map \<Rightarrow> CommandAttributes \<times> (UpsertSearchAttributesMachineState, unit) machine" where
  "create_new sa_map =
     (UpsertWorkflowSearchAttributesCommandAttributes (Some sa_map), from_parts UpsertCreated ())"

text \<open>The shared flags are updated by \<^verbatim>\<open>try_use\<close>, so they are returned too.\<close>

definition upsert_search_attrs ::
  "payload_map \<Rightarrow> InternalFlags \<Rightarrow> bool \<Rightarrow>
   (CommandAttributes \<times> (UpsertSearchAttributesMachineState, unit) machine) \<times> InternalFlags" where
  "upsert_search_attrs search_attributes internal_flags replaying =
     (let (has_flag, flags') = try_use internal_flags UpsertSearchAttributeOnPatch (\<not> replaying)
      in (if has_flag \<and> map_of search_attributes VERSION_SEARCH_ATTR_KEY \<noteq> None
          then create_new [] else create_new search_attributes, flags'))"

definition upsert_search_attrs_internal ::
  "payload_map option \<Rightarrow> CommandAttributes \<times> (UpsertSearchAttributesMachineState, unit) machine" where
  "upsert_search_attrs_internal search_attributes =
     create_new (case search_attributes of Some m \<Rightarrow> m | None \<Rightarrow> [])"

definition upsert_adapt_response :: "((UpsertSearchAttributesMachineState, unit) machine, unit) adapter" where
  "upsert_adapt_response m my_command info =
     Err (Nondeterminism ''UpsertWorkflowSearchAttributesMachine does not use commands'')"

definition upsert_try_from_event ::
  "HistEventData \<Rightarrow> (WFMachinesError, UpsertSearchAttributesMachineEvents) outcome" where
  "upsert_try_from_event d = (case as_upserted (attributes (hed_event d)) of
      Some _ \<Rightarrow> Ok UpsertCommandRecorded
    | None \<Rightarrow> Err (Nondeterminism ''UpsertWorkflowSearchAttributesMachine does not handle {e}''))"

definition upsert_try_from_command :: "CommandType \<Rightarrow> UpsertSearchAttributesMachineEvents option" where
  "upsert_try_from_command c =
     (if c = CT_UpsertWorkflowSearchAttributes then Some UpsertCommandScheduled else None)"

definition upsert_step where
  "upsert_step = input_step upsert_transitions upsert_try_from_event upsert_try_from_command
     upsert_adapt_response"

section \<open>Modifying workflow properties\<close>

datatype ModifyWorkflowPropertiesMachineState = ModifyCreated | ModifyCommandIssued | ModifyDone
datatype ModifyWorkflowPropertiesMachineEvents = ModifyCommandScheduled | ModifyCommandRecorded

definition modify_transitions ::
  "(ModifyWorkflowPropertiesMachineState, unit, ModifyWorkflowPropertiesMachineEvents, unit,
    WFMachinesError) transitions" where
  "modify_transitions st dat ev = (case st of
      ModifyCreated \<Rightarrow> (case ev of
          ModifyCommandScheduled \<Rightarrow> Arm dat (tr_from (\<lambda>_. ModifyCommandIssued) ModifyCreated)
        | _ \<Rightarrow> Unmatched)
    | ModifyCommandIssued \<Rightarrow> (case ev of
          ModifyCommandRecorded \<Rightarrow> Arm dat (tr_from (\<lambda>_. ModifyDone) ModifyCommandIssued)
        | _ \<Rightarrow> Unmatched)
    | ModifyDone \<Rightarrow> Unmatched)"

definition modify_workflow_properties ::
  "payload_map option \<Rightarrow> CommandAttributes \<times> (ModifyWorkflowPropertiesMachineState, unit) machine" where
  "modify_workflow_properties lang_cmd =
     (attributes_from_ModifyWorkflowProperties lang_cmd, from_parts ModifyCreated ())"

definition modify_adapt_response :: "((ModifyWorkflowPropertiesMachineState, unit) machine, unit) adapter" where
  "modify_adapt_response m my_command info =
     Err (Nondeterminism ''ModifyWorkflowProperties does not use state machine commands'')"

definition modify_try_from_event ::
  "HistEventData \<Rightarrow> (WFMachinesError, ModifyWorkflowPropertiesMachineEvents) outcome" where
  "modify_try_from_event d = (if event_type (hed_event d) = ET_WorkflowPropertiesModified
     then Ok ModifyCommandRecorded
     else Err (Nondeterminism ''ModifyWorkflowPropertiesMachine does not handle {e}''))"

definition modify_try_from_command :: "CommandType \<Rightarrow> ModifyWorkflowPropertiesMachineEvents option" where
  "modify_try_from_command c =
     (if c = CT_ModifyWorkflowProperties then Some ModifyCommandScheduled else None)"

definition modify_step where
  "modify_step = input_step modify_transitions modify_try_from_event modify_try_from_command
     modify_adapt_response"

section \<open>One command, then its event\<close>

text \<open>
  What a machine accepts: its command any number of times (\<open>again\<close>) or exactly once before the event
  that records it, and nothing afterwards.
\<close>

fun accepts_recorded :: "(HistEventData \<Rightarrow> bool) \<Rightarrow> machine_input list \<Rightarrow> bool" where
  "accepts_recorded ev [] = True"
| "accepts_recorded ev (Inl d # rest) = (ev d \<and> rest = [])"
| "accepts_recorded ev (Inr c # rest) = False"

fun accepts_terminal :: "CommandType \<Rightarrow> (HistEventData \<Rightarrow> bool) \<Rightarrow> machine_input list \<Rightarrow> bool" where
  "accepts_terminal ct ev [] = True"
| "accepts_terminal ct ev (Inl d # rest) = (ev d \<and> rest = [])"
| "accepts_terminal ct ev (Inr c # rest) = (c = ct \<and> accepts_terminal ct ev rest)"

fun accepts_once :: "CommandType \<Rightarrow> (HistEventData \<Rightarrow> bool) \<Rightarrow> machine_input list \<Rightarrow> bool" where
  "accepts_once ct ev [] = True"
| "accepts_once ct ev (Inl d # rest) = False"
| "accepts_once ct ev (Inr c # rest) = (c = ct \<and> accepts_recorded ev rest)"

fun has_event :: "machine_input list \<Rightarrow> bool" where
  "has_event [] = False"
| "has_event (Inl d # rest) = True"
| "has_event (Inr c # rest) = has_event rest"

text \<open>
  The contract of the machines: in \<open>sent\<close> the machine waits for the event, in \<open>done\<close> it accepts
  nothing.  A refused input is an error, never a panic, and no input has a response.
\<close>

locale recorded_command =
  fixes step :: "'m \<Rightarrow> machine_input \<Rightarrow> responses \<times> 'm"
    and sent final :: 'm
    and ev :: "HistEventData \<Rightarrow> bool"
  assumes step_event: "ev d \<Longrightarrow> step sent (Inl d) = (Ok [], final)"
    and sent_refuses: "\<not> ev d \<Longrightarrow> \<exists>e. fst (step sent (Inl d)) = Err e"
    and final_refuses: "\<exists>e. fst (step final i) = Err e"
begin

lemma run_final:
  "run_calls step final is = (rs, r, m) \<Longrightarrow>
   rs = [] \<and> \<not> is_panic r \<and> is_ok r = (is = []) \<and> (case r of Ok _ \<Rightarrow> m = final | _ \<Rightarrow> True)"
  using final_refuses[of "hd is"] by (cases "is") (auto split: prod.splits)

lemma run_event:
  assumes "run_calls step sent (Inl d # is) = (rs, r, m)"
  shows "rs = [] \<and> \<not> is_panic r \<and> is_ok r = (ev d \<and> is = []) \<and> (case r of Ok _ \<Rightarrow> m = final | _ \<Rightarrow> True)"
proof (cases "ev d")
  case True
  then show ?thesis
    using assms run_final[of "is"]
    by (cases "run_calls step final is") (auto simp: step_event split: outcome.splits)
next
  case False
  then show ?thesis
    using assms sent_refuses[of d] by (auto split: prod.splits)
qed

end

locale terminal_command = recorded_command step sent final ev
  for step :: "'m \<Rightarrow> machine_input \<Rightarrow> responses \<times> 'm" and sent final ev +
  fixes ct :: CommandType
  assumes sent_command: "step sent (Inr ct) = (Ok [], sent)"
    and sent_other: "c \<noteq> ct \<Longrightarrow> \<exists>e. fst (step sent (Inr c)) = Err e"
begin

lemma run_terminal:
  "run_calls step sent is = (rs, r, m) \<Longrightarrow>
   rs = [] \<and> \<not> is_panic r \<and> is_ok r = accepts_terminal ct ev is \<and>
   (case r of Ok _ \<Rightarrow> m = (if has_event is then final else sent) | _ \<Rightarrow> True)"
proof (induction "is" arbitrary: rs)
  case (Cons i "is")
  show ?case
  proof (cases i)
    case (Inl d)
    then show ?thesis using run_event[of d "is" rs r m] Cons.prems by (auto split: outcome.splits)
  next
    case (Inr c)
    show ?thesis
    proof (cases "c = ct")
      case True
      then have "run_calls step sent is = (rs, r, m)"
        using Cons.prems Inr sent_command by (auto split: prod.splits)
      then show ?thesis using Cons.IH[of rs] Inr True by (auto split: outcome.splits)
    next
      case False
      then show ?thesis using Cons.prems Inr sent_other[of c] by (auto split: prod.splits)
    qed
  qed
qed auto

end

locale issued_command = recorded_command step sent final ev
  for step :: "'m \<Rightarrow> machine_input \<Rightarrow> responses \<times> 'm" and sent final ev +
  fixes created :: 'm
    and ct :: CommandType
  assumes created_command: "step created (Inr ct) = (Ok [], sent)"
    and created_other: "i \<noteq> Inr ct \<Longrightarrow> \<exists>e. fst (step created i) = Err e"
    and sent_no_command: "\<exists>e. fst (step sent (Inr c)) = Err e"
begin

lemma run_sent:
  "run_calls step sent is = (rs, r, m) \<Longrightarrow>
   rs = [] \<and> \<not> is_panic r \<and> is_ok r = accepts_recorded ev is \<and>
   (case r of Ok _ \<Rightarrow> m = (if has_event is then final else sent) | _ \<Rightarrow> True)"
proof (cases "is")
  case (Cons i rest)
  assume run: "run_calls step sent is = (rs, r, m)"
  show ?thesis
  proof (cases i)
    case (Inl d)
    then show ?thesis using run Cons run_event[of d rest rs r m] by (auto split: outcome.splits)
  next
    case (Inr c)
    then show ?thesis using run Cons sent_no_command[of c] by (auto split: prod.splits)
  qed
qed auto

lemma run_issued:
  assumes run: "run_calls step created is = (rs, r, m)"
  shows "rs = [] \<and> \<not> is_panic r \<and> is_ok r = accepts_once ct ev is \<and>
   (case r of Ok _ \<Rightarrow> m = (if has_event is then final else if is = [] then created else sent) | _ \<Rightarrow> True)"
proof (cases "is")
  case (Cons i rest)
  show ?thesis
  proof (cases "i = Inr ct")
    case True
    then have "run_calls step sent rest = (rs, r, m)"
      using run Cons created_command by (auto split: prod.splits)
    from run_sent[OF this] show ?thesis using Cons True by (auto split: outcome.splits)
  next
    case False
    then show ?thesis
      using run Cons created_other[of i] by (cases i) (auto split: prod.splits)
  qed
qed (use run in auto)

end

section \<open>The machines satisfy the contracts\<close>

lemmas command_machine_defs = input_step_def handle_event_def handle_command_def on_event_def
  from_parts_def get_state_def

interpretation complete: terminal_command complete_step "from_parts CompleteWorkflowCommandCreated ()"
  "from_parts CompleteWorkflowCommandRecorded ()"
  "\<lambda>d. event_type (hed_event d) = ET_WorkflowExecutionCompleted" CT_CompleteWorkflowExecution
  by standard
    (auto simp: complete_step_def command_machine_defs complete_transitions_def complete_try_from_event_def
      complete_try_from_command_def split: sum.split)

interpretation fail: terminal_command fail_step "from_parts FailWorkflowCommandCreated ()"
  "from_parts FailWorkflowCommandRecorded ()"
  "\<lambda>d. event_type (hed_event d) = ET_WorkflowExecutionFailed" CT_FailWorkflowExecution
  by standard
    (auto simp: fail_step_def command_machine_defs fail_transitions_def fail_try_from_event_def
      fail_try_from_command_def split: sum.split)

interpretation cancel_wf: terminal_command cancel_wf_step "from_parts CancelWorkflowCommandCreated ()"
  "from_parts CancelWorkflowCommandRecorded ()"
  "\<lambda>d. event_type (hed_event d) = ET_WorkflowExecutionCanceled" CT_CancelWorkflowExecution
  by standard
    (auto simp: cancel_wf_step_def command_machine_defs cancel_wf_transitions_def cancel_wf_try_from_event_def
      cancel_wf_try_from_command_def split: sum.split)

interpretation can: terminal_command can_step "from_parts ContinueAsNewWorkflowCommandCreated ()"
  "from_parts ContinueAsNewWorkflowCommandRecorded ()"
  "\<lambda>d. event_type (hed_event d) = ET_WorkflowExecutionContinuedAsNew" CT_ContinueAsNewWorkflowExecution
  by standard
    (auto simp: can_step_def command_machine_defs can_transitions_def can_try_from_event_def
      can_try_from_command_def split: sum.split)

interpretation upsert: issued_command upsert_step "from_parts UpsertCommandIssued ()" "from_parts UpsertDone ()"
  "\<lambda>d. as_upserted (attributes (hed_event d)) \<noteq> None"
  "from_parts UpsertCreated ()" CT_UpsertWorkflowSearchAttributes
  by standard
    (auto simp: upsert_step_def command_machine_defs upsert_transitions_def upsert_try_from_event_def
      upsert_try_from_command_def split: sum.split option.split)

interpretation modify: issued_command modify_step "from_parts ModifyCommandIssued ()" "from_parts ModifyDone ()"
  "\<lambda>d. event_type (hed_event d) = ET_WorkflowPropertiesModified"
  "from_parts ModifyCreated ()" CT_ModifyWorkflowProperties
  by standard
    (auto simp: modify_step_def command_machine_defs modify_transitions_def modify_try_from_event_def
      modify_try_from_command_def split: sum.split)

section \<open>Properties\<close>

lemma new_terminal_machines:
  "complete_workflow result = Ok (attributes_from_Complete result, from_parts CompleteWorkflowCommandCreated ())"
  "fail_workflow failure = Ok (attributes_from_Fail failure, from_parts FailWorkflowCommandCreated ())"
  "cancel_workflow = Ok (attributes_from_Cancel, from_parts CancelWorkflowCommandCreated ())"
  "continue_as_new attribs b =
     Ok (continue_as_new_cmd_to_api attribs b, from_parts ContinueAsNewWorkflowCommandCreated ())"
  by (simp_all add: complete_workflow_def fail_workflow_def cancel_workflow_def continue_as_new_def
      on_event_def from_parts_def complete_transitions_def fail_transitions_def cancel_wf_transitions_def
      can_transitions_def)

lemma upsert_search_attrs_eq:
  "upsert_search_attrs attrs flags replaying =
     ((UpsertWorkflowSearchAttributesCommandAttributes (Some
         (if fst (try_use flags UpsertSearchAttributeOnPatch (\<not> replaying)) \<and>
             VERSION_SEARCH_ATTR_KEY \<in> fst ` set attrs then [] else attrs)),
       from_parts UpsertCreated ()),
      snd (try_use flags UpsertSearchAttributeOnPatch (\<not> replaying)))"
  by (simp add: upsert_search_attrs_def create_new_def Let_def map_of_eq_None_iff split: prod.split)

text \<open>What a run of one of these machines shows: no response, no panic, an error exactly on a sequence it does not accept.\<close>

definition run_shows ::
  "MachineResponse list \<times> (WFMachinesError, unit) outcome \<times> 'm \<Rightarrow> bool \<Rightarrow> 'm \<Rightarrow> bool" where
  "run_shows run accepted end_state = (case run of (rs, r, m) \<Rightarrow>
     rs = [] \<and> (case r of Ok _ \<Rightarrow> accepted \<and> m = end_state | Err _ \<Rightarrow> \<not> accepted | Panic _ \<Rightarrow> False))"

lemma run_showsI:
  "(\<And>rs r m. run = (rs, r, m) \<Longrightarrow>
      rs = [] \<and> \<not> is_panic r \<and> is_ok r = accepted \<and> (case r of Ok _ \<Rightarrow> m = s | _ \<Rightarrow> True)) \<Longrightarrow>
   run_shows run accepted s"
  by (cases run; cases "fst (snd run)") (auto simp: run_shows_def)

lemmas runs_shown =
  complete.run_terminal [THEN run_showsI] fail.run_terminal [THEN run_showsI]
  cancel_wf.run_terminal [THEN run_showsI] can.run_terminal [THEN run_showsI]
  upsert.run_issued [THEN run_showsI] modify.run_issued [THEN run_showsI]


text \<open>
  C20: The two attribute machines send their command once.  They accept their command exactly once and
  then at most one event, the recording of it; every other input is an error, never a panic.  A
  user's upsert keeps the attributes it was given, except that a write to the reserved change-version
  key is replaced by an empty upsert once the patch flag may be used: always when not replaying, and
  on replay when an earlier task recorded the flag.
\<close>

theorem attribute_machines_accept:
  "(case upsert_search_attrs attrs flags replaying of
      ((cmd, m), flags') \<Rightarrow>
        cmd = UpsertWorkflowSearchAttributesCommandAttributes (Some
          (if fst (try_use flags UpsertSearchAttributeOnPatch (\<not> replaying)) \<and>
              VERSION_SEARCH_ATTR_KEY \<in> fst ` set attrs then [] else attrs)) \<and>
        flags' = snd (try_use flags UpsertSearchAttributeOnPatch (\<not> replaying)) \<and>
        run_shows (run_calls upsert_step m inputs)
          (accepts_once CT_UpsertWorkflowSearchAttributes
            (\<lambda>d. as_upserted (attributes (hed_event d)) \<noteq> None) inputs)
          (if has_event inputs then from_parts UpsertDone () else if inputs = [] then m
           else from_parts UpsertCommandIssued ())) \<and>
   (case modify_workflow_properties memo of
      (cmd, m) \<Rightarrow> cmd = ModifyWorkflowPropertiesCommandAttributes memo \<and>
        run_shows (run_calls modify_step m inputs)
          (accepts_once CT_ModifyWorkflowProperties
            (\<lambda>d. event_type (hed_event d) = ET_WorkflowPropertiesModified) inputs)
          (if has_event inputs then from_parts ModifyDone () else if inputs = [] then m
           else from_parts ModifyCommandIssued ()))"
  by (simp add: upsert_search_attrs_eq modify_workflow_properties_def runs_shown
      attributes_from_ModifyWorkflowProperties_def del: not_None_eq split del: if_split)

end
