(* ===== verification/Markers.thy ===== *)
theory Markers
  imports HistoryEvents Commands
begin

text \<open>
  Marker events: how core writes patch and local activity data into the details of a marker, and
  reads them back (\<^verbatim>\<open>sdk-core-protos/src/lib.rs\<close>, module \<^verbatim>\<open>common\<close>, and the trait \<^verbatim>\<open>HistoryEventExt\<close> of
  \<^verbatim>\<open>core/src/protosext/mod.rs\<close>).  The JSON serializer and the conversions between \<^verbatim>\<open>SystemTime\<close> and
  protobuf timestamps are third-party code and are fields of the parameter \<open>MarkerCodec\<close>.
\<close>

section \<open>UTF-8\<close>

text \<open>What \<^verbatim>\<open>std::str::from_utf8\<close> accepts (table 3-7 of the Unicode standard).\<close>

definition utf8_cont :: "nat \<Rightarrow> bool" where
  "utf8_cont b = (128 \<le> b \<and> b \<le> 191)"

fun utf8_bytes :: "nat list \<Rightarrow> bool" where
  "utf8_bytes [] = True"
| "utf8_bytes (a # rest) =
     (if a < 128 then utf8_bytes rest else (case rest of
        [] \<Rightarrow> False
      | b # rest2 \<Rightarrow>
          if 194 \<le> a \<and> a \<le> 223 then utf8_cont b \<and> utf8_bytes rest2 else (case rest2 of
            [] \<Rightarrow> False
          | c # rest3 \<Rightarrow>
              if 224 \<le> a \<and> a \<le> 239 then
                (if a = 224 then 160 \<le> b \<and> b \<le> 191 else if a = 237 then 128 \<le> b \<and> b \<le> 159 else utf8_cont b) \<and>
                utf8_cont c \<and> utf8_bytes rest3
              else (case rest3 of
                [] \<Rightarrow> False
              | d # rest4 \<Rightarrow>
                  240 \<le> a \<and> a \<le> 244 \<and>
                  (if a = 240 then 144 \<le> b \<and> b \<le> 191 else if a = 244 then 128 \<le> b \<and> b \<le> 143 else utf8_cont b) \<and>
                  utf8_cont c \<and> utf8_cont d \<and> utf8_bytes rest4))))"

definition valid_utf8 :: "bytes \<Rightarrow> bool" where
  "valid_utf8 s = utf8_bytes (map of_char s)"

definition from_utf8 :: "bytes \<Rightarrow> string option" where
  "from_utf8 s = (if valid_utf8 s then Some s else None)"

lemma utf8_ascii: "list_all (\<lambda>b. b < 128) bs \<Longrightarrow> utf8_bytes bs"
  by (induction bs) auto

section \<open>JSON payloads\<close>

record PatchedMarkerData =
  pmd_id :: string
  pmd_deprecated :: bool

record LocalActivityMarkerData =
  lmd_seq :: u32
  lmd_attempt :: u32
  lmd_activity_id :: string
  lmd_activity_type :: string
  lmd_complete_time :: "Timestamp option"
  lmd_backoff :: "Duration option"
  lmd_original_schedule_time :: "Timestamp option"

record MarkerCodec =
  patched_to_json :: "PatchedMarkerData \<Rightarrow> string option"
  patched_from_json :: "string \<Rightarrow> PatchedMarkerData option"
  la_to_json :: "LocalActivityMarkerData \<Rightarrow> string option"
  la_from_json :: "string \<Rightarrow> LocalActivityMarkerData option"
  ids_to_json :: "string list \<Rightarrow> string option"
  timestamp_from :: "int \<Rightarrow> Timestamp"
  system_time_try_from :: "Timestamp \<Rightarrow> int option"

definition as_json_payload :: "('a \<Rightarrow> string option) \<Rightarrow> 'a \<Rightarrow> Payload option" where
  "as_json_payload to_json x = map_option (\<lambda>as_json.
     \<lparr> pl_metadata = [(''encoding'', ''json/plain'')], pl_data = as_json \<rparr>) (to_json x)"

definition is_json_payload :: "Payload \<Rightarrow> bool" where
  "is_json_payload p = (map_of (pl_metadata p) ''encoding'' = Some ''json/plain'')"

definition from_json_payload :: "(string \<Rightarrow> 'a option) \<Rightarrow> Payload \<Rightarrow> 'a option" where
  "from_json_payload from_json p = (if \<not> is_json_payload p then None
     else Option.bind (from_utf8 (pl_data p)) from_json)"

text \<open>\<^verbatim>\<open>xs.first()\<close>.\<close>

definition first_of :: "'a list \<Rightarrow> 'a option" where
  "first_of xs = (case xs of [] \<Rightarrow> None | x # _ \<Rightarrow> Some x)"

section \<open>Patch markers\<close>

definition build_has_change_marker_details ::
  "MarkerCodec \<Rightarrow> string \<Rightarrow> bool \<Rightarrow> (string \<times> Payloads) list option" where
  "build_has_change_marker_details cd patch_id deprecated =
     map_option (\<lambda>encoded. [(''patch-data'', [encoded])])
       (as_json_payload (patched_to_json cd) \<lparr> pmd_id = patch_id, pmd_deprecated = deprecated \<rparr>)"

definition decode_change_marker_details ::
  "MarkerCodec \<Rightarrow> (string \<times> Payloads) list \<Rightarrow> (string \<times> bool) option" where
  "decode_change_marker_details cd details = (case map_of details ''patch-data'' of
      Some ps \<Rightarrow>
        Option.bind (first_of ps) (\<lambda>p.
        Option.bind (from_json_payload (patched_from_json cd) p) (\<lambda>decoded.
        Some (pmd_id decoded, pmd_deprecated decoded)))
    | None \<Rightarrow>
        Option.bind (map_of details ''patch_id'') (\<lambda>ids.
        Option.bind (first_of ids) (\<lambda>id_entry.
        Option.bind (map_of details ''deprecated'') (\<lambda>deps.
        Option.bind (first_of deps) (\<lambda>deprecated_entry.
        Option.bind (from_utf8 (pl_data id_entry)) (\<lambda>name.
        Option.bind (first_of (pl_data deprecated_entry)) (\<lambda>b.
        Some (name, of_char b \<noteq> (0::nat)))))))))"

definition PATCH_MARKER_NAME :: string where "PATCH_MARKER_NAME = ''core_patch''"
definition LOCAL_ACTIVITY_MARKER_NAME :: string where "LOCAL_ACTIVITY_MARKER_NAME = ''core_local_activity''"

definition get_patch_marker_details :: "MarkerCodec \<Rightarrow> HistoryEvent \<Rightarrow> (string \<times> bool) option" where
  "get_patch_marker_details cd e =
     (if event_type e = ET_MarkerRecorded then (case as_marker_recorded (attributes e) of
          Some a \<Rightarrow> if mra_marker_name a = PATCH_MARKER_NAME
                    then decode_change_marker_details cd (mra_details a) else None
        | None \<Rightarrow> None)
      else None)"

section \<open>Local activity markers\<close>

definition build_local_activity_marker_details ::
  "MarkerCodec \<Rightarrow> LocalActivityMarkerData \<Rightarrow> Payload option \<Rightarrow> (string \<times> Payloads) list" where
  "build_local_activity_marker_details cd metadata result =
     (case as_json_payload (la_to_json cd) metadata of Some p \<Rightarrow> [(''data'', [p])] | None \<Rightarrow> []) @
     (case result of Some res \<Rightarrow> [(''result'', [res])] | None \<Rightarrow> [])"

definition extract_local_activity_marker_data ::
  "MarkerCodec \<Rightarrow> (string \<times> Payloads) list \<Rightarrow> LocalActivityMarkerData option" where
  "extract_local_activity_marker_data cd details =
     Option.bind (map_of details ''data'') (\<lambda>ps.
     Option.bind (first_of ps) (\<lambda>p.
     Option.bind (from_utf8 (pl_data p)) (la_from_json cd)))"

text \<open>\<^verbatim>\<open>payloads.pop()\<close> takes the last payload of the \<^verbatim>\<open>result\<close> entry.\<close>

definition extract_local_activity_marker_details ::
  "MarkerCodec \<Rightarrow> (string \<times> Payloads) list \<Rightarrow> LocalActivityMarkerData option \<times> Payload option" where
  "extract_local_activity_marker_details cd details =
     (extract_local_activity_marker_data cd details,
      Option.bind (map_of details ''result'') (\<lambda>ps. first_of (rev ps)))"

definition is_local_activity_marker :: "HistoryEvent \<Rightarrow> bool" where
  "is_local_activity_marker e = (event_type e = ET_MarkerRecorded \<and>
     (case as_marker_recorded (attributes e) of
        Some a \<Rightarrow> mra_marker_name a = LOCAL_ACTIVITY_MARKER_NAME
      | None \<Rightarrow> False))"

definition event_extract_local_activity_marker_data ::
  "MarkerCodec \<Rightarrow> HistoryEvent \<Rightarrow> LocalActivityMarkerData option" where
  "event_extract_local_activity_marker_data cd e =
     (if event_type e = ET_MarkerRecorded then (case as_marker_recorded (attributes e) of
          Some a \<Rightarrow> if mra_marker_name a = LOCAL_ACTIVITY_MARKER_NAME
                    then extract_local_activity_marker_data cd (mra_details a) else None
        | None \<Rightarrow> None)
      else None)"

record CompleteLocalActivityData =
  cla_marker_dat :: LocalActivityMarkerData
  cla_result :: "Failure + Payload"

definition payload_default :: Payload where
  "payload_default = \<lparr> pl_metadata = [], pl_data = [] \<rparr>"

definition into_local_activity_marker_details ::
  "MarkerCodec \<Rightarrow> HistoryEvent \<Rightarrow> CompleteLocalActivityData option" where
  "into_local_activity_marker_details cd e =
     (if event_type e = ET_MarkerRecorded then (case as_marker_recorded (attributes e) of
          Some a \<Rightarrow> if mra_marker_name a = LOCAL_ACTIVITY_MARKER_NAME then
              (case extract_local_activity_marker_details cd (mra_details a) of
                 (None, _) \<Rightarrow> None
               | (Some dat, ok_res) \<Rightarrow> Some \<lparr> cla_marker_dat = dat,
                   cla_result = (case (ok_res, mra_failure a) of
                       (Some r, None) \<Rightarrow> Inr r
                     | (_, Some f) \<Rightarrow> Inl f
                     | (None, None) \<Rightarrow> Inr payload_default) \<rparr>)
            else None
        | None \<Rightarrow> None)
      else None)"

section \<open>Markers read back what was written\<close>

text \<open>The serializer round-trips a value: it encodes it as UTF-8 text from which it decodes it again.\<close>

definition json_roundtrips :: "('a \<Rightarrow> string option) \<Rightarrow> (string \<Rightarrow> 'a option) \<Rightarrow> 'a \<Rightarrow> bool" where
  "json_roundtrips to_json from_json x =
     (case to_json x of Some s \<Rightarrow> valid_utf8 s \<and> from_json s = Some x | None \<Rightarrow> False)"

lemma json_payload_roundtrip:
  "json_roundtrips to_json from_json x \<Longrightarrow>
   Option.bind (as_json_payload to_json x) (from_json_payload from_json) = Some x"
  by (auto simp: json_roundtrips_def as_json_payload_def from_json_payload_def is_json_payload_def
      from_utf8_def split: option.splits)

lemma first_of_simps [simp]: "first_of [] = None" "first_of (x # xs) = Some x"
  by (simp_all add: first_of_def)

lemma decode_build_patch_marker:
  "json_roundtrips (patched_to_json cd) (patched_from_json cd) \<lparr> pmd_id = i, pmd_deprecated = d \<rparr> \<Longrightarrow>
   Option.bind (build_has_change_marker_details cd i d) (decode_change_marker_details cd) = Some (i, d)"
  by (auto simp: build_has_change_marker_details_def decode_change_marker_details_def json_roundtrips_def
      as_json_payload_def from_json_payload_def is_json_payload_def from_utf8_def split: option.splits)

lemma extract_build_la_marker:
  "json_roundtrips (la_to_json cd) (la_from_json cd) dat \<Longrightarrow>
   extract_local_activity_marker_details cd (build_local_activity_marker_details cd dat result) =
     (Some dat, result)"
  by (auto simp: build_local_activity_marker_details_def extract_local_activity_marker_details_def
      extract_local_activity_marker_data_def json_roundtrips_def as_json_payload_def from_utf8_def
      split: option.splits)

end
