(* ===== verification/PatchMachine.thy ===== *)
theory PatchMachine
  imports TemporalMachine Markers CommandMachines "HOL-Library.List_Lexorder" "HOL-Library.Char_ord"
begin

text \<open>
  \<^verbatim>\<open>machines/patch_state_machine.rs\<close>: a patch marker is sent with a search attribute upsert that names
  every patch of the workflow.  The set of ids is a \<^verbatim>\<open>BTreeSet\<close> of strings, ordered by their bytes.
  The machine has no commands of its own, so its command type is \<^typ>\<open>unit\<close> and its adapter panics.
\<close>

datatype PatchMachineState =
    Executing | Replaying | MarkerCommandCreated | MarkerCommandCreatedReplaying | Notified
  | MarkerCommandRecorded

datatype PatchMachineEvents = PatchSchedule | PatchCommandRecordMarker | PatchMarkerRecorded string

record PatchSharedState =
  pt_patch_id :: string

type_synonym PatchMachine = "(PatchMachineState, PatchSharedState) machine"

definition patch_on_marker_recorded ::
  "PatchSharedState \<Rightarrow> string \<Rightarrow> (unit, PatchMachineState, WFMachinesError) TransitionResult" where
  "patch_on_marker_recorded dat i =
     (if i \<noteq> pt_patch_id dat
      then TR_Err (Nondeterminism ''Change id {} does not match expected id {}'')
      else tr_default MarkerCommandRecorded)"

definition patch_transitions ::
  "(PatchMachineState, PatchSharedState, PatchMachineEvents, unit, WFMachinesError) transitions" where
  "patch_transitions st dat ev = (case st of
      Executing \<Rightarrow> (case ev of PatchSchedule \<Rightarrow> Arm dat (tr_default MarkerCommandCreated) | _ \<Rightarrow> Unmatched)
    | Replaying \<Rightarrow> (case ev of PatchSchedule \<Rightarrow> Arm dat (tr_default MarkerCommandCreatedReplaying) | _ \<Rightarrow> Unmatched)
    | MarkerCommandCreated \<Rightarrow> (case ev of
          PatchCommandRecordMarker \<Rightarrow> Arm dat (tr_default Notified)
        | _ \<Rightarrow> Unmatched)
    | MarkerCommandCreatedReplaying \<Rightarrow> (case ev of
          PatchCommandRecordMarker \<Rightarrow> Arm dat (tr_from (\<lambda>_. Notified) MarkerCommandCreatedReplaying)
        | _ \<Rightarrow> Unmatched)
    | Notified \<Rightarrow> (case ev of
          PatchMarkerRecorded i \<Rightarrow> Arm dat (patch_on_marker_recorded dat i)
        | _ \<Rightarrow> Unmatched)
    | MarkerCommandRecorded \<Rightarrow> Unmatched)"

text \<open>
  \<^verbatim>\<open>has_change\<close> returns the marker command, the machine and the upsert it originates, with the flags it
  may have updated.  An oversized attribute value is skipped with a warning.
\<close>

definition has_change ::
  "MarkerCodec \<Rightarrow> string \<Rightarrow> bool \<Rightarrow> bool \<Rightarrow> bool \<Rightarrow> string list \<Rightarrow> InternalFlags \<Rightarrow>
   (WFMachinesError, (CommandAttributes \<times> PatchMachine) \<times> MachineResponse list) outcome \<times> InternalFlags" where
  "has_change cd patch_id replaying_when_invoked deprecated seen_in_peekahead existing_patch_ids internal_flags =
     (let initial_state = (if replaying_when_invoked then Replaying else Executing)
      in case build_has_change_marker_details cd patch_id deprecated of
        None \<Rightarrow> (Err (Fatal ''While encoding patch marker details''), internal_flags)
      | Some details \<Rightarrow>
        (let command = RecordMarkerCommandAttributes \<lparr> rm_marker_name = PATCH_MARKER_NAME,
               rm_details = details, rm_failure = None \<rparr>
         in case on_event patch_transitions (from_parts initial_state \<lparr> pt_patch_id = patch_id \<rparr>) PatchSchedule of
           (Ok _, machine) \<Rightarrow>
            (let replaying_and_not_in_history = replaying_when_invoked \<and> \<not> seen_in_peekahead;
                 (can_use_flag, flags') =
                   try_use internal_flags UpsertSearchAttributeOnPatch (\<not> replaying_when_invoked)
             in if replaying_and_not_in_history \<or> \<not> can_use_flag
                then (Ok ((command, machine), []), flags')
                else let all_ids = btree_insert (pt_patch_id (shared_state machine))
                           (extend_with btree_insert [] existing_patch_ids)
                     in case as_json_payload (ids_to_json cd) all_ids of
                          None \<Rightarrow> (Err (Fatal ''Could not serialize search attribute value for patch machine''), flags')
                        | Some serialized \<Rightarrow>
                            if MAX_SEARCH_ATTR_PAYLOAD_SIZE \<le> length (pl_data serialized)
                            then (Ok ((command, machine), []), flags')
                            else (Ok ((command, machine),
                              [NewCoreOriginatedCommand (UpsertWorkflowSearchAttributesCommandAttributes
                                (Some [(VERSION_SEARCH_ATTR_KEY, serialized)]))]), flags'))
         | _ \<Rightarrow> (Panic ''Patch machine scheduling doesn't fail'', internal_flags)))"

definition patch_adapt_response :: "(PatchMachine, unit) adapter" where
  "patch_adapt_response m my_command info = Panic ''Patch machine does not produce commands''"

definition patch_try_from_command :: "CommandType \<Rightarrow> PatchMachineEvents option" where
  "patch_try_from_command c = (if c = CT_RecordMarker then Some PatchCommandRecordMarker else None)"

definition patch_try_from_event ::
  "MarkerCodec \<Rightarrow> HistEventData \<Rightarrow> (WFMachinesError, PatchMachineEvents) outcome" where
  "patch_try_from_event cd d = (case get_patch_marker_details cd (hed_event d) of
      Some (i, _) \<Rightarrow> Ok (PatchMarkerRecorded i)
    | None \<Rightarrow> Err (Nondeterminism ''Change machine cannot handle this event: {e}''))"

definition matches_patch :: "PatchMachine \<Rightarrow> string \<Rightarrow> bool" where
  "matches_patch m i = (pt_patch_id (shared_state m) = i)"

definition patch_step where
  "patch_step cd = input_step patch_transitions (patch_try_from_event cd) patch_try_from_command
     patch_adapt_response"

section \<open>The machine\<close>

text \<open>A patch machine sends its marker once and then accepts the marker event of its own patch.\<close>

definition patch_event :: "MarkerCodec \<Rightarrow> string \<Rightarrow> HistEventData \<Rightarrow> bool" where
  "patch_event cd i d = (map_option fst (get_patch_marker_details cd (hed_event d)) = Some i)"

interpretation patch: issued_command "patch_step cd" "from_parts Notified \<lparr> pt_patch_id = i \<rparr>"
  "from_parts MarkerCommandRecorded \<lparr> pt_patch_id = i \<rparr>" "patch_event cd i"
  "from_parts (if r then MarkerCommandCreatedReplaying else MarkerCommandCreated) \<lparr> pt_patch_id = i \<rparr>"
  CT_RecordMarker
  for cd i r
proof (standard, goal_cases)
  case (1 d)
  then show ?case
    by (auto simp: patch_event_def patch_step_def command_machine_defs patch_transitions_def
        patch_try_from_event_def patch_on_marker_recorded_def)
next
  case (2 d)
  then show ?case
    by (auto simp: patch_event_def patch_step_def command_machine_defs patch_transitions_def
        patch_try_from_event_def patch_on_marker_recorded_def split: option.split)
next
  case (3 i)
  then show ?case
    by (auto simp: patch_step_def command_machine_defs patch_transitions_def
        patch_try_from_event_def patch_try_from_command_def split: sum.split option.split)
next
  case 4
  then show ?case
    by (simp add: patch_step_def command_machine_defs patch_transitions_def patch_try_from_command_def)
next
  case (5 i)
  then show ?case
    by (auto simp: patch_step_def command_machine_defs patch_transitions_def
        patch_try_from_event_def patch_try_from_command_def split: sum.split option.split)
next
  case (6 c)
  then show ?case
    by (simp add: patch_step_def command_machine_defs patch_transitions_def patch_try_from_command_def)
qed

lemma btree_ids:
  fixes x :: "'a::linorder"
  shows "sorted (btree_insert x (extend_with btree_insert [] xs)) \<and>
   distinct (btree_insert x (extend_with btree_insert [] xs)) \<and>
   set (btree_insert x (extend_with btree_insert [] xs)) = insert x (set xs)"
  using btree_set.extend_valid[of "[]::'a list" xs]
    btree_set.ins_valid[of "extend_with btree_insert [] xs" x]
  by (auto simp: btree_valid_def btree_insert_def set_insort_insert)

lemma btree_ids_unique:
  fixes x :: "'a::linorder"
  assumes "insert x (set xs) = insert y (set ys)"
  shows "btree_insert x (extend_with btree_insert [] xs) = btree_insert y (extend_with btree_insert [] ys)"
  using btree_ids[of x xs] btree_ids[of y ys] assms by (intro sorted_distinct_set_unique) auto

section \<open>Properties\<close>

lemma has_change_eq:
  "has_change cd i replaying dep seen ids flags =
    (case build_has_change_marker_details cd i dep of
       None \<Rightarrow> (Err (Fatal ''While encoding patch marker details''), flags)
     | Some details \<Rightarrow>
        let mk = (RecordMarkerCommandAttributes \<lparr> rm_marker_name = PATCH_MARKER_NAME,
                    rm_details = details, rm_failure = None \<rparr>,
                  from_parts (if replaying then MarkerCommandCreatedReplaying else MarkerCommandCreated)
                    \<lparr> pt_patch_id = i \<rparr>);
            (ok, flags') = try_use flags UpsertSearchAttributeOnPatch (\<not> replaying);
            all_ids = btree_insert i (extend_with btree_insert [] ids)
        in if replaying \<and> \<not> seen \<or> \<not> ok then (Ok (mk, []), flags')
           else (case ids_to_json cd all_ids of
               None \<Rightarrow> (Err (Fatal ''Could not serialize search attribute value for patch machine''), flags')
             | Some s \<Rightarrow> (Ok (mk, if MAX_SEARCH_ATTR_PAYLOAD_SIZE \<le> length s then []
                 else [NewCoreOriginatedCommand (UpsertWorkflowSearchAttributesCommandAttributes (Some
                   [(VERSION_SEARCH_ATTR_KEY, \<lparr> pl_metadata = [(''encoding'', ''json/plain'')], pl_data = s \<rparr>)]))]),
                 flags')))"
  by (auto simp: has_change_def on_event_def from_parts_def patch_transitions_def as_json_payload_def Let_def
      split: option.splits prod.splits)

text \<open>
  C21: The patch marker a workflow task records is understood on replay.  When the serializer
  round-trips the marker data, the marker command of \<^verbatim>\<open>has_change\<close> carries details that, recorded as
  a history event, are read back as the same patch id and deprecation flag; and the machine accepts
  the marker event exactly when it carries its own patch id, as any other marker is an error.
\<close>

theorem patch_marker_roundtrip:
  "json_roundtrips (patched_to_json cd) (patched_from_json cd) \<lparr> pmd_id = i, pmd_deprecated = dep \<rparr> \<Longrightarrow>
   case fst (has_change cd i replaying dep seen ids flags) of
     Ok ((RecordMarkerCommandAttributes a, m), rs) \<Rightarrow>
       get_patch_marker_details cd (recorded_event n (MarkerRecordedEventAttributes
         \<lparr> mra_marker_name = rm_marker_name a, mra_details = rm_details a, mra_failure = rm_failure a \<rparr>)) =
         Some (i, dep) \<and>
       run_shows (run_calls (patch_step cd) m inputs) (accepts_once CT_RecordMarker (patch_event cd i) inputs)
         (if has_event inputs then from_parts MarkerCommandRecorded \<lparr> pt_patch_id = i \<rparr>
          else if inputs = [] then m else from_parts Notified \<lparr> pt_patch_id = i \<rparr>)
   | Err _ \<Rightarrow> ids_to_json cd (btree_insert i (extend_with btree_insert [] ids)) = None
   | _ \<Rightarrow> False"
proof -
  assume "json_roundtrips (patched_to_json cd) (patched_from_json cd) \<lparr> pmd_id = i, pmd_deprecated = dep \<rparr>"
  from decode_build_patch_marker[OF this] obtain details where
    details: "build_has_change_marker_details cd i dep = Some details"
      "decode_change_marker_details cd details = Some (i, dep)"
    by (auto simp: bind_eq_Some_conv)
  define m where "m = from_parts (if replaying then MarkerCommandCreatedReplaying else MarkerCommandCreated)
    \<lparr> pt_patch_id = i \<rparr>"
  have "run_shows (run_calls (patch_step cd) m inputs) (accepts_once CT_RecordMarker (patch_event cd i) inputs)
     (if has_event inputs then from_parts MarkerCommandRecorded \<lparr> pt_patch_id = i \<rparr>
      else if inputs = [] then m else from_parts Notified \<lparr> pt_patch_id = i \<rparr>)"
    unfolding m_def by (rule run_showsI, rule patch.run_issued)
  with details show ?thesis
    by (cases "inputs = []"; cases "has_event inputs")
      (simp_all add: has_change_eq get_patch_marker_details_def recorded_event_def attributes_event_type_def
        Let_def m_def[symmetric] split: option.split prod.split)
qed

theorem patch_marker_roundtrip_witness:
  "\<exists>cd. json_roundtrips (patched_to_json cd) (patched_from_json cd) \<lparr> pmd_id = ''p'', pmd_deprecated = True \<rparr> \<and>
     (case fst (has_change cd ''p'' False True False [] (internal_flags_new True ''core'' ''1'')) of
        Ok ((RecordMarkerCommandAttributes a, m), rs) \<Rightarrow>
          get_patch_marker_details cd (recorded_event 5 (MarkerRecordedEventAttributes
            \<lparr> mra_marker_name = rm_marker_name a, mra_details = rm_details a, mra_failure = rm_failure a \<rparr>)) =
            Some (''p'', True)
      | _ \<Rightarrow> False)"
proof -
  define cd where "cd = \<lparr> patched_to_json = \<lambda>p. Some ((if pmd_deprecated p then CHR ''1'' else CHR ''0'') # pmd_id p),
    patched_from_json = \<lambda>s. (case s of c # i \<Rightarrow> Some \<lparr> pmd_id = i, pmd_deprecated = (c = CHR ''1'') \<rparr> | [] \<Rightarrow> None),
    la_to_json = \<lambda>_. None, la_from_json = \<lambda>_. None, ids_to_json = \<lambda>ids. Some (concat ids),
    timestamp_from = \<lambda>t. (t, 0), system_time_try_from = \<lambda>t. Some (fst t) \<rparr>"
  have rt: "json_roundtrips (patched_to_json cd) (patched_from_json cd) \<lparr> pmd_id = ''p'', pmd_deprecated = True \<rparr>"
    by (simp add: cd_def json_roundtrips_def valid_utf8_def)
  have ids: "ids_to_json cd (btree_insert ''p'' []) \<noteq> None" by (simp add: cd_def)
  show ?thesis
    using rt ids patch_marker_roundtrip[OF rt, where replaying = False and seen = False and ids = "[]"
      and flags = "internal_flags_new True ''core'' ''1''" and n = 5 and inputs = "[]"]
    by (intro exI[of _ cd]) (auto split: outcome.splits CommandAttributes.splits)
qed

text \<open>
  C22: The search attribute upsert of a patch is replayed as it was issued.  Let a live worker call
  \<^verbatim>\<open>has_change\<close>, complete its workflow task, and let a replaying worker that knows the earlier flags
  read the metadata of that task.  If the marker of the patch is in the history it peeks at, and it
  has seen the same patches, its call issues the same marker command and the same upsert; if the
  marker is not there, as in a history of code without the patch, it issues no upsert.
\<close>

theorem patch_upsert_replays:
  assumes "is_enabled live" "is_enabled rep" "core_known live \<subseteq> core_known rep"
    and "insert i (set ids') = insert i (set ids)"
  shows "let (r, live1) = has_change cd i False dep seen ids live;
             (md, live2) = gather_for_wft_complete live1;
             rep1 = add_from_complete rep (completed_with md)
    in (case (r, fst (has_change cd i True dep True ids' rep1)) of
          (Ok ((c, m), rs), Ok ((c', m'), rs')) \<Rightarrow> c' = c \<and> rs' = rs
        | (Err e, Err e') \<Rightarrow> e' = e
        | _ \<Rightarrow> False) \<and>
       (case fst (has_change cd i True dep False ids' rep1) of
          Ok (_, rs) \<Rightarrow> rs = []
        | Err e \<Rightarrow> build_has_change_marker_details cd i dep = None
        | Panic _ \<Rightarrow> False)"
proof (cases "build_has_change_marker_details cd i dep")
  case None
  then show ?thesis by (simp add: has_change_eq split: prod.split)
next
  case (Some details)
  obtain s where live: "live = Enabled s" using assms(1) by (cases live) (auto simp: is_enabled_def)
  define live1 where "live1 = snd (try_use live UpsertSearchAttributeOnPatch True)"
  define md where "md = fst (gather_for_wft_complete live1)"
  define rep1 where "rep1 = add_from_complete rep (completed_with md)"
  have "UpsertSearchAttributeOnPatch \<in> core_pending live1" "core_known live1 = core_known live"
    by (simp_all add: live1_def live)
  then have "UpsertSearchAttributeOnPatch \<in> core_known rep1"
    using add_completed_views(1)[OF assms(2), of md] gather_views(3)[of live1] assms(3)
    by (auto simp: rep1_def md_def)
  then have rep: "try_use rep1 UpsertSearchAttributeOnPatch False = (True, rep1)"
    by (metis try_use_result(1) try_use_views(5) prod.collapse)
  have used: "try_use live UpsertSearchAttributeOnPatch True = (True, live1)"
    by (simp add: live1_def live try_use_def)
  have ids: "btree_insert i (extend_with btree_insert [] ids') = btree_insert i (extend_with btree_insert [] ids)"
    by (rule btree_ids_unique) (rule assms(4))
  have flags: "snd (has_change cd i False dep seen ids live) = live1"
    by (simp add: has_change_eq Some used Let_def split: option.split)
  show ?thesis
    using flags rep
    by (simp add: has_change_eq Some used ids Let_def md_def[symmetric] rep1_def[symmetric]
        split: option.split prod.split) (auto simp: md_def rep1_def)
qed

theorem patch_upsert_replays_witness:
  "let cd = \<lparr> patched_to_json = \<lambda>p. Some (pmd_id p), patched_from_json = \<lambda>s. None,
         la_to_json = \<lambda>_. None, la_from_json = \<lambda>_. None, ids_to_json = \<lambda>ids. Some (concat ids),
         timestamp_from = \<lambda>t. (t, 0), system_time_try_from = \<lambda>t. Some (fst t) \<rparr>;
       fresh = internal_flags_new True ''core'' ''1'';
       (r, live1) = has_change cd ''b'' False False False [''a''] fresh;
       (md, live2) = gather_for_wft_complete live1
   in case (r, fst (has_change cd ''b'' True False True [''a'', ''b''] (add_from_complete fresh (completed_with md)))) of
        (Ok ((c, m), rs), Ok ((c', m'), rs')) \<Rightarrow> c' = c \<and> rs' = rs
      | (Err e, Err e') \<Rightarrow> e' = e
      | _ \<Rightarrow> False"
  using patch_upsert_replays[where live = "internal_flags_new True ''core'' ''1''"
      and rep = "internal_flags_new True ''core'' ''1''" and i = "''b''" and ids = "[''a'']" and ids' = "[''a'', ''b'']"
      and dep = False and seen = False and cd = "\<lparr> patched_to_json = \<lambda>p. Some (pmd_id p), patched_from_json = \<lambda>s. None,
         la_to_json = \<lambda>_. None, la_from_json = \<lambda>_. None, ids_to_json = \<lambda>ids. Some (concat ids),
         timestamp_from = \<lambda>t. (t, 0), system_time_try_from = \<lambda>t. Some (fst t) \<rparr>"]
  by (simp add: internal_flags_new_def is_enabled_def insert_commute Let_def case_prod_beta)

end
