(* ===== verification/WorkflowTaskMachine.thy ===== *)
theory WorkflowTaskMachine
  imports TemporalMachine
begin

text \<open>
  \<^verbatim>\<open>machines/workflow_task_state_machine.rs\<close>: the machine of one workflow task, which triggers the
  event loop.  \<open>time_of\<close> is the conversion of a protobuf timestamp to a system time, third-party code
  that may fail; a system time is a number of nanoseconds.  Lang has no call on this machine.
\<close>

datatype WorkflowTaskMachineState =
    WT_Created | WT_Scheduled
  | WT_Started (wt_current_time_millis: int) (wt_started_event_id: int)
  | WT_Completed | WT_Failed | WT_TimedOut

record WFTStartedDat =
  wsd_current_time_millis :: int
  wsd_started_event_id :: int

datatype WorkflowTaskMachineEvents =
    WorkflowTaskScheduled | WorkflowTaskStarted WFTStartedDat | WorkflowTaskTimedOut | WorkflowTaskCompleted
  | WorkflowTaskFailed (wfd_new_run_id: "string option")

datatype WFTaskMachineCommand =
    WFTaskStartedTrigger (tr_task_started_event_id: int) (tr_time: int)
  | RunIdOnWorkflowResetUpdate string

record WFTSharedState =
  ws_wf_task_started_event_id :: int

type_synonym WorkflowTaskMachine = "(WorkflowTaskMachineState, WFTSharedState) machine"

definition workflow_task_transitions ::
  "(WorkflowTaskMachineState, WFTSharedState, WorkflowTaskMachineEvents, WFTaskMachineCommand,
    WFMachinesError) transitions" where
  "workflow_task_transitions st dat ev = (case st of
      WT_Created \<Rightarrow> (case ev of
          WorkflowTaskScheduled \<Rightarrow> Arm dat (tr_from (\<lambda>_. WT_Scheduled) WT_Created)
        | _ \<Rightarrow> Unmatched)
    | WT_Scheduled \<Rightarrow> (case ev of
          WorkflowTaskStarted s \<Rightarrow> Arm dat (tr_ok
            [WFTaskStartedTrigger (ws_wf_task_started_event_id dat) (wsd_current_time_millis s)]
            (WT_Started (wsd_current_time_millis s) (wsd_started_event_id s)))
        | WorkflowTaskTimedOut \<Rightarrow> Arm dat (tr_from (\<lambda>_. WT_TimedOut) WT_Scheduled)
        | _ \<Rightarrow> Unmatched)
    | WT_Started t i \<Rightarrow> (case ev of
          WorkflowTaskCompleted \<Rightarrow> Arm dat (tr_with_commands WT_Completed [WFTaskStartedTrigger i t])
        | WorkflowTaskFailed new_run_id \<Rightarrow> Arm dat (tr_with_commands WT_Failed
            (case new_run_id of Some run_id \<Rightarrow> [RunIdOnWorkflowResetUpdate run_id] | None \<Rightarrow> []))
        | WorkflowTaskTimedOut \<Rightarrow> Arm dat (tr_from (\<lambda>_. WT_TimedOut) (WT_Started t i))
        | _ \<Rightarrow> Unmatched)
    | WT_Completed \<Rightarrow> Unmatched
    | WT_Failed \<Rightarrow> Unmatched
    | WT_TimedOut \<Rightarrow> Unmatched)"

definition workflow_task_new :: "int \<Rightarrow> WorkflowTaskMachine" where
  "workflow_task_new wf_task_started_event_id =
     from_parts WT_Created \<lparr> ws_wf_task_started_event_id = wf_task_started_event_id \<rparr>"

definition workflow_task_adapt_response :: "(WorkflowTaskMachine, WFTaskMachineCommand) adapter" where
  "workflow_task_adapt_response m my_command event_info = (case my_command of
      WFTaskStartedTrigger task_started_event_id time \<Rightarrow> (case event_info of
          None \<Rightarrow> Err (Fatal ''WF Task machine should never issue a task started trigger command in response to non-history events'')
        | Some ei \<Rightarrow>
            (let cur_event_past_or_at_start = (task_started_event_id \<le> ei_event_id ei)
             in if ei_event_type ei = ET_WorkflowTaskStarted \<and> \<not> cur_event_past_or_at_start then Ok []
                else Ok [TriggerWFTaskStarted task_started_event_id time]))
    | RunIdOnWorkflowResetUpdate run_id \<Rightarrow> Ok [UpdateRunIdOnWorkflowReset run_id])"

definition workflow_task_try_from_event ::
  "(Timestamp \<Rightarrow> int option) \<Rightarrow> HistEventData \<Rightarrow> (WFMachinesError, WorkflowTaskMachineEvents) outcome" where
  "workflow_task_try_from_event time_of d = (let e = hed_event d in case event_type e of
      ET_WorkflowTaskScheduled \<Rightarrow> Ok WorkflowTaskScheduled
    | ET_WorkflowTaskStarted \<Rightarrow> (case event_time e of
          Some time \<Rightarrow> (case time_of time of
              Some t \<Rightarrow> Ok (WorkflowTaskStarted
                \<lparr> wsd_current_time_millis = t, wsd_started_event_id = event_id e \<rparr>)
            | None \<Rightarrow> Err (Fatal ''Workflow task started event timestamp was inconvertible''))
        | None \<Rightarrow> Err (Fatal ''Workflow task started event must contain timestamp: {e}''))
    | ET_WorkflowTaskTimedOut \<Rightarrow> Ok WorkflowTaskTimedOut
    | ET_WorkflowTaskCompleted \<Rightarrow> Ok WorkflowTaskCompleted
    | ET_WorkflowTaskFailed \<Rightarrow> (case attributes e of
          Some a \<Rightarrow> Ok (WorkflowTaskFailed (case as_task_failed (Some a) of
              Some f \<Rightarrow> if wtf_cause f = WTFC_ResetWorkflow then Some (wtf_new_run_id f) else None
            | None \<Rightarrow> None))
        | None \<Rightarrow> Err (Fatal ''Workflow task failed is missing attributes: {e}''))
    | _ \<Rightarrow> Err (Nondeterminism ''Event does not apply to a wf task machine: {e}''))"

definition workflow_task_try_from_command :: "CommandType \<Rightarrow> WorkflowTaskMachineEvents option" where
  "workflow_task_try_from_command c = None"

definition workflow_task_step where
  "workflow_task_step time_of = api_step workflow_task_transitions (workflow_task_try_from_event time_of)
     workflow_task_try_from_command workflow_task_adapt_response no_lang"

section \<open>Accounting\<close>

text \<open>Triggers and run id updates, and how many of them a state has left.\<close>

definition task_effect :: "MachineResponse \<Rightarrow> nat" where
  "task_effect r = 1"

definition task_pot :: "WorkflowTaskMachineState \<Rightarrow> WFTSharedState \<Rightarrow> nat" where
  "task_pot st dat = (case st of WT_Created \<Rightarrow> 2 | WT_Scheduled \<Rightarrow> 2 | WT_Started _ _ \<Rightarrow> 1 | _ \<Rightarrow> 0)"

interpretation workflow_task: event_budget workflow_task_transitions "\<lambda>_ _. True" "\<lambda>_ _. True"
  "workflow_task_try_from_event time_of" workflow_task_try_from_command workflow_task_adapt_response
  no_lang task_effect "\<lambda>_ _. 1" task_pot for time_of
proof (standard, goal_cases)
  case (2 st sh ev s)
  then show ?case by (cases st; cases ev) (auto simp: workflow_task_transitions_def)
next
  case (3 st sh ev sh')
  then show ?case by (cases st; cases ev) (auto simp: workflow_task_transitions_def)
next
  case (4 d)
  then show ?case
    by (auto simp: workflow_task_try_from_event_def Let_def split: EventType.splits option.splits)
next
  case (7 st sh ev sh' cmds st' c info)
  then show ?case by (cases c) (auto simp: workflow_task_adapt_response_def Let_def split: option.splits)
next
  case (10 st sh ev sh' cmds st')
  then show ?case
    by (cases st; cases ev) (auto simp: workflow_task_transitions_def task_pot_def split: option.splits)
next
  case (11 st sh ev sh' cmds st' c info rs)
  then show ?case
    by (cases c) (auto simp: workflow_task_adapt_response_def task_effect_def Let_def
        split: option.splits if_splits)
qed (simp_all add: no_lang_def)

section \<open>Properties\<close>

text \<open>The history of one workflow task: scheduled, started at \<open>ts\<close>, and what ended it.\<close>

definition task_history ::
  "int \<Rightarrow> Timestamp \<Rightarrow> WorkflowTaskStartedEventAttributes \<Rightarrow> Attributes \<Rightarrow> unit api_call list" where
  "task_history i ts started end_attributes =
     [HistoryCall (live_event (i - 1) WorkflowTaskScheduledEventAttributes),
      HistoryCall ((live_event i (WorkflowTaskStartedEventAttributes started))
        \<lparr> hed_event := (recorded_event i (WorkflowTaskStartedEventAttributes started)) \<lparr> event_time := Some ts \<rparr> \<rparr>),
      HistoryCall (live_event (i + 1) end_attributes)]"

lemmas workflow_task_eval = workflow_task_step_def api_step_def handle_event_def workflow_task_try_from_event_def
  task_history_def live_event_def recorded_event_def attributes_event_type_def on_event_def from_parts_def
  workflow_task_new_def workflow_task_transitions_def workflow_task_adapt_response_def event_info_of_def

text \<open>
  C18: A workflow task triggers the event loop as its history says.  Take the machine of a task that
  looks for the started event \<open>target\<close>, and the history of a task started by event \<open>i\<close>.  A completed task
  triggers the loop once with its own start; it also triggers it from the started event with \<open>target\<close>,
  but only if that event is at or past \<open>target\<close>, so an earlier task in the history does not.  A failed task
  reports a new run id exactly when the workflow was reset, and a timed out task nothing more.  An
  event time that cannot be converted is a fatal error.  No sequence of events and commands makes the
  machine panic or respond more than twice.
\<close>

theorem workflow_task_triggers:
  "(let start = (\<lambda>t. if target \<le> i then [TriggerWFTaskStarted target t] else []);
        run = (\<lambda>a. run_calls (workflow_task_step time_of) (workflow_task_new target) (task_history i ts started a))
    in case time_of ts of
         Some t \<Rightarrow>
           (case run (WorkflowTaskCompletedEventAttributes c) of (rs, r, m) \<Rightarrow>
              rs = start t @ [TriggerWFTaskStarted i t] \<and> r = Ok () \<and> mstate m = Some WT_Completed) \<and>
           (case run (WorkflowTaskFailedEventAttributes f) of (rs, r, m) \<Rightarrow>
              rs = start t @ (if wtf_cause f = WTFC_ResetWorkflow
                              then [UpdateRunIdOnWorkflowReset (wtf_new_run_id f)] else []) \<and>
              r = Ok () \<and> mstate m = Some WT_Failed) \<and>
           (case run (WorkflowTaskTimedOutEventAttributes s) of (rs, r, m) \<Rightarrow>
              rs = start t \<and> r = Ok () \<and> mstate m = Some WT_TimedOut)
       | None \<Rightarrow> fst (snd (run a)) = Err (Fatal ''Workflow task started event timestamp was inconvertible'')) \<and>
   (case run_calls (workflow_task_step time_of) (workflow_task_new target) calls of
      (rs, r, m) \<Rightarrow> \<not> is_panic r \<and> length rs \<le> 2)"
proof -
  obtain rs r m where run: "run_calls (workflow_task_step time_of) (workflow_task_new target) calls = (rs, r, m)"
    by (cases "run_calls (workflow_task_step time_of) (workflow_task_new target) calls")
  have good: "machine_inv (\<lambda>_ _. True) (workflow_task_new target)" by (simp add: workflow_task_new_def)
  note run' = run[unfolded workflow_task_step_def]
  have "weigh task_effect rs = length rs" by (induction rs) (simp_all add: task_effect_def)
  then have "\<not> is_panic r \<and> length rs \<le> 2"
    using workflow_task.runs.run_at_most[OF good run'] workflow_task.calls.run_no_panic[OF good run']
    by (simp add: workflow_task_new_def task_pot_def)
  with run show ?thesis
    by (simp add: workflow_task_eval split: option.split)
qed

end
