(* ===== verification/ProtocolMessages.thy ===== *)
theory ProtocolMessages
  imports HistoryEvents
begin

text \<open>
  \<^verbatim>\<open>core/src/protosext/protocol_messages.rs\<close>: the messages of the update protocol a workflow task
  carries, and how a durable update event stands in for one.  Unpacking a protobuf \<^verbatim>\<open>Any\<close> is
  third-party code: \<open>unpack\<close> decodes its bytes as an update request, or fails.
\<close>

datatype SequencingId = SequencingEventId int | SequencingCommandIndex int

record IncomingProtocolMessage =
  ipm_id :: string
  ipm_protocol_instance_id :: string
  ipm_sequencing_id :: "SequencingId option"
  ipm_body :: UpdateRequestMsg

text \<open>
  The only body is an \<^verbatim>\<open>UpdateRequest\<close>, the wrapper of a request whose \<^verbatim>\<open>input\<close> and \<^verbatim>\<open>meta\<close> are known to
  be set; its accessors panic when they are not.
\<close>

definition update_request_try_from :: "UpdateRequestMsg \<Rightarrow> (string, UpdateRequestMsg) outcome" where
  "update_request_try_from r =
     (if urq_input r = None then Err ''Update request's `input` field must be populated''
      else if urq_meta r = None then Err ''Update request's `meta` field must be populated''
      else Ok r)"

definition update_input :: "UpdateRequestMsg \<Rightarrow> ('e, UpdateInput) outcome" where
  "update_input r = (case urq_input r of
      Some i \<Rightarrow> Ok i
    | None \<Rightarrow> Panic ''Update request's `input` field must be populated'')"

definition update_request_name :: "UpdateRequestMsg \<Rightarrow> ('e, string) outcome" where
  "update_request_name r = bind_outcome (update_input r) (\<lambda>i. Ok (ui_name i))"

definition update_request_headers :: "UpdateRequestMsg \<Rightarrow> ('e, payload_map) outcome" where
  "update_request_headers r = bind_outcome (update_input r) (\<lambda>i.
     Ok (case ui_header i of Some h \<Rightarrow> h | None \<Rightarrow> []))"

definition update_request_input :: "UpdateRequestMsg \<Rightarrow> ('e, Payload list) outcome" where
  "update_request_input r = bind_outcome (update_input r) (\<lambda>i.
     Ok (case ui_args i of Some ps \<Rightarrow> ps | None \<Rightarrow> []))"

definition update_request_meta :: "UpdateRequestMsg \<Rightarrow> ('e, UpdateMeta) outcome" where
  "update_request_meta r = (case urq_meta r of
      Some m \<Rightarrow> Ok m
    | None \<Rightarrow> Panic ''Update request's `meta` field must be populated'')"

definition processable_after_event_id :: "IncomingProtocolMessage \<Rightarrow> int option" where
  "processable_after_event_id m = (case ipm_sequencing_id m of
      None \<Rightarrow> Some 0
    | Some (SequencingEventId i) \<Rightarrow> Some i
    | Some (SequencingCommandIndex _) \<Rightarrow> None)"

record Message =
  msg_id :: string
  msg_protocol_instance_id :: string
  msg_sequencing_id :: "SequencingId option"
  msg_body :: "(string \<times> bytes) option"

definition message_body_try_from ::
  "(bytes \<Rightarrow> UpdateRequestMsg option) \<Rightarrow> (string \<times> bytes) option \<Rightarrow> (string, UpdateRequestMsg) outcome" where
  "message_body_try_from unpack v = (case v of
      None \<Rightarrow> Err ''Protocol message body must be populated''
    | Some (type_url, value) \<Rightarrow>
        if type_url = ''type.googleapis.com/temporal.api.update.v1.Request'' then
          (case unpack value of
             Some r \<Rightarrow> update_request_try_from r
           | None \<Rightarrow> Err ''{decode error}'')
        else Err ''Could not understand protocol message type {}'')"

definition protocol_message_try_from ::
  "(bytes \<Rightarrow> UpdateRequestMsg option) \<Rightarrow> Message \<Rightarrow> (string, IncomingProtocolMessage) outcome" where
  "protocol_message_try_from unpack m = bind_outcome (message_body_try_from unpack (msg_body m)) (\<lambda>body.
     Ok \<lparr> ipm_id = msg_id m, ipm_protocol_instance_id = msg_protocol_instance_id m,
          ipm_sequencing_id = msg_sequencing_id m, ipm_body = body \<rparr>)"

definition protocol_message_from_event :: "HistoryEvent \<Rightarrow> (string, IncomingProtocolMessage) outcome" where
  "protocol_message_from_event e =
     (case as_update_admitted (attributes e) of
        Some request \<Rightarrow> (case request of
            None \<Rightarrow> Err ''Update admitted event must contain request''
          | Some r \<Rightarrow> (case urq_meta r of
                None \<Rightarrow> Err ''Update request's `meta` field must be populated''
              | Some meta \<Rightarrow> bind_outcome (update_request_try_from r) (\<lambda>body.
                  Ok \<lparr> ipm_id = um_update_id meta @ ''/request'',
                       ipm_protocol_instance_id = um_update_id meta,
                       ipm_sequencing_id = Some (SequencingEventId (event_id e)),
                       ipm_body = body \<rparr>)))
      | None \<Rightarrow> (case as_update_accepted (attributes e) of
            Some a \<Rightarrow> (case wua_accepted_request a of
                None \<Rightarrow> Err ''Update accepted event must contain accepted request''
              | Some r \<Rightarrow> bind_outcome (update_request_try_from r) (\<lambda>body.
                  Ok \<lparr> ipm_id = wua_accepted_request_message_id a,
                       ipm_protocol_instance_id = wua_protocol_instance_id a,
                       ipm_sequencing_id = Some (SequencingEventId (wua_accepted_request_sequencing_event_id a)),
                       ipm_body = body \<rparr>))
          | None \<Rightarrow> Err ''Cannot convert event of type {} into protocol message. This is an sdk-core bug.''))"

section \<open>A message that was accepted is well formed\<close>

definition valid_update_request :: "UpdateRequestMsg \<Rightarrow> bool" where
  "valid_update_request r = (urq_input r \<noteq> None \<and> urq_meta r \<noteq> None)"

lemma update_request_try_from_Ok [simp]:
  "update_request_try_from r = Ok r' \<longleftrightarrow> r' = r \<and> valid_update_request r"
  by (auto simp: update_request_try_from_def valid_update_request_def)

lemma update_request_try_from_not_Panic [simp]: "\<not> is_panic (update_request_try_from r)"
  by (simp add: update_request_try_from_def)

lemma protocol_message_valid:
  "protocol_message_try_from unpack m = Ok pm \<Longrightarrow> valid_update_request (ipm_body pm)"
  "protocol_message_from_event e = Ok pm \<Longrightarrow> valid_update_request (ipm_body pm)"
  by (auto simp: protocol_message_try_from_def message_body_try_from_def protocol_message_from_event_def
      outcome_simps split: option.splits if_splits prod.splits)

lemma valid_update_request_accessors:
  assumes "valid_update_request r"
  shows "\<exists>i m. urq_input r = Some i \<and> urq_meta r = Some m \<and>
    update_request_name r = Ok (ui_name i) \<and> update_request_meta r = Ok m \<and>
    update_request_headers r = Ok (case ui_header i of Some h \<Rightarrow> h | None \<Rightarrow> []) \<and>
    update_request_input r = Ok (case ui_args i of Some ps \<Rightarrow> ps | None \<Rightarrow> [])"
  using assms
  by (auto simp: valid_update_request_def update_request_name_def update_request_meta_def
      update_request_headers_def update_request_input_def update_input_def)

end
