(* ===== verification/UpdateMachine.thy ===== *)
theory UpdateMachine
  imports TemporalMachine ProtocolMessages
begin

text \<open>
  \<^verbatim>\<open>machines/update_state_machine.rs\<close>: one update request, from the message that carries it to the
  messages that accept, reject and complete it.  \<open>encode\<close> is the protobuf encoder of the outgoing
  messages, generated code that may fail.
\<close>

datatype UpdateMachineState =
    RequestInitiated UpdateRequestMsg | Accepted | AcceptCommandCreated | AcceptCommandRecorded | Completed
  | CompletedCommandCreated | CompletedCommandRecorded | Rejected | CompletedImmediately
  | CompletedImmediatelyAcceptCreated | CompletedImmediatelyCompleteCreated

datatype UpdateMachineEvents =
    Accept | Reject Failure | Complete Payload | CommandProtocolMessage
  | WorkflowExecutionUpdateAccepted | WorkflowExecutionUpdateCompleted

datatype UpdateMachineCommand =
    AcceptCmd UpdateRequestMsg | RejectCmd UpdateRequestMsg Failure | CompleteCmd Payload | FailCmd Failure

record UpdateSharedState =
  us_message_id :: string
  us_instance_id :: string
  us_event_seq_id :: int
  us_meta :: UpdateMeta

type_synonym UpdateMachine = "(UpdateMachineState, UpdateSharedState) machine"

definition update_transitions ::
  "(UpdateMachineState, UpdateSharedState, UpdateMachineEvents, UpdateMachineCommand, WFMachinesError) transitions" where
  "update_transitions st dat ev = (case st of
      RequestInitiated original_request \<Rightarrow> (case ev of
          Accept \<Rightarrow> Arm dat (tr_with_commands Accepted [AcceptCmd original_request])
        | Reject f \<Rightarrow> Arm dat (tr_with_commands Rejected [RejectCmd original_request f])
        | _ \<Rightarrow> Unmatched)
    | Accepted \<Rightarrow> (case ev of
          Complete p \<Rightarrow> Arm dat (tr_with_commands CompletedImmediately [CompleteCmd p])
        | Reject f \<Rightarrow> Arm dat (tr_with_commands CompletedImmediately [FailCmd f])
        | CommandProtocolMessage \<Rightarrow> Arm dat (tr_from (\<lambda>_. AcceptCommandCreated) Accepted)
        | _ \<Rightarrow> Unmatched)
    | AcceptCommandCreated \<Rightarrow> (case ev of
          WorkflowExecutionUpdateAccepted \<Rightarrow> Arm dat (tr_from (\<lambda>_. AcceptCommandRecorded) AcceptCommandCreated)
        | Complete p \<Rightarrow> Arm dat (tr_with_commands CompletedImmediatelyAcceptCreated [CompleteCmd p])
        | Reject f \<Rightarrow> Arm dat (tr_with_commands CompletedImmediatelyAcceptCreated [FailCmd f])
        | _ \<Rightarrow> Unmatched)
    | AcceptCommandRecorded \<Rightarrow> (case ev of
          Complete p \<Rightarrow> Arm dat (tr_with_commands Completed [CompleteCmd p])
        | Reject f \<Rightarrow> Arm dat (tr_with_commands Completed [FailCmd f])
        | _ \<Rightarrow> Unmatched)
    | Completed \<Rightarrow> (case ev of
          CommandProtocolMessage \<Rightarrow> Arm dat (tr_from (\<lambda>_. CompletedCommandCreated) Completed)
        | _ \<Rightarrow> Unmatched)
    | CompletedCommandCreated \<Rightarrow> (case ev of
          WorkflowExecutionUpdateCompleted \<Rightarrow>
            Arm dat (tr_from (\<lambda>_. CompletedCommandRecorded) CompletedCommandCreated)
        | _ \<Rightarrow> Unmatched)
    | CompletedImmediately \<Rightarrow> (case ev of
          CommandProtocolMessage \<Rightarrow> Arm dat (tr_from (\<lambda>_. CompletedImmediatelyAcceptCreated) CompletedImmediately)
        | _ \<Rightarrow> Unmatched)
    | CompletedImmediatelyAcceptCreated \<Rightarrow> (case ev of
          CommandProtocolMessage \<Rightarrow>
            Arm dat (tr_from (\<lambda>_. CompletedImmediatelyCompleteCreated) CompletedImmediatelyAcceptCreated)
        | _ \<Rightarrow> Unmatched)
    | CompletedImmediatelyCompleteCreated \<Rightarrow> (case ev of
          WorkflowExecutionUpdateAccepted \<Rightarrow>
            Arm dat (tr_from (\<lambda>_. CompletedCommandCreated) CompletedImmediatelyCompleteCreated)
        | _ \<Rightarrow> Unmatched)
    | CompletedCommandRecorded \<Rightarrow> Unmatched
    | Rejected \<Rightarrow> Unmatched)"

definition update_init ::
  "string \<Rightarrow> string \<Rightarrow> int \<Rightarrow> UpdateRequestMsg \<Rightarrow> bool \<Rightarrow>
   ('e, UpdateMachine \<times> MachineResponse) outcome" where
  "update_init message_id instance_id event_seq_id request replaying =
     bind_outcome (update_request_meta request) (\<lambda>meta.
     bind_outcome (update_request_name request) (\<lambda>name.
     bind_outcome (update_request_input request) (\<lambda>input.
     bind_outcome (update_request_headers request) (\<lambda>headers.
     Ok (from_parts (RequestInitiated request)
           \<lparr> us_message_id = message_id, us_instance_id = instance_id, us_event_seq_id = event_seq_id,
             us_meta = meta \<rparr>,
         PushWFJob (JobDoUpdate \<lparr> du_id = um_update_id meta, du_protocol_instance_id = instance_id,
           du_name = name, du_input = input, du_headers = headers, du_meta = Some meta,
           du_run_validator = (\<not> replaying) \<rparr>))))))"

datatype UpdateOutcome = OutcomeSuccess Payloads | OutcomeFailure Failure

datatype UpdateMsg =
    MsgAccept (acc_accepted_request_message_id: string) (acc_accepted_request_sequencing_event_id: int)
      (acc_accepted_request: UpdateRequestMsg)
  | MsgReject (rej_rejected_request_message_id: string) (rej_rejected_request_sequencing_event_id: int)
      (rej_rejected_request: UpdateRequestMsg) (rej_failure: Failure)
  | MsgResponse (rsp_meta: UpdateMeta) (rsp_outcome: UpdateOutcome)

definition msg_pack :: "(UpdateMsg \<Rightarrow> bytes option) \<Rightarrow> UpdateMsg \<Rightarrow> (string \<times> bytes) option" where
  "msg_pack encode msg = map_option (Pair (case msg of
      MsgAccept _ _ _ \<Rightarrow> ''type.googleapis.com/temporal.api.update.v1.Acceptance''
    | MsgReject _ _ _ _ \<Rightarrow> ''type.googleapis.com/temporal.api.update.v1.Rejection''
    | MsgResponse _ _ \<Rightarrow> ''type.googleapis.com/temporal.api.update.v1.Response'')) (encode msg)"

definition build_msg ::
  "(UpdateMsg \<Rightarrow> bytes option) \<Rightarrow> UpdateMachine \<Rightarrow> string \<Rightarrow> UpdateMsg \<Rightarrow>
   (WFMachinesError, MachineResponse) outcome" where
  "build_msg encode m outgoing_id msg = (case msg_pack encode msg of
      None \<Rightarrow> Err (Fatal ''Failed to serialize update response: {e:?}'')
    | Some accept_body \<Rightarrow> Ok (IssueNewMessage \<lparr> pm_id = outgoing_id,
        pm_protocol_instance_id = us_instance_id (shared_state m), pm_body = Some accept_body \<rparr>))"

definition build_command_msg ::
  "(UpdateMsg \<Rightarrow> bytes option) \<Rightarrow> UpdateMachine \<Rightarrow> string \<Rightarrow> UpdateMsg \<Rightarrow> responses" where
  "build_command_msg encode m outgoing_id msg =
     bind_outcome (build_msg encode m outgoing_id msg) (\<lambda>r.
     bind_outcome (command_from (ProtocolMessageCommandAttributes outgoing_id)) (\<lambda>c.
     Ok [r, IssueNewCommand c]))"

definition update_adapt_response ::
  "(UpdateMsg \<Rightarrow> bytes option) \<Rightarrow> (UpdateMachine, UpdateMachineCommand) adapter" where
  "update_adapt_response encode m my_command info = (let sh = shared_state m in case my_command of
      AcceptCmd orig \<Rightarrow> build_command_msg encode m (us_message_id sh @ ''/accept'')
        (MsgAccept (us_message_id sh) (us_event_seq_id sh) orig)
    | RejectCmd orig fail \<Rightarrow> bind_outcome (build_msg encode m (us_message_id sh @ ''/reject'')
        (MsgReject (us_message_id sh) (us_event_seq_id sh) orig fail)) (\<lambda>r. Ok [r])
    | CompleteCmd p \<Rightarrow> build_command_msg encode m (us_message_id sh @ ''/complete'')
        (MsgResponse (us_meta sh) (OutcomeSuccess [p]))
    | FailCmd f \<Rightarrow> build_command_msg encode m (us_message_id sh @ ''/complete'')
        (MsgResponse (us_meta sh) (OutcomeFailure f)))"

definition handle_response ::
  "(UpdateMsg \<Rightarrow> bytes option) \<Rightarrow> UpdateMachine \<Rightarrow> UpdateResponse \<Rightarrow> responses \<times> UpdateMachine" where
  "handle_response encode m resp = (case ur_response resp of
      None \<Rightarrow> (Err (Fatal ''Update response for update {} had an empty result, this is a lang layer bug.''), m)
    | Some body \<Rightarrow>
        (case on_event update_transitions m (case body of
             UR_Accepted \<Rightarrow> Accept | UR_Rejected f \<Rightarrow> Reject f | UR_Completed p \<Rightarrow> Complete p) of
           (Ok cmds, m') \<Rightarrow> (process_machine_commands (update_adapt_response encode) m' cmds None, m')
         | (Err InvalidTransition, m') \<Rightarrow> (bind_outcome (get_state m') (\<lambda>_. Err (Nondeterminism
             ''Invalid transition while handling update response (id {}) in state {}'')), m')
         | (Err (Underlying e), m') \<Rightarrow> (Err e, m')
         | (Panic s, m') \<Rightarrow> (Panic s, m')))"

definition update_try_from_event :: "HistEventData \<Rightarrow> (WFMachinesError, UpdateMachineEvents) outcome" where
  "update_try_from_event d = (case event_type (hed_event d) of
      ET_WorkflowExecutionUpdateAccepted \<Rightarrow> Ok WorkflowExecutionUpdateAccepted
    | ET_WorkflowExecutionUpdateCompleted \<Rightarrow> Ok WorkflowExecutionUpdateCompleted
    | _ \<Rightarrow> Err (Nondeterminism ''Update machine does not handle this event: {e}''))"

definition update_try_from_command :: "CommandType \<Rightarrow> UpdateMachineEvents option" where
  "update_try_from_command c = (if c = CT_ProtocolMessage then Some CommandProtocolMessage else None)"

definition update_step where
  "update_step encode = api_step update_transitions update_try_from_event update_try_from_command
     (update_adapt_response encode) (handle_response encode)"

section \<open>The conversation with the caller\<close>

text \<open>What the server sees of an update: the kind of each message, and the commands that order them.\<close>

datatype update_say = SayAccept | SayReject | SayComplete | SayCommand

definition update_says :: "MachineResponse \<Rightarrow> update_say list" where
  "update_says r = (case r of
      IssueNewMessage pm \<Rightarrow> (case pm_body pm of
          Some (url, _) \<Rightarrow>
            if url = ''type.googleapis.com/temporal.api.update.v1.Acceptance'' then [SayAccept]
            else if url = ''type.googleapis.com/temporal.api.update.v1.Rejection'' then [SayReject]
            else [SayComplete]
        | None \<Rightarrow> [])
    | IssueNewCommand _ \<Rightarrow> [SayCommand]
    | _ \<Rightarrow> [])"

definition command_says :: "UpdateMachineCommand \<Rightarrow> update_say list" where
  "command_says c = (case c of
      AcceptCmd _ \<Rightarrow> [SayAccept, SayCommand]
    | RejectCmd _ _ \<Rightarrow> [SayReject]
    | CompleteCmd _ \<Rightarrow> [SayComplete, SayCommand]
    | FailCmd _ \<Rightarrow> [SayComplete, SayCommand])"

definition update_said :: "UpdateMachineState \<Rightarrow> update_say list" where
  "update_said st = (case st of
      RequestInitiated _ \<Rightarrow> []
    | Rejected \<Rightarrow> [SayReject]
    | Accepted \<Rightarrow> [SayAccept, SayCommand]
    | AcceptCommandCreated \<Rightarrow> [SayAccept, SayCommand]
    | AcceptCommandRecorded \<Rightarrow> [SayAccept, SayCommand]
    | _ \<Rightarrow> [SayAccept, SayCommand, SayComplete, SayCommand])"

lemma update_adapt_says:
  "update_adapt_response encode m c info = Ok rs \<Longrightarrow> concat (map update_says rs) = command_says c"
  by (cases c) (auto simp: update_adapt_response_def build_command_msg_def build_msg_def msg_pack_def
      outcome_simps update_says_def command_says_def Let_def split: option.splits)

lemma update_adapt_no_panic: "\<not> is_panic (update_adapt_response encode m c info)"
  by (cases c) (auto simp: update_adapt_response_def build_command_msg_def build_msg_def command_from_def
      outcome_simps Let_def split: option.splits)

interpretation update: event_trace update_transitions "\<lambda>_ _. True" "\<lambda>_ _. True" update_try_from_event
  update_try_from_command "update_adapt_response encode" "handle_response encode"
  update_says command_says update_said for encode
proof (standard, goal_cases)
  case (2 st sh ev s)
  then show ?case by (cases st; cases ev) (auto simp: update_transitions_def)
next
  case (3 st sh ev sh')
  then show ?case by (cases st; cases ev) (auto simp: update_transitions_def)
next
  case (4 d)
  then show ?case by (auto simp: update_try_from_event_def split: EventType.splits)
next
  case (7 st sh ev sh' cmds st' c info)
  then show ?case by (simp add: update_adapt_no_panic)
next
  case (8 m x)
  then show ?case
    by (auto elim!: machine_invE simp: handle_response_def on_event_def get_state_def update_transitions_def
        update_adapt_no_panic outcome_simps
        split: option.splits UpdateResponseBody.splits UpdateMachineState.splits)
next
  case (9 m x rs m')
  then show ?case
    by (auto simp: handle_response_def outcome_simps split: option.splits outcome.splits prod.splits
        MachineError.splits)
next
  case (10 st sh ev sh' cmds st')
  then show ?case by (cases st; cases ev) (auto simp: update_transitions_def update_said_def command_says_def)
next
  case (11 m c info rs)
  then show ?case by (rule update_adapt_says)
qed simp_all

section \<open>Properties\<close>

lemma update_init_Ok:
  "update_init mid iid seq req replaying =
     (case (urq_meta req, urq_input req) of
        (Some meta, Some i) \<Rightarrow> Ok (from_parts (RequestInitiated req)
          \<lparr> us_message_id = mid, us_instance_id = iid, us_event_seq_id = seq, us_meta = meta \<rparr>,
          PushWFJob (JobDoUpdate \<lparr> du_id = um_update_id meta, du_protocol_instance_id = iid, du_name = ui_name i,
            du_input = (case ui_args i of Some ps \<Rightarrow> ps | None \<Rightarrow> []),
            du_headers = (case ui_header i of Some h \<Rightarrow> h | None \<Rightarrow> []), du_meta = Some meta,
            du_run_validator = (\<not> replaying) \<rparr>))
      | (None, _) \<Rightarrow> Panic ''Update request's `meta` field must be populated''
      | _ \<Rightarrow> Panic ''Update request's `input` field must be populated'')"
  by (auto simp: update_init_def update_request_meta_def update_request_name_def update_request_input_def
      update_request_headers_def update_input_def split: option.split)

lemma update_said_cases:
  "update_said st \<in> {[], [SayReject], [SayAccept, SayCommand], [SayAccept, SayCommand, SayComplete, SayCommand]}"
  by (cases st) (simp_all add: update_said_def)

text \<open>
  C6: An update is answered once and in order.  A request that passed validation starts a machine
  without panicking, and lang is asked to validate it exactly when not replaying.  Over any sequence
  of events, commands and lang responses the machine never panics, and what it sends is one of: nothing
  yet, one rejection, one acceptance, or one acceptance followed by one completion, with one command
  ordering each acceptance and completion and none for a rejection; after a run without error the state
  of the machine tells which.
\<close>

theorem update_conversation:
  "case update_init mid iid seq req replaying of
      Ok (m, resp) \<Rightarrow> valid_update_request req \<and>
        (case resp of PushWFJob (JobDoUpdate du) \<Rightarrow> du_run_validator du = (\<not> replaying) | _ \<Rightarrow> False) \<and>
        (case run_calls (update_step encode) m calls of
           (rs, r, m') \<Rightarrow> \<not> is_panic r \<and>
             concat (map update_says rs) \<in> {[], [SayReject], [SayAccept, SayCommand],
               [SayAccept, SayCommand, SayComplete, SayCommand]} \<and>
             (case (r, mstate m') of
                (Ok _, Some st) \<Rightarrow> concat (map update_says rs) = update_said st
              | (Ok _, None) \<Rightarrow> False
              | _ \<Rightarrow> True))
    | Err _ \<Rightarrow> False
    | Panic _ \<Rightarrow> \<not> valid_update_request req"
proof (cases "valid_update_request req")
  case False
  then show ?thesis by (auto simp: update_init_Ok valid_update_request_def split: option.splits)
next
  case True
  then obtain meta i where req: "urq_meta req = Some meta" "urq_input req = Some i"
    by (auto simp: valid_update_request_def)
  define m where "m = from_parts (RequestInitiated req)
    \<lparr> us_message_id = mid, us_instance_id = iid, us_event_seq_id = seq, us_meta = meta \<rparr>"
  have good: "machine_inv (\<lambda>_ _. True) m" and said: "past_of update_said m = []"
    by (simp_all add: m_def update_said_def)
  obtain rs r m' where run: "run_calls (update_step encode) m calls = (rs, r, m')"
    by (cases "run_calls (update_step encode) m calls")
  note run' = run[unfolded update_step_def]
  obtain m1 where m1: "machine_inv (\<lambda>_ _. True) m1" "concat (map update_says rs) = past_of update_said m1"
    "r = Ok () \<longrightarrow> m1 = m'"
    using update.traces.run_trace_prefix[OF good run'] said by auto
  then obtain st where st: "mstate m1 = Some st" by (auto elim: machine_invE)
  have says: "concat (map update_says rs) = update_said st" using m1(2) st by (simp add: past_of_def)
  have "\<not> is_panic r" using update.calls.run_no_panic[OF good run'] .
  moreover define ss where "ss = concat (map update_says rs)"
  moreover have "ss = update_said st" using says by (simp add: ss_def)
  ultimately show ?thesis
    using run m1(3) st update_said_cases[of st]
    by (cases r) (simp_all add: update_init_Ok req True m_def[symmetric] ss_def[symmetric] del: concat_eq_Nil_conv)
qed

end
