(* ===== verification/LocalActivityMachine.thy ===== *)
theory LocalActivityMachine
  imports ActivityMachine Markers
begin

text \<open>
  \<^verbatim>\<open>machines/local_activity_state_machine.rs\<close>, with the execution results of
  \<^verbatim>\<open>worker/activities/local_activities.rs\<close>: a local activity runs in the worker and records its result
  in a marker, which resolves it on replay.  A \<^verbatim>\<open>SystemTime\<close> is a number of nanoseconds without bound;
  \<open>now\<close> is the value of \<^verbatim>\<open>SystemTime::now()\<close>.  The attempt number is a 32-bit word, so its increment
  wraps as it does in a release build.
\<close>

section \<open>Results\<close>

datatype LocalActivityExecutionResult =
    LAR_Completed "Payload option"
  | LAR_Failed "Failure option"
  | LAR_TimedOut "Failure option"
  | LAR_Cancelled "Failure option"

definition cancellation_from_details :: "Payload option \<Rightarrow> Failure option" where
  "cancellation_from_details details = Some (mk_failure ''Activity cancelled'' None
     (Some (CanceledFailureInfo (map_option (\<lambda>p. [p]) details))))"

definition empty_cancel :: LocalActivityExecutionResult where
  "empty_cancel = LAR_Cancelled (cancellation_from_details None)"

definition la_timeout :: "TimeoutType \<Rightarrow> LocalActivityExecutionResult" where
  "la_timeout tt = LAR_TimedOut (Some (mk_failure ''Activity timed out'' None
     (Some (TimeoutFailureInfo tt None))))"

definition get_timeout_type :: "LocalActivityExecutionResult \<Rightarrow> TimeoutType option" where
  "get_timeout_type r = (case r of
      LAR_TimedOut (Some f) \<Rightarrow> (case failure_info f of Some (TimeoutFailureInfo tt _) \<Rightarrow> Some tt | _ \<Rightarrow> None)
    | _ \<Rightarrow> None)"

record ResolveDat =
  rd_result :: LocalActivityExecutionResult
  rd_complete_time :: "int option"
  rd_attempt :: u32
  rd_backoff :: "Duration option"
  rd_original_schedule_time :: "int option"

definition is_canceled_info :: "FailureInfo option \<Rightarrow> bool" where
  "is_canceled_info i = (case i of Some (CanceledFailureInfo _) \<Rightarrow> True | _ \<Rightarrow> False)"

definition is_timeout_info :: "FailureInfo option \<Rightarrow> bool" where
  "is_timeout_info i = (case i of Some (TimeoutFailureInfo _ _) \<Rightarrow> True | _ \<Rightarrow> False)"

definition resolve_dat_from :: "MarkerCodec \<Rightarrow> CompleteLocalActivityData \<Rightarrow> ResolveDat" where
  "resolve_dat_from cd d = \<lparr>
     rd_result = (case cla_result d of
         Inr res \<Rightarrow> LAR_Completed (Some res)
       | Inl fail \<Rightarrow>
           if is_canceled_info (failure_info fail) \<or>
              is_canceled_info (Option.bind (failure_cause fail) failure_info)
           then LAR_Cancelled (Some fail) else LAR_Failed (Some fail)),
     rd_complete_time = Option.bind (lmd_complete_time (cla_marker_dat d)) (system_time_try_from cd),
     rd_attempt = lmd_attempt (cla_marker_dat d),
     rd_backoff = lmd_backoff (cla_marker_dat d),
     rd_original_schedule_time =
       Option.bind (lmd_original_schedule_time (cla_marker_dat d)) (system_time_try_from cd) \<rparr>"

section \<open>The machine\<close>

datatype ResultType = RT_Completed | RT_Cancelled | RT_Failed

datatype LocalActivityMachineState =
    LA_Executing | LA_Replaying | LA_ReplayingPreResolved ResolveDat | LA_RequestSent
  | LA_MarkerCommandCreated ResultType | LA_ResultNotified ResultType | LA_MarkerCommandRecorded
  | LA_WaitingMarkerEvent (already_resolved: bool) | LA_WaitingMarkerEventPreResolved

datatype LocalActivityMachineEvents =
    LA_Schedule | HandleResult ResolveDat | HandleKnownResult ResolveDat | LA_Cancel
  | NoWaitCancel ActivityCancellationType | LA_CommandRecordMarker
  | LA_MarkerRecorded CompleteLocalActivityData | StartedNonReplayWFT

datatype LocalActivityCommand =
    RequestActivityExecution ValidScheduleLA | Resolved ResolveDat | FakeMarker | RequestCancel

record LASharedState =
  ls_attrs :: ValidScheduleLA
  ls_replaying_when_invoked :: bool
  ls_wf_time_when_started :: "int option"
  ls_internal_flags :: InternalFlags

type_synonym LocalActivityMachine = "(LocalActivityMachineState, LASharedState) machine"
type_synonym la_transition = "(LocalActivityCommand, LocalActivityMachineState, WFMachinesError) TransitionResult"

definition produce_no_wait_cancel_resolve_dat :: "LASharedState \<Rightarrow> ResolveDat" where
  "produce_no_wait_cancel_resolve_dat dat = \<lparr> rd_result = empty_cancel, rd_complete_time = None,
     rd_attempt = la_attempt (ls_attrs dat), rd_backoff = None,
     rd_original_schedule_time = la_original_schedule_time (ls_attrs dat) \<rparr>"

definition result_type_of :: "LocalActivityExecutionResult \<Rightarrow> ResultType" where
  "result_type_of r = (case r of
      LAR_Completed _ \<Rightarrow> RT_Completed | LAR_Failed _ \<Rightarrow> RT_Failed | LAR_TimedOut _ \<Rightarrow> RT_Failed
    | LAR_Cancelled _ \<Rightarrow> RT_Cancelled)"

text \<open>The check may record the use of a flag, also when it fails.\<close>

definition verify_marker_data_matches ::
  "LASharedState \<Rightarrow> CompleteLocalActivityData \<Rightarrow> (WFMachinesError, unit) outcome \<times> LASharedState" where
  "verify_marker_data_matches shared dat =
     (if la_seq (ls_attrs shared) \<noteq> lmd_seq (cla_marker_dat dat) then
        (Err (Nondeterminism ''Local activity marker data has sequence number {} but matched against LA command with sequence number {}''), shared)
      else
        let (can_use, flags) = try_use (ls_internal_flags shared) IdAndTypeDeterminismChecks
              (\<not> ls_replaying_when_invoked shared);
            shared' = shared\<lparr> ls_internal_flags := flags \<rparr>
        in (if can_use then
              (if lmd_activity_id (cla_marker_dat dat) \<noteq> la_activity_id (ls_attrs shared) then
                 Err (Nondeterminism ''Activity id of recorded marker '{}' does not match activity id of local activity command '{}' '')
               else if lmd_activity_type (cla_marker_dat dat) \<noteq> la_activity_type (ls_attrs shared) then
                 Err (Nondeterminism ''Activity type of recorded marker '{}' does not match activity type of local activity command '{}' '')
               else Ok ())
            else Ok (), shared'))"

definition verify_marker_dat ::
  "LASharedState \<Rightarrow> CompleteLocalActivityData \<Rightarrow> la_transition \<Rightarrow>
   (LocalActivityMachineState, LASharedState, LocalActivityCommand, WFMachinesError) arm" where
  "verify_marker_dat shared dat ok_expr = (case verify_marker_data_matches shared dat of
      (Err err, shared') \<Rightarrow> Arm shared' (TR_Err err)
    | (Ok _, shared') \<Rightarrow> Arm shared' ok_expr
    | (Panic s, shared') \<Rightarrow> Arm_panic s)"

definition result_notified_on_marker_recorded ::
  "ResultType \<Rightarrow> LASharedState \<Rightarrow> CompleteLocalActivityData \<Rightarrow>
   (LocalActivityMachineState, LASharedState, LocalActivityCommand, WFMachinesError) arm" where
  "result_notified_on_marker_recorded result_type shared dat =
     (if result_type = RT_Completed \<and> isl (cla_result dat) then
        Arm shared (TR_Err (Nondeterminism ''Local activity (seq {}) completed successfully locally, but history said it failed!''))
      else if result_type = RT_Failed \<and> \<not> isl (cla_result dat) then
        Arm shared (TR_Err (Nondeterminism ''Local activity (seq {}) failed locally, but history said it completed!''))
      else verify_marker_dat shared dat (tr_default LA_MarkerCommandRecorded))"

definition local_activity_transitions ::
  "MarkerCodec \<Rightarrow> (LocalActivityMachineState, LASharedState, LocalActivityMachineEvents, LocalActivityCommand,
    WFMachinesError) transitions" where
  "local_activity_transitions cd st dat ev = (case st of
      LA_Executing \<Rightarrow> (case ev of
          LA_Schedule \<Rightarrow> Arm dat (tr_with_commands LA_RequestSent [RequestActivityExecution (ls_attrs dat)])
        | _ \<Rightarrow> Unmatched)
    | LA_Replaying \<Rightarrow> (case ev of
          LA_Schedule \<Rightarrow> Arm dat (tr_ok [] (LA_WaitingMarkerEvent False))
        | _ \<Rightarrow> Unmatched)
    | LA_ReplayingPreResolved d \<Rightarrow> (case ev of
          LA_Schedule \<Rightarrow> Arm dat (tr_ok [FakeMarker, Resolved d] LA_WaitingMarkerEventPreResolved)
        | _ \<Rightarrow> Unmatched)
    | LA_RequestSent \<Rightarrow> (case ev of
          HandleResult d \<Rightarrow>
            Arm dat (tr_ok [Resolved d] (LA_MarkerCommandCreated (result_type_of (rd_result d))))
        | LA_Cancel \<Rightarrow> Arm dat (tr_ok [RequestCancel] LA_RequestSent)
        | NoWaitCancel cancel_type \<Rightarrow> Arm dat (tr_ok
            ((if cancel_type = TryCancel then [RequestCancel] else []) @
             [Resolved (produce_no_wait_cancel_resolve_dat dat)])
            (LA_MarkerCommandCreated RT_Cancelled))
        | _ \<Rightarrow> Unmatched)
    | LA_MarkerCommandCreated rt \<Rightarrow> (case ev of
          LA_CommandRecordMarker \<Rightarrow> Arm dat (tr_from (\<lambda>_. LA_ResultNotified rt) (LA_MarkerCommandCreated rt))
        | HandleResult _ \<Rightarrow> Arm dat (tr_from id (LA_MarkerCommandCreated rt))
        | _ \<Rightarrow> Unmatched)
    | LA_ResultNotified rt \<Rightarrow> (case ev of
          LA_MarkerRecorded d \<Rightarrow> result_notified_on_marker_recorded rt dat d
        | HandleResult _ \<Rightarrow> Arm dat (tr_from id (LA_ResultNotified rt))
        | _ \<Rightarrow> Unmatched)
    | LA_MarkerCommandRecorded \<Rightarrow> (case ev of
          LA_Cancel \<Rightarrow> Arm dat (tr_ok [RequestCancel] LA_MarkerCommandRecorded)
        | NoWaitCancel cancel_type \<Rightarrow> Arm dat
            (if cancel_type = TryCancel then tr_ok [RequestCancel] LA_MarkerCommandRecorded
             else tr_default LA_MarkerCommandRecorded)
        | HandleResult _ \<Rightarrow> Arm dat (tr_from id LA_MarkerCommandRecorded)
        | _ \<Rightarrow> Unmatched)
    | LA_WaitingMarkerEvent already \<Rightarrow> (case ev of
          LA_MarkerRecorded d \<Rightarrow> verify_marker_dat dat d (tr_with_commands LA_MarkerCommandRecorded
            (if already then [] else [Resolved (resolve_dat_from cd d)]))
        | LA_Cancel \<Rightarrow> Arm dat (tr_ok [RequestCancel] (LA_WaitingMarkerEvent already))
        | HandleKnownResult d \<Rightarrow> Arm dat (tr_ok [Resolved d] (LA_WaitingMarkerEvent True))
        | NoWaitCancel _ \<Rightarrow> Arm dat (tr_ok [RequestCancel] (LA_WaitingMarkerEvent already))
        | StartedNonReplayWFT \<Rightarrow>
            (let dat' = dat\<lparr> ls_replaying_when_invoked := False \<rparr>
             in Arm dat' (tr_with_commands LA_RequestSent [RequestActivityExecution (ls_attrs dat')]))
        | _ \<Rightarrow> Unmatched)
    | LA_WaitingMarkerEventPreResolved \<Rightarrow> (case ev of
          LA_MarkerRecorded d \<Rightarrow> verify_marker_dat dat d (tr_default LA_MarkerCommandRecorded)
        | LA_Cancel \<Rightarrow> Arm dat (tr_from id LA_WaitingMarkerEventPreResolved)
        | NoWaitCancel _ \<Rightarrow> Arm dat (tr_from id LA_WaitingMarkerEventPreResolved)
        | _ \<Rightarrow> Unmatched))"

text \<open>\<^verbatim>\<open>wrap_fail!\<close>: a failure of the given kind becomes the cause of an activity failure.\<close>

definition wrap_fail ::
  "LASharedState \<Rightarrow> Failure option \<Rightarrow> string \<Rightarrow> (FailureInfo option \<Rightarrow> bool) \<Rightarrow> Failure option" where
  "wrap_fail dat fail msg is_info =
     (if is_info (Option.bind fail failure_info) then
        Some (mk_failure msg fail (Some (activity_fail_info (la_activity_type (ls_attrs dat))
          (la_activity_id (ls_attrs dat)) None RS_CancelRequested 0 0)))
      else fail)"

definition la_resolution :: "MarkerCodec \<Rightarrow> LASharedState \<Rightarrow> ResolveDat \<Rightarrow> ActivityResolution" where
  "la_resolution cd dat d = (case rd_backoff d of
      Some b \<Rightarrow> AR_Backoff \<lparr> bo_attempt = rd_attempt d + 1, bo_backoff_duration = Some b,
        bo_original_schedule_time = map_option (timestamp_from cd) (rd_original_schedule_time d) \<rparr>
    | None \<Rightarrow> (case rd_result d of
        LAR_Completed c \<Rightarrow> AR_Completed c
      | LAR_Failed f \<Rightarrow> AR_Failed f
      | LAR_TimedOut f \<Rightarrow> AR_Failed (wrap_fail dat f ''Local Activity timed out'' is_timeout_info)
      | LAR_Cancelled f \<Rightarrow> AR_Cancelled (wrap_fail dat f ''Local Activity cancelled'' is_canceled_info)))"

definition la_marker_data :: "MarkerCodec \<Rightarrow> LASharedState \<Rightarrow> ResolveDat \<Rightarrow> LocalActivityMarkerData" where
  "la_marker_data cd dat d =
     \<lparr> lmd_seq = la_seq (ls_attrs dat), lmd_attempt = rd_attempt d,
       lmd_activity_id = la_activity_id (ls_attrs dat), lmd_activity_type = la_activity_type (ls_attrs dat),
       lmd_complete_time = map_option (timestamp_from cd) (rd_complete_time d),
       lmd_backoff = rd_backoff d,
       lmd_original_schedule_time = map_option (timestamp_from cd) (rd_original_schedule_time d) \<rparr>"

definition la_marker :: "MarkerCodec \<Rightarrow> LASharedState \<Rightarrow> ResolveDat \<Rightarrow> RecordMarkerCommandAttributes" where
  "la_marker cd dat d = \<lparr> rm_marker_name = LOCAL_ACTIVITY_MARKER_NAME,
     rm_details = build_local_activity_marker_details cd
       (la_marker_data cd dat d)
       (case rd_result d of LAR_Completed r \<Rightarrow> r | _ \<Rightarrow> None),
     rm_failure = (case rd_result d of
         LAR_Completed _ \<Rightarrow> None | LAR_Failed f \<Rightarrow> f | LAR_TimedOut f \<Rightarrow> f | LAR_Cancelled f \<Rightarrow> f) \<rparr>"

definition local_activity_adapt_response ::
  "MarkerCodec \<Rightarrow> (LocalActivityMachine, LocalActivityCommand) adapter" where
  "local_activity_adapt_response cd m my_command info = (let dat = shared_state m in case my_command of
      RequestActivityExecution act \<Rightarrow> Ok [QueueLocalActivity act]
    | Resolved d \<Rightarrow>
        (let will_not_run_again = (case rd_result d of LAR_Cancelled _ \<Rightarrow> True | LAR_TimedOut _ \<Rightarrow> True | _ \<Rightarrow> False);
             responses = [PushWFJob (JobResolveActivity \<lparr> ra_seq = la_seq (ls_attrs dat),
                  ra_result = la_resolution cd dat d, ra_is_local = True \<rparr>),
                UpdateWFTime (rd_complete_time d)] @
               (if will_not_run_again \<and> la_cancellation_type (ls_attrs dat) = Abandon
                then [AbandonLocalActivity (la_seq (ls_attrs dat))] else [])
         in if \<not> ls_replaying_when_invoked dat then
              bind_outcome (command_from (RecordMarkerCommandAttributes (la_marker cd dat d)))
                (\<lambda>c. Ok (responses @ [IssueNewCommand c]))
            else Ok responses)
    | FakeMarker \<Rightarrow> Ok [IssueFakeLocalActivityMarker (la_seq (ls_attrs dat))]
    | RequestCancel \<Rightarrow> Ok [RequestCancelLocalActivity (la_seq (ls_attrs dat))])"

definition local_activity_try_from_command :: "CommandType \<Rightarrow> LocalActivityMachineEvents option" where
  "local_activity_try_from_command c = (if c = CT_RecordMarker then Some LA_CommandRecordMarker else None)"

definition local_activity_try_from_event ::
  "MarkerCodec \<Rightarrow> HistEventData \<Rightarrow> (WFMachinesError, LocalActivityMachineEvents) outcome" where
  "local_activity_try_from_event cd d = (let e = hed_event d in
     if event_type e \<noteq> ET_MarkerRecorded then
       Err (Nondeterminism ''Local activity machine cannot handle this event: {e}'')
     else (case into_local_activity_marker_details cd e of
         Some marker_dat \<Rightarrow> Ok (LA_MarkerRecorded marker_dat)
       | None \<Rightarrow> Err (Nondeterminism ''Local activity machine encountered an unparsable marker'')))"

section \<open>Calls\<close>

definition new_local_activity ::
  "MarkerCodec \<Rightarrow> int \<Rightarrow> ValidScheduleLA \<Rightarrow> bool \<Rightarrow> ResolveDat option \<Rightarrow> int option \<Rightarrow> InternalFlags \<Rightarrow>
   (WFMachinesError, LocalActivityMachine \<times> MachineResponse list) outcome" where
  "new_local_activity cd now attrs replaying_when_invoked maybe_pre_resolved wf_time internal_flags =
     bind_outcome
       (if replaying_when_invoked then
          Ok (case maybe_pre_resolved of Some dat \<Rightarrow> LA_ReplayingPreResolved dat | None \<Rightarrow> LA_Replaying)
        else if maybe_pre_resolved \<noteq> None then
          Err (Nondeterminism ''Local activity cannot be created as pre-resolved while not replaying'')
        else Ok LA_Executing)
     (\<lambda>initial_state.
       let attrs' = attrs\<lparr> la_original_schedule_time :=
             (case la_original_schedule_time attrs of Some t \<Rightarrow> Some t | None \<Rightarrow> Some now) \<rparr>
       in case on_event (local_activity_transitions cd) (from_parts initial_state
              \<lparr> ls_attrs = attrs', ls_replaying_when_invoked = replaying_when_invoked,
                ls_wf_time_when_started = wf_time, ls_internal_flags = internal_flags \<rparr>) LA_Schedule of
            (Ok res, machine) \<Rightarrow> (case rev res of
                c # _ \<Rightarrow> bind_outcome (expect ''Adapting LA schedule response doesn't fail''
                    (local_activity_adapt_response cd machine c None)) (\<lambda>mr. Ok (machine, mr))
              | [] \<Rightarrow> Ok (machine, []))
          | _ \<Rightarrow> Panic ''Scheduling local activities doesn't fail'')"

definition marker_should_get_special_handling :: "LocalActivityMachine \<Rightarrow> (WFMachinesError, bool) outcome" where
  "marker_should_get_special_handling m = bind_outcome (get_state m) (\<lambda>st. case st of
      LA_ResultNotified _ \<Rightarrow> Ok False
    | LA_WaitingMarkerEvent _ \<Rightarrow> Ok True
    | LA_WaitingMarkerEventPreResolved \<Rightarrow> Ok True
    | _ \<Rightarrow> Err (Fatal ''Attempted to check for LA marker handling in invalid state {}''))"

definition will_accept_resolve_marker :: "LocalActivityMachine \<Rightarrow> ('e, bool) outcome" where
  "will_accept_resolve_marker m = bind_outcome (get_state m) (\<lambda>st.
     Ok (case st of LA_WaitingMarkerEvent _ \<Rightarrow> True | _ \<Rightarrow> False))"

definition encountered_non_replay_wft ::
  "MarkerCodec \<Rightarrow> LocalActivityMachine \<Rightarrow> responses \<times> LocalActivityMachine" where
  "encountered_non_replay_wft cd m = (case will_accept_resolve_marker m of
      Ok False \<Rightarrow> (Ok [], m)
    | Ok True \<Rightarrow> (case on_event (local_activity_transitions cd) m StartedNonReplayWFT of
          (Ok res, m') \<Rightarrow> (case rev res of
              c # _ \<Rightarrow> (expect ''Adapting LA wft-non-replay response doesn't fail''
                  (local_activity_adapt_response cd m' c None), m')
            | [] \<Rightarrow> (Panic ''Always produces one response'', m'))
        | (Err InvalidTransition, m') \<Rightarrow> (bind_outcome (get_state m') (\<lambda>_. Err (Fatal
            ''Invalid transition while notifying local activity (seq {})of non-replay-wft-started in {}'')), m')
        | (Err (Underlying e), m') \<Rightarrow> (Err e, m')
        | (Panic s, m') \<Rightarrow> (Panic s, m'))
    | Err e \<Rightarrow> (Err e, m)
    | Panic s \<Rightarrow> (Panic s, m))"

definition try_resolve_inner ::
  "MarkerCodec \<Rightarrow> LocalActivityMachine \<Rightarrow> ResolveDat \<Rightarrow> bool \<Rightarrow> responses \<times> LocalActivityMachine" where
  "try_resolve_inner cd m dat from_marker =
     (case on_event (local_activity_transitions cd) m
         (if from_marker then HandleKnownResult dat else HandleResult dat) of
        (Ok res, m') \<Rightarrow> (expect ''Adapting LA resolve response doesn't fail''
            (process_machine_commands (local_activity_adapt_response cd) m' res None), m')
      | (Err InvalidTransition, m') \<Rightarrow> (bind_outcome (get_state m') (\<lambda>_. Err (Fatal
          ''Invalid transition resolving local activity (seq {}, from marker: {}) in {}'')), m')
      | (Err (Underlying e), m') \<Rightarrow> (Err e, m')
      | (Panic s, m') \<Rightarrow> (Panic s, m'))"

definition try_resolve ::
  "MarkerCodec \<Rightarrow> LocalActivityMachine \<Rightarrow> LocalActivityExecutionResult \<Rightarrow> int \<Rightarrow> u32 \<Rightarrow> Duration option \<Rightarrow>
   int option \<Rightarrow> responses \<times> LocalActivityMachine" where
  "try_resolve cd m result runtime attempt backoff original_schedule_time =
     try_resolve_inner cd m \<lparr> rd_result = result,
       rd_complete_time = map_option (\<lambda>t. t + runtime) (ls_wf_time_when_started (shared_state m)),
       rd_attempt = attempt, rd_backoff = backoff, rd_original_schedule_time = original_schedule_time \<rparr> False"

definition try_resolve_with_dat ::
  "MarkerCodec \<Rightarrow> LocalActivityMachine \<Rightarrow> ResolveDat \<Rightarrow> responses \<times> LocalActivityMachine" where
  "try_resolve_with_dat cd m dat = try_resolve_inner cd m dat True"

definition local_activity_cancel ::
  "MarkerCodec \<Rightarrow> LocalActivityMachine \<Rightarrow>
   (WFMachinesError MachineError, MachineResponse list) outcome \<times> LocalActivityMachine" where
  "local_activity_cancel cd m =
     (let event = (case la_cancellation_type (ls_attrs (shared_state m)) of
            TryCancel \<Rightarrow> NoWaitCancel TryCancel
          | Abandon \<Rightarrow> NoWaitCancel Abandon
          | WaitCancellationCompleted \<Rightarrow> LA_Cancel)
      in case on_event (local_activity_transitions cd) m event of
           (Ok cmds, m') \<Rightarrow> (map_err Underlying
              (process_machine_commands (local_activity_adapt_response cd) m' cmds None), m')
         | (Err e, m') \<Rightarrow> (Err e, m')
         | (Panic s, m') \<Rightarrow> (Panic s, m'))"

definition la_was_cancelled_before_sent_to_server :: "LocalActivityMachine \<Rightarrow> bool" where
  "la_was_cancelled_before_sent_to_server m = False"

datatype la_call =
    NonReplayWFT
  | TryResolve LocalActivityExecutionResult int u32 "Duration option" "int option"
  | TryResolveWithDat ResolveDat
  | LACancel

definition local_activity_lang ::
  "MarkerCodec \<Rightarrow> LocalActivityMachine \<Rightarrow> la_call \<Rightarrow> responses \<times> LocalActivityMachine" where
  "local_activity_lang cd m x = (case x of
      NonReplayWFT \<Rightarrow> encountered_non_replay_wft cd m
    | TryResolve res runtime attempt backoff ost \<Rightarrow> try_resolve cd m res runtime attempt backoff ost
    | TryResolveWithDat dat \<Rightarrow> try_resolve_with_dat cd m dat
    | LACancel \<Rightarrow> (let (r, m') = local_activity_cancel cd m in (map_err wf_error_from r, m')))"

definition local_activity_step where
  "local_activity_step cd = api_step (local_activity_transitions cd) (local_activity_try_from_event cd)
     local_activity_try_from_command (local_activity_adapt_response cd) (local_activity_lang cd)"

section \<open>Resolutions\<close>

definition resolves_local_activity :: "MachineResponse \<Rightarrow> nat" where
  "resolves_local_activity r = (case r of PushWFJob (JobResolveActivity _) \<Rightarrow> 1 | _ \<Rightarrow> 0)"

definition la_command_weight :: "LocalActivityCommand \<Rightarrow> nat" where
  "la_command_weight c = (case c of Resolved _ \<Rightarrow> 1 | _ \<Rightarrow> 0)"

definition la_pot :: "LocalActivityMachineState \<Rightarrow> LASharedState \<Rightarrow> nat" where
  "la_pot st dat = (case st of
      LA_MarkerCommandCreated _ \<Rightarrow> 0 | LA_ResultNotified _ \<Rightarrow> 0 | LA_MarkerCommandRecorded \<Rightarrow> 0
    | LA_WaitingMarkerEventPreResolved \<Rightarrow> 0
    | _ \<Rightarrow> 1)"

text \<open>A result known from a peeked marker, as delivered while waiting for the marker event.\<close>

definition la_event_gain :: "LocalActivityMachineEvents \<Rightarrow> nat" where
  "la_event_gain ev = (case ev of HandleKnownResult _ \<Rightarrow> 1 | _ \<Rightarrow> 0)"

definition known_results :: "la_call \<Rightarrow> nat" where
  "known_results x = (case x of TryResolveWithDat _ \<Rightarrow> 1 | _ \<Rightarrow> 0)"

lemma la_adapt_Ok: "\<exists>rs. local_activity_adapt_response cd m c info = Ok rs"
  by (cases c) (auto simp: local_activity_adapt_response_def command_from_def Let_def)

lemma la_adapt_weight:
  "local_activity_adapt_response cd m c info = Ok rs \<Longrightarrow> weigh resolves_local_activity rs = la_command_weight c"
  by (cases c) (auto simp: local_activity_adapt_response_def command_from_def Let_def resolves_local_activity_def
      la_command_weight_def split: if_splits)

lemma la_process_Ok: "\<exists>rs. process_machine_commands (local_activity_adapt_response cd) m cmds info = Ok rs"
proof (induction cmds)
  case (Cons c cmds)
  then show ?case using la_adapt_Ok[of cd m c info] by auto
qed auto

lemma verify_marker_data_not_Panic: "fst (verify_marker_data_matches sh d) \<noteq> Panic s"
  by (simp add: verify_marker_data_matches_def Let_def split: prod.split)

lemma verify_marker_dat_arm:
  "\<exists>sh'. verify_marker_dat sh d t = Arm sh' t \<or> (\<exists>e. verify_marker_dat sh d t = Arm sh' (TR_Err e))"
  using verify_marker_data_not_Panic[of sh d]
  by (cases "verify_marker_data_matches sh d"; cases "fst (verify_marker_data_matches sh d)")
    (auto simp: verify_marker_dat_def)

lemma la_marker_arms:
  "verify_marker_dat sh d t \<noteq> Arm_panic s"
  "verify_marker_dat sh d (TR_Ok cmds0 st0) \<noteq> Arm sh' TR_InvalidTransition"
  "verify_marker_dat sh d (TR_Ok cmds0 st0) = Arm sh' (TR_Ok cmds st') \<Longrightarrow> cmds = cmds0 \<and> st' = st0"
  using verify_marker_dat_arm[of sh d t] verify_marker_dat_arm[of sh d "TR_Ok cmds0 st0"] by auto

lemma la_no_panic_arm: "local_activity_transitions cd st sh ev \<noteq> Arm_panic s"
  by (cases st; cases ev)
    (auto simp: local_activity_transitions_def result_notified_on_marker_recorded_def la_marker_arms Let_def)

lemma la_no_invalid_arm: "local_activity_transitions cd st sh ev \<noteq> Arm sh' TR_InvalidTransition"
  by (cases st; cases ev)
    (auto simp: local_activity_transitions_def result_notified_on_marker_recorded_def la_marker_arms Let_def)

lemma la_arm_income:
  "local_activity_transitions cd st sh ev = Arm sh' (TR_Ok cmds st') \<Longrightarrow>
   weigh la_command_weight cmds + la_pot st' sh' \<le> la_pot st sh + la_event_gain ev"
  by (cases st; cases ev)
    (auto simp: local_activity_transitions_def result_notified_on_marker_recorded_def Let_def
      la_pot_def la_command_weight_def la_event_gain_def dest!: la_marker_arms(3) split: if_splits)

interpretation la_fsm: fsm_invariant "local_activity_transitions cd" "\<lambda>_ _. True" "\<lambda>_ _. True" for cd
  by standard (simp_all add: la_no_panic_arm la_no_invalid_arm)

text \<open>Every call of lang or of the worker on the machine is one event of it, or an error, or has no effect.\<close>

definition la_call_is_event ::
  "MarkerCodec \<Rightarrow> LocalActivityMachine \<Rightarrow> la_call \<Rightarrow> responses \<Rightarrow> LocalActivityMachine \<Rightarrow> bool" where
  "la_call_is_event cd m x r m' = ((r = Ok [] \<and> m' = m) \<or> (\<exists>e. r = Err e) \<or>
     (\<exists>ev cmds. on_event (local_activity_transitions cd) m ev = (Ok cmds, m') \<and>
        r = process_machine_commands (local_activity_adapt_response cd) m' cmds None \<and>
        la_event_gain ev \<le> known_results x))"

lemma la_on_event_cases:
  assumes "machine_inv (\<lambda>_ _. True) m"
  obtains (Ok) cmds m' where "on_event (local_activity_transitions cd) m ev = (Ok cmds, m')"
  | (Invalid) "on_event (local_activity_transitions cd) m ev = (Err InvalidTransition, m)"
  | (Err) e m' where "on_event (local_activity_transitions cd) m ev = (Err (Underlying e), m')"
proof (cases "on_event (local_activity_transitions cd) m ev")
  case (Pair r m')
  with la_fsm.on_event_not_Panic[OF assms, where ev = ev and cd = cd]
    la_fsm.on_event_Invalid_keeps[OF assms, where ev = ev and cd = cd]
  show thesis using that by (cases r) (auto, metis MachineError.exhaust)
qed

lemma la_process_not_panic:
  "\<not> is_panic (process_machine_commands (local_activity_adapt_response cd) m cmds info)"
  using la_process_Ok[of cd m cmds info] by auto

lemma la_expect_process [simp]:
  "expect s (process_machine_commands (local_activity_adapt_response cd) m cmds info) =
   process_machine_commands (local_activity_adapt_response cd) m cmds info"
  using la_process_Ok[of cd m cmds info] by auto

lemma la_resolve_is_event:
  assumes "machine_inv (\<lambda>_ _. True) m" "try_resolve_inner cd m dat known = (r, m')"
    and "known \<Longrightarrow> known_results x = 1"
  shows "la_call_is_event cd m x r m'"
proof -
  define ev where "ev = (if known then HandleKnownResult dat else HandleResult dat)"
  have gain: "la_event_gain ev \<le> known_results x" using assms(3) by (simp add: ev_def la_event_gain_def)
  from assms(1) show ?thesis
  proof (cases rule: la_on_event_cases[where cd = cd and ev = ev])
    case (Ok cmds m1)
    then show ?thesis
      using assms(2) gain by (auto simp: try_resolve_inner_def ev_def la_call_is_event_def)
  qed (use assms(1,2) in \<open>auto simp: try_resolve_inner_def ev_def la_call_is_event_def get_state_def elim: machine_invE\<close>)
qed

lemma la_cancel_is_event:
  assumes "machine_inv (\<lambda>_ _. True) m" "local_activity_cancel cd m = (r, m')"
  shows "la_call_is_event cd m x (map_err wf_error_from r) m'"
proof -
  define ev where "ev = (case la_cancellation_type (ls_attrs (shared_state m)) of
      TryCancel \<Rightarrow> NoWaitCancel TryCancel | Abandon \<Rightarrow> NoWaitCancel Abandon | WaitCancellationCompleted \<Rightarrow> LA_Cancel)"
  have gain: "la_event_gain ev = 0" by (simp add: ev_def la_event_gain_def split: ActivityCancellationType.split)
  from assms(1) show ?thesis
  proof (cases rule: la_on_event_cases[where cd = cd and ev = ev])
    case (Ok cmds m1)
    with la_process_Ok[of cd m1 cmds None] assms(2)
    have "map_err wf_error_from r = process_machine_commands (local_activity_adapt_response cd) m' cmds None" "m1 = m'"
      by (auto simp: local_activity_cancel_def ev_def[symmetric])
    with Ok gain show ?thesis unfolding la_call_is_event_def by (metis le0)
  qed (use assms(2) in \<open>auto simp: local_activity_cancel_def ev_def[symmetric] la_call_is_event_def\<close>)
qed

lemma la_non_replay_is_event:
  assumes "machine_inv (\<lambda>_ _. True) m" "encountered_non_replay_wft cd m = (r, m')"
  shows "la_call_is_event cd m x r m'"
proof -
  obtain st where st: "mstate m = Some st" using assms(1) by (rule machine_invE)
  have gain: "la_event_gain StartedNonReplayWFT = 0" by (simp add: la_event_gain_def)
  show ?thesis
  proof (cases "\<exists>b. st = LA_WaitingMarkerEvent b")
    case True
    then obtain b where b: "mstate m = Some (LA_WaitingMarkerEvent b)" using st by auto
    then obtain cmds where "on_event (local_activity_transitions cd) m StartedNonReplayWFT = (Ok cmds, m')"
      "r = process_machine_commands (local_activity_adapt_response cd) m' cmds None"
      using assms(2)
      by (auto simp: encountered_non_replay_wft_def will_accept_resolve_marker_def get_state_def on_event_def
          local_activity_transitions_def local_activity_adapt_response_def Let_def)
    then show ?thesis using gain unfolding la_call_is_event_def by (metis le0)
  next
    case False
    then show ?thesis
      using assms(2) st
      by (cases st) (auto simp: encountered_non_replay_wft_def will_accept_resolve_marker_def get_state_def
          la_call_is_event_def)
  qed
qed

lemma la_lang_is_event:
  assumes "machine_inv (\<lambda>_ _. True) m" "local_activity_lang cd m x = (r, m')"
  shows "la_call_is_event cd m x r m'"
proof (cases x)
  case LACancel
  then show ?thesis
    using assms by (auto simp: local_activity_lang_def intro: la_cancel_is_event split: prod.splits)
qed (use assms in \<open>auto simp: local_activity_lang_def try_resolve_def try_resolve_with_dat_def known_results_def
      intro: la_non_replay_is_event la_resolve_is_event\<close>)

interpretation local_activity: event_income "local_activity_transitions cd" "\<lambda>_ _. True" "\<lambda>_ _. True"
  "local_activity_try_from_event cd" local_activity_try_from_command "local_activity_adapt_response cd"
  "local_activity_lang cd" resolves_local_activity la_command_weight la_pot la_event_gain known_results for cd
proof (standard, goal_cases)
  case (1 d)
  then show ?case by (simp add: local_activity_try_from_event_def Let_def split: option.split)
next
  case (4 st sh ev sh' cmds st' c info)
  then show ?case using la_adapt_Ok[of cd "from_parts st' sh'" c info] by auto
next
  case (5 m x)
  then show ?case
    by (cases "local_activity_lang cd m x")
      (use la_lang_is_event[OF 5] la_process_not_panic in \<open>fastforce simp: la_call_is_event_def\<close>)
next
  case (6 m x rs m')
  then show ?case using la_lang_is_event[OF 6] by (fastforce simp: la_call_is_event_def)
next
  case (7 st sh ev sh' cmds st')
  then show ?case by (simp add: la_arm_income)
next
  case (8 m c info rs)
  then show ?case by (simp add: la_adapt_weight)
next
  case (9 d ev)
  then show ?case
    by (auto simp: local_activity_try_from_event_def la_event_gain_def Let_def split: if_splits option.splits)
next
  case (10 ct ev)
  then show ?case by (auto simp: local_activity_try_from_command_def la_event_gain_def split: if_splits)
next
  case (11 m x rs m')
  then show ?case using la_lang_is_event[OF 11] by (fastforce simp: la_call_is_event_def)
qed simp_all

section \<open>A local activity resolves once\<close>

definition la_shared ::
  "ValidScheduleLA \<Rightarrow> int \<Rightarrow> bool \<Rightarrow> int option \<Rightarrow> InternalFlags \<Rightarrow> LASharedState" where
  "la_shared attrs now replaying wf_time flags = \<lparr> ls_attrs = attrs\<lparr> la_original_schedule_time :=
       (case la_original_schedule_time attrs of Some t \<Rightarrow> Some t | None \<Rightarrow> Some now) \<rparr>,
     ls_replaying_when_invoked = replaying, ls_wf_time_when_started = wf_time, ls_internal_flags = flags \<rparr>"

lemma new_local_activity_eq:
  "new_local_activity cd now attrs replaying pre wf_time flags =
     (let sh = la_shared attrs now replaying wf_time flags in
      if \<not> replaying then
        (if pre = None then Ok (from_parts LA_RequestSent sh, [QueueLocalActivity (ls_attrs sh)])
         else Err (Nondeterminism ''Local activity cannot be created as pre-resolved while not replaying''))
      else (case pre of
          None \<Rightarrow> Ok (from_parts (LA_WaitingMarkerEvent False) sh, [])
        | Some d \<Rightarrow> bind_outcome (local_activity_adapt_response cd (from_parts LA_WaitingMarkerEventPreResolved sh)
              (Resolved d) None) (\<lambda>mr. Ok (from_parts LA_WaitingMarkerEventPreResolved sh, mr))))"
proof -
  have *: "bind_outcome (expect s (local_activity_adapt_response cd m c None)) k =
      bind_outcome (local_activity_adapt_response cd m c None) k" for s m c k
    using la_adapt_Ok[of cd m c None] by auto
  show ?thesis
    unfolding new_local_activity_def *
    by (auto simp: la_shared_def on_event_def local_activity_transitions_def
        local_activity_adapt_response_def Let_def split: option.split)
qed


section \<open>Replay of a recorded result\<close>

text \<open>Whether the marker of a result lets a replay tell lang the same: a result or a failure was
  recorded, and the failure's info, or that of its cause, leads back to the kind of the result.\<close>

definition canceled_chain :: "Failure \<Rightarrow> bool" where
  "canceled_chain f = (is_canceled_info (failure_info f) \<or>
     is_canceled_info (Option.bind (failure_cause f) failure_info))"

definition la_replayable :: "LocalActivityExecutionResult \<Rightarrow> bool" where
  "la_replayable res = (case res of
      LAR_Completed p \<Rightarrow> p \<noteq> None
    | LAR_Failed (Some f) \<Rightarrow> \<not> canceled_chain f
    | LAR_TimedOut (Some f) \<Rightarrow> \<not> canceled_chain f \<and> \<not> is_timeout_info (failure_info f)
    | LAR_Cancelled (Some f) \<Rightarrow> canceled_chain f
    | _ \<Rightarrow> False)"

definition marker_event_of :: "int \<Rightarrow> MachineResponse list \<Rightarrow> HistEventData option" where
  "marker_event_of i rs = (case rev rs of
      IssueNewCommand c # _ \<Rightarrow> (case cmd_attributes c of
          Some (RecordMarkerCommandAttributes a) \<Rightarrow> Some \<lparr> hed_event = recorded_event i (MarkerRecordedEventAttributes
            \<lparr> mra_marker_name = rm_marker_name a, mra_details = rm_details a, mra_failure = rm_failure a \<rparr>),
            hed_replaying = True, hed_current_task_is_last_in_history = False \<rparr>
        | _ \<Rightarrow> None)
    | _ \<Rightarrow> None)"

lemma la_adapt_info: "local_activity_adapt_response cd m c (Some info) = local_activity_adapt_response cd m c None"
  by (simp add: local_activity_adapt_response_def)

lemma outcome_bind_Ok: "bind_outcome x Ok = x"
  by (cases x) simp_all

lemma la_marker_reads_back:
  assumes "json_roundtrips (la_to_json cd) (la_from_json cd) (la_marker_data cd sh d)"
    and "marker_event_of i (rs @ [IssueNewCommand \<lparr> cmd_command_type = t,
           cmd_attributes = Some (RecordMarkerCommandAttributes (la_marker cd sh d)), cmd_user_metadata = um \<rparr>]) = Some e"
  shows "into_local_activity_marker_details cd (hed_event e) = Some
    \<lparr> cla_marker_dat = la_marker_data cd sh d,
      cla_result = (case rd_result d of
          LAR_Completed (Some p) \<Rightarrow> Inr p
        | LAR_Failed (Some f) \<Rightarrow> Inl f | LAR_TimedOut (Some f) \<Rightarrow> Inl f | LAR_Cancelled (Some f) \<Rightarrow> Inl f
        | _ \<Rightarrow> Inr payload_default) \<rparr>"
  using assms(2) extract_build_la_marker[OF assms(1)]
  by (auto simp: marker_event_of_def into_local_activity_marker_details_def recorded_event_def la_marker_def
      attributes_event_type_def split: LocalActivityExecutionResult.split option.split)

definition la_result_read_back :: "LocalActivityExecutionResult \<Rightarrow> LocalActivityExecutionResult" where
  "la_result_read_back res = (
     let back = (\<lambda>f. if canceled_chain f then LAR_Cancelled (Some f) else LAR_Failed (Some f)) in
     case res of
       LAR_Completed (Some p) \<Rightarrow> LAR_Completed (Some p)
     | LAR_Failed (Some f) \<Rightarrow> back f | LAR_TimedOut (Some f) \<Rightarrow> back f | LAR_Cancelled (Some f) \<Rightarrow> back f
     | _ \<Rightarrow> LAR_Completed (Some payload_default))"

lemma la_replay_marker:
  assumes json: "json_roundtrips (la_to_json cd) (la_from_json cd) (la_marker_data cd sh d)"
    and times: "\<And>t. rd_complete_time d = Some t \<or> rd_original_schedule_time d = Some t \<Longrightarrow>
          system_time_try_from cd (timestamp_from cd t) = Some t"
    and marker: "marker_event_of i (rs @ [IssueNewCommand \<lparr> cmd_command_type = t0,
           cmd_attributes = Some (RecordMarkerCommandAttributes (la_marker cd sh d)), cmd_user_metadata = um \<rparr>]) = Some e"
    and same: "la_seq (ls_attrs sh') = la_seq (ls_attrs sh)" "la_activity_id (ls_attrs sh') = la_activity_id (ls_attrs sh)"
      "la_activity_type (ls_attrs sh') = la_activity_type (ls_attrs sh)"
  shows "\<exists>fl. local_activity_step cd (from_parts (LA_WaitingMarkerEvent False) sh') (HistoryCall e) =
     (local_activity_adapt_response cd (from_parts LA_MarkerCommandRecorded (sh'\<lparr> ls_internal_flags := fl \<rparr>))
        (Resolved (d\<lparr> rd_result := la_result_read_back (rd_result d) \<rparr>)) None,
      from_parts LA_MarkerCommandRecorded (sh'\<lparr> ls_internal_flags := fl \<rparr>))"
proof -
  define c where "c = \<lparr> cla_marker_dat = la_marker_data cd sh d,
      cla_result = (case rd_result d of
          LAR_Completed (Some p) \<Rightarrow> Inr p
        | LAR_Failed (Some f) \<Rightarrow> Inl f | LAR_TimedOut (Some f) \<Rightarrow> Inl f | LAR_Cancelled (Some f) \<Rightarrow> Inl f
        | _ \<Rightarrow> Inr payload_default) \<rparr>"
  have details: "into_local_activity_marker_details cd (hed_event e) = Some c"
    using la_marker_reads_back[OF json marker] by (simp add: c_def)
  have is_marker: "event_type (hed_event e) = ET_MarkerRecorded"
    using details by (auto simp: into_local_activity_marker_details_def split: if_splits)
  have read_back: "resolve_dat_from cd c = d\<lparr> rd_result := la_result_read_back (rd_result d) \<rparr>"
    using times
    by (cases "rd_complete_time d"; cases "rd_original_schedule_time d")
      (auto simp: resolve_dat_from_def c_def la_marker_data_def la_result_read_back_def canceled_chain_def
        split: LocalActivityExecutionResult.split option.split intro!: ResolveDat.equality)
  obtain fl where "verify_marker_data_matches sh' c = (Ok (), sh'\<lparr> ls_internal_flags := fl \<rparr>)"
    using same by (cases "try_use (ls_internal_flags sh') IdAndTypeDeterminismChecks (\<not> ls_replaying_when_invoked sh')")
      (simp add: verify_marker_data_matches_def c_def la_marker_data_def)
  with is_marker details show ?thesis
    by (intro exI[of _ fl])
      (simp add: local_activity_step_def api_step_def handle_event_def local_activity_try_from_event_def
        on_event_def local_activity_transitions_def verify_marker_dat_def read_back la_adapt_info from_parts_def
        outcome_bind_Ok)
qed

lemma wrap_timeout_changes:
  "is_timeout_info (failure_info f) \<Longrightarrow> wrap_fail sh (Some f) msg is_timeout_info \<noteq> Some f"
proof
  assume timeout: "is_timeout_info (failure_info f)" and "wrap_fail sh (Some f) msg is_timeout_info = Some f"
  then have "failure_info (the (wrap_fail sh (Some f) msg is_timeout_info)) = failure_info f" by simp
  with timeout show False
    by (auto simp: wrap_fail_def mk_failure_def activity_fail_info_def is_timeout_info_def
        split: option.splits FailureInfo.splits)
qed

lemma la_resolution_read_back:
  assumes "rd_backoff d = None"
  shows "la_resolution cd sh (d\<lparr> rd_result := la_result_read_back (rd_result d) \<rparr>) = la_resolution cd sh d \<longleftrightarrow>
    la_replayable (rd_result d)"
proof -
  define w where "w = (\<lambda>f. wrap_fail sh f ''Local Activity timed out'' is_timeout_info)"
  have w: "Some f = w (Some f) \<longleftrightarrow> \<not> is_timeout_info (failure_info f)" for f
    using wrap_timeout_changes[of f sh "''Local Activity timed out''"]
    by (cases "is_timeout_info (failure_info f)") (simp_all add: w_def wrap_fail_def eq_commute[of "Some f"])
  have res: "la_resolution cd sh (d\<lparr> rd_result := r \<rparr>) = (case r of
        LAR_Completed c \<Rightarrow> AR_Completed c
      | LAR_Failed f \<Rightarrow> AR_Failed f
      | LAR_TimedOut f \<Rightarrow> AR_Failed (w f)
      | LAR_Cancelled f \<Rightarrow> AR_Cancelled (wrap_fail sh f ''Local Activity cancelled'' is_canceled_info))" for r
    unfolding w_def by (simp add: la_resolution_def assms)
  have "la_resolution cd sh (d\<lparr> rd_result := la_result_read_back r \<rparr>) = la_resolution cd sh (d\<lparr> rd_result := r \<rparr>) \<longleftrightarrow>
      la_replayable r" for r
  proof (cases r)
    case (LAR_TimedOut p)
    then show ?thesis unfolding res by (cases p) (simp_all add: la_result_read_back_def la_replayable_def w)
  next
    case (LAR_Completed p)
    then show ?thesis unfolding res by (cases p) (simp_all add: la_result_read_back_def la_replayable_def)
  next
    case (LAR_Failed p)
    then show ?thesis unfolding res by (cases p) (simp_all add: la_result_read_back_def la_replayable_def)
  next
    case (LAR_Cancelled p)
    then show ?thesis unfolding res by (cases p) (simp_all add: la_result_read_back_def la_replayable_def)
  qed
  from this[of "rd_result d"] show ?thesis by simp
qed

definition resolve_dat_of ::
  "int option \<Rightarrow> LocalActivityExecutionResult \<Rightarrow> int \<Rightarrow> u32 \<Rightarrow> Duration option \<Rightarrow> int option \<Rightarrow> ResolveDat" where
  "resolve_dat_of wf_time result runtime attempt backoff original_schedule_time = \<lparr> rd_result = result,
     rd_complete_time = map_option (\<lambda>t. t + runtime) wf_time,
     rd_attempt = attempt, rd_backoff = backoff, rd_original_schedule_time = original_schedule_time \<rparr>"

lemma try_resolve_live:
  assumes "\<not> ls_replaying_when_invoked sh"
    and "d = resolve_dat_of (ls_wf_time_when_started sh) result runtime attempt backoff ost"
  shows "\<exists>rest. fst (try_resolve cd (from_parts LA_RequestSent sh) result runtime attempt backoff ost) =
    Ok ((PushWFJob (JobResolveActivity \<lparr> ra_seq = la_seq (ls_attrs sh), ra_result = la_resolution cd sh d,
           ra_is_local = True \<rparr>) # UpdateWFTime (rd_complete_time d) # rest) @
        [IssueNewCommand \<lparr> cmd_command_type = CT_RecordMarker,
           cmd_attributes = Some (RecordMarkerCommandAttributes (la_marker cd sh d)), cmd_user_metadata = None \<rparr>])"
  using assms
  by (simp add: try_resolve_def try_resolve_inner_def resolve_dat_of_def on_event_def local_activity_transitions_def
      local_activity_adapt_response_def Let_def command_from_def)

text \<open>
  C16: When the marker of a local activity replays its result.  Run a local activity, and record the
  marker its result issues as an event.  When the serializer round-trips the marker's data and the times
  in it, a replay of the same schedule that reads the event resolves the activity with the same workflow time,
  and with the same resolution exactly when the result asks for a backoff or is replayable:
  a completion with a payload, a failure that is not of a cancellation, or a cancellation.
  A timeout is not: live, lang sees an activity failure caused by the timeout, on replay the bare timeout.
\<close>

theorem la_marker_replays_resolution:
  assumes "json_roundtrips (la_to_json cd) (la_from_json cd) (la_marker_data cd (la_shared attrs now False wf_time flags)
      (resolve_dat_of wf_time res runtime attempt backoff ost))"
    and "\<And>t. map_option (\<lambda>t. t + runtime) wf_time = Some t \<or> ost = Some t \<Longrightarrow>
      system_time_try_from cd (timestamp_from cd t) = Some t"
  shows "case (new_local_activity cd now attrs False None wf_time flags,
               new_local_activity cd now' attrs True None wf_time' flags') of
      (Ok (m, started), Ok (m', [])) \<Rightarrow>
        (case fst (try_resolve cd m res runtime attempt backoff ost) of
           Ok rs \<Rightarrow> (case marker_event_of i rs of
               Some e \<Rightarrow> (case fst (local_activity_step cd m' (HistoryCall e)) of
                   Ok rs' \<Rightarrow> rs' ! 1 = rs ! 1 \<and> (hd rs' = hd rs \<longleftrightarrow> backoff \<noteq> None \<or> la_replayable res)
                 | _ \<Rightarrow> False)
             | None \<Rightarrow> False)
         | _ \<Rightarrow> False)
    | _ \<Rightarrow> False"
proof -
  define sh where "sh = la_shared attrs now False wf_time flags"
  define sh' where "sh' = la_shared attrs now' True wf_time' flags'"
  define d where "d = resolve_dat_of wf_time res runtime attempt backoff ost"
  have sh: "\<not> ls_replaying_when_invoked sh" "ls_wf_time_when_started sh = wf_time"
    and sh': "ls_replaying_when_invoked sh'"
    and same: "la_seq (ls_attrs sh') = la_seq (ls_attrs sh)" "la_activity_id (ls_attrs sh') = la_activity_id (ls_attrs sh)"
      "la_activity_type (ls_attrs sh') = la_activity_type (ls_attrs sh)"
    by (simp_all add: sh_def sh'_def la_shared_def)
  have d: "rd_result d = res" "rd_backoff d = backoff" by (simp_all add: d_def resolve_dat_of_def)
  obtain rest where live: "fst (try_resolve cd (from_parts LA_RequestSent sh) res runtime attempt backoff ost) =
    Ok ((PushWFJob (JobResolveActivity \<lparr> ra_seq = la_seq (ls_attrs sh), ra_result = la_resolution cd sh d,
           ra_is_local = True \<rparr>) # UpdateWFTime (rd_complete_time d) # rest) @
        [IssueNewCommand \<lparr> cmd_command_type = CT_RecordMarker,
           cmd_attributes = Some (RecordMarkerCommandAttributes (la_marker cd sh d)), cmd_user_metadata = None \<rparr>])"
    (is "_ = Ok (?jobs @ ?marker)")
    using try_resolve_live[OF sh(1), of d] sh(2) d_def by blast
  obtain e where e: "marker_event_of i (?jobs @ ?marker) = Some e" by (simp add: marker_event_of_def)
  have res: "la_resolution cd (sh'\<lparr> ls_internal_flags := fl \<rparr>) x = la_resolution cd sh x" for fl x
    using same
    by (auto simp: la_resolution_def wrap_fail_def split: option.split LocalActivityExecutionResult.split)
  obtain fl where "local_activity_step cd (from_parts (LA_WaitingMarkerEvent False) sh') (HistoryCall e) =
     (local_activity_adapt_response cd (from_parts LA_MarkerCommandRecorded (sh'\<lparr> ls_internal_flags := fl \<rparr>))
        (Resolved (d\<lparr> rd_result := la_result_read_back (rd_result d) \<rparr>)) None,
      from_parts LA_MarkerCommandRecorded (sh'\<lparr> ls_internal_flags := fl \<rparr>))"
    using la_replay_marker[OF _ _ e same] assms by (auto simp: sh_def d_def resolve_dat_of_def)
  then obtain rest' where replay: "fst (local_activity_step cd (from_parts (LA_WaitingMarkerEvent False) sh') (HistoryCall e)) =
    Ok (PushWFJob (JobResolveActivity \<lparr> ra_seq = la_seq (ls_attrs sh),
      ra_result = la_resolution cd sh (d\<lparr> rd_result := la_result_read_back (rd_result d) \<rparr>),
      ra_is_local = True \<rparr>) # UpdateWFTime (rd_complete_time d) # rest')"
    using sh' same by (simp add: local_activity_adapt_response_def Let_def res)
  have "la_resolution cd sh (d\<lparr> rd_result := la_result_read_back (rd_result d) \<rparr>) = la_resolution cd sh d \<longleftrightarrow>
      backoff \<noteq> None \<or> la_replayable res"
    using la_resolution_read_back[of d cd sh] d by (cases backoff) (auto simp: la_resolution_def)
  with live e replay show ?thesis
    by (simp add: new_local_activity_eq Let_def sh_def[symmetric] sh'_def[symmetric])
qed

theorem la_marker_replays_resolution_witness:
  "\<forall>attrs. \<exists>cd.
     json_roundtrips (la_to_json cd) (la_from_json cd) (la_marker_data cd
       (la_shared attrs 5 False (Some 7) (internal_flags_new True ''core'' ''1''))
       (resolve_dat_of (Some 7) (la_timeout TT_StartToClose) 3 1 None None)) \<and>
     system_time_try_from cd (timestamp_from cd 10) = Some 10 \<and>
     (case (new_local_activity cd 5 attrs False None (Some 7) (internal_flags_new True ''core'' ''1''),
            new_local_activity cd 9 attrs True None (Some 8) (internal_flags_new True ''core'' ''1'')) of
       (Ok (m, started), Ok (m', [])) \<Rightarrow>
         (case fst (try_resolve cd m (la_timeout TT_StartToClose) 3 1 None None) of
            Ok rs \<Rightarrow> (case marker_event_of 6 rs of
                Some e \<Rightarrow> (case fst (local_activity_step cd m' (HistoryCall e)) of
                    Ok rs' \<Rightarrow> rs' ! 1 = rs ! 1 \<and> hd rs' \<noteq> hd rs
                  | _ \<Rightarrow> False)
              | None \<Rightarrow> False)
          | _ \<Rightarrow> False)
     | _ \<Rightarrow> False)"
proof
  fix attrs :: ValidScheduleLA
  define md where "md = \<lparr> lmd_seq = la_seq attrs, lmd_attempt = 1, lmd_activity_id = la_activity_id attrs,
    lmd_activity_type = la_activity_type attrs, lmd_complete_time = Some (10, 0), lmd_backoff = None,
    lmd_original_schedule_time = None \<rparr>"
  define cd where "cd = \<lparr> patched_to_json = \<lambda>_. None, patched_from_json = \<lambda>_. None,
    la_to_json = \<lambda>_. Some ''m'', la_from_json = \<lambda>_. Some md, ids_to_json = \<lambda>_. None,
    timestamp_from = \<lambda>t. (t, 0), system_time_try_from = \<lambda>t. Some (fst t) \<rparr>"
  define flags where "flags = internal_flags_new True ''core'' ''1''"
  have rt: "json_roundtrips (la_to_json cd) (la_from_json cd) (la_marker_data cd (la_shared attrs 5 False (Some 7) flags)
      (resolve_dat_of (Some 7) (la_timeout TT_StartToClose) 3 1 None None))"
    by (simp add: json_roundtrips_def cd_def md_def la_marker_data_def la_shared_def resolve_dat_of_def valid_utf8_def)
  have times: "system_time_try_from cd (timestamp_from cd t) = Some t" for t by (simp add: cd_def)
  have differs: "((None :: Duration option) \<noteq> None \<or> la_replayable (la_timeout TT_StartToClose)) = False"
    by (simp add: la_replayable_def la_timeout_def mk_failure_def is_timeout_info_def)
  note replay = la_marker_replays_resolution[OF rt times, where now' = 9 and wf_time' = "Some 8" and flags' = flags
      and i = 6, unfolded differs eq_False]
  with rt times
  show "\<exists>cd.
     json_roundtrips (la_to_json cd) (la_from_json cd) (la_marker_data cd
       (la_shared attrs 5 False (Some 7) (internal_flags_new True ''core'' ''1''))
       (resolve_dat_of (Some 7) (la_timeout TT_StartToClose) 3 1 None None)) \<and>
     system_time_try_from cd (timestamp_from cd 10) = Some 10 \<and>
     (case (new_local_activity cd 5 attrs False None (Some 7) (internal_flags_new True ''core'' ''1''),
            new_local_activity cd 9 attrs True None (Some 8) (internal_flags_new True ''core'' ''1'')) of
       (Ok (m, started), Ok (m', [])) \<Rightarrow>
         (case fst (try_resolve cd m (la_timeout TT_StartToClose) 3 1 None None) of
            Ok rs \<Rightarrow> (case marker_event_of 6 rs of
                Some e \<Rightarrow> (case fst (local_activity_step cd m' (HistoryCall e)) of
                    Ok rs' \<Rightarrow> rs' ! 1 = rs ! 1 \<and> hd rs' \<noteq> hd rs
                  | _ \<Rightarrow> False)
              | None \<Rightarrow> False)
          | _ \<Rightarrow> False)
     | _ \<Rightarrow> False)"
    by (intro exI[of _ cd]) (simp add: flags_def)
qed

end
