(* ===== verification/LocalActs.thy ===== *)
theory LocalActs
  imports LocalActivityMachine RustSets "HOL-Library.AList"
begin

text \<open>
  Local activities on their way to the worker: the validation of a schedule request
  (\<^verbatim>\<open>ValidScheduleLA::from_schedule_la\<close> of \<^verbatim>\<open>core/src/protosext/mod.rs\<close>, with the conversion of results)
  and the queue the workflow machines keep for them
  (\<^verbatim>\<open>machines/workflow_machines/local_acts.rs\<close>).  The conversions of protobuf durations and timestamps
  to \<^verbatim>\<open>std::time\<close> are third-party code: the parameters \<open>dur_of\<close> and \<open>time_of\<close>, in nanoseconds.
\<close>

section \<open>Validation\<close>

record ScheduleLocalActivity =
  sla_seq :: u32
  sla_activity_id :: string
  sla_activity_type :: string
  sla_attempt :: u32
  sla_original_schedule_time :: "Timestamp option"
  sla_headers :: payload_map
  sla_arguments :: "Payload list"
  sla_schedule_to_close_timeout :: "Duration option"
  sla_schedule_to_start_timeout :: "Duration option"
  sla_start_to_close_timeout :: "Duration option"
  sla_retry_policy :: "RetryPolicy option"
  sla_local_retry_threshold :: "Duration option"
  sla_cancellation_type :: int

definition retry_policy_default :: RetryPolicy where
  "retry_policy_default = \<lparr> rp_initial_interval = None, rp_maximum_interval = None, rp_maximum_attempts = 0,
     rp_non_retryable_error_types = [] \<rparr>"

text \<open>\<^verbatim>\<open>.map(try_into).transpose()\<close> with the error replaced by a message.\<close>

definition convert_option :: "('a \<Rightarrow> 'b option) \<Rightarrow> string \<Rightarrow> 'a option \<Rightarrow> (string, 'b option) outcome" where
  "convert_option conv msg x = (case x of
      None \<Rightarrow> Ok None
    | Some v \<Rightarrow> (case conv v of Some y \<Rightarrow> Ok (Some y) | None \<Rightarrow> Err msg))"

definition try_into_or_none :: "('a \<Rightarrow> 'b option) \<Rightarrow> 'a option \<Rightarrow> 'b option" where
  "try_into_or_none conv x = Option.bind x conv"

definition from_schedule_la ::
  "(Timestamp \<Rightarrow> int option) \<Rightarrow> (Duration \<Rightarrow> int option) \<Rightarrow> ScheduleLocalActivity \<Rightarrow>
   (string, ValidScheduleLA) outcome" where
  "from_schedule_la time_of dur_of v =
     bind_outcome (convert_option time_of ''Could not convert original_schedule_time''
       (sla_original_schedule_time v)) (\<lambda>original_schedule_time.
     bind_outcome (convert_option dur_of ''Could not convert schedule_to_close_timeout''
       (sla_schedule_to_close_timeout v)) (\<lambda>sched_to_close.
     bind_outcome (convert_option dur_of ''Could not convert schedule_to_start_timeout''
       (sla_schedule_to_start_timeout v)) (\<lambda>sched_to_start.
     let schedule_to_start_timeout = (case (sched_to_start, sched_to_close) of
           (Some s, Some c) \<Rightarrow> Some (if s > c then c else s) | _ \<Rightarrow> sched_to_start)
     in
     bind_outcome (convert_option dur_of ''Could not convert start_to_close_timeout''
       (sla_start_to_close_timeout v)) (\<lambda>start_to_close.
     bind_outcome (case (sched_to_close, start_to_close) of
         (Some sch, None) \<Rightarrow> Ok (ScheduleOnly sch)
       | (None, Some start) \<Rightarrow> Ok (StartOnly start)
       | (Some sched, Some start) \<Rightarrow> Ok (Both sched (if start > sched then sched else start))
       | (None, None) \<Rightarrow>
           Err ''One or both of schedule_to_close or start_to_close timeouts must be set for local activities'')
     (\<lambda>close_timeouts.
     Ok \<lparr> la_seq = sla_seq v, la_activity_id = sla_activity_id v, la_activity_type = sla_activity_type v,
       la_attempt = sla_attempt v, la_original_schedule_time = original_schedule_time,
       la_headers = sla_headers v, la_arguments = sla_arguments v,
       la_schedule_to_start_timeout = schedule_to_start_timeout, la_close_timeouts = close_timeouts,
       la_retry_policy = (case sla_retry_policy v of Some p \<Rightarrow> p | None \<Rightarrow> retry_policy_default),
       la_local_retry_threshold = (case try_into_or_none dur_of (sla_local_retry_threshold v) of
           Some t \<Rightarrow> t | None \<Rightarrow> 60000000000),
       la_cancellation_type = (case activity_cancellation_type_try_from (sla_cancellation_type v) of
           Some t \<Rightarrow> t | None \<Rightarrow> WaitCancellationCompleted) \<rparr>)))))"

datatype ActivityStatus =
    AS_Completed "Payload option" | AS_Failed "Failure option" | AS_Cancelled "Failure option" | AS_WillCompleteAsync

datatype CompleteActivityError = MalformedActivityCompletion string

definition failure_is_timeout :: "Failure \<Rightarrow> TimeoutType option" where
  "failure_is_timeout f = (case failure_info f of Some (TimeoutFailureInfo tt _) \<Rightarrow> Some tt | _ \<Rightarrow> None)"

definition validate_activity_completion :: "ActivityStatus \<Rightarrow> (CompleteActivityError, unit) outcome" where
  "validate_activity_completion status = (case status of
      AS_Completed None \<Rightarrow> Err (MalformedActivityCompletion
        ''Activity completions must contain a `result` payload (which may be empty)'')
    | _ \<Rightarrow> Ok ())"

definition la_result_try_from ::
  "ActivityStatus \<Rightarrow> (CompleteActivityError, LocalActivityExecutionResult) outcome" where
  "la_result_try_from s = (case s of
      AS_Completed c \<Rightarrow> Ok (LAR_Completed c)
    | AS_Failed f \<Rightarrow>
        if (case f of Some fail \<Rightarrow> failure_is_timeout fail \<noteq> None | None \<Rightarrow> False)
        then Ok (LAR_TimedOut f) else Ok (LAR_Failed f)
    | AS_Cancelled c \<Rightarrow> Ok (LAR_Cancelled c)
    | AS_WillCompleteAsync \<Rightarrow> Err (MalformedActivityCompletion ''Local activities cannot be completed async''))"

section \<open>The queue\<close>

record ExecutingLAId =
  ela_run_id :: string
  ela_seq_num :: u32

record NewLocalAct =
  nla_schedule_cmd :: ValidScheduleLA
  nla_workflow_type :: string
  nla_workflow_exec_info :: WorkflowExecution
  nla_schedule_time :: int

text \<open>The two other requests of \<^verbatim>\<open>LocalActRequest\<close> are made by other parts of the worker.\<close>

datatype LocalActRequest =
    LAReq_New NewLocalAct | LAReq_Cancel ExecutingLAId | LAReq_CancelAllInRun string

record LocalActivityData =
  lad_new_requests :: "ValidScheduleLA list"
  lad_cancel_requests :: "ExecutingLAId list"
  lad_executing :: "u32 list"
  lad_preresolutions :: "(u32 \<times> ResolveDat) list"
  lad_am_terminating :: bool

definition la_data_default :: LocalActivityData where
  "la_data_default = \<lparr> lad_new_requests = [], lad_cancel_requests = [], lad_executing = [],
     lad_preresolutions = [], lad_am_terminating = False \<rparr>"

definition la_enqueue :: "ValidScheduleLA \<Rightarrow> LocalActivityData \<Rightarrow> LocalActivityData" where
  "la_enqueue act s = s\<lparr> lad_new_requests := lad_new_requests s @ [act] \<rparr>"

definition la_enqueue_cancel :: "ExecutingLAId \<Rightarrow> LocalActivityData \<Rightarrow> LocalActivityData" where
  "la_enqueue_cancel c s = s\<lparr> lad_cancel_requests := lad_cancel_requests s @ [c] \<rparr>"

definition la_done_executing :: "u32 \<Rightarrow> LocalActivityData \<Rightarrow> LocalActivityData" where
  "la_done_executing seq s = s\<lparr> lad_new_requests := filter (\<lambda>req. la_seq req \<noteq> seq) (lad_new_requests s),
     lad_executing := remove1 seq (lad_executing s) \<rparr>"

text \<open>\<open>now i\<close> is the clock's \<open>i\<close>th reading.\<close>

definition take_all_reqs ::
  "(nat \<Rightarrow> int) \<Rightarrow> string \<Rightarrow> string \<Rightarrow> string \<Rightarrow> LocalActivityData \<Rightarrow> LocalActRequest list \<times> LocalActivityData" where
  "take_all_reqs now wf_type wf_id run_id s =
     (if lad_am_terminating s then ([LAReq_CancelAllInRun run_id], s)
      else (map LAReq_Cancel (lad_cancel_requests s) @
            map (\<lambda>(i, sa). LAReq_New \<lparr> nla_schedule_cmd = sa, nla_workflow_type = wf_type,
                nla_workflow_exec_info = \<lparr> we_workflow_id = wf_id, we_run_id = run_id \<rparr>,
                nla_schedule_time = now i \<rparr>) (enumerate 0 (lad_new_requests s)),
            s\<lparr> lad_cancel_requests := [], lad_new_requests := [],
               lad_executing := extend_with List.insert (lad_executing s) (map la_seq (lad_new_requests s)) \<rparr>))"

definition outstanding_la_count :: "LocalActivityData \<Rightarrow> nat" where
  "outstanding_la_count s = (if lad_am_terminating s then 0
     else length (lad_executing s) + length (lad_new_requests s))"

definition insert_peeked_marker :: "MarkerCodec \<Rightarrow> CompleteLocalActivityData \<Rightarrow> LocalActivityData \<Rightarrow> LocalActivityData" where
  "insert_peeked_marker cd dat s = s\<lparr> lad_preresolutions :=
     AList.update (lmd_seq (cla_marker_dat dat)) (resolve_dat_from cd dat) (lad_preresolutions s) \<rparr>"

definition take_preresolution :: "u32 \<Rightarrow> LocalActivityData \<Rightarrow> ResolveDat option \<times> LocalActivityData" where
  "take_preresolution seq s = (map_of (lad_preresolutions s) seq,
     s\<lparr> lad_preresolutions := AList.delete seq (lad_preresolutions s) \<rparr>)"

text \<open>The first request of the sequence number leaves the queue.\<close>

fun remove_first_la :: "u32 \<Rightarrow> ValidScheduleLA list \<Rightarrow> ValidScheduleLA option \<times> ValidScheduleLA list" where
  "remove_first_la seq [] = (None, [])"
| "remove_first_la seq (r # rs) = (if la_seq r = seq then (Some r, rs)
     else (case remove_first_la seq rs of (found, rest) \<Rightarrow> (found, r # rest)))"

definition remove_from_queue :: "u32 \<Rightarrow> LocalActivityData \<Rightarrow> ValidScheduleLA option \<times> LocalActivityData" where
  "remove_from_queue seq s = (case remove_first_la seq (lad_new_requests s) of
     (found, rest) \<Rightarrow> (found, s\<lparr> lad_new_requests := rest \<rparr>))"

definition indicate_terminating :: "LocalActivityData \<Rightarrow> LocalActivityData" where
  "indicate_terminating s = s\<lparr> lad_am_terminating := True \<rparr>"

section \<open>Validated timeouts\<close>

definition unconvertible :: "('a \<Rightarrow> 'b option) \<Rightarrow> 'a option \<Rightarrow> bool" where
  "unconvertible conv x = (\<exists>d. x = Some d \<and> conv d = None)"

lemma clamp_min: "(if c < s then c else s) = min s (c :: int)"
  by auto

lemma convert_option_eq:
  "convert_option conv msg x = (if unconvertible conv x then Err msg else Ok (Option.bind x conv))"
  by (auto simp: convert_option_def unconvertible_def split: option.split)


section \<open>The queue implements two sets\<close>

datatype la_queue_op =
    QEnqueue ValidScheduleLA | QCancel ExecutingLAId | QDone u32 | QTake | QRemove u32

definition new_seqs :: "LocalActRequest list \<Rightarrow> u32 list" where
  "new_seqs rs = concat (map (\<lambda>r. case r of LAReq_New a \<Rightarrow> [la_seq (nla_schedule_cmd a)] | _ \<Rightarrow> []) rs)"

definition la_queue_step ::
  "(nat \<Rightarrow> int) \<Rightarrow> string \<Rightarrow> string \<Rightarrow> string \<Rightarrow> la_queue_op \<Rightarrow> LocalActivityData \<Rightarrow> u32 list \<times> LocalActivityData" where
  "la_queue_step now wf_type wf_id run_id op s = (case op of
      QEnqueue a \<Rightarrow> ([], la_enqueue a s)
    | QCancel c \<Rightarrow> ([], la_enqueue_cancel c s)
    | QDone seq \<Rightarrow> ([], la_done_executing seq s)
    | QTake \<Rightarrow> (case take_all_reqs now wf_type wf_id run_id s of (rs, s') \<Rightarrow> (new_seqs rs, s'))
    | QRemove seq \<Rightarrow> ([], snd (remove_from_queue seq s)))"

text \<open>The specification: the sequence numbers queued, and those sent to the worker.\<close>

definition la_spec_step :: "la_queue_op \<Rightarrow> u32 set \<times> u32 set \<Rightarrow> u32 set \<times> (u32 set \<times> u32 set)" where
  "la_spec_step op s = (case s of (queued, sent) \<Rightarrow> (case op of
      QEnqueue a \<Rightarrow> ({}, insert (la_seq a) queued, sent)
    | QCancel _ \<Rightarrow> ({}, queued, sent)
    | QDone seq \<Rightarrow> ({}, queued - {seq}, sent - {seq})
    | QTake \<Rightarrow> (queued, {}, sent \<union> queued)
    | QRemove seq \<Rightarrow> ({}, queued - {seq}, sent)))"

fun run_ops :: "('o \<Rightarrow> 's \<Rightarrow> 'r \<times> 's) \<Rightarrow> 'o list \<Rightarrow> 's \<Rightarrow> 'r list \<times> 's" where
  "run_ops step [] s = ([], s)"
| "run_ops step (c # cs) s = (case step c s of (out, s1) \<Rightarrow>
     (case run_ops step cs s1 of (outs, s2) \<Rightarrow> (out # outs, s2)))"

text \<open>Lang numbers local activities without reuse: what is enqueued is neither queued nor running.\<close>

fun fresh_ops :: "la_queue_op list \<Rightarrow> u32 set \<times> u32 set \<Rightarrow> bool" where
  "fresh_ops [] s = True"
| "fresh_ops (c # cs) s = ((case c of QEnqueue a \<Rightarrow> la_seq a \<notin> fst s \<union> snd s | _ \<Rightarrow> True) \<and>
     fresh_ops cs (snd (la_spec_step c s)))"

definition la_abs :: "LocalActivityData \<Rightarrow> u32 set \<times> u32 set" where
  "la_abs s = (la_seq ` set (lad_new_requests s), set (lad_executing s))"

definition la_queue_inv :: "LocalActivityData \<Rightarrow> bool" where
  "la_queue_inv s = (distinct (map la_seq (lad_new_requests s) @ lad_executing s) \<and> \<not> lad_am_terminating s)"

lemma remove_first_la_snd:
  "distinct (map la_seq rs) \<Longrightarrow> snd (remove_first_la seq rs) = filter (\<lambda>r. la_seq r \<noteq> seq) rs"
proof (induction rs)
  case (Cons r rs)
  have "filter (\<lambda>r. la_seq r \<noteq> seq) rs = rs" if "la_seq r = seq"
    using Cons.prems that by (intro filter_True) (auto simp: image_iff)
  with Cons show ?case by (cases "remove_first_la seq rs") auto
qed simp

lemma new_seqs_append: "new_seqs (rs @ rs') = new_seqs rs @ new_seqs rs'"
  by (simp add: new_seqs_def)

lemma new_seqs_taken:
  "new_seqs (map LAReq_Cancel cs) = []"
  "new_seqs (map (\<lambda>(i, sa). LAReq_New \<lparr> nla_schedule_cmd = sa, nla_workflow_type = t,
     nla_workflow_exec_info = e, nla_schedule_time = now i \<rparr>) (enumerate n as)) = map la_seq as"
  by (induction cs) (simp_all add: new_seqs_def, induction as arbitrary: n, simp_all)

lemma set_extend_insert: "set (extend_with List.insert xs ys) = set xs \<union> set ys"
  using hash_set.contains_extend[of xs ys] by (auto simp: list_contains_def)

lemma la_queue_step_refines:
  assumes inv: "la_queue_inv s" and fresh: "case c of QEnqueue a \<Rightarrow> la_seq a \<notin> fst (la_abs s) \<union> snd (la_abs s) | _ \<Rightarrow> True"
    and step: "la_queue_step now wt wi ri c s = (out, s')"
  shows "la_queue_inv s' \<and> distinct out \<and> la_spec_step c (la_abs s) = (set out, la_abs s')"
proof -
  have queued: "distinct (map la_seq (lad_new_requests s))" "distinct (lad_executing s)" "\<not> lad_am_terminating s"
    and apart: "la_seq ` set (lad_new_requests s) \<inter> set (lad_executing s) = {}"
    using inv by (auto simp: la_queue_inv_def)
  then have apart': "\<lbrakk> r \<in> set (lad_new_requests s); la_seq r \<in> set (lad_executing s) \<rbrakk> \<Longrightarrow> False" for r
    by (metis IntI emptyE imageI)
  note defs = la_queue_step_def la_queue_inv_def la_abs_def la_spec_step_def
  show ?thesis
  proof (cases c)
    case (QEnqueue a)
    with fresh step queued apart show ?thesis by (auto simp: defs la_enqueue_def dest: apart')
  next
    case (QCancel i)
    with step queued apart show ?thesis by (auto simp: defs la_enqueue_cancel_def dest: apart')
  next
    case (QDone seq)
    have "la_seq ` {r \<in> set (lad_new_requests s). la_seq r \<noteq> seq} = la_seq ` set (lad_new_requests s) - {seq}" by auto
    with QDone step queued apart show ?thesis
      by (auto simp: defs la_done_executing_def intro: distinct_map_filter dest: apart')
  next
    case QTake
    have "distinct (extend_with List.insert (lad_executing s) (map la_seq (lad_new_requests s)))"
      using queued(2) by (rule hash_set.extend_valid)
    with step queued QTake show ?thesis
      by (auto simp: defs take_all_reqs_def new_seqs_append new_seqs_taken set_extend_insert)
  next
    case (QRemove seq)
    have "la_seq ` {r \<in> set (lad_new_requests s). la_seq r \<noteq> seq} = la_seq ` set (lad_new_requests s) - {seq}" by auto
    with QRemove step queued apart remove_first_la_snd[OF queued(1), of seq] show ?thesis
      by (cases "remove_first_la seq (lad_new_requests s)")
        (auto simp: defs remove_from_queue_def intro: distinct_map_filter dest: apart')
  qed
qed

lemma la_queue_run_refines:
  "\<lbrakk> la_queue_inv s; fresh_ops ops (la_abs s); run_ops (la_queue_step now wt wi ri) ops s = (outs, s') \<rbrakk> \<Longrightarrow>
   la_queue_inv s' \<and> list_all distinct outs \<and> run_ops la_spec_step ops (la_abs s) = (map set outs, la_abs s')"
proof (induction ops arbitrary: s outs s')
  case (Cons c ops)
  obtain out s1 where step: "la_queue_step now wt wi ri c s = (out, s1)" by (cases "la_queue_step now wt wi ri c s")
  obtain rest s2 where run: "run_ops (la_queue_step now wt wi ri) ops s1 = (rest, s2)"
    by (cases "run_ops (la_queue_step now wt wi ri) ops s1")
  note here = la_queue_step_refines[OF Cons.prems(1) _ step]
  show ?case using here Cons.IH[OF _ _ run] Cons.prems step run by auto
qed simp

text \<open>
  C7: The local activity queue implements its specification.  Starting from the empty queue, over any
  sequence of requests, cancellations, completions, removals and dispatches in which a sequence number is not
  reused while it is outstanding, each dispatch sends exactly the activities queued since the last one
  that were not removed, each once, and the count of outstanding activities is the number queued plus
  the number sent and not done.
\<close>

theorem la_queue_refines_spec:
  assumes "fresh_ops ops ({}, {})"
  shows "case run_ops (la_queue_step now wf_type wf_id run_id) ops la_data_default of
      (outs, s) \<Rightarrow> list_all distinct outs \<and>
        (case run_ops la_spec_step ops ({}, {}) of
           (sent_sets, queued, sent) \<Rightarrow> map set outs = sent_sets \<and>
             outstanding_la_count s = card queued + card sent)"
proof (cases "run_ops (la_queue_step now wf_type wf_id run_id) ops la_data_default")
  case (Pair outs s)
  have start: "la_queue_inv la_data_default" "la_abs la_data_default = ({}, {})"
    by (simp_all add: la_queue_inv_def la_data_default_def la_abs_def)
  from la_queue_run_refines[OF start(1) _ Pair] assms
  have ok: "la_queue_inv s" "list_all distinct outs"
    "run_ops la_spec_step ops ({}, {}) = (map set outs, la_seq ` set (lad_new_requests s), set (lad_executing s))"
    by (simp_all add: start(2), simp_all add: la_abs_def)
  have "card (la_seq ` set (lad_new_requests s)) = length (lad_new_requests s)"
    "card (set (lad_executing s)) = length (lad_executing s)"
    using ok(1) distinct_card[of "map la_seq (lad_new_requests s)"]
    by (simp_all add: la_queue_inv_def distinct_card)
  with ok Pair show ?thesis by (simp add: outstanding_la_count_def la_queue_inv_def)
qed

definition sample_la :: "u32 \<Rightarrow> ValidScheduleLA" where
  "sample_la seq = \<lparr> la_seq = seq, la_activity_id = ''a'', la_activity_type = ''t'', la_attempt = 1,
     la_original_schedule_time = None, la_headers = [], la_arguments = [], la_schedule_to_start_timeout = None,
     la_close_timeouts = ScheduleOnly 5, la_retry_policy = retry_policy_default, la_local_retry_threshold = 60,
     la_cancellation_type = TryCancel \<rparr>"

theorem la_queue_refines_spec_witness:
  "case run_ops (la_queue_step (\<lambda>_. 0) ''t'' ''w'' ''r'')
      [QEnqueue (sample_la 1), QEnqueue (sample_la 2), QRemove 1, QTake, QEnqueue (sample_la 3), QDone 2] la_data_default of
      (outs, s) \<Rightarrow> list_all distinct outs \<and> map set outs = [{}, {}, {}, {2}, {}, {}] \<and> outstanding_la_count s = 1"
  using la_queue_refines_spec[where now = "\<lambda>_. 0" and wf_type = "''t''" and wf_id = "''w''" and run_id = "''r''"
      and ops = "[QEnqueue (sample_la 1), QEnqueue (sample_la 2), QRemove 1, QTake, QEnqueue (sample_la 3), QDone 2]"]
  by (simp add: la_spec_step_def sample_la_def case_prod_beta insert_Diff_if)

end
