(* ===== verification/Machines.thy ===== *)
theory Machines
  imports TimerMachine ActivityMachine ChildWorkflowMachine NexusOperationMachine ExternalMachines
    CommandMachines PatchMachine WorkflowTaskMachine UpdateMachine LocalActs
begin

text \<open>
  The enumeration \<^verbatim>\<open>Machines\<close> of \<^verbatim>\<open>core/src/worker/workflow/machines/mod.rs\<close> and the methods it dispatches
  to the machine it holds.  \<open>is_final_state\<close> is the table the \<^verbatim>\<open>fsm!\<close> macro generates: a state is final
  when no transition leaves it.  The internal flags are shared by reference in the code; here the
  machines that read them hold a copy, which \<open>with_flags\<close> refreshes and \<open>machine_flags\<close> reads back.
\<close>

section \<open>The machines of a workflow\<close>

datatype (plugins only: code) Machines =
    ActivityMachine ActivityMachine
  | CancelExternalMachine CancelExternalMachine
  | CancelWorkflowMachine "(CancelWorkflowMachineState, unit) machine"
  | ChildWorkflowMachine ChildWorkflowMachine
  | CompleteWorkflowMachine "(CompleteWorkflowMachineState, unit) machine"
  | ContinueAsNewWorkflowMachine "(ContinueAsNewWorkflowMachineState, unit) machine"
  | FailWorkflowMachine "(FailWorkflowMachineState, unit) machine"
  | LocalActivityMachine LocalActivityMachine
  | PatchMachine PatchMachine
  | SignalExternalMachine SignalExternalMachine
  | TimerMachine TimerMachine
  | WorkflowTaskMachine WorkflowTaskMachine
  | UpsertSearchAttributesMachine "(UpsertSearchAttributesMachineState, unit) machine"
  | ModifyWorkflowPropertiesMachine "(ModifyWorkflowPropertiesMachineState, unit) machine"
  | UpdateMachine UpdateMachine
  | NexusOperationMachine NexusOperationMachine

text \<open>
  The third-party code the machines call: the JSON and timestamp conversions, the encoding of update
  messages, and the rendering of two enumerations.
\<close>

record MachineEnv =
  me_codec :: MarkerCodec
  me_encode :: "UpdateMsg \<Rightarrow> bytes option"
  me_show_signal_cause :: "SignalExternalWorkflowExecutionFailedCause \<Rightarrow> string"
  me_show_cancel_cause :: "CancelExternalWorkflowExecutionFailedCause \<Rightarrow> string"

abbreviation me_time_of :: "MachineEnv \<Rightarrow> Timestamp \<Rightarrow> int option" where
  "me_time_of env \<equiv> system_time_try_from (me_codec env)"

section \<open>Dispatch\<close>

definition machine_handle_event :: "MachineEnv \<Rightarrow> Machines \<Rightarrow> HistEventData \<Rightarrow> responses \<times> Machines" where
  "machine_handle_event env mach d = (case mach of
      ActivityMachine m \<Rightarrow> map_prod id ActivityMachine
        (handle_event activity_transitions activity_try_from_event activity_adapt_response m d)
    | CancelExternalMachine m \<Rightarrow> map_prod id CancelExternalMachine
        (handle_event cancel_external_transitions cancel_external_try_from_event
          (cancel_external_adapt_response (me_show_cancel_cause env)) m d)
    | CancelWorkflowMachine m \<Rightarrow> map_prod id CancelWorkflowMachine
        (handle_event cancel_wf_transitions cancel_wf_try_from_event cancel_wf_adapt_response m d)
    | ChildWorkflowMachine m \<Rightarrow> map_prod id ChildWorkflowMachine
        (handle_event child_transitions child_try_from_event child_adapt_response m d)
    | CompleteWorkflowMachine m \<Rightarrow> map_prod id CompleteWorkflowMachine
        (handle_event complete_transitions complete_try_from_event complete_adapt_response m d)
    | ContinueAsNewWorkflowMachine m \<Rightarrow> map_prod id ContinueAsNewWorkflowMachine
        (handle_event can_transitions can_try_from_event can_adapt_response m d)
    | FailWorkflowMachine m \<Rightarrow> map_prod id FailWorkflowMachine
        (handle_event fail_transitions fail_try_from_event fail_adapt_response m d)
    | LocalActivityMachine m \<Rightarrow> map_prod id LocalActivityMachine
        (handle_event (local_activity_transitions (me_codec env)) (local_activity_try_from_event (me_codec env))
          (local_activity_adapt_response (me_codec env)) m d)
    | PatchMachine m \<Rightarrow> map_prod id PatchMachine
        (handle_event patch_transitions (patch_try_from_event (me_codec env)) patch_adapt_response m d)
    | SignalExternalMachine m \<Rightarrow> map_prod id SignalExternalMachine
        (handle_event signal_transitions signal_try_from_event
          (signal_adapt_response (me_show_signal_cause env)) m d)
    | TimerMachine m \<Rightarrow> map_prod id TimerMachine
        (handle_event timer_transitions timer_try_from_event timer_adapt_response m d)
    | WorkflowTaskMachine m \<Rightarrow> map_prod id WorkflowTaskMachine
        (handle_event workflow_task_transitions (workflow_task_try_from_event (me_time_of env))
          workflow_task_adapt_response m d)
    | UpsertSearchAttributesMachine m \<Rightarrow> map_prod id UpsertSearchAttributesMachine
        (handle_event upsert_transitions upsert_try_from_event upsert_adapt_response m d)
    | ModifyWorkflowPropertiesMachine m \<Rightarrow> map_prod id ModifyWorkflowPropertiesMachine
        (handle_event modify_transitions modify_try_from_event modify_adapt_response m d)
    | UpdateMachine m \<Rightarrow> map_prod id UpdateMachine
        (handle_event update_transitions update_try_from_event (update_adapt_response (me_encode env)) m d)
    | NexusOperationMachine m \<Rightarrow> map_prod id NexusOperationMachine
        (handle_event nexus_transitions nexus_try_from_event nexus_adapt_response m d))"

definition machine_handle_command :: "MachineEnv \<Rightarrow> Machines \<Rightarrow> CommandType \<Rightarrow> responses \<times> Machines" where
  "machine_handle_command env mach c = (case mach of
      ActivityMachine m \<Rightarrow> map_prod id ActivityMachine
        (handle_command activity_transitions activity_try_from_command activity_adapt_response m c)
    | CancelExternalMachine m \<Rightarrow> map_prod id CancelExternalMachine
        (handle_command cancel_external_transitions cancel_external_try_from_command
          (cancel_external_adapt_response (me_show_cancel_cause env)) m c)
    | CancelWorkflowMachine m \<Rightarrow> map_prod id CancelWorkflowMachine
        (handle_command cancel_wf_transitions cancel_wf_try_from_command cancel_wf_adapt_response m c)
    | ChildWorkflowMachine m \<Rightarrow> map_prod id ChildWorkflowMachine
        (handle_command child_transitions child_try_from_command child_adapt_response m c)
    | CompleteWorkflowMachine m \<Rightarrow> map_prod id CompleteWorkflowMachine
        (handle_command complete_transitions complete_try_from_command complete_adapt_response m c)
    | ContinueAsNewWorkflowMachine m \<Rightarrow> map_prod id ContinueAsNewWorkflowMachine
        (handle_command can_transitions can_try_from_command can_adapt_response m c)
    | FailWorkflowMachine m \<Rightarrow> map_prod id FailWorkflowMachine
        (handle_command fail_transitions fail_try_from_command fail_adapt_response m c)
    | LocalActivityMachine m \<Rightarrow> map_prod id LocalActivityMachine
        (handle_command (local_activity_transitions (me_codec env)) local_activity_try_from_command
          (local_activity_adapt_response (me_codec env)) m c)
    | PatchMachine m \<Rightarrow> map_prod id PatchMachine
        (handle_command patch_transitions patch_try_from_command patch_adapt_response m c)
    | SignalExternalMachine m \<Rightarrow> map_prod id SignalExternalMachine
        (handle_command signal_transitions signal_try_from_command
          (signal_adapt_response (me_show_signal_cause env)) m c)
    | TimerMachine m \<Rightarrow> map_prod id TimerMachine
        (handle_command timer_transitions timer_try_from_command timer_adapt_response m c)
    | WorkflowTaskMachine m \<Rightarrow> map_prod id WorkflowTaskMachine
        (handle_command workflow_task_transitions workflow_task_try_from_command
          workflow_task_adapt_response m c)
    | UpsertSearchAttributesMachine m \<Rightarrow> map_prod id UpsertSearchAttributesMachine
        (handle_command upsert_transitions upsert_try_from_command upsert_adapt_response m c)
    | ModifyWorkflowPropertiesMachine m \<Rightarrow> map_prod id ModifyWorkflowPropertiesMachine
        (handle_command modify_transitions modify_try_from_command modify_adapt_response m c)
    | UpdateMachine m \<Rightarrow> map_prod id UpdateMachine
        (handle_command update_transitions update_try_from_command (update_adapt_response (me_encode env)) m c)
    | NexusOperationMachine m \<Rightarrow> map_prod id NexusOperationMachine
        (handle_command nexus_transitions nexus_try_from_command nexus_adapt_response m c))"

definition machine_was_cancelled_before_sent_to_server :: "Machines \<Rightarrow> ('e, bool) outcome" where
  "machine_was_cancelled_before_sent_to_server mach = (case mach of
      ActivityMachine m \<Rightarrow> Ok (activity_was_cancelled_before_sent_to_server m)
    | ChildWorkflowMachine m \<Rightarrow> Ok (child_was_cancelled_before_sent_to_server m)
    | LocalActivityMachine m \<Rightarrow> Ok (la_was_cancelled_before_sent_to_server m)
    | SignalExternalMachine m \<Rightarrow> signal_was_cancelled_before_sent_to_server m
    | TimerMachine m \<Rightarrow> Ok (timer_was_cancelled_before_sent_to_server m)
    | NexusOperationMachine m \<Rightarrow> Ok (nexus_was_cancelled_before_sent_to_server m)
    | _ \<Rightarrow> Ok False)"

definition machine_is_final_state :: "Machines \<Rightarrow> ('e, bool) outcome" where
  "machine_is_final_state mach = (case mach of
      ActivityMachine m \<Rightarrow> has_reached_final_state (\<lambda>st. case st of
          ActivityMachineState.Completed \<Rightarrow> True | ActivityMachineState.Failed \<Rightarrow> True
        | ActivityMachineState.TimedOut \<Rightarrow> True | _ \<Rightarrow> False) m
    | CancelExternalMachine m \<Rightarrow> has_reached_final_state (\<lambda>st. case st of
          CancelExternalMachineState.CancelRequested \<Rightarrow> True | CancelExternalMachineState.RequestCancelFailed \<Rightarrow> True | _ \<Rightarrow> False) m
    | CancelWorkflowMachine m \<Rightarrow> has_reached_final_state (\<lambda>st. st = CancelWorkflowCommandRecorded) m
    | ChildWorkflowMachine m \<Rightarrow> has_reached_final_state (\<lambda>st. st = ChildWorkflowMachineState.Terminated) m
    | CompleteWorkflowMachine m \<Rightarrow> has_reached_final_state (\<lambda>st. st = CompleteWorkflowCommandRecorded) m
    | ContinueAsNewWorkflowMachine m \<Rightarrow>
        has_reached_final_state (\<lambda>st. st = ContinueAsNewWorkflowCommandRecorded) m
    | FailWorkflowMachine m \<Rightarrow> has_reached_final_state (\<lambda>st. st = FailWorkflowCommandRecorded) m
    | LocalActivityMachine m \<Rightarrow> has_reached_final_state (\<lambda>st. False) m
    | PatchMachine m \<Rightarrow> has_reached_final_state (\<lambda>st. st = PatchMachineState.MarkerCommandRecorded) m
    | SignalExternalMachine m \<Rightarrow> has_reached_final_state (\<lambda>st. st = SignalExternalMachineState.Failed) m
    | TimerMachine m \<Rightarrow> has_reached_final_state (\<lambda>st. False) m
    | WorkflowTaskMachine m \<Rightarrow> has_reached_final_state (\<lambda>st. case st of
          WT_Completed \<Rightarrow> True | WT_Failed \<Rightarrow> True | WT_TimedOut \<Rightarrow> True | _ \<Rightarrow> False) m
    | UpsertSearchAttributesMachine m \<Rightarrow> has_reached_final_state (\<lambda>st. st = UpsertDone) m
    | ModifyWorkflowPropertiesMachine m \<Rightarrow> has_reached_final_state (\<lambda>st. st = ModifyDone) m
    | UpdateMachine m \<Rightarrow> has_reached_final_state (\<lambda>st. case st of
          UpdateMachineState.Rejected \<Rightarrow> True | UpdateMachineState.CompletedCommandRecorded \<Rightarrow> True
        | _ \<Rightarrow> False) m
    | NexusOperationMachine m \<Rightarrow> has_reached_final_state (\<lambda>st. False) m)"

section \<open>The shared flags\<close>

definition with_flags :: "InternalFlags \<Rightarrow> Machines \<Rightarrow> Machines" where
  "with_flags fl mach = (case mach of
      ActivityMachine m \<Rightarrow> ActivityMachine (m\<lparr> shared_state := (shared_state m)\<lparr> act_internal_flags := fl \<rparr> \<rparr>)
    | ChildWorkflowMachine m \<Rightarrow>
        ChildWorkflowMachine (m\<lparr> shared_state := (shared_state m)\<lparr> cw_internal_flags := fl \<rparr> \<rparr>)
    | LocalActivityMachine m \<Rightarrow>
        LocalActivityMachine (m\<lparr> shared_state := (shared_state m)\<lparr> ls_internal_flags := fl \<rparr> \<rparr>)
    | m \<Rightarrow> m)"

definition machine_flags :: "InternalFlags \<Rightarrow> Machines \<Rightarrow> InternalFlags" where
  "machine_flags fl mach = (case mach of
      ActivityMachine m \<Rightarrow> act_internal_flags (shared_state m)
    | ChildWorkflowMachine m \<Rightarrow> cw_internal_flags (shared_state m)
    | LocalActivityMachine m \<Rightarrow> ls_internal_flags (shared_state m)
    | _ \<Rightarrow> fl)"

end
