(* ===== verification/Actions.thy ===== *)
theory Actions
  imports TemporalMachine
begin

text \<open>
  Methods of the form \<^verbatim>\<open>fn f(&mut self) -> Result<T, WFMachinesError>\<close>: functions from a state to the
  outcome and the state left behind.  An error or a panic stops the method where it happens, and the
  changes made before it stay.
\<close>

section \<open>Actions\<close>

type_synonym ('s, 'a) action = "'s \<Rightarrow> (WFMachinesError, 'a) outcome \<times> 's"

definition act_return :: "'a \<Rightarrow> ('s, 'a) action" where
  "act_return x s = (Ok x, s)"

definition act_lift :: "(WFMachinesError, 'a) outcome \<Rightarrow> ('s, 'a) action" where
  "act_lift r s = (r, s)"

text \<open>A call followed by \<^verbatim>\<open>?\<close>.\<close>

definition act_bind :: "('s, 'a) action \<Rightarrow> ('a \<Rightarrow> ('s, 'b) action) \<Rightarrow> ('s, 'b) action" where
  "act_bind f g s = (case f s of
      (Ok x, s') \<Rightarrow> g x s'
    | (Err e, s') \<Rightarrow> (Err e, s')
    | (Panic p, s') \<Rightarrow> (Panic p, s'))"

definition act_then :: "('s, unit) action \<Rightarrow> ('s, 'b) action \<Rightarrow> ('s, 'b) action" where
  "act_then f g = act_bind f (\<lambda>_. g)"

definition act_get :: "('s \<Rightarrow> 'a) \<Rightarrow> ('s, 'a) action" where
  "act_get f s = (Ok (f s), s)"

definition act_modify :: "('s \<Rightarrow> 's) \<Rightarrow> ('s, unit) action" where
  "act_modify f s = (Ok (), f s)"

text \<open>A \<^verbatim>\<open>for\<close> loop whose body may return early with an error.\<close>

fun act_for :: "('a \<Rightarrow> ('s, unit) action) \<Rightarrow> 'a list \<Rightarrow> ('s, unit) action" where
  "act_for body [] = act_return ()"
| "act_for body (x # xs) = act_then (body x) (act_for body xs)"

section \<open>What an action does to the state\<close>

text \<open>
  \<open>keeps R f\<close>: whatever its outcome, \<open>f\<close> leaves a state related to the one it started in.  Any preorder
  on states that the primitive updates respect is kept by everything built from them.
\<close>

definition keeps :: "('s \<Rightarrow> 's \<Rightarrow> bool) \<Rightarrow> ('s, 'a) action \<Rightarrow> bool" where
  "keeps R f = (\<forall>s. R s (snd (f s)))"

locale state_order =
  fixes R :: "'s \<Rightarrow> 's \<Rightarrow> bool"
  assumes R_refl: "R s s"
    and R_trans: "R s t \<Longrightarrow> R t u \<Longrightarrow> R s u"
begin

lemma keeps_return: "keeps R (act_return x)"
  by (simp add: keeps_def act_return_def R_refl)

lemma keeps_lift: "keeps R (act_lift r)"
  by (simp add: keeps_def act_lift_def R_refl)

lemma keeps_get: "keeps R (act_get f)"
  by (simp add: keeps_def act_get_def R_refl)

lemma keeps_bind:
  assumes "keeps R f" and "\<And>x. keeps R (g x)"
  shows "keeps R (act_bind f g)"
proof -
  have "R s (snd (act_bind f g s))" for s
  proof (cases "f s")
    case (Pair r t)
    with assms(1) have "R s t" by (metis keeps_def snd_conv)
    with assms(2) Pair show ?thesis
      by (cases r) (auto simp: act_bind_def keeps_def intro: R_trans)
  qed
  then show ?thesis by (simp add: keeps_def)
qed

lemma keeps_then: "keeps R f \<Longrightarrow> keeps R g \<Longrightarrow> keeps R (act_then f g)"
  by (simp add: act_then_def keeps_bind)

lemma keeps_for: "(\<And>x. x \<in> set xs \<Longrightarrow> keeps R (body x)) \<Longrightarrow> keeps R (act_for body xs)"
  by (induction xs) (auto intro: keeps_return keeps_then)

lemmas keeps_rules = keeps_return keeps_lift keeps_get keeps_bind keeps_then keeps_for

end

section \<open>Safety of actions\<close>

text \<open>
  \<open>safe_action\<close>: started in a state of the invariant that satisfies \<open>P\<close>, the action panics only in a
  way \<open>may_panic\<close> allows, and when it succeeds it leaves the invariant, an extension of the state it
  started in, and \<open>Q\<close> of its result.  Nothing is promised after an error: the run is evicted then.
\<close>

definition safe_action ::
  "('s \<Rightarrow> bool) \<Rightarrow> ('s \<Rightarrow> 's \<Rightarrow> bool) \<Rightarrow> (string \<Rightarrow> bool) \<Rightarrow>
   ('s \<Rightarrow> bool) \<Rightarrow> ('s, 'a) action \<Rightarrow> ('a \<Rightarrow> 's \<Rightarrow> bool) \<Rightarrow> bool" where
  "safe_action good ext may_panic P f Q = (\<forall>s. good s \<longrightarrow> P s \<longrightarrow> (case f s of
      (Ok x, s') \<Rightarrow> good s' \<and> ext s s' \<and> Q x s'
    | (Err _, _) \<Rightarrow> True
    | (Panic p, _) \<Rightarrow> may_panic p))"

locale action_logic = state_order ext
  for ext :: "'s \<Rightarrow> 's \<Rightarrow> bool" +
  fixes good :: "'s \<Rightarrow> bool"
    and may_panic :: "string \<Rightarrow> bool"
begin

abbreviation safe :: "('s \<Rightarrow> bool) \<Rightarrow> ('s, 'a) action \<Rightarrow> ('a \<Rightarrow> 's \<Rightarrow> bool) \<Rightarrow> bool" where
  "safe \<equiv> safe_action good ext may_panic"

abbreviation stable :: "('s \<Rightarrow> bool) \<Rightarrow> bool" where
  "stable P \<equiv> \<forall>s t. ext s t \<longrightarrow> P s \<longrightarrow> P t"

lemma safeI:
  assumes "\<And>s x t. good s \<Longrightarrow> P s \<Longrightarrow> f s = (Ok x, t) \<Longrightarrow> good t \<and> ext s t \<and> Q x t"
    and "\<And>s p t. good s \<Longrightarrow> P s \<Longrightarrow> f s = (Panic p, t) \<Longrightarrow> may_panic p"
  shows "safe P f Q"
proof -
  have "case f s of (Ok x, t) \<Rightarrow> good t \<and> ext s t \<and> Q x t | (Err _, _) \<Rightarrow> True | (Panic p, _) \<Rightarrow> may_panic p"
    if "good s" "P s" for s
    using assms[OF that] by (cases "f s"; cases "fst (f s)") auto
  then show ?thesis by (simp add: safe_action_def)
qed

lemma safe_OkD: "safe P f Q \<Longrightarrow> good s \<Longrightarrow> P s \<Longrightarrow> f s = (Ok x, t) \<Longrightarrow> good t \<and> ext s t \<and> Q x t"
  by (auto simp: safe_action_def dest!: spec[of _ s])

lemma safe_PanicD: "safe P f Q \<Longrightarrow> good s \<Longrightarrow> P s \<Longrightarrow> f s = (Panic p, t) \<Longrightarrow> may_panic p"
  by (auto simp: safe_action_def dest!: spec[of _ s])

lemma safe_return: "(\<And>s. good s \<Longrightarrow> P s \<Longrightarrow> Q x s) \<Longrightarrow> safe P (act_return x) Q"
  by (rule safeI) (auto simp: act_return_def R_refl)

lemma safe_lift:
  assumes "\<not> is_panic r" and "\<And>x s. r = Ok x \<Longrightarrow> good s \<Longrightarrow> P s \<Longrightarrow> Q x s"
  shows "safe P (act_lift r) Q"
  using assms by (intro safeI) (auto simp: act_lift_def R_refl)

lemma safe_get: "(\<And>s. good s \<Longrightarrow> P s \<Longrightarrow> Q (f s) s) \<Longrightarrow> safe P (act_get f) Q"
  by (rule safeI) (auto simp: act_get_def R_refl)

lemma safe_modify:
  "(\<And>s. good s \<Longrightarrow> P s \<Longrightarrow> good (f s) \<and> ext s (f s) \<and> Q () (f s)) \<Longrightarrow> safe P (act_modify f) Q"
  by (rule safeI) (auto simp: act_modify_def)

lemma safe_weaken:
  assumes "safe P f Q" and "\<And>s. good s \<Longrightarrow> P' s \<Longrightarrow> P s" and "\<And>x s. good s \<Longrightarrow> Q x s \<Longrightarrow> Q' x s"
  shows "safe P' f Q'"
  using assms(2,3) by (intro safeI) (auto dest: safe_OkD[OF assms(1)] safe_PanicD[OF assms(1)])

lemma safe_bind:
  assumes f: "safe P f Q" and g: "\<And>x. safe (\<lambda>s. P s \<and> Q x s) (g x) T" and P: "stable P"
  shows "safe P (act_bind f g) T"
proof (rule safeI)
  fix s y u assume s: "good s" "P s" and run: "act_bind f g s = (Ok y, u)"
  then obtain x t where t: "f s = (Ok x, t)" "g x t = (Ok y, u)"
    by (auto simp: act_bind_def split: prod.splits outcome.splits)
  from safe_OkD[OF f s t(1)] P s have "good t" "ext s t" "P t \<and> Q x t" by blast+
  with safe_OkD[OF g _ _ t(2)] show "good u \<and> ext s u \<and> T y u" by (blast intro: R_trans)
next
  fix s p u assume s: "good s" "P s" and run: "act_bind f g s = (Panic p, u)"
  show "may_panic p"
  proof (cases "\<exists>x t. f s = (Ok x, t)")
    case True
    then obtain x t where t: "f s = (Ok x, t)" "g x t = (Panic p, u)" using run by (auto simp: act_bind_def)
    from safe_OkD[OF f s t(1)] P s have "good t" "P t \<and> Q x t" by blast+
    with safe_PanicD[OF g _ _ t(2)] show ?thesis by blast
  next
    case False
    then have "f s = (Panic p, u)" using run by (auto simp: act_bind_def split: prod.splits outcome.splits)
    with safe_PanicD[OF f s] show ?thesis by blast
  qed
qed

lemma safe_then:
  "safe P f (\<lambda>_ _. True) \<Longrightarrow> safe P g T \<Longrightarrow> stable P \<Longrightarrow> safe P (act_then f g) T"
  unfolding act_then_def by (rule safe_bind, assumption) simp_all

lemma safe_for:
  "(\<And>x. x \<in> set xs \<Longrightarrow> safe P (body x) (\<lambda>_ _. True)) \<Longrightarrow> stable P \<Longrightarrow>
   safe P (act_for body xs) (\<lambda>_ _. True)"
  by (induction xs) (auto intro: safe_return safe_then)

end

end
