(* ===== verification/DrivenWorkflow.thy ===== *)
theory DrivenWorkflow
  imports LocalActs ProtocolMessages
begin

text \<open>
  The language side of a workflow as the workflow machines see it:
  \<^verbatim>\<open>core/src/worker/workflow/driven_workflow.rs\<close>, the commands lang answers with (\<^verbatim>\<open>WFCommand\<close> and
  \<^verbatim>\<open>CommandID\<close> of \<^verbatim>\<open>core/src/worker/workflow/mod.rs\<close>) and the deployment version a worker reports
  (\<^verbatim>\<open>core-api/src/worker.rs\<close>).  The channel lang writes its commands to is the queue of the batches not
  yet received.
\<close>

section \<open>Commands from lang\<close>

record SetPatchMarker =
  spm_patch_id :: string
  spm_deprecated :: bool

record RequestCancelExternalWorkflowExecution =
  rcx_seq :: u32
  rcx_workflow_execution :: "NamespacedWorkflowExecution option"
  rcx_reason :: string

text \<open>
  A request that only names a sequence number carries that number; cancelling a child carries the
  reason too, and the answer to a query the query's id.
\<close>

datatype (plugins only: code) WFCommandVariant =
    WFC_NoCommandsFromLang
  | WFC_AddActivity ScheduleActivity
  | WFC_AddLocalActivity ScheduleLocalActivity
  | WFC_RequestCancelActivity u32
  | WFC_RequestCancelLocalActivity u32
  | WFC_AddTimer StartTimer
  | WFC_CancelTimer u32
  | WFC_CompleteWorkflow "Payload option"
  | WFC_FailWorkflow "Failure option"
  | WFC_QueryResponse string
  | WFC_ContinueAsNew ContinueAsNewWorkflowExecution
  | WFC_CancelWorkflow
  | WFC_SetPatchMarker SetPatchMarker
  | WFC_AddChildWorkflow StartChildWorkflowExecution
  | WFC_CancelChild u32 string
  | WFC_RequestCancelExternalWorkflow RequestCancelExternalWorkflowExecution
  | WFC_SignalExternalWorkflow SignalExternalWorkflowExecution
  | WFC_CancelSignalWorkflow u32
  | WFC_UpsertSearchAttributes payload_map
  | WFC_ModifyWorkflowProperties "payload_map option"
  | WFC_UpdateResponse UpdateResponse
  | WFC_ScheduleNexusOperation ScheduleNexusOperation
  | WFC_RequestCancelNexusOperation u32

record WFCommand =
  wfc_variant :: WFCommandVariant
  wfc_metadata :: "UserMetadata option"

definition is_terminal :: "WFCommandVariant \<Rightarrow> bool" where
  "is_terminal v = (case v of
      WFC_CompleteWorkflow _ \<Rightarrow> True
    | WFC_FailWorkflow _ \<Rightarrow> True
    | WFC_CancelWorkflow \<Rightarrow> True
    | WFC_ContinueAsNew _ \<Rightarrow> True
    | _ \<Rightarrow> False)"

datatype CommandID =
    CID_Timer u32 | CID_Activity u32 | CID_LocalActivity u32 | CID_ChildWorkflowStart u32
  | CID_SignalExternal u32 | CID_CancelExternal u32 | CID_NexusOperation u32

section \<open>The driven workflow\<close>

record WorkflowStartedInfo =
  wsi_workflow_task_timeout :: "int option"
  wsi_memo :: "payload_map option"
  wsi_search_attrs :: "payload_map option"
  wsi_retry_policy :: "RetryPolicy option"

record DrivenWorkflow =
  dw_started_attrs :: "WorkflowStartedInfo option"
  dw_search_attribute_modifications :: payload_map
  dw_incoming_commands :: "WFCommand list list"
  dw_outgoing_wf_activation_jobs :: "JobVariant list"

definition driven_workflow_new :: DrivenWorkflow where
  "driven_workflow_new = \<lparr> dw_started_attrs = None, dw_search_attribute_modifications = [],
     dw_incoming_commands = [], dw_outgoing_wf_activation_jobs = [] \<rparr>"

definition from_payloads :: "Payloads option \<Rightarrow> Payload list" where
  "from_payloads p = (case p of Some ps \<Rightarrow> ps | None \<Rightarrow> [])"

definition signal_workflow_from :: "WorkflowExecutionSignaledEventAttributes \<Rightarrow> SignalWorkflow" where
  "signal_workflow_from a = \<lparr> sw_signal_name = wsg_signal_name a, sw_input = from_payloads (wsg_input a),
     sw_identity = wsg_identity a, sw_headers = (case wsg_header a of Some h \<Rightarrow> h | None \<Rightarrow> []) \<rparr>"

definition start_workflow_from_attribs ::
  "WorkflowExecutionStartedEventAttributes \<Rightarrow> string \<Rightarrow> 64 word \<Rightarrow> Timestamp \<Rightarrow> InitializeWorkflow" where
  "start_workflow_from_attribs attrs workflow_id randomness_seed start_time = \<lparr>
     iw_workflow_type = (case wes_workflow_type attrs of Some n \<Rightarrow> n | None \<Rightarrow> ''''),
     iw_workflow_id = workflow_id,
     iw_arguments = from_payloads (wes_input attrs),
     iw_randomness_seed = randomness_seed,
     iw_headers = (case wes_header attrs of Some h \<Rightarrow> h | None \<Rightarrow> []),
     iw_identity = wes_identity attrs,
     iw_parent_workflow_info = map_option (\<lambda>pe. \<lparr> nwe_namespace = wes_parent_workflow_namespace attrs,
       nwe_workflow_id = we_workflow_id pe, nwe_run_id = we_run_id pe \<rparr>) (wes_parent_workflow_execution attrs),
     iw_workflow_execution_timeout = wes_workflow_execution_timeout attrs,
     iw_workflow_run_timeout = wes_workflow_run_timeout attrs,
     iw_workflow_task_timeout = wes_workflow_task_timeout attrs,
     iw_continued_from_execution_run_id = wes_continued_execution_run_id attrs,
     iw_continued_initiator = wes_initiator attrs,
     iw_continued_failure = wes_continued_failure attrs,
     iw_last_completion_result = wes_last_completion_result attrs,
     iw_first_execution_run_id = wes_first_execution_run_id attrs,
     iw_retry_policy = wes_retry_policy attrs,
     iw_attempt = wes_attempt attrs,
     iw_cron_schedule = wes_cron_schedule attrs,
     iw_workflow_execution_expiration_time = wes_workflow_execution_expiration_time attrs,
     iw_cron_schedule_to_schedule_interval = wes_first_workflow_task_backoff attrs,
     iw_memo = wes_memo attrs,
     iw_search_attributes = wes_search_attributes attrs,
     iw_start_time = Some start_time,
     iw_root_workflow = wes_root_workflow_execution attrs \<rparr>"

definition send_job :: "JobVariant \<Rightarrow> DrivenWorkflow \<Rightarrow> DrivenWorkflow" where
  "send_job job d = d\<lparr> dw_outgoing_wf_activation_jobs := dw_outgoing_wf_activation_jobs d @ [job] \<rparr>"

text \<open>\<open>dur_of\<close> converts the protobuf duration, as in \<^verbatim>\<open>try_into_or_none\<close>.\<close>

definition driven_start ::
  "(Duration \<Rightarrow> int option) \<Rightarrow> string \<Rightarrow> 64 word \<Rightarrow> Timestamp \<Rightarrow> WorkflowExecutionStartedEventAttributes \<Rightarrow>
   DrivenWorkflow \<Rightarrow> DrivenWorkflow" where
  "driven_start dur_of workflow_id randomness_seed start_time attribs d =
     (let started_info = \<lparr> wsi_workflow_task_timeout = try_into_or_none dur_of (wes_workflow_task_timeout attribs),
            wsi_memo = wes_memo attribs, wsi_search_attrs = wes_search_attributes attribs,
            wsi_retry_policy = wes_retry_policy attribs \<rparr>
      in (send_job (JobInitializeWorkflow
            (start_workflow_from_attribs attribs workflow_id randomness_seed start_time)) d)
         \<lparr> dw_started_attrs := Some started_info \<rparr>)"

definition drain_jobs :: "DrivenWorkflow \<Rightarrow> JobVariant list \<times> DrivenWorkflow" where
  "drain_jobs d = (dw_outgoing_wf_activation_jobs d, d\<lparr> dw_outgoing_wf_activation_jobs := [] \<rparr>)"

definition fetch_workflow_iteration_output :: "DrivenWorkflow \<Rightarrow> WFCommand list \<times> DrivenWorkflow" where
  "fetch_workflow_iteration_output d = (case dw_incoming_commands d of
      in_cmds # rest \<Rightarrow> (in_cmds, d\<lparr> dw_incoming_commands := rest \<rparr>)
    | [] \<Rightarrow> ([\<lparr> wfc_variant = WFC_NoCommandsFromLang, wfc_metadata = None \<rparr>], d))"

definition search_attributes_update :: "payload_map \<Rightarrow> DrivenWorkflow \<Rightarrow> DrivenWorkflow" where
  "search_attributes_update update d = d\<lparr> dw_search_attribute_modifications :=
     AList.merge (dw_search_attribute_modifications d) update \<rparr>"

definition get_current_search_attributes :: "DrivenWorkflow \<Rightarrow> payload_map" where
  "get_current_search_attributes d =
     AList.merge
       (case Option.bind (dw_started_attrs d) wsi_search_attrs of Some sa \<Rightarrow> sa | None \<Rightarrow> [])
       (dw_search_attribute_modifications d)"

section \<open>Deployment versions\<close>

definition version_is_empty :: "WorkerDeploymentVersion \<Rightarrow> bool" where
  "version_is_empty v = (wdv_deployment_name v = [] \<and> wdv_build_id v = [])"

text \<open>\<^verbatim>\<open>s.split_once(c)\<close>.\<close>

fun split_once :: "char \<Rightarrow> string \<Rightarrow> (string \<times> string) option" where
  "split_once c [] = None"
| "split_once c (x # xs) = (if x = c then Some ([], xs)
     else map_option (\<lambda>(pre, post). (x # pre, post)) (split_once c xs))"

definition version_from_str :: "string \<Rightarrow> WorkerDeploymentVersion option" where
  "version_from_str s = (case split_once (CHR ''.'') s of
      Some (name, build_id) \<Rightarrow> Some \<lparr> wdv_deployment_name = name, wdv_build_id = build_id \<rparr>
    | None \<Rightarrow> None)"

datatype WorkerVersioningStrategy =
    VS_None string | VS_WorkerDeploymentBased WorkerDeploymentVersion | VS_LegacyBuildIdBased string

definition strategy_build_id :: "WorkerVersioningStrategy \<Rightarrow> string" where
  "strategy_build_id v = (case v of
      VS_None build_id \<Rightarrow> build_id
    | VS_WorkerDeploymentBased version \<Rightarrow> wdv_build_id version
    | VS_LegacyBuildIdBased build_id \<Rightarrow> build_id)"

record WorkerConfig =
  wc_namespace :: string
  wc_task_queue :: string
  wc_versioning_strategy :: WorkerVersioningStrategy

definition computed_deployment_version :: "WorkerConfig \<Rightarrow> WorkerDeploymentVersion option" where
  "computed_deployment_version cfg =
     (let wdv = (case wc_versioning_strategy cfg of
            VS_None build_id \<Rightarrow> \<lparr> wdv_deployment_name = '''', wdv_build_id = build_id \<rparr>
          | VS_WorkerDeploymentBased version \<Rightarrow> version
          | VS_LegacyBuildIdBased build_id \<Rightarrow> \<lparr> wdv_deployment_name = '''', wdv_build_id = build_id \<rparr>)
      in if version_is_empty wdv then None else Some wdv)"

end
