(* ===== verification/HistoryUpdate.thy ===== *)
theory HistoryUpdate
  imports HistoryEvents
begin

text \<open>
  \<^verbatim>\<open>core/src/worker/workflow/history_update.rs\<close>: how a history is cut into workflow task sequences, the
  update that yields them one by one, and the paginator that fetches pages until an update is
  complete.  Event ids are integers (no arithmetic is done on them); indices are naturals.  The
  paginator's client is the server: its answers to the coming calls are a list, consumed in order,
  and a call that has no answer yet is \<open>None\<close>.
\<close>

section \<open>The end of the next sequence\<close>

datatype NextWFTSeqEndIndex = Complete nat | Incomplete nat

fun seq_end_index :: "NextWFTSeqEndIndex \<Rightarrow> nat" where
  "seq_end_index (Complete ix) = ix"
| "seq_end_index (Incomplete ix) = ix"

fun seq_end_add :: "NextWFTSeqEndIndex \<Rightarrow> nat \<Rightarrow> NextWFTSeqEndIndex" where
  "seq_end_add (Complete ix) val = Complete (ix + val)"
| "seq_end_add (Incomplete ix) val = Incomplete (ix + val)"

record scan_state =
  saw_command_or_started :: bool
  saw_command :: bool
  wft_started_event_id_to_index :: "(int \<times> nat) list"

definition ends_wft_abruptly :: "EventType \<Rightarrow> bool" where
  "ends_wft_abruptly t = (t \<in> {ET_WorkflowTaskFailed, ET_WorkflowTaskTimedOut, ET_WorkflowExecutionTimedOut,
     ET_WorkflowExecutionTerminated, ET_WorkflowExecutionCanceled})"

text \<open>The body of the loop for the event \<open>e\<close> at index \<open>ix\<close> with the events \<open>rest\<close> after it: a returned
  index, or the state of the next round.\<close>

definition scan_event ::
  "int \<Rightarrow> bool \<Rightarrow> nat \<Rightarrow> scan_state \<Rightarrow> HistoryEvent \<Rightarrow> HistoryEvent list \<Rightarrow> nat + scan_state" where
  "scan_event from_event_id has_last_wft ix s e rest =
     (if event_id e \<le> from_event_id then Inr s else
      let s1 = s\<lparr> saw_command := saw_command s \<or> is_command_event e,
                  saw_command_or_started := saw_command_or_started s \<or> is_command_event e \<or>
                    event_type e = ET_WorkflowExecutionStarted \<rparr>
      in if is_final_wf_execution_event e then Inl ix
      else if event_type e \<noteq> ET_WorkflowTaskStarted then Inr s1
      else
        let s2 = s1\<lparr> wft_started_event_id_to_index := wft_started_event_id_to_index s1 @ [(event_id e, ix)] \<rparr>;
            conclude = (if saw_command_or_started s2 then Inl ix else Inr s2);
            need_more = (\<not> has_last_wft \<and> \<not> saw_command_or_started s2)
        in (case rest of
              [] \<Rightarrow> if need_more then Inr s2 else conclude
            | next_event # rest' \<Rightarrow>
                if ends_wft_abruptly (event_type next_event) then
                  Inr (s2\<lparr> wft_started_event_id_to_index := butlast (wft_started_event_id_to_index s2) \<rparr>)
                else if event_type next_event = ET_WorkflowTaskCompleted then
                  (case rest' of
                     next_next_event # _ \<Rightarrow>
                       if \<not> saw_command s2 \<and> event_type next_next_event = ET_WorkflowTaskScheduled then Inr s2
                       else (case as_update_accepted (attributes next_next_event) of
                           Some attr \<Rightarrow>
                             (case find (\<lambda>(eid, _). eid < wua_accepted_request_sequencing_event_id attr)
                                 (rev (wft_started_event_id_to_index s2)) of
                                Some (_, ret_ix) \<Rightarrow> Inl ret_ix
                              | None \<Rightarrow> Inl ix)
                         | None \<Rightarrow> Inl ix)
                   | [] \<Rightarrow> if need_more then Inr s2 else conclude)
                else conclude))"

fun scan_events ::
  "int \<Rightarrow> bool \<Rightarrow> nat \<Rightarrow> scan_state \<Rightarrow> HistoryEvent list \<Rightarrow> NextWFTSeqEndIndex" where
  "scan_events from_event_id has_last_wft ix s [] = Incomplete (ix - 1)"
| "scan_events from_event_id has_last_wft ix s (e # rest) =
     (case scan_event from_event_id has_last_wft ix s e rest of
        Inl ret \<Rightarrow> Complete ret
      | Inr s' \<Rightarrow> scan_events from_event_id has_last_wft (ix + 1) s' rest)"

definition scan_start :: scan_state where
  "scan_start = \<lparr> saw_command_or_started = False, saw_command = False, wft_started_event_id_to_index = [] \<rparr>"

text \<open>For the empty slice the index is 0, as \<^verbatim>\<open>0 - 1\<close> is for natural numbers.\<close>

definition find_end_index_of_next_wft_seq :: "HistoryEvent list \<Rightarrow> int \<Rightarrow> bool \<Rightarrow> NextWFTSeqEndIndex" where
  "find_end_index_of_next_wft_seq events from_event_id has_last_wft =
     (if events = [] then Incomplete 0 else scan_events from_event_id has_last_wft 0 scan_start events)"

lemma find_mem: "find P xs = Some x \<Longrightarrow> x \<in> set xs"
  by (induction xs) (auto split: if_splits)

lemma scan_event_stop:
  assumes "scan_event from_id has_last ix s e rest = Inl i"
  shows "event_id e > from_id \<and> (i = ix \<or> (\<exists>eid. (eid, i) \<in> set (wft_started_event_id_to_index s)))"
  using assms
  by (auto simp: scan_event_def Let_def split: if_splits list.splits option.splits dest!: find_mem)

lemma scan_event_go:
  assumes "scan_event from_id has_last ix s e rest = Inr s'"
  shows "set (wft_started_event_id_to_index s') \<subseteq>
    set (wft_started_event_id_to_index s) \<union> (if event_id e > from_id then {(event_id e, ix)} else {})"
  using assms
  by (auto simp: scan_event_def Let_def split: if_splits list.splits option.splits)

text \<open>The index found is that of an event past \<open>from_event_id\<close>.\<close>

lemma scan_events_Complete:
  "scan_events from_id has_last ix s es = Complete i \<Longrightarrow>
   (\<exists>k < length es. i = ix + k \<and> event_id (es ! k) > from_id) \<or>
   (\<exists>eid. (eid, i) \<in> set (wft_started_event_id_to_index s))"
proof (induction es arbitrary: ix s)
  case (Cons e rest)
  show ?case
  proof (cases "scan_event from_id has_last ix s e rest")
    case (Inl j)
    with Cons.prems scan_event_stop[OF Inl] show ?thesis by force
  next
    case (Inr s')
    with Cons consider (later) k where "k < length rest" "i = Suc ix + k" "event_id (rest ! k) > from_id"
      | (before) eid where "(eid, i) \<in> set (wft_started_event_id_to_index s')" by force
    then show ?thesis
    proof cases
      case later
      then show ?thesis by (intro disjI1 exI[of _ "Suc k"]) simp
    next
      case before
      with scan_event_go[OF Inr] show ?thesis by (cases "event_id e > from_id") auto
    qed
  qed
qed simp

lemma scan_events_Incomplete: "scan_events from_id has_last ix s es = Incomplete j \<Longrightarrow> j = ix + length es - 1"
  by (induction es arbitrary: ix s) (force split: sum.splits)+

lemma find_end_Complete:
  "find_end_index_of_next_wft_seq es from_id has_last = Complete i \<Longrightarrow>
   i < length es \<and> event_id (es ! i) > from_id"
  using scan_events_Complete[of from_id has_last 0 scan_start es i]
  by (auto simp: find_end_index_of_next_wft_seq_def scan_start_def split: if_splits)

lemma find_end_Incomplete:
  "find_end_index_of_next_wft_seq es from_id has_last = Incomplete j \<Longrightarrow> j = length es - 1"
  using scan_events_Incomplete[of from_id has_last 0 scan_start es j]
  by (auto simp: find_end_index_of_next_wft_seq_def split: if_splits)

section \<open>Updates\<close>

record HistoryUpdate =
  hu_events :: "HistoryEvent list"
  hu_previous_wft_started_id :: int
  hu_wft_started_id :: int
  hu_has_last_wft :: bool
  hu_wft_count :: nat

datatype NextWFT = ReplayOver | WFT "HistoryEvent list" bool | NeedFetch

definition update_dummy :: HistoryUpdate where
  "update_dummy = \<lparr> hu_events = [], hu_previous_wft_started_id = -1, hu_wft_started_id = -1,
     hu_has_last_wft = False, hu_wft_count = 0 \<rparr>"

definition is_real :: "HistoryUpdate \<Rightarrow> bool" where
  "is_real u = (hu_previous_wft_started_id u \<ge> 0)"

definition first_event_id :: "HistoryUpdate \<Rightarrow> int option" where
  "first_event_id u = (case hu_events u of [] \<Rightarrow> None | e # _ \<Rightarrow> Some (event_id e))"

text \<open>The \<^verbatim>\<open>while\<close> loop of \<^verbatim>\<open>from_events\<close>; it ends because the next end lies past the last one.\<close>

function from_events_loop ::
  "HistoryEvent list \<Rightarrow> bool \<Rightarrow> nat \<Rightarrow> nat \<Rightarrow> (string, nat \<times> nat) outcome" where
  "from_events_loop all_events has_last_wft next_end_ix wft_count =
     (if next_end_ix < length all_events then
        (case seq_end_add (find_end_index_of_next_wft_seq (drop next_end_ix all_events)
                 (event_id (all_events ! next_end_ix)) has_last_wft) next_end_ix of
           Incomplete _ \<Rightarrow> Ok (next_end_ix, wft_count + 1)
         | Complete next_end \<Rightarrow> from_events_loop all_events has_last_wft next_end (wft_count + 1))
      else Panic ''index out of bounds'')"
  by pat_completeness auto

lemma next_end_progress:
  assumes "ix < length es"
    and "seq_end_add (find_end_index_of_next_wft_seq (drop ix es) (event_id (es ! ix)) has_last) ix = Complete j"
  shows "ix < j \<and> j < length es"
proof -
  obtain i where i: "find_end_index_of_next_wft_seq (drop ix es) (event_id (es ! ix)) has_last = Complete i" "j = i + ix"
    using assms(2) by (cases "find_end_index_of_next_wft_seq (drop ix es) (event_id (es ! ix)) has_last") auto
  with find_end_Complete[OF i(1)] assms(1) show ?thesis by (cases i) auto
qed

termination from_events_loop
proof (relation "measure (\<lambda>(es, _, ix, _). length es - ix)")
  fix es :: "HistoryEvent list" and has_last ix n j
  assume "ix < length es"
    and "seq_end_add (find_end_index_of_next_wft_seq (drop ix es) (event_id (es ! ix)) has_last) ix = Complete j"
  from next_end_progress[OF this]
  show "((es, has_last, j, n + 1), es, has_last, ix, n) \<in> measure (\<lambda>(es, _, ix, _). length es - ix)" by auto
qed simp

declare from_events_loop.simps [simp del]

definition from_events ::
  "HistoryEvent list \<Rightarrow> int \<Rightarrow> int \<Rightarrow> bool \<Rightarrow> (string, HistoryUpdate \<times> HistoryEvent list) outcome" where
  "from_events all_events previous_wft_started_id wft_started_id has_last_wft =
     (let update = (\<lambda>es n. \<lparr> hu_events = es, hu_previous_wft_started_id = previous_wft_started_id,
            hu_wft_started_id = wft_started_id, hu_has_last_wft = has_last_wft, hu_wft_count = n \<rparr>)
      in case find_end_index_of_next_wft_seq all_events previous_wft_started_id has_last_wft of
           Incomplete _ \<Rightarrow> Ok (if has_last_wft then (update all_events 1, []) else (update [] 0, all_events))
         | Complete end_ix \<Rightarrow>
             bind_outcome (from_events_loop all_events has_last_wft end_ix 0) (\<lambda>(last_end, wft_count).
               Ok (if all_events = [] \<or> has_last_wft then (update all_events wft_count, [])
                   else (update (take (last_end + 1) all_events) wft_count, drop (last_end + 1) all_events))))"

text \<open>\<^verbatim>\<open>find_position(|e| e.event_id > from)\<close>.\<close>

definition starting_index_after_skipping :: "HistoryUpdate \<Rightarrow> int \<Rightarrow> nat option" where
  "starting_index_after_skipping u from_wft_started_id =
     (let n = length (takeWhile (\<lambda>e. \<not> event_id e > from_wft_started_id) (hu_events u))
      in if n < length (hu_events u) then Some n else None)"

text \<open>\<^verbatim>\<open>drain(0..=n)\<close> panics when \<open>n\<close> is out of range.\<close>

definition build_next_wft :: "HistoryUpdate \<Rightarrow> nat \<Rightarrow> (string, NextWFT \<times> HistoryUpdate) outcome" where
  "build_next_wft u drain_this_much =
     (if drain_this_much < length (hu_events u) then
        let u' = u\<lparr> hu_events := drop (drain_this_much + 1) (hu_events u) \<rparr>
        in Ok (WFT (take (drain_this_much + 1) (hu_events u)) (hu_events u' = [] \<and> hu_has_last_wft u'), u')
      else Panic ''range end index out of range'')"

definition take_next_wft_sequence :: "HistoryUpdate \<Rightarrow> int \<Rightarrow> (string, NextWFT \<times> HistoryUpdate) outcome" where
  "take_next_wft_sequence u0 from_wft_started_id =
     (let u = (case starting_index_after_skipping u0 from_wft_started_id of
            Some ix_first_relevant \<Rightarrow> u0\<lparr> hu_events := drop ix_first_relevant (hu_events u0) \<rparr>
          | None \<Rightarrow> u0)
      in case find_end_index_of_next_wft_seq (hu_events u) from_wft_started_id (hu_has_last_wft u) of
           Incomplete siz \<Rightarrow>
             if hu_has_last_wft u then (if siz = 0 then Ok (ReplayOver, u) else build_next_wft u siz)
             else if siz \<noteq> 0 then Panic ''HistoryUpdate was created with an incomplete WFT. This is an SDK bug.''
             else Ok (NeedFetch, u)
         | Complete next_wft_ix \<Rightarrow> build_next_wft u next_wft_ix)"

definition peek_next_wft_sequence :: "HistoryUpdate \<Rightarrow> int \<Rightarrow> HistoryEvent list" where
  "peek_next_wft_sequence u from_wft_started_id =
     (let ix_first_relevant = (case starting_index_after_skipping u from_wft_started_id of Some n \<Rightarrow> n | None \<Rightarrow> 0);
          relevant_events = drop ix_first_relevant (hu_events u)
      in if relevant_events = [] then relevant_events
         else take (seq_end_index (find_end_index_of_next_wft_seq relevant_events from_wft_started_id
                (hu_has_last_wft u)) + 1) relevant_events)"

definition can_take_next_wft_sequence :: "HistoryUpdate \<Rightarrow> int \<Rightarrow> bool" where
  "can_take_next_wft_sequence u from_wft_started_id =
     (case find_end_index_of_next_wft_seq (hu_events u) from_wft_started_id (hu_has_last_wft u) of
        Incomplete _ \<Rightarrow> hu_has_last_wft u
      | Complete _ \<Rightarrow> True)"

definition peek_next_wft_completed :: "HistoryUpdate \<Rightarrow> int \<Rightarrow> WorkflowTaskCompletedEventAttributes option" where
  "peek_next_wft_completed u from_id =
     (case dropWhile (\<lambda>e. as_task_completed (attributes e) = None)
         (dropWhile (\<lambda>e. event_id e < from_id) (hu_events u)) of
        e # _ \<Rightarrow> as_task_completed (attributes e)
      | [] \<Rightarrow> None)"

section \<open>Skipping and shifting\<close>

definition shift_state :: "nat \<Rightarrow> scan_state \<Rightarrow> scan_state" where
  "shift_state n s = s\<lparr> wft_started_event_id_to_index :=
     map (\<lambda>(eid, i). (eid, i + n)) (wft_started_event_id_to_index s) \<rparr>"

lemma find_shifted:
  "find (\<lambda>(eid, _). eid < (q :: int)) (map (\<lambda>(eid, i). (eid, i + n)) xs) =
   map_option (\<lambda>(eid, i). (eid, i + n)) (find (\<lambda>(eid, _). eid < q) (xs :: (int \<times> nat) list))"
  by (induction xs) auto

lemma find_rev_shifted:
  "find (\<lambda>(eid, _). eid < (q :: int)) (rev (map (\<lambda>(eid, i). (eid, i + n)) xs) ) =
   map_option (\<lambda>(eid, i). (eid, i + n)) (find (\<lambda>(eid, _). eid < q) (rev (xs :: (int \<times> nat) list)))"
  by (simp only: rev_map find_shifted)

lemma scan_event_shift:
  "scan_event from_id has_last (ix + n) (shift_state n s) e rest =
     (case scan_event from_id has_last ix s e rest of Inl i \<Rightarrow> Inl (i + n) | Inr s' \<Rightarrow> Inr (shift_state n s'))"
  using find_rev_shifted[of _ n "wft_started_event_id_to_index s"]
  by (auto simp: scan_event_def shift_state_def Let_def map_butlast split: list.split option.split)

lemma scan_events_shift:
  "es \<noteq> [] \<or> 0 < ix \<Longrightarrow> scan_events from_id has_last (ix + n) (shift_state n s) es =
     seq_end_add (scan_events from_id has_last ix s es) n"
proof (induction es arbitrary: ix s)
  case (Cons e rest)
  have "scan_events from_id has_last (Suc ix + n) (shift_state n s') rest =
      seq_end_add (scan_events from_id has_last (Suc ix) s' rest) n" for s'
    by (rule Cons.IH) simp
  then show ?case by (simp add: scan_event_shift split: sum.split)
qed simp

lemma scan_events_stale:
  "list_all (\<lambda>e. event_id e \<le> from_id) stale \<Longrightarrow>
   scan_events from_id has_last ix s (stale @ es) = scan_events from_id has_last (ix + length stale) s es"
  by (induction stale arbitrary: ix) (auto simp: scan_event_def)

text \<open>Events up to \<open>from_event_id\<close> at the front of the slice only move the index.\<close>

lemma find_end_stale:
  assumes "list_all (\<lambda>e. event_id e \<le> from_id) stale" "es \<noteq> []"
  shows "find_end_index_of_next_wft_seq (stale @ es) from_id has_last =
    seq_end_add (find_end_index_of_next_wft_seq es from_id has_last) (length stale)"
  using scan_events_shift[of es 0 from_id has_last "length stale" scan_start] assms
  by (simp add: find_end_index_of_next_wft_seq_def scan_events_stale)
    (simp add: shift_state_def scan_start_def)

lemma find_end_all_stale:
  "list_all (\<lambda>e. event_id e \<le> from_id) es \<Longrightarrow>
   find_end_index_of_next_wft_seq es from_id has_last = Incomplete (length es - 1)"
  using find_end_Complete[of es from_id has_last] find_end_Incomplete[of es from_id has_last]
  by (cases "find_end_index_of_next_wft_seq es from_id has_last") (fastforce simp: list_all_length)+

section \<open>The sequences of a history\<close>

text \<open>The reference: cut off complete sequences, each starting after the last event of the one before.\<close>

function wft_seqs :: "bool \<Rightarrow> int \<Rightarrow> HistoryEvent list \<Rightarrow> HistoryEvent list list \<times> HistoryEvent list" where
  "wft_seqs has_last from_id es =
     (case find_end_index_of_next_wft_seq es from_id has_last of
        Incomplete _ \<Rightarrow> ([], es)
      | Complete i \<Rightarrow> (case wft_seqs has_last (event_id (es ! i)) (drop (i + 1) es) of
            (ss, r) \<Rightarrow> (take (i + 1) es # ss, r)))"
  by pat_completeness auto
termination wft_seqs
  by (relation "measure (\<lambda>(_, _, es). length es)") (auto dest: find_end_Complete)

declare wft_seqs.simps [simp del]

lemma wft_seqs_Incomplete:
  "find_end_index_of_next_wft_seq es from_id has_last = Incomplete j \<Longrightarrow> wft_seqs has_last from_id es = ([], es)"
  by (simp add: wft_seqs.simps[of has_last from_id es])

lemma wft_seqs_Complete:
  "find_end_index_of_next_wft_seq es from_id has_last = Complete i \<Longrightarrow>
   wft_seqs has_last from_id es = (case wft_seqs has_last (event_id (es ! i)) (drop (i + 1) es) of
     (ss, r) \<Rightarrow> (take (i + 1) es # ss, r))"
  by (simp add: wft_seqs.simps[of has_last from_id es])

lemma wft_seqs_concat: "wft_seqs has_last from_id es = (ss, r) \<Longrightarrow> concat ss @ r = es \<and> [] \<notin> set ss"
proof (induction has_last from_id es arbitrary: ss rule: wft_seqs.induct)
  case (1 has_last from_id es)
  show ?case
  proof (cases "find_end_index_of_next_wft_seq es from_id has_last")
    case (Complete i)
    obtain ss' r' where rest: "wft_seqs has_last (event_id (es ! i)) (drop (i + 1) es) = (ss', r')"
      by (cases "wft_seqs has_last (event_id (es ! i)) (drop (i + 1) es)")
    have "concat ss' @ r = drop (i + 1) es \<and> [] \<notin> set ss'" "ss = take (i + 1) es # ss'"
      using 1 Complete rest by (auto simp: wft_seqs.simps[of has_last from_id es])
    then show ?thesis
      using find_end_Complete[OF Complete] by auto
  qed (use 1 in \<open>auto simp: wft_seqs.simps[of has_last from_id es]\<close>)
qed

lemma from_events_loop_seqs:
  "\<lbrakk> ix < length es; wft_seqs has_last (event_id (es ! ix)) (drop (ix + 1) es) = (ss, r) \<rbrakk> \<Longrightarrow>
   \<exists>last_end. from_events_loop es has_last ix n = Ok (last_end, n + 1 + length ss) \<and>
     take (last_end + 1) es = take (ix + 1) es @ concat ss \<and> drop (last_end + 1) es = r"
proof (induction es has_last ix n arbitrary: ss rule: from_events_loop.induct)
  case (1 es has_last ix n)
  let ?from = "event_id (es ! ix)" and ?rel = "drop (ix + 1) es"
  have split: "drop ix es = [es ! ix] @ ?rel" using 1(2) by (simp add: Cons_nth_drop_Suc)
  show ?case
  proof (cases "find_end_index_of_next_wft_seq ?rel ?from has_last")
    case (Incomplete j)
    have "\<exists>k. find_end_index_of_next_wft_seq (drop ix es) ?from has_last = Incomplete k"
      unfolding split
      using Incomplete find_end_stale[of ?from "[es ! ix]" ?rel has_last]
        find_end_all_stale[of ?from "[es ! ix]" has_last]
      by (cases "?rel = []") auto
    then show ?thesis
      using 1(2,3) wft_seqs_Incomplete[OF Incomplete] by (auto simp: from_events_loop.simps[of es])
  next
    case (Complete j)
    then have "?rel \<noteq> []" using find_end_Complete[OF Complete] by auto
    then have here: "find_end_index_of_next_wft_seq (drop ix es) ?from has_last = Complete (j + 1)"
      unfolding split using find_end_stale[of ?from "[es ! ix]" ?rel has_last] Complete by simp
    have j: "j < length ?rel" using find_end_Complete[OF Complete] by simp
    define ix' where "ix' = j + 1 + ix"
    have ix': "ix' < length es" "es ! ix' = ?rel ! j" "drop (ix' + 1) es = drop (j + 1) ?rel"
      "take (ix' + 1) es = take (ix + 1) es @ take (j + 1) ?rel"
      using j by (auto simp: ix'_def add.commute add.left_commute take_add[symmetric] algebra_simps)
    obtain ss' where ss: "ss = take (j + 1) ?rel # ss'"
      and rest: "wft_seqs has_last (event_id (es ! ix')) (drop (ix' + 1) es) = (ss', r)"
      using 1(3) wft_seqs_Complete[OF Complete] ix' by (auto split: prod.splits)
    have "from_events_loop es has_last ix n = from_events_loop es has_last ix' (n + 1)"
      using 1(2) here by (simp add: from_events_loop.simps[of es has_last ix] ix'_def)
    moreover have "\<exists>last_end. from_events_loop es has_last ix' (n + 1) = Ok (last_end, n + 1 + 1 + length ss') \<and>
        take (last_end + 1) es = take (ix' + 1) es @ concat ss' \<and> drop (last_end + 1) es = r"
      using 1(1)[OF 1(2) _ ix'(1) rest] here by (simp add: ix'_def)
    ultimately show ?thesis using ss ix'(4) by auto
  qed
qed

lemma from_events_parts:
  "\<exists>u extra. from_events es previous_id started_id has_last = Ok (u, extra) \<and> hu_events u @ extra = es \<and>
     hu_has_last_wft u = has_last \<and> (has_last \<longrightarrow> extra = [])"
proof (cases "find_end_index_of_next_wft_seq es previous_id has_last")
  case (Complete i)
  obtain ss r where rest: "wft_seqs has_last (event_id (es ! i)) (drop (i + 1) es) = (ss, r)"
    by (cases "wft_seqs has_last (event_id (es ! i)) (drop (i + 1) es)")
  have "i < length es" using find_end_Complete[OF Complete] by simp
  from from_events_loop_seqs[OF this rest, of 0] obtain last_end
    where "from_events_loop es has_last i 0 = Ok (last_end, 1 + length ss)" by auto
  then show ?thesis by (auto simp: from_events_def Complete)
qed (auto simp: from_events_def)

text \<open>
  C5: An update is built from whole sequences.  \<^verbatim>\<open>HistoryUpdate::from_events\<close> terminates without
  panicking and loses no event: what it keeps followed by what it gives back is its input.  It counts the complete
  workflow task sequences that follow the given started id, computed by cutting off one sequence
  after the other.  Without the last workflow task it keeps exactly those sequences; with it,
  it keeps everything.
\<close>

theorem from_events_keeps_sequences:
  "case from_events es previous_id started_id has_last of
      Ok (u, extra) \<Rightarrow> hu_events u @ extra = es \<and> hu_has_last_wft u = has_last \<and>
        (case wft_seqs has_last previous_id es of
           (ss, r) \<Rightarrow> if has_last then extra = [] \<and> hu_wft_count u = max 1 (length ss)
             else hu_events u = concat ss \<and> extra = r \<and> hu_wft_count u = length ss)
    | _ \<Rightarrow> False"
proof (cases "find_end_index_of_next_wft_seq es previous_id has_last")
  case (Incomplete j)
  then show ?thesis by (simp add: from_events_def wft_seqs.simps[of has_last previous_id es])
next
  case (Complete i)
  obtain ss r where rest: "wft_seqs has_last (event_id (es ! i)) (drop (i + 1) es) = (ss, r)"
    by (cases "wft_seqs has_last (event_id (es ! i)) (drop (i + 1) es)")
  have i: "i < length es" using find_end_Complete[OF Complete] by simp
  with from_events_loop_seqs[OF i rest, of 0] obtain last_end
    where "from_events_loop es has_last i 0 = Ok (last_end, 1 + length ss)"
      "take (last_end + 1) es = take (i + 1) es @ concat ss" "drop (last_end + 1) es = r" by auto
  then show ?thesis
    using i Complete rest append_take_drop_id[of "last_end + 1" es]
    by (auto simp: from_events_def wft_seqs.simps[of has_last previous_id es])
qed

section \<open>Taking sequences\<close>

definition is_stale :: "int \<Rightarrow> HistoryEvent \<Rightarrow> bool" where
  "is_stale from_id e = (event_id e \<le> from_id)"

lemma starting_index_eq:
  "starting_index_after_skipping u from_id =
     (if dropWhile (is_stale from_id) (hu_events u) = [] then None
      else Some (length (takeWhile (is_stale from_id) (hu_events u))))"
proof -
  have pred: "(\<lambda>e. \<not> event_id e > from_id) = is_stale from_id" by (auto simp: is_stale_def not_less)
  have "length (takeWhile (is_stale from_id) es) < length es \<longleftrightarrow> dropWhile (is_stale from_id) es \<noteq> []" for es
    by (induction es) auto
  then show ?thesis unfolding starting_index_after_skipping_def pred by (simp add: Let_def)
qed

lemma drop_stale: "drop (length (takeWhile P es)) es = dropWhile P es"
  by (simp add: dropWhile_eq_drop)

lemma find_end_relevant:
  assumes "dropWhile (is_stale from_id) es \<noteq> []"
  shows "find_end_index_of_next_wft_seq es from_id has_last =
    seq_end_add (find_end_index_of_next_wft_seq (dropWhile (is_stale from_id) es) from_id has_last)
      (length (takeWhile (is_stale from_id) es))"
proof -
  have "list_all (\<lambda>e. event_id e \<le> from_id) (takeWhile (is_stale from_id) es)"
    by (auto simp: list_all_iff is_stale_def dest: set_takeWhileD)
  from find_end_stale[OF this assms] show ?thesis by simp
qed

definition relevant :: "HistoryUpdate \<Rightarrow> int \<Rightarrow> HistoryEvent list" where
  "relevant u from_id = (let es = dropWhile (is_stale from_id) (hu_events u)
     in if es = [] then hu_events u else es)"

lemma take_next_eq:
  "take_next_wft_sequence u from_id =
     (let es = relevant u from_id; u' = u\<lparr> hu_events := es \<rparr>
      in case find_end_index_of_next_wft_seq es from_id (hu_has_last_wft u) of
           Incomplete siz \<Rightarrow>
             if hu_has_last_wft u then (if siz = 0 then Ok (ReplayOver, u') else build_next_wft u' siz)
             else if siz \<noteq> 0 then Panic ''HistoryUpdate was created with an incomplete WFT. This is an SDK bug.''
             else Ok (NeedFetch, u')
         | Complete next_wft_ix \<Rightarrow> build_next_wft u' next_wft_ix)"
proof -
  have "(case starting_index_after_skipping u from_id of
      Some ix \<Rightarrow> u\<lparr> hu_events := drop ix (hu_events u) \<rparr> | None \<Rightarrow> u) = u\<lparr> hu_events := relevant u from_id \<rparr>"
    by (simp add: starting_index_eq relevant_def drop_stale Let_def del: dropWhile_eq_Nil_conv)
  then show ?thesis
    unfolding take_next_wft_sequence_def by (simp add: Let_def split: NextWFTSeqEndIndex.split)
qed

lemma peek_next_eq:
  "peek_next_wft_sequence u from_id = (let es = relevant u from_id in
     if es = [] then [] else take (seq_end_index (find_end_index_of_next_wft_seq es from_id (hu_has_last_wft u)) + 1) es)"
  by (auto simp: peek_next_wft_sequence_def starting_index_eq relevant_def drop_stale Let_def
      simp del: dropWhile_eq_Nil_conv drop_eq_Nil drop_eq_Nil2)

lemma can_take_eq:
  "can_take_next_wft_sequence u from_id =
     (case find_end_index_of_next_wft_seq (relevant u from_id) from_id (hu_has_last_wft u) of
        Incomplete _ \<Rightarrow> hu_has_last_wft u | Complete _ \<Rightarrow> True)"
  using find_end_relevant[of from_id "hu_events u" "hu_has_last_wft u"]
  by (cases "find_end_index_of_next_wft_seq (relevant u from_id) from_id (hu_has_last_wft u)")
    (auto simp: can_take_next_wft_sequence_def relevant_def Let_def split: if_splits)

lemma build_next_wft_eq:
  "i < length (hu_events u) \<Longrightarrow> build_next_wft u i =
     Ok (WFT (take (i + 1) (hu_events u)) (drop (i + 1) (hu_events u) = [] \<and> hu_has_last_wft u),
         u\<lparr> hu_events := drop (i + 1) (hu_events u) \<rparr>)"
  by (simp add: build_next_wft_def Let_def)

text \<open>
  C26: What can be taken is what is peeked at.  For every update and started id: when the update says the next
  sequence can be taken, taking it returns a sequence or that replay is over, and the sequence is the one
  a peek shows; when it says it cannot, taking asks for a fetch or panics, and nothing of this depends on
  how many handled events are still in front.
\<close>

theorem peek_agrees_with_take:
  "case take_next_wft_sequence u from_id of
      Ok (WFT seq_events is_last, u') \<Rightarrow> can_take_next_wft_sequence u from_id \<and> seq_events \<noteq> [] \<and>
        peek_next_wft_sequence u from_id = seq_events \<and> is_last = (hu_events u' = [] \<and> hu_has_last_wft u) \<and>
        (\<exists>handled. hu_events u = handled @ seq_events @ hu_events u' \<and> list_all (is_stale from_id) handled)
    | Ok (ReplayOver, u') \<Rightarrow> can_take_next_wft_sequence u from_id \<and> hu_has_last_wft u
    | Ok (NeedFetch, u') \<Rightarrow> \<not> can_take_next_wft_sequence u from_id
    | Panic _ \<Rightarrow> \<not> can_take_next_wft_sequence u from_id
    | Err _ \<Rightarrow> False"
proof -
  define es where "es = relevant u from_id"
  have parts: "\<exists>handled. hu_events u = handled @ es \<and> list_all (is_stale from_id) handled"
  proof (cases "dropWhile (is_stale from_id) (hu_events u) = []")
    case True
    then show ?thesis by (intro exI[of _ "[]"]) (simp add: es_def relevant_def)
  next
    case False
    then show ?thesis
      by (intro exI[of _ "takeWhile (is_stale from_id) (hu_events u)"])
        (auto simp: es_def relevant_def list_all_iff dest: set_takeWhileD)
  qed
  have taken: "case build_next_wft (u\<lparr> hu_events := es \<rparr>) i of
      Ok (WFT seq_events is_last, u') \<Rightarrow> seq_events = take (i + 1) es \<and> es \<noteq> [] \<and>
        is_last = (hu_events u' = [] \<and> hu_has_last_wft u) \<and>
        (\<exists>handled. hu_events u = handled @ seq_events @ hu_events u' \<and> list_all (is_stale from_id) handled)
    | _ \<Rightarrow> False" if "i < length es" for i
    using that parts by (auto simp: build_next_wft_eq)
  note eqs = take_next_eq peek_next_eq can_take_eq es_def[symmetric]
  show ?thesis
  proof (cases "find_end_index_of_next_wft_seq es from_id (hu_has_last_wft u)")
    case (Complete i)
    with find_end_Complete[OF Complete] taken[of i] show ?thesis
      by (auto simp: eqs Let_def split: outcome.splits prod.splits NextWFT.splits)
  next
    case (Incomplete j)
    with find_end_Incomplete[OF Incomplete] taken[of j] show ?thesis
      by (auto simp: eqs Let_def split: outcome.splits prod.splits NextWFT.splits)
  qed
qed

text \<open>The workflow machines take sequences one after the other, each from the last event of the one
  before; every sequence has an event, so the events left bound the number of rounds.\<close>

fun take_sequences ::
  "nat \<Rightarrow> HistoryUpdate \<Rightarrow> int \<Rightarrow> (string, HistoryEvent list list \<times> NextWFT \<times> HistoryUpdate) outcome" where
  "take_sequences 0 u from_id = Err ''out of fuel''"
| "take_sequences (Suc n) u from_id = bind_outcome (take_next_wft_sequence u from_id) (\<lambda>(r, u').
     case r of
       WFT es _ \<Rightarrow> bind_outcome (take_sequences n u' (event_id (last es))) (\<lambda>(seqs, fin). Ok (es # seqs, fin))
     | _ \<Rightarrow> Ok ([], r, u'))"

abbreviation ids_increase :: "HistoryEvent list \<Rightarrow> bool" where
  "ids_increase es \<equiv> sorted_wrt (<) (map event_id es)"

definition drain_result ::
  "HistoryUpdate \<Rightarrow> HistoryEvent list list \<times> HistoryEvent list \<Rightarrow>
   (string, HistoryEvent list list \<times> NextWFT \<times> HistoryUpdate) outcome" where
  "drain_result u sr = (case sr of (ss, r) \<Rightarrow>
     if length r \<le> 1 then Ok (ss, if hu_has_last_wft u then ReplayOver else NeedFetch, u\<lparr> hu_events := r \<rparr>)
     else if hu_has_last_wft u then Ok (ss @ [r], ReplayOver, u\<lparr> hu_events := [] \<rparr>)
     else Panic ''HistoryUpdate was created with an incomplete WFT. This is an SDK bug.'')"

lemma relevant_all: "list_all (\<lambda>e. \<not> is_stale from_id e) (hu_events u) \<Longrightarrow> relevant u from_id = hu_events u"
  by (cases "hu_events u") (auto simp: relevant_def)

lemma ids_increase_after:
  assumes "ids_increase es" "i < length es"
  shows "list_all (\<lambda>e. \<not> is_stale (event_id (es ! i)) e) (drop (i + 1) es)"
  using assms by (auto simp: list_all_length is_stale_def sorted_wrt_iff_nth_less not_le)

lemma take_sequences_relevant:
  "\<lbrakk> ids_increase (hu_events u); list_all (\<lambda>e. \<not> is_stale from_id e) (hu_events u); length (hu_events u) + 1 < n \<rbrakk> \<Longrightarrow>
   take_sequences n u from_id = drain_result u (wft_seqs (hu_has_last_wft u) from_id (hu_events u))"
proof (induction n arbitrary: u from_id)
  case (Suc n)
  let ?es = "hu_events u" and ?last = "hu_has_last_wft u"
  note next_eq = take_next_eq[of u from_id, unfolded relevant_all[OF Suc.prems(2)] Let_def]
  show ?case
  proof (cases "find_end_index_of_next_wft_seq ?es from_id ?last")
    case (Complete i)
    have i: "i < length ?es" using find_end_Complete[OF Complete] by simp
    define u' where "u' = u\<lparr> hu_events := drop (i + 1) ?es \<rparr>"
    have "event_id (last (take (i + 1) ?es)) = event_id (?es ! i)" using i by (simp add: take_Suc_conv_app_nth)
    moreover have "take_sequences n u' (event_id (?es ! i)) =
        drain_result u' (wft_seqs ?last (event_id (?es ! i)) (drop (i + 1) ?es))"
      using Suc.IH[of u' "event_id (?es ! i)"] Suc.prems i ids_increase_after[OF Suc.prems(1) i]
      by (simp add: u'_def sorted_wrt_drop drop_map[symmetric])
    ultimately show ?thesis
      using i wft_seqs_Complete[OF Complete]
      by (cases "wft_seqs ?last (event_id (?es ! i)) (drop (i + 1) ?es)")
        (simp add: next_eq Complete build_next_wft_eq u'_def[symmetric], simp add: u'_def drain_result_def)
  next
    case (Incomplete j)
    have j: "j = length ?es - 1" by (rule find_end_Incomplete[OF Incomplete])
    show ?thesis
    proof (cases "?last \<and> 1 < length ?es")
      case True
      define u' where "u' = u\<lparr> hu_events := [] \<rparr>"
      obtain n' where n: "n = Suc n'" using Suc.prems(3) by (cases n) auto
      have "take_sequences n u' f = Ok ([], ReplayOver, u')" for f
        using True by (simp add: n take_next_eq relevant_def u'_def Let_def find_end_index_of_next_wft_seq_def)
      moreover have "take_next_wft_sequence u from_id = Ok (WFT ?es True, u')"
        unfolding next_eq Incomplete using True j by (auto simp: build_next_wft_def u'_def Let_def)
      ultimately show ?thesis
        using True wft_seqs_Incomplete[OF Incomplete] by (simp add: u'_def drain_result_def)
    next
      case False
      then show ?thesis
        using j wft_seqs_Incomplete[OF Incomplete] by (auto simp: next_eq Incomplete drain_result_def)
    qed
  qed
qed simp

text \<open>
  C10: Taking sequences consumes an update in order.  When event ids increase and some event follows the
  started id, taking one sequence after the other, each from the last event of the one before, gives
  the complete sequences of the events after that id, in order, none empty.  With the last workflow
  task in the update what remains is given as one more sequence and then replay is over, except that a single
  remaining event is left behind; without it a fetch is needed, and two or more remaining events panic.
\<close>

theorem take_sequences_in_order:
  assumes "ids_increase (hu_events u)" "\<exists>e \<in> set (hu_events u). event_id e > from_id"
  shows "case wft_seqs (hu_has_last_wft u) from_id (dropWhile (is_stale from_id) (hu_events u)) of
      (ss, r) \<Rightarrow> concat ss @ r = dropWhile (is_stale from_id) (hu_events u) \<and> [] \<notin> set ss \<and>
        take_sequences (length (hu_events u) + 2) u from_id =
          (if length r \<le> 1 then Ok (ss, if hu_has_last_wft u then ReplayOver else NeedFetch, u\<lparr> hu_events := r \<rparr>)
           else if hu_has_last_wft u then Ok (ss @ [r], ReplayOver, u\<lparr> hu_events := [] \<rparr>)
           else Panic ''HistoryUpdate was created with an incomplete WFT. This is an SDK bug.'')"
proof -
  define es where "es = dropWhile (is_stale from_id) (hu_events u)"
  have some: "es \<noteq> []" using assms(2) by (force simp: es_def is_stale_def not_le)
  define u' where "u' = u\<lparr> hu_events := es \<rparr>"
  have inc: "ids_increase es"
    using assms(1) by (simp add: es_def dropWhile_eq_drop drop_map[symmetric] sorted_wrt_drop)
  have "\<not> is_stale from_id (hd es)" using some hd_dropWhile[of "is_stale from_id"] by (auto simp: es_def)
  then have fresh: "list_all (\<lambda>e. \<not> is_stale from_id e) es"
    using inc some by (cases es) (auto simp: is_stale_def list_all_iff)
  have "relevant u from_id = relevant u' from_id"
    using some relevant_all[of from_id u'] fresh by (simp add: u'_def relevant_def es_def[symmetric])
  then have "take_next_wft_sequence u from_id = take_next_wft_sequence u' from_id"
    by (simp add: take_next_eq u'_def Let_def split: NextWFTSeqEndIndex.split)
  then have "take_sequences (length (hu_events u) + 2) u from_id = take_sequences (length (hu_events u) + 2) u' from_id"
    by (simp add: numeral_2_eq_2)
  also have "\<dots> = drain_result u' (wft_seqs (hu_has_last_wft u) from_id es)"
    using take_sequences_relevant[of u' from_id "length (hu_events u) + 2"] inc fresh
    by (simp add: u'_def es_def length_dropWhile_le le_imp_less_Suc)
  finally show ?thesis
    using wft_seqs_concat[of "hu_has_last_wft u" from_id es]
    by (cases "wft_seqs (hu_has_last_wft u) from_id es") (simp add: es_def[symmetric] drain_result_def u'_def)
qed

text \<open>A history of three workflow tasks between which signals arrive.\<close>

definition plain_event :: "int \<Rightarrow> EventType \<Rightarrow> HistoryEvent" where
  "plain_event i t = \<lparr> event_id = i, event_time = None, event_type = t, worker_may_ignore = False, attributes = None \<rparr>"

definition signal_history :: "HistoryEvent list" where
  "signal_history = [plain_event 1 ET_WorkflowExecutionStarted, plain_event 2 ET_WorkflowTaskScheduled,
     plain_event 3 ET_WorkflowTaskStarted, plain_event 4 ET_WorkflowTaskCompleted,
     plain_event 5 ET_WorkflowExecutionSignaled, plain_event 6 ET_WorkflowTaskScheduled,
     plain_event 7 ET_WorkflowTaskStarted, plain_event 8 ET_WorkflowTaskCompleted,
     plain_event 9 ET_WorkflowExecutionSignaled]"

lemmas scan_eval = find_end_index_of_next_wft_seq_def scan_start_def scan_event_def is_command_event_def
  command_event_types_def is_final_wf_execution_event_def ends_wft_abruptly_def plain_event_def as_update_accepted_def

theorem take_sequences_in_order_witness:
  "case take_sequences (length signal_history + 2) \<lparr> hu_events = signal_history, hu_previous_wft_started_id = 0, hu_wft_started_id = 7,
       hu_has_last_wft = True, hu_wft_count = 2 \<rparr> 0 of
     Ok (ss, ReplayOver, u) \<Rightarrow> map (map event_id) ss = [[1, 2, 3], [4, 5, 6, 7], [8, 9]] \<and> hu_events u = []
   | _ \<Rightarrow> False"
  using take_sequences_in_order[of "\<lparr> hu_events = signal_history, hu_previous_wft_started_id = 0,
      hu_wft_started_id = 7, hu_has_last_wft = True, hu_wft_count = 2 \<rparr>" 0]
  by (simp add: signal_history_def wft_seqs.simps scan_eval is_stale_def del: take_sequences.simps)


end
