(* ===== verification/WorkflowMachines.thy ===== *)
theory WorkflowMachines
  imports Machines Actions DrivenWorkflow HistoryUpdate "HOL-Library.Multiset"
begin

text \<open>
  \<^verbatim>\<open>core/src/worker/workflow/machines/workflow_machines.rs\<close>: the state of a workflow run and how history
  events, protocol messages and the commands of lang are dispatched to its state machines.  Metrics
  and logging are not modelled.  The slot map that holds the machines, the hash of a run id, the
  protobuf conversions and the clock are parameters (\<open>WMEnv\<close>); the \<open>i\<close>th time a method of the run reads
  the clock it sees \<open>env_clock env i\<close>.
\<close>

section \<open>State\<close>

type_synonym MachineKey = nat

record WMEnv =
  env_machine :: MachineEnv
  env_dur_of :: "Duration \<Rightarrow> int option"
  env_seed_hash :: "string \<Rightarrow> 64 word"
  env_clock :: "nat \<Rightarrow> int"
  env_fresh_key :: "MachineKey list \<Rightarrow> MachineKey"
  env_iter_order :: "MachineKey list \<Rightarrow> MachineKey list"

text \<open>
  What the code relies on of the slot map: a key is given out once, and iterating visits every live
  entry once.
\<close>

definition slot_map_laws :: "WMEnv \<Rightarrow> bool" where
  "slot_map_laws env = ((\<forall>ks. env_fresh_key env ks \<notin> set ks) \<and> (\<forall>ks. mset (env_iter_order env ks) = mset ks))"

datatype (plugins only: code) MachineAssociatedCommand = Real Command | FakeLocalActivityMarker u32

record CommandAndMachine =
  cam_command :: MachineAssociatedCommand
  cam_machine :: MachineKey

text \<open>
  \<^verbatim>\<open>wm_keys_issued\<close> and \<^verbatim>\<open>wm_clock_reads\<close> record the use of the slot map and of the clock; the
  other fields are those of the code.  A \<^verbatim>\<open>ChangeInfo\<close> is its only field.
\<close>

record WorkflowMachines =
  wm_last_history_from_server :: HistoryUpdate
  wm_protocol_msgs :: "IncomingProtocolMessage list"
  wm_current_started_event_id :: int
  wm_next_started_event_id :: int
  wm_last_processed_event :: int
  wm_replaying :: bool
  wm_workflow_id :: string
  wm_workflow_type :: string
  wm_run_id :: string
  wm_have_seen_terminal_event :: bool
  wm_workflow_start_time :: "int option"
  wm_workflow_end_time :: "int option"
  wm_wft_start_time :: "int option"
  wm_current_wf_time :: "int option"
  wm_observed_internal_flags :: InternalFlags
  wm_history_size_bytes :: int
  wm_continue_as_new_suggested :: bool
  wm_current_wft_deployment_info :: "WorkerDeploymentVersion option"
  wm_all_machines :: "(MachineKey \<times> Machines) list"
  wm_keys_issued :: "MachineKey list"
  wm_machine_is_core_created :: "MachineKey list"
  wm_machines_by_event_id :: "(int \<times> MachineKey) list"
  wm_machines_by_protocol_instance_id :: "(string \<times> MachineKey) list"
  wm_id_to_machine :: "(CommandID \<times> MachineKey) list"
  wm_commands :: "CommandAndMachine list"
  wm_current_wf_task_commands :: "CommandAndMachine list"
  wm_message_outbox :: "ProtocolMessage list"
  wm_encountered_patch_markers :: "(string \<times> bool) list"
  wm_local_activity_data :: LocalActivityData
  wm_drive_me :: DrivenWorkflow
  wm_worker_config :: WorkerConfig
  wm_clock_reads :: nat

type_synonym 'a wm = "(WorkflowMachines, 'a) action"

datatype CommandIdKind = LangIssued CommandID | CoreInternal | NeverResolves

datatype EventHandlingOutcome = SkipEvent (skip_next_event: bool) | SkipCommand | NormalOutcome

record RunBasics =
  rb_history :: HistoryUpdate
  rb_workflow_id :: string
  rb_workflow_type :: string
  rb_run_id :: string
  rb_sdk_metadata :: bool
  rb_sdk_name :: string
  rb_sdk_version :: string
  rb_worker_config :: WorkerConfig

definition workflow_machines_new :: "RunBasics \<Rightarrow> DrivenWorkflow \<Rightarrow> WorkflowMachines" where
  "workflow_machines_new basics driven_wf =
     (let replaying = hu_previous_wft_started_id (rb_history basics) > 0;
          fl = internal_flags_new (rb_sdk_metadata basics) (rb_sdk_name basics) (rb_sdk_version basics);
          fl' = (case peek_next_wft_completed (rb_history basics) 0 of
                   Some attrs \<Rightarrow> add_from_complete fl attrs | None \<Rightarrow> fl)
      in \<lparr> wm_last_history_from_server = rb_history basics, wm_protocol_msgs = [],
           wm_current_started_event_id = 0, wm_next_started_event_id = 0, wm_last_processed_event = 0,
           wm_replaying = replaying, wm_workflow_id = rb_workflow_id basics,
           wm_workflow_type = rb_workflow_type basics, wm_run_id = rb_run_id basics,
           wm_have_seen_terminal_event = False, wm_workflow_start_time = None,
           wm_workflow_end_time = None, wm_wft_start_time = None, wm_current_wf_time = None,
           wm_observed_internal_flags = fl', wm_history_size_bytes = 0,
           wm_continue_as_new_suggested = False, wm_current_wft_deployment_info = None,
           wm_all_machines = [], wm_keys_issued = [], wm_machine_is_core_created = [],
           wm_machines_by_event_id = [], wm_machines_by_protocol_instance_id = [], wm_id_to_machine = [],
           wm_commands = [], wm_current_wf_task_commands = [], wm_message_outbox = [],
           wm_encountered_patch_markers = [], wm_local_activity_data = la_data_default,
           wm_drive_me = driven_wf, wm_worker_config = rb_worker_config basics, wm_clock_reads = 0 \<rparr>)"

section \<open>Machines by key\<close>

definition wm_machine :: "MachineKey \<Rightarrow> Machines wm" where
  "wm_machine k s = (case map_of (wm_all_machines s) k of
      Some m \<Rightarrow> (Ok m, s)
    | None \<Rightarrow> (Panic ''Machine must exist'', s))"

text \<open>A method called on \<^verbatim>\<open>machine_mut(k)\<close>.  The machine sees the flags of the run and may add to them.\<close>

definition call_machine :: "MachineKey \<Rightarrow> (Machines \<Rightarrow> (WFMachinesError, 'a) outcome \<times> Machines) \<Rightarrow> 'a wm" where
  "call_machine k f s = (case map_of (wm_all_machines s) k of
      Some m \<Rightarrow> (case f (with_flags (wm_observed_internal_flags s) m) of
          (r, m') \<Rightarrow> (r, s\<lparr> wm_all_machines := AList.update k m' (wm_all_machines s),
             wm_observed_internal_flags := machine_flags (wm_observed_internal_flags s) m' \<rparr>))
    | None \<Rightarrow> (Panic ''Machine must exist'', s))"

definition insert_machine :: "WMEnv \<Rightarrow> Machines \<Rightarrow> MachineKey wm" where
  "insert_machine env mach s = (let k = env_fresh_key env (wm_keys_issued s) in
     (Ok k, s\<lparr> wm_all_machines := AList.update k mach (wm_all_machines s),
               wm_keys_issued := k # wm_keys_issued s \<rparr>))"

definition get_machine_key :: "CommandID \<Rightarrow> MachineKey wm" where
  "get_machine_key i s = (case map_of (wm_id_to_machine s) i of
      Some k \<Rightarrow> (Ok k, s)
    | None \<Rightarrow> (Err (Nondeterminism ''Missing associated machine for {id:?}''), s))"

definition get_machine_by_msg :: "string \<Rightarrow> MachineKey wm" where
  "get_machine_by_msg protocol_instance_id s =
     (case map_of (wm_machines_by_protocol_instance_id s) protocol_instance_id of
        Some k \<Rightarrow> (Ok k, s)
      | None \<Rightarrow> (Err (Fatal ''Missing associated machine for protocol message {protocol_instance_id}''), s))"

definition read_clock :: "WMEnv \<Rightarrow> int wm" where
  "read_clock env s = (Ok (env_clock env (wm_clock_reads s)), s\<lparr> wm_clock_reads := Suc (wm_clock_reads s) \<rparr>)"

text \<open>A method of the local activity machine, or \<open>otherwise\<close> if the machine is another one.\<close>

definition on_la ::
  "responses \<Rightarrow> (LocalActivityMachine \<Rightarrow> responses \<times> LocalActivityMachine) \<Rightarrow> Machines \<Rightarrow> responses \<times> Machines" where
  "on_la otherwise f mach = (case mach of
      LocalActivityMachine m \<Rightarrow> map_prod id LocalActivityMachine (f m)
    | _ \<Rightarrow> (otherwise, mach))"

section \<open>Time\<close>

definition set_current_time :: "int \<Rightarrow> WorkflowMachines \<Rightarrow> WorkflowMachines" where
  "set_current_time time s =
     (if (case wm_current_wf_time s of None \<Rightarrow> True | Some t \<Rightarrow> t < time)
      then s\<lparr> wm_current_wf_time := Some time \<rparr> else s)"

definition workflow_is_finished :: "WorkflowMachines \<Rightarrow> bool" where
  "workflow_is_finished s = (wm_workflow_end_time s \<noteq> None)"

definition total_runtime :: "WorkflowMachines \<Rightarrow> int option" where
  "total_runtime s = (case (wm_workflow_start_time s, wm_workflow_end_time s) of
      (Some st, Some et) \<Rightarrow> if st \<le> et then Some (et - st) else None
    | _ \<Rightarrow> None)"

section \<open>New commands\<close>

definition add_new_command_machine ::
  "WMEnv \<Rightarrow> CommandAttributes \<times> Machines \<Rightarrow> UserMetadata option \<Rightarrow> CommandAndMachine wm" where
  "add_new_command_machine env machine metadata =
     act_bind (insert_machine env (snd machine)) (\<lambda>k.
     act_return \<lparr> cam_command = Real \<lparr> cmd_command_type = as_type (fst machine),
         cmd_attributes = Some (fst machine), cmd_user_metadata = metadata \<rparr>, cam_machine = k \<rparr>)"

definition push_current_command :: "CommandAndMachine \<Rightarrow> WorkflowMachines \<Rightarrow> WorkflowMachines" where
  "push_current_command c s = s\<lparr> wm_current_wf_task_commands := wm_current_wf_task_commands s @ [c] \<rparr>"

definition add_terminal_command ::
  "WMEnv \<Rightarrow> CommandAttributes \<times> Machines \<Rightarrow> UserMetadata option \<Rightarrow> unit wm" where
  "add_terminal_command env machine metadata =
     act_bind (add_new_command_machine env machine metadata) (\<lambda>cwfm.
     act_bind (read_clock env) (\<lambda>now.
     act_then (act_modify (\<lambda>s. s\<lparr> wm_workflow_end_time := Some now \<rparr>))
     (act_then (act_modify (push_current_command cwfm))
     (act_modify (\<lambda>s. s\<lparr> wm_local_activity_data := indicate_terminating (wm_local_activity_data s) \<rparr>)))))"

definition add_cmd_to_wf_task ::
  "WMEnv \<Rightarrow> CommandAttributes \<times> Machines \<Rightarrow> UserMetadata option \<Rightarrow> CommandIdKind \<Rightarrow> MachineKey wm" where
  "add_cmd_to_wf_task env machine metadata i =
     act_bind (add_new_command_machine env machine metadata) (\<lambda>mach.
     let key = cam_machine mach in
     act_then (act_modify (\<lambda>s. case i of
         LangIssued cid \<Rightarrow> s\<lparr> wm_id_to_machine := AList.update cid key (wm_id_to_machine s) \<rparr>
       | _ \<Rightarrow> s))
     (act_then (act_modify (\<lambda>s. if i = CoreInternal
         then s\<lparr> wm_machine_is_core_created := List.insert key (wm_machine_is_core_created s) \<rparr> else s))
     (act_then (act_modify (push_current_command mach))
     (act_return key))))"

definition add_new_protocol_machine :: "WMEnv \<Rightarrow> Machines \<Rightarrow> string \<Rightarrow> MachineKey wm" where
  "add_new_protocol_machine env machine instance_id =
     act_bind (insert_machine env machine) (\<lambda>k.
     act_then (act_modify (\<lambda>s. s\<lparr> wm_machines_by_protocol_instance_id :=
         AList.update instance_id k (wm_machines_by_protocol_instance_id s) \<rparr>))
     (act_return k))"

section \<open>Responses of the machines\<close>

text \<open>
  \<open>again\<close> is the recursive call of \<^verbatim>\<open>process_machine_responses\<close>, reached through the resolution of a
  cancelled local activity and through \<^verbatim>\<open>task_started\<close>.
\<close>

definition send_job_wm :: "JobVariant \<Rightarrow> WorkflowMachines \<Rightarrow> WorkflowMachines" where
  "send_job_wm job s = s\<lparr> wm_drive_me := send_job job (wm_drive_me s) \<rparr>"

definition la_update :: "(LocalActivityData \<Rightarrow> 'a \<times> LocalActivityData) \<Rightarrow> 'a wm" where
  "la_update f s = (case f (wm_local_activity_data s) of (x, d) \<Rightarrow> (Ok x, s\<lparr> wm_local_activity_data := d \<rparr>))"

definition collect_non_replay_wft :: "WMEnv \<Rightarrow> MachineKey \<Rightarrow> (MachineKey \<times> MachineResponse list) list wm" where
  "collect_non_replay_wft env k = act_bind (wm_machine k) (\<lambda>mach. case mach of
      LocalActivityMachine _ \<Rightarrow>
        act_bind (call_machine k (on_la (Ok []) (encountered_non_replay_wft (me_codec (env_machine env)))))
          (\<lambda>resps. act_return [(k, resps)])
    | _ \<Rightarrow> act_return [])"

fun collect_all :: "('k \<Rightarrow> 'a list wm) \<Rightarrow> 'k list \<Rightarrow> 'a list wm" where
  "collect_all f [] = act_return []"
| "collect_all f (k # ks) = act_bind (f k) (\<lambda>xs. act_bind (collect_all f ks) (\<lambda>ys. act_return (xs @ ys)))"

definition task_started ::
  "WMEnv \<Rightarrow> (MachineKey \<Rightarrow> MachineResponse list \<Rightarrow> unit wm) \<Rightarrow> int \<Rightarrow> int \<Rightarrow> unit wm" where
  "task_started env again task_started_event_id time =
     act_then (act_modify (\<lambda>s. s\<lparr> wm_current_started_event_id := task_started_event_id \<rparr>))
     (act_then (act_modify (\<lambda>s. s\<lparr> wm_wft_start_time := Some time \<rparr>))
     (act_then (act_modify (set_current_time time))
     (act_bind (act_get wm_replaying) (\<lambda>replaying.
      if \<not> replaying then
        act_bind (act_get (\<lambda>s. env_iter_order env (map fst (wm_all_machines s)))) (\<lambda>ks.
        act_bind (collect_all (collect_non_replay_wft env) ks) (\<lambda>resps.
        act_for (\<lambda>(mkey, resp_set). again mkey resp_set) resps))
      else act_return ()))))"

definition process_response ::
  "WMEnv \<Rightarrow> (MachineKey \<Rightarrow> MachineResponse list \<Rightarrow> unit wm) \<Rightarrow> MachineKey \<Rightarrow> MachineResponse \<Rightarrow> unit wm" where
  "process_response env again smk response = (case response of
      PushWFJob a \<Rightarrow> act_modify (\<lambda>s.
        if smk \<in> set (wm_machine_is_core_created s) then s else send_job_wm a s)
    | TriggerWFTaskStarted task_started_event_id time \<Rightarrow> task_started env again task_started_event_id time
    | UpdateRunIdOnWorkflowReset new_run_id \<Rightarrow>
        act_modify (send_job_wm (UpdateRandomSeed (env_seed_hash env new_run_id)))
    | IssueNewCommand c \<Rightarrow> act_modify (push_current_command \<lparr> cam_command = Real c, cam_machine = smk \<rparr>)
    | IssueNewMessage pm \<Rightarrow> act_modify (\<lambda>s.
        if \<not> wm_replaying s then s\<lparr> wm_message_outbox := wm_message_outbox s @ [pm] \<rparr> else s)
    | NewCoreOriginatedCommand attrs \<Rightarrow> (case attrs of
          RequestCancelExternalWorkflowExecutionCommandAttributes a \<Rightarrow>
            act_bind (act_lift (new_external_cancel 0 \<lparr> nwe_namespace = rce_namespace a,
                nwe_workflow_id = rce_workflow_id a, nwe_run_id = rce_run_id a \<rparr>
                (rce_child_workflow_only a) (rce_reason a))) (\<lambda>(c, m).
            act_bind (add_cmd_to_wf_task env (c, CancelExternalMachine m) None CoreInternal) (\<lambda>_.
            act_return ()))
        | UpsertWorkflowSearchAttributesCommandAttributes a \<Rightarrow>
            act_bind (add_cmd_to_wf_task env (map_prod id UpsertSearchAttributesMachine
                (upsert_search_attrs_internal a)) None NeverResolves) (\<lambda>_.
            act_return ())
        | c \<Rightarrow> act_lift (Err (Fatal
            ''A machine requested to create a new command of an unsupported type: {c:?}'')))
    | IssueFakeLocalActivityMarker seq \<Rightarrow>
        act_modify (push_current_command \<lparr> cam_command = FakeLocalActivityMarker seq, cam_machine = smk \<rparr>)
    | QueueLocalActivity act \<Rightarrow> la_update (\<lambda>d. ((), la_enqueue act d))
    | RequestCancelLocalActivity seq \<Rightarrow>
        act_bind (la_update (take_preresolution seq)) (\<lambda>found. case found of
          Some preres \<Rightarrow>
            act_bind (call_machine smk (on_la
                (Panic ''A non local-activity machine returned a request cancel LA response'')
                (\<lambda>lam. try_resolve_with_dat (me_codec (env_machine env)) lam preres))) (again smk)
        | None \<Rightarrow> act_bind (la_update (remove_from_queue seq)) (\<lambda>removed. case removed of
              Some removed_act \<Rightarrow>
                act_bind (call_machine smk (on_la
                    (Panic ''A non local-activity machine returned a request cancel LA response'')
                    (\<lambda>lam. try_resolve (me_codec (env_machine env)) lam empty_cancel 0
                       (la_attempt removed_act) None (la_original_schedule_time removed_act)))) (again smk)
            | None \<Rightarrow> act_modify (\<lambda>s. s\<lparr> wm_local_activity_data := la_enqueue_cancel
                \<lparr> ela_run_id = wm_run_id s, ela_seq_num = seq \<rparr> (wm_local_activity_data s) \<rparr>)))
    | AbandonLocalActivity seq \<Rightarrow> la_update (\<lambda>d. ((), la_done_executing seq d))
    | UpdateWFTime t \<Rightarrow> (case t of
          Some t' \<Rightarrow> act_modify (set_current_time t')
        | None \<Rightarrow> act_return ()))"

text \<open>
  The recursion, cut off at a depth of calls.  Two levels are always enough, as the theory \<open>RunSafety\<close>
  shows, and \<open>process_machine_responses\<close> uses three.
\<close>

fun process_responses_at :: "nat \<Rightarrow> WMEnv \<Rightarrow> MachineKey \<Rightarrow> MachineResponse list \<Rightarrow> unit wm" where
  "process_responses_at 0 env smk machine_responses = act_lift (Panic ''stack overflow'')"
| "process_responses_at (Suc n) env smk machine_responses =
     act_bind (wm_machine smk) (\<lambda>_.
     act_for (process_response env (process_responses_at n env) smk) machine_responses)"

definition process_machine_responses :: "WMEnv \<Rightarrow> MachineKey \<Rightarrow> MachineResponse list \<Rightarrow> unit wm" where
  "process_machine_responses env = process_responses_at 3 env"

definition submachine_handle_event :: "WMEnv \<Rightarrow> MachineKey \<Rightarrow> HistEventData \<Rightarrow> unit wm" where
  "submachine_handle_event env sm event =
     act_bind (call_machine sm (\<lambda>m. machine_handle_event (env_machine env) m event))
       (process_machine_responses env sm)"

definition handle_protocol_message :: "WMEnv \<Rightarrow> IncomingProtocolMessage \<Rightarrow> unit wm" where
  "handle_protocol_message env message = (case ipm_sequencing_id message of
      Some (SequencingEventId seq_id) \<Rightarrow>
        act_bind (act_get wm_replaying) (\<lambda>replaying.
        act_bind (act_lift (update_init (ipm_id message) (ipm_protocol_instance_id message) seq_id
            (ipm_body message) replaying)) (\<lambda>(um, response).
        act_bind (add_new_protocol_machine env (UpdateMachine um) (ipm_protocol_instance_id message)) (\<lambda>mk.
        process_machine_responses env mk [response])))
    | _ \<Rightarrow> act_lift (Err (Fatal
        ''Update request messages must contain an event sequencing id! This is a server bug.'')))"

section \<open>Commands of lang\<close>

definition determine_use_compatible_flag :: "WorkflowMachines \<Rightarrow> VersioningIntent \<Rightarrow> string \<Rightarrow> bool" where
  "determine_use_compatible_flag s intent target_tq = (case intent of
      VI_Compatible \<Rightarrow> True
    | VI_Default \<Rightarrow> False
    | VI_Unspecified \<Rightarrow> target_tq = [] \<or> target_tq = wc_task_queue (wm_worker_config s))"

definition augment_continue_as_new_with_current_values ::
  "WorkflowMachines \<Rightarrow> ContinueAsNewWorkflowExecution \<Rightarrow> ContinueAsNewWorkflowExecution" where
  "augment_continue_as_new_with_current_values s attrs0 =
     (let attrs1 = (case dw_started_attrs (wm_drive_me s) of
            Some started_info \<Rightarrow>
              let a = (if can_memo attrs0 = []
                    then attrs0\<lparr> can_memo := (case wsi_memo started_info of Some m \<Rightarrow> m | None \<Rightarrow> []) \<rparr> else attrs0)
              in if can_retry_policy a = None then a\<lparr> can_retry_policy := wsi_retry_policy started_info \<rparr> else a
          | None \<Rightarrow> attrs0)
      in if can_search_attributes attrs1 = []
         then attrs1\<lparr> can_search_attributes := get_current_search_attributes (wm_drive_me s) \<rparr> else attrs1)"

text \<open>The macro \<^verbatim>\<open>cancel_machine!\<close>; \<open>cancel\<close> is \<^verbatim>\<open>None\<close> for a machine of another type.\<close>

definition cancel_machine ::
  "WMEnv \<Rightarrow> CommandID \<Rightarrow> (Machines \<Rightarrow> (responses \<times> Machines) option) \<Rightarrow> unit wm" where
  "cancel_machine env cmd_id cancel =
     act_bind (get_machine_key cmd_id) (\<lambda>m_key.
     act_bind (call_machine m_key (\<lambda>mach. case cancel mach of
         Some r \<Rightarrow> r
       | None \<Rightarrow> (Err (Nondeterminism
           ''Machine was not a {} when it should have been during cancellation: {:?}''), mach)))
       (process_machine_responses env m_key))"

definition handle_driven_result :: "WMEnv \<Rightarrow> WFCommand \<Rightarrow> unit wm" where
  "handle_driven_result env cmd = (let metadata = wfc_metadata cmd; cd = me_codec (env_machine env) in
    case wfc_variant cmd of
      WFC_AddTimer attrs \<Rightarrow>
        act_bind (act_lift (timer_new_scheduled attrs)) (\<lambda>(m, c).
        act_bind (add_cmd_to_wf_task env (c, TimerMachine m) metadata (LangIssued (CID_Timer (st_seq attrs)))) (\<lambda>_.
        act_return ()))
    | WFC_UpsertSearchAttributes attrs \<Rightarrow>
        act_then (act_modify (\<lambda>s. s\<lparr> wm_drive_me := search_attributes_update attrs (wm_drive_me s) \<rparr>))
        (act_bind (\<lambda>s. case upsert_search_attrs attrs (wm_observed_internal_flags s) (wm_replaying s) of
             (r, fl) \<Rightarrow> (Ok r, s\<lparr> wm_observed_internal_flags := fl \<rparr>)) (\<lambda>(c, m).
        act_bind (add_cmd_to_wf_task env (c, UpsertSearchAttributesMachine m) metadata NeverResolves) (\<lambda>_.
        act_return ())))
    | WFC_CancelTimer seq \<Rightarrow> cancel_machine env (CID_Timer seq) (\<lambda>mach. case mach of
          TimerMachine m \<Rightarrow> Some (map_prod id TimerMachine (timer_lang m ())) | _ \<Rightarrow> None)
    | WFC_AddActivity attrs \<Rightarrow>
        act_bind (act_get (\<lambda>s. determine_use_compatible_flag s (sa_versioning_intent attrs) (sa_task_queue attrs))) (\<lambda>use_compat.
        act_bind (act_get wm_observed_internal_flags) (\<lambda>fl.
        act_bind (act_lift (activity_new_scheduled attrs fl use_compat)) (\<lambda>(c, m).
        act_bind (add_cmd_to_wf_task env (c, ActivityMachine m) metadata (LangIssued (CID_Activity (sa_seq attrs)))) (\<lambda>_.
        act_return ()))))
    | WFC_AddLocalActivity attrs \<Rightarrow>
        act_bind (act_lift (map_err (\<lambda>e. Fatal ''Invalid schedule local activity request (seq {seq}): {e}'')
            (from_schedule_la (system_time_try_from cd) (env_dur_of env) attrs))) (\<lambda>la_attrs.
        act_bind (la_update (take_preresolution (sla_seq attrs))) (\<lambda>preres.
        act_bind (read_clock env) (\<lambda>now.
        act_bind (\<lambda>s. act_lift (new_local_activity cd now la_attrs (wm_replaying s) preres
            (wm_current_wf_time s) (wm_observed_internal_flags s)) s) (\<lambda>(la, mach_resp).
        act_bind (insert_machine env (LocalActivityMachine la)) (\<lambda>machkey.
        act_then (act_modify (\<lambda>s. s\<lparr> wm_id_to_machine :=
            AList.update (CID_LocalActivity (sla_seq attrs)) machkey (wm_id_to_machine s) \<rparr>))
        (process_machine_responses env machkey mach_resp))))))
    | WFC_RequestCancelActivity seq \<Rightarrow> cancel_machine env (CID_Activity seq) (\<lambda>mach. case mach of
          ActivityMachine m \<Rightarrow> Some (map_prod id ActivityMachine (activity_lang m ())) | _ \<Rightarrow> None)
    | WFC_RequestCancelLocalActivity seq \<Rightarrow> cancel_machine env (CID_LocalActivity seq) (\<lambda>mach. case mach of
          LocalActivityMachine m \<Rightarrow> Some (map_prod (map_err wf_error_from) LocalActivityMachine
            (local_activity_cancel cd m)) | _ \<Rightarrow> None)
    | WFC_CompleteWorkflow attrs \<Rightarrow>
        act_bind (act_lift (complete_workflow attrs)) (\<lambda>(c, m).
        add_terminal_command env (c, CompleteWorkflowMachine m) metadata)
    | WFC_FailWorkflow attrs \<Rightarrow>
        act_bind (act_lift (fail_workflow attrs)) (\<lambda>(c, m).
        add_terminal_command env (c, FailWorkflowMachine m) metadata)
    | WFC_ContinueAsNew attrs0 \<Rightarrow>
        act_bind (act_get (\<lambda>s. augment_continue_as_new_with_current_values s attrs0)) (\<lambda>attrs.
        act_bind (act_get (\<lambda>s. determine_use_compatible_flag s (can_versioning_intent attrs) (can_task_queue attrs))) (\<lambda>use_compat.
        act_bind (act_lift (continue_as_new attrs use_compat)) (\<lambda>(c, m).
        add_terminal_command env (c, ContinueAsNewWorkflowMachine m) metadata)))
    | WFC_CancelWorkflow \<Rightarrow>
        act_bind (act_lift cancel_workflow) (\<lambda>(c, m).
        add_terminal_command env (c, CancelWorkflowMachine m) metadata)
    | WFC_SetPatchMarker attrs \<Rightarrow>
        act_bind (act_get (\<lambda>s. map_of (wm_encountered_patch_markers s) (spm_patch_id attrs))) (\<lambda>encountered_entry.
        if encountered_entry = Some True then act_return ()
        else
          act_bind (\<lambda>s. case has_change cd (spm_patch_id attrs) (wm_replaying s) (spm_deprecated attrs)
                 (encountered_entry \<noteq> None) (map fst (wm_encountered_patch_markers s)) (wm_observed_internal_flags s) of
               (r, fl) \<Rightarrow> (r, s\<lparr> wm_observed_internal_flags := fl \<rparr>)) (\<lambda>((c, m), other_cmds).
          act_bind (add_cmd_to_wf_task env (c, PatchMachine m) metadata NeverResolves) (\<lambda>mkey.
          act_then (process_machine_responses env mkey other_cmds)
          (act_modify (\<lambda>s. s\<lparr> wm_encountered_patch_markers :=
             AList.update (spm_patch_id attrs) True (wm_encountered_patch_markers s) \<rparr>)))))
    | WFC_AddChildWorkflow attrs \<Rightarrow>
        act_bind (act_get (\<lambda>s. determine_use_compatible_flag s (sc_versioning_intent attrs) (sc_task_queue attrs))) (\<lambda>use_compat.
        act_bind (act_get wm_observed_internal_flags) (\<lambda>fl.
        act_bind (act_lift (child_new_scheduled attrs fl use_compat)) (\<lambda>(c, m).
        act_bind (add_cmd_to_wf_task env (c, ChildWorkflowMachine m) metadata
            (LangIssued (CID_ChildWorkflowStart (sc_seq attrs)))) (\<lambda>_.
        act_return ()))))
    | WFC_CancelChild seq reason \<Rightarrow> cancel_machine env (CID_ChildWorkflowStart seq) (\<lambda>mach. case mach of
          ChildWorkflowMachine m \<Rightarrow> Some (map_prod id ChildWorkflowMachine (child_lang m reason)) | _ \<Rightarrow> None)
    | WFC_RequestCancelExternalWorkflow attrs \<Rightarrow> (case rcx_workflow_execution attrs of
          None \<Rightarrow> act_lift (Err (Fatal ''Cancel external workflow command had no workflow_execution field''))
        | Some we \<Rightarrow>
            act_bind (act_get wm_run_id) (\<lambda>run_id.
            act_bind (act_lift (new_external_cancel (rcx_seq attrs) we False
                (''Cancel requested by workflow with run id '' @ run_id @ '' with reason: '' @ rcx_reason attrs))) (\<lambda>(c, m).
            act_bind (add_cmd_to_wf_task env (c, CancelExternalMachine m) metadata
                (LangIssued (CID_CancelExternal (rcx_seq attrs)))) (\<lambda>_.
            act_return ()))))
    | WFC_SignalExternalWorkflow attrs \<Rightarrow>
        act_bind (act_get wm_worker_config) (\<lambda>cfg.
        act_bind (act_lift (new_external_signal attrs (wc_namespace cfg))) (\<lambda>(c, m).
        act_bind (add_cmd_to_wf_task env (c, SignalExternalMachine m) metadata
            (LangIssued (CID_SignalExternal (se_seq attrs)))) (\<lambda>_.
        act_return ())))
    | WFC_CancelSignalWorkflow seq \<Rightarrow> cancel_machine env (CID_SignalExternal seq) (\<lambda>mach. case mach of
          SignalExternalMachine m \<Rightarrow> Some (map_prod id SignalExternalMachine (signal_lang m ())) | _ \<Rightarrow> None)
    | WFC_QueryResponse _ \<Rightarrow>
        act_lift (Panic ''not implemented: Query responses should not make it down into the machines'')
    | WFC_ModifyWorkflowProperties attrs \<Rightarrow>
        act_bind (add_cmd_to_wf_task env (map_prod id ModifyWorkflowPropertiesMachine
            (modify_workflow_properties attrs)) metadata NeverResolves) (\<lambda>_.
        act_return ())
    | WFC_UpdateResponse ur \<Rightarrow>
        act_bind (get_machine_by_msg (ur_protocol_instance_id ur)) (\<lambda>m_key.
        act_bind (call_machine m_key (\<lambda>mach. case mach of
            UpdateMachine m \<Rightarrow> map_prod id UpdateMachine (handle_response (me_encode (env_machine env)) m ur)
          | _ \<Rightarrow> (Err (Nondeterminism
              ''Tried to handle an update response for update with instance id {} but it was not found!''), mach)))
          (process_machine_responses env m_key))
    | WFC_ScheduleNexusOperation attrs \<Rightarrow>
        act_bind (add_cmd_to_wf_task env (map_prod id NexusOperationMachine (nexus_new_scheduled attrs)) metadata
            (LangIssued (CID_NexusOperation (sn_seq attrs)))) (\<lambda>_.
        act_return ())
    | WFC_RequestCancelNexusOperation seq \<Rightarrow> cancel_machine env (CID_NexusOperation seq) (\<lambda>mach. case mach of
          NexusOperationMachine m \<Rightarrow> Some (map_prod id NexusOperationMachine (nexus_lang m ())) | _ \<Rightarrow> None)
    | WFC_NoCommandsFromLang \<Rightarrow> act_return ())"

definition handle_driven_results :: "WMEnv \<Rightarrow> WFCommand list \<Rightarrow> unit wm" where
  "handle_driven_results env results = act_for (handle_driven_result env) results"

text \<open>Commands cancelled since they were prepared are dropped first; the check panics on a missing machine.\<close>

fun retain_commands :: "CommandAndMachine list \<Rightarrow> CommandAndMachine list wm" where
  "retain_commands [] = act_return []"
| "retain_commands (c # cs) =
     act_bind (wm_machine (cam_machine c)) (\<lambda>m.
     act_bind (act_lift (machine_was_cancelled_before_sent_to_server m)) (\<lambda>cancelled.
     act_bind (retain_commands cs) (\<lambda>rest.
     act_return (if cancelled then rest else c # rest))))"

definition prepare_command :: "WMEnv \<Rightarrow> CommandAndMachine \<Rightarrow> unit wm" where
  "prepare_command env c =
     act_bind (wm_machine (cam_machine c)) (\<lambda>m.
     act_bind (act_lift (machine_was_cancelled_before_sent_to_server m)) (\<lambda>cancelled.
     if cancelled then act_return ()
     else act_then (case cam_command c of
         Real cmd \<Rightarrow> act_bind (call_machine (cam_machine c)
             (\<lambda>m. machine_handle_command (env_machine env) m (cmd_command_type cmd)))
             (process_machine_responses env (cam_machine c))
       | FakeLocalActivityMarker _ \<Rightarrow> act_return ())
     (act_modify (\<lambda>s. s\<lparr> wm_commands := wm_commands s @ [c] \<rparr>))))"

text \<open>
  The \<^verbatim>\<open>while let Some(c) = pop_front()\<close> loop, for at most \<open>n\<close> rounds.  Handling a command never issues
  another one (\<open>handle_command_silent\<close> of the theory \<open>RunOperations\<close>), so one round per queued command is enough.
\<close>

fun prepare_loop :: "nat \<Rightarrow> WMEnv \<Rightarrow> unit wm" where
  "prepare_loop 0 env = act_lift (Panic ''out of rounds'')"
| "prepare_loop (Suc n) env = (\<lambda>s. case wm_current_wf_task_commands s of
      [] \<Rightarrow> (Ok (), s)
    | c # rest \<Rightarrow> act_then (prepare_command env c) (prepare_loop n env) (s\<lparr> wm_current_wf_task_commands := rest \<rparr>))"

definition prepare_commands :: "WMEnv \<Rightarrow> unit wm" where
  "prepare_commands env =
     act_bind (act_get wm_commands) (\<lambda>cs.
     act_bind (retain_commands cs) (\<lambda>kept.
     act_then (act_modify (\<lambda>s. s\<lparr> wm_commands := kept \<rparr>))
     (act_bind (act_get (\<lambda>s. length (wm_current_wf_task_commands s))) (\<lambda>n.
     prepare_loop (Suc n) env))))"

definition iterate_machines :: "WMEnv \<Rightarrow> unit wm" where
  "iterate_machines env =
     act_bind (\<lambda>s. case fetch_workflow_iteration_output (wm_drive_me s) of
         (results, d) \<Rightarrow> (Ok results, s\<lparr> wm_drive_me := d \<rparr>)) (\<lambda>results.
     act_then (handle_driven_results env results) (prepare_commands env))"

section \<open>History events\<close>

definition skip_one_or_two_events :: "HistoryEvent option \<Rightarrow> EventHandlingOutcome" where
  "skip_one_or_two_events next_event = SkipEvent (case Option.bind next_event (\<lambda>ne. as_upserted (attributes ne)) of
      Some (Some indexed_fields) \<Rightarrow> map_of indexed_fields VERSION_SEARCH_ATTR_KEY \<noteq> None
    | _ \<Rightarrow> False)"

definition patch_marker_handling ::
  "MarkerCodec \<Rightarrow> HistoryEvent \<Rightarrow> Machines option \<Rightarrow> HistoryEvent option \<Rightarrow>
   (WFMachinesError, EventHandlingOutcome) outcome" where
  "patch_marker_handling cd event mach next_event =
     (let patch_machine = (case mach of Some (PatchMachine pm) \<Rightarrow> Some pm | _ \<Rightarrow> None)
      in case get_patch_marker_details cd event of
           Some (patch_name, deprecated) \<Rightarrow> (case patch_machine of
               Some pm \<Rightarrow> if \<not> matches_patch pm patch_name \<and> deprecated
                 then Ok (skip_one_or_two_events next_event) else Ok NormalOutcome
             | None \<Rightarrow> if deprecated then Ok (skip_one_or_two_events next_event)
                 else Err (Nondeterminism
                   ''Non-deprecated patch marker encountered for change {patch_name}, but there is no corresponding change command!''))
         | None \<Rightarrow> if patch_machine \<noteq> None then Ok SkipCommand else Ok NormalOutcome)"

text \<open>
  The loop of \<^verbatim>\<open>handle_command_event\<close>: \<open>cs\<close> is the queue of commands, from which every round takes the
  first.  It ends with the event skipped, or with the command whose machine took the event.
\<close>

fun consume_command ::
  "WMEnv \<Rightarrow> HistEventData \<Rightarrow> HistoryEvent option \<Rightarrow> CommandAndMachine list \<Rightarrow>
   (EventHandlingOutcome + CommandAndMachine) wm" where
  "consume_command env d next_event [] =
     act_bind (act_lift (patch_marker_handling (me_codec (env_machine env)) (hed_event d) None next_event)) (\<lambda>eho.
     case eho of
       SkipEvent b \<Rightarrow> act_return (Inl (SkipEvent b))
     | _ \<Rightarrow> act_lift (Err (Nondeterminism ''No command scheduled for event {event}'')))"
| "consume_command env d next_event (c # cs) =
     act_bind (wm_machine (cam_machine c)) (\<lambda>m.
     act_bind (act_lift (patch_marker_handling (me_codec (env_machine env)) (hed_event d) (Some m) next_event)) (\<lambda>eho.
     case eho of
       SkipEvent b \<Rightarrow> act_return (Inl (SkipEvent b))
     | SkipCommand \<Rightarrow>
         act_then (act_modify (\<lambda>s. s\<lparr> wm_commands := cs \<rparr>)) (consume_command env d next_event cs)
     | NormalOutcome \<Rightarrow>
         act_then (act_modify (\<lambda>s. s\<lparr> wm_commands := cs \<rparr>))
         (act_bind (act_lift (machine_was_cancelled_before_sent_to_server m)) (\<lambda>canceled_before_sent.
          if canceled_before_sent then consume_command env d next_event cs
          else act_then (submachine_handle_event env (cam_machine c) d) (act_return (Inr c))))))"

definition handle_command_event ::
  "WMEnv \<Rightarrow> HistEventData \<Rightarrow> HistoryEvent option \<Rightarrow> EventHandlingOutcome wm" where
  "handle_command_event env d next_event =
     (let event = hed_event d; cd = me_codec (env_machine env);
          from_queue =
            act_bind (act_get wm_commands) (\<lambda>cs.
            act_bind (consume_command env d next_event cs) (\<lambda>r. case r of
              Inl eho \<Rightarrow> act_return eho
            | Inr consumed_cmd \<Rightarrow>
                act_bind (wm_machine (cam_machine consumed_cmd)) (\<lambda>m.
                act_bind (act_lift (machine_is_final_state m)) (\<lambda>final.
                act_then (act_modify (\<lambda>s. if \<not> final then s\<lparr> wm_machines_by_event_id :=
                    AList.update (event_id event) (cam_machine consumed_cmd) (wm_machines_by_event_id s) \<rparr> else s))
                (act_return NormalOutcome)))))
      in if is_local_activity_marker event then
           (case event_extract_local_activity_marker_data cd event of
              None \<Rightarrow> act_lift (Err (Fatal ''Local activity marker was unparsable: {event:?}''))
            | Some deets \<Rightarrow>
                act_bind (get_machine_key (CID_LocalActivity (lmd_seq deets))) (\<lambda>mkey.
                act_bind (wm_machine mkey) (\<lambda>mach. case mach of
                  LocalActivityMachine lam \<Rightarrow>
                    act_bind (act_lift (marker_should_get_special_handling lam)) (\<lambda>special.
                    if special then
                      act_then (submachine_handle_event env mkey d) (act_return NormalOutcome)
                    else from_queue)
                | _ \<Rightarrow> act_lift (Err (Fatal
                    ''Encountered local activity marker but the associated machine was of the wrong type! {event:?}'')))))
         else from_queue)"

definition handle_non_stateful_event :: "WMEnv \<Rightarrow> HistEventData \<Rightarrow> unit wm" where
  "handle_non_stateful_event env d = (let event = hed_event d in case event_type event of
      ET_WorkflowExecutionStarted \<Rightarrow> (case as_started (attributes event) of
          Some attrs \<Rightarrow>
            act_then (case event_time event of
                Some st \<Rightarrow> (case me_time_of (env_machine env) st of
                    Some as_systime \<Rightarrow>
                      act_then (act_modify (\<lambda>s. s\<lparr> wm_workflow_start_time := Some as_systime \<rparr>))
                      (act_modify (set_current_time as_systime))
                  | None \<Rightarrow> act_lift (Err (Fatal ''Could not decode timestamp'')))
              | None \<Rightarrow> act_return ())
            (act_modify (\<lambda>s. s\<lparr> wm_drive_me := driven_start (env_dur_of env) (wm_workflow_id s)
                (env_seed_hash env (wes_original_execution_run_id attrs))
                (case event_time event of Some t \<Rightarrow> t | None \<Rightarrow> (0, 0)) attrs (wm_drive_me s) \<rparr>))
        | None \<Rightarrow> act_lift (Err (Fatal
            ''WorkflowExecutionStarted event did not have appropriate attributes: {event_dat}'')))
    | ET_WorkflowTaskScheduled \<Rightarrow>
        act_bind (act_get wm_next_started_event_id) (\<lambda>next_started.
        act_bind (insert_machine env (WorkflowTaskMachine (workflow_task_new next_started))) (\<lambda>key.
        act_then (submachine_handle_event env key d)
        (act_modify (\<lambda>s. s\<lparr> wm_machines_by_event_id :=
            AList.update (event_id event) key (wm_machines_by_event_id s) \<rparr>))))
    | ET_WorkflowExecutionSignaled \<Rightarrow> (case as_signaled (attributes event) of
          Some attrs \<Rightarrow> act_modify (send_job_wm (JobSignalWorkflow (signal_workflow_from attrs)))
        | None \<Rightarrow> act_return ())
    | ET_WorkflowExecutionCancelRequested \<Rightarrow> (case as_cancel_requested (attributes event) of
          Some reason \<Rightarrow> act_modify (send_job_wm (CancelWorkflow reason))
        | None \<Rightarrow> act_return ())
    | _ \<Rightarrow> act_lift (Err (Fatal
        ''The event is not a non-stateful event, but we tried to handle it as one: {event_dat}'')))"

definition wm_handle_event :: "WMEnv \<Rightarrow> HistEventData \<Rightarrow> HistoryEvent option \<Rightarrow> EventHandlingOutcome wm" where
  "wm_handle_event env d next_event = (let event = hed_event d in
     act_then (act_modify (\<lambda>s. if is_final_wf_execution_event event
         then s\<lparr> wm_have_seen_terminal_event := True \<rparr> else s))
     (if event_type event = ET_WorkflowExecutionTerminated \<or> event_type event = ET_WorkflowExecutionTimedOut then
        (if next_event \<noteq> None \<or> \<not> hed_current_task_is_last_in_history d
         then act_lift (Err (Fatal
           ''Machines were fed a history which has an event after workflow execution was terminated!''))
         else act_return NormalOutcome)
      else if event_type event = ET_Unspecified \<or> attributes event = None then
        (if \<not> worker_may_ignore event
         then act_lift (Err (Fatal
           ''Event type is unspecified! This history is invalid. Event detail: {event:?}''))
         else act_return (SkipEvent False))
      else if is_command_event event then handle_command_event env d next_event
      else
        act_then (act_modify (\<lambda>s. case as_task_started (attributes event) of
            Some attrs \<Rightarrow> s\<lparr> wm_history_size_bytes := max 0 (wts_history_size_bytes attrs),
              wm_continue_as_new_suggested := wts_suggest_continue_as_new attrs \<rparr>
          | None \<Rightarrow> s))
        (act_then (case get_initial_command_event_id event of
            Some initial_cmd_id \<Rightarrow>
              act_bind (act_get (\<lambda>s. map_of (wm_machines_by_event_id s) initial_cmd_id)) (\<lambda>found. case found of
                Some mkey \<Rightarrow> submachine_handle_event env mkey d
              | None \<Rightarrow> act_lift (Err (Nondeterminism
                  ''During event handling, this event had an initial command ID but we could not find a matching command for it: {event:?}'')))
          | None \<Rightarrow> handle_non_stateful_event env d)
        (act_return NormalOutcome))))"

section \<open>Applying a workflow task\<close>

definition apply_wft_complete_data :: "WorkflowTaskCompletedEventAttributes \<Rightarrow> WorkflowMachines \<Rightarrow> WorkflowMachines" where
  "apply_wft_complete_data wtc s =
     (let s1 = s\<lparr> wm_observed_internal_flags := add_from_complete (wm_observed_internal_flags s) wtc \<rparr>;
          v0 = \<lparr> wdv_deployment_name = '''', wdv_build_id = '''' \<rparr>;
          v1 = (case wtc_worker_version wtc of Some bid \<Rightarrow> v0\<lparr> wdv_build_id := bid \<rparr> | None \<Rightarrow> v0);
          v2 = (if wtc_worker_deployment_name wtc \<noteq> []
                then v1\<lparr> wdv_deployment_name := wtc_worker_deployment_name wtc \<rparr> else v1);
          v3 = (if wtc_worker_deployment_version wtc \<noteq> []
                then (case version_from_str (wtc_worker_deployment_version wtc) of Some ver \<Rightarrow> ver | None \<Rightarrow> v2)
                else v2);
          v4 = (case wtc_deployment_version wtc of Some dv \<Rightarrow> dv | None \<Rightarrow> v3)
      in if \<not> version_is_empty v4 then s1\<lparr> wm_current_wft_deployment_info := Some v4 \<rparr> else s1)"

text \<open>The data of every completed task of the sequence, and at its last event that of the next task.\<close>

fun apply_complete_data :: "HistoryEvent list \<Rightarrow> WorkflowMachines \<Rightarrow> WorkflowMachines" where
  "apply_complete_data [] s = s"
| "apply_complete_data (event # rest) s =
     (let s1 = (case as_task_completed (attributes event) of
            Some wtc \<Rightarrow> apply_wft_complete_data wtc s | None \<Rightarrow> s);
          s2 = (if rest = [] then
              (case peek_next_wft_completed (wm_last_history_from_server s1) (event_id event) of
                 Some wtc \<Rightarrow> apply_wft_complete_data wtc s1 | None \<Rightarrow> s1)
            else s1)
      in apply_complete_data rest s2)"

text \<open>Taking the messages to process before an event out of the pending ones, in order.\<close>

definition processable_before :: "int \<Rightarrow> IncomingProtocolMessage \<Rightarrow> bool" where
  "processable_before for_event_id x = (case processable_after_event_id x of
      Some eid \<Rightarrow> eid \<le> for_event_id | None \<Rightarrow> False)"

definition take_processable_msgs :: "int \<Rightarrow> IncomingProtocolMessage list wm" where
  "take_processable_msgs for_event_id s =
     (Ok (filter (processable_before for_event_id) (wm_protocol_msgs s)),
      s\<lparr> wm_protocol_msgs := filter (\<lambda>x. \<not> processable_before for_event_id x) (wm_protocol_msgs s) \<rparr>)"

type_synonym admitted_msgs = "(string \<times> IncomingProtocolMessage) list"

text \<open>One round of the loop over the events; the flag is \<^verbatim>\<open>do_handle_event\<close>.\<close>

definition apply_event ::
  "WMEnv \<Rightarrow> bool \<Rightarrow> HistoryEvent \<Rightarrow> HistoryEvent option \<Rightarrow> bool \<times> admitted_msgs \<Rightarrow> (bool \<times> admitted_msgs) wm" where
  "apply_event env has_final_event event next_event = (\<lambda>(do_handle_event, admitted).
     let eid = event_id event in
     act_bind (act_get wm_last_processed_event) (\<lambda>last_processed.
     if eid \<noteq> last_processed + 1 then
       act_lift (Err (Fatal ''History is out of order. Last processed event: {}, event id: {}''))
     else
       act_then (act_modify (\<lambda>s. if wm_replaying s \<and> has_final_event \<and>
           eid > hu_previous_wft_started_id (wm_last_history_from_server s) \<and>
           event_type event \<noteq> ET_WorkflowTaskCompleted \<and> \<not> is_command_event event
         then s\<lparr> wm_replaying := False \<rparr> else s))
       (act_bind (case as_update_admitted (attributes event) of
           Some _ \<Rightarrow>
             act_bind (act_lift (map_err (\<lambda>_. Fatal
                 ''Failed to create protocol message from WorkflowExecutionUpdateAdmittedEvent'')
               (protocol_message_from_event event))) (\<lambda>msg.
             act_bind (act_get wm_replaying) (\<lambda>replaying.
             if replaying then
               act_return (False, AList.update (ipm_protocol_instance_id msg) msg admitted)
             else
               act_then (act_modify (\<lambda>s. s\<lparr> wm_protocol_msgs := wm_protocol_msgs s @ [msg] \<rparr>))
               (act_return (False, admitted))))
         | None \<Rightarrow> act_return (do_handle_event, admitted)) (\<lambda>(do_handle, admitted').
       act_bind (take_processable_msgs (eid - 1)) (\<lambda>processable_msgs.
       act_then (act_for (handle_protocol_message env) processable_msgs)
       (act_bind (if do_handle then
           act_bind (act_get wm_replaying) (\<lambda>replaying.
           act_bind (wm_handle_event env \<lparr> hed_event = event, hed_replaying = replaying,
               hed_current_task_is_last_in_history = has_final_event \<rparr> next_event) (\<lambda>eho.
           act_return (eho \<noteq> SkipEvent True)))
         else act_return True) (\<lambda>do_handle_next.
       act_then (act_modify (\<lambda>s. s\<lparr> wm_last_processed_event := eid \<rparr>))
       (act_return (do_handle_next, admitted')))))))))"

fun apply_events ::
  "WMEnv \<Rightarrow> bool \<Rightarrow> HistoryEvent list \<Rightarrow> bool \<times> admitted_msgs \<Rightarrow> (bool \<times> admitted_msgs) wm" where
  "apply_events env has_final_event [] acc = act_return acc"
| "apply_events env has_final_event (event # rest) acc =
     act_bind (apply_event env has_final_event event (first_of rest) acc) (apply_events env has_final_event rest)"

datatype DelayedAction = WakeLa MachineKey CompleteLocalActivityData | DelayedProtocolMessage IncomingProtocolMessage

text \<open>One round of the look-ahead for patch markers, local activity markers and accepted updates.\<close>

definition peek_event ::
  "WMEnv \<Rightarrow> HistoryEvent \<Rightarrow> admitted_msgs \<times> DelayedAction list \<Rightarrow> (admitted_msgs \<times> DelayedAction list) wm" where
  "peek_event env e = (\<lambda>(admitted, delayed). let cd = me_codec (env_machine env) in
     case get_patch_marker_details cd e of
       Some (patch_id, _) \<Rightarrow>
         act_then (act_modify (\<lambda>s. s\<lparr> wm_encountered_patch_markers :=
             AList.update patch_id False (wm_encountered_patch_markers s) \<rparr>))
         (act_then (act_modify (send_job_wm (NotifyHasPatch patch_id)))
         (act_return (admitted, delayed)))
     | None \<Rightarrow>
         if is_local_activity_marker e then
           (case into_local_activity_marker_details cd e of
              Some la_dat \<Rightarrow>
                act_bind (act_get (\<lambda>s. map_of (wm_id_to_machine s)
                    (CID_LocalActivity (lmd_seq (cla_marker_dat la_dat))))) (\<lambda>found. case found of
                  Some mk \<Rightarrow> act_return (admitted, delayed @ [WakeLa mk la_dat])
                | None \<Rightarrow>
                    act_then (la_update (\<lambda>d. ((), insert_peeked_marker cd la_dat d)))
                    (act_return (admitted, delayed)))
            | None \<Rightarrow> act_lift (Err (Fatal ''Local activity marker was unparsable: {e:?}'')))
         else (case as_update_accepted (attributes e) of
             Some atts \<Rightarrow> (case map_of admitted (wua_protocol_instance_id atts) of
                 Some pm \<Rightarrow> act_return (AList.delete (wua_protocol_instance_id atts) admitted,
                     delayed @ [DelayedProtocolMessage pm])
               | None \<Rightarrow>
                   act_bind (act_lift (map_err (\<lambda>_. Fatal
                       ''Failed to create protocol message from WorkflowExecutionUpdateAcceptedEvent'')
                     (protocol_message_from_event e))) (\<lambda>pm.
                   act_return (admitted, delayed @ [DelayedProtocolMessage pm])))
           | None \<Rightarrow> act_return (admitted, delayed)))"

fun peek_events ::
  "WMEnv \<Rightarrow> HistoryEvent list \<Rightarrow> admitted_msgs \<times> DelayedAction list \<Rightarrow> (admitted_msgs \<times> DelayedAction list) wm" where
  "peek_events env [] acc = act_return acc"
| "peek_events env (e # rest) acc = act_bind (peek_event env e acc) (peek_events env rest)"

definition do_delayed_action :: "WMEnv \<Rightarrow> DelayedAction \<Rightarrow> unit wm" where
  "do_delayed_action env action = (let cd = me_codec (env_machine env) in case action of
      WakeLa mk la_dat \<Rightarrow>
        act_bind (wm_machine mk) (\<lambda>mach. case mach of
          LocalActivityMachine lam \<Rightarrow>
            act_bind (act_lift (will_accept_resolve_marker lam)) (\<lambda>accepts.
            if accepts then
              act_bind (call_machine mk (on_la (Ok []) (\<lambda>lam. try_resolve_with_dat cd lam (resolve_dat_from cd la_dat))))
                (process_machine_responses env mk)
            else la_update (\<lambda>d. ((), insert_peeked_marker cd la_dat d)))
        | _ \<Rightarrow> act_return ())
    | DelayedProtocolMessage pm \<Rightarrow> handle_protocol_message env pm)"

definition apply_next_wft_from_history :: "WMEnv \<Rightarrow> nat wm" where
  "apply_next_wft_from_history env =
     act_bind (act_get wm_have_seen_terminal_event) (\<lambda>terminal.
     if terminal then
       act_then (act_modify (\<lambda>s. s\<lparr> wm_replaying := False \<rparr>)) (act_return 0)
     else
       act_bind (act_get wm_current_started_event_id) (\<lambda>last_handled_wft_started_id.
       act_bind (\<lambda>s. case take_next_wft_sequence (wm_last_history_from_server s) last_handled_wft_started_id of
           Ok (next_wft, u) \<Rightarrow> (Ok next_wft, s\<lparr> wm_last_history_from_server := u \<rparr>)
         | Err e \<Rightarrow> (Err (Fatal e), s)
         | Panic p \<Rightarrow> (Panic p, s)) (\<lambda>next_wft.
       act_bind (\<lambda>s. case next_wft of
           ReplayOver \<Rightarrow> (Ok ([], True), s)
         | WFT evts has_final_event \<Rightarrow>
             (Ok (filter (\<lambda>e. event_id e > wm_last_processed_event s) evts, has_final_event), s)
         | NeedFetch \<Rightarrow> (Err (Fatal
             ''Need to fetch history events to continue applying workflow task, but this should be prevented ahead of time! This is a Core SDK bug.''), s))
         (\<lambda>(events, has_final_event).
       act_then (act_modify (apply_complete_data events))
       (act_then (act_modify (\<lambda>s. if events = [] then s\<lparr> wm_replaying := False \<rparr> else s))
       (act_then (act_modify (\<lambda>s. case first_of (rev events) of
           Some last_event \<Rightarrow> if event_type last_event = ET_WorkflowTaskStarted
             then s\<lparr> wm_next_started_event_id := event_id last_event \<rparr> else s
         | None \<Rightarrow> s))
       (act_bind (apply_events env has_final_event events (True, [])) (\<lambda>(_, admitted).
       act_bind (act_get (\<lambda>s. peek_next_wft_sequence (wm_last_history_from_server s) last_handled_wft_started_id)) (\<lambda>peeked.
       act_bind (peek_events env peeked (admitted, [])) (\<lambda>(_, delayed_actions).
       act_then (act_for (do_delayed_action env) delayed_actions)
       (act_return (length events))))))))))))"

section \<open>The interface of the run\<close>

definition new_history_from_server :: "WMEnv \<Rightarrow> HistoryUpdate \<Rightarrow> unit wm" where
  "new_history_from_server env update =
     act_then (act_modify (\<lambda>s. s\<lparr> wm_last_history_from_server := update \<rparr>))
     (act_then (act_modify (\<lambda>s. s\<lparr> wm_replaying :=
         hu_previous_wft_started_id (wm_last_history_from_server s) > 0 \<rparr>))
     (act_bind (apply_next_wft_from_history env) (\<lambda>_. act_return ())))"

text \<open>The debug assertion that no messages are left over is not part of a release build.\<close>

definition new_work_from_server :: "WMEnv \<Rightarrow> HistoryUpdate \<Rightarrow> IncomingProtocolMessage list \<Rightarrow> unit wm" where
  "new_work_from_server env update protocol_messages =
     act_then (act_modify (\<lambda>s. s\<lparr> wm_protocol_msgs := protocol_messages \<rparr>))
     (new_history_from_server env update)"

record LocalActivityResolution =
  lr_seq :: u32
  lr_result :: LocalActivityExecutionResult
  lr_runtime :: int
  lr_attempt :: u32
  lr_backoff :: "Duration option"
  lr_original_schedule_time :: "int option"

definition local_resolution :: "WMEnv \<Rightarrow> LocalActivityResolution \<Rightarrow> bool wm" where
  "local_resolution env r =
     act_bind (get_machine_key (CID_LocalActivity (lr_seq r))) (\<lambda>mk.
     act_bind (call_machine mk (on_la
         (Err (Nondeterminism ''Command matching activity with seq num {seq} existed but was not a local activity!''))
         (\<lambda>lam. try_resolve (me_codec (env_machine env)) lam (lr_result r) (lr_runtime r) (lr_attempt r)
            (lr_backoff r) (lr_original_schedule_time r)))) (\<lambda>resps.
     act_then (process_machine_responses env mk resps)
     (act_then (la_update (\<lambda>d. ((), la_done_executing (lr_seq r) d)))
     (act_return (resps \<noteq> [])))))"

definition drain_queued_local_activities :: "WMEnv \<Rightarrow> LocalActRequest list wm" where
  "drain_queued_local_activities env s =
     (case take_all_reqs (\<lambda>i. env_clock env (wm_clock_reads s + i)) (wm_workflow_type s) (wm_workflow_id s)
         (wm_run_id s) (wm_local_activity_data s) of
        (reqs, d) \<Rightarrow> (Ok reqs, s\<lparr> wm_local_activity_data := d,
          wm_clock_reads := wm_clock_reads s + length (lad_new_requests (wm_local_activity_data s)) \<rparr>))"

definition outstanding_local_activity_count :: "WorkflowMachines \<Rightarrow> nat" where
  "outstanding_local_activity_count s = outstanding_la_count (wm_local_activity_data s)"

text \<open>The commands that are ready to be sent; reading them records the known flags.\<close>

fun sendable_commands :: "CommandAndMachine list \<Rightarrow> Command list wm" where
  "sendable_commands [] = act_return []"
| "sendable_commands (c # cs) =
     act_bind (wm_machine (cam_machine c)) (\<lambda>m.
     act_bind (act_lift (machine_is_final_state m)) (\<lambda>final.
     act_bind (sendable_commands cs) (\<lambda>rest.
     act_return (case cam_command c of
         Real cmd \<Rightarrow> if \<not> final then cmd # rest else rest
       | FakeLocalActivityMarker _ \<Rightarrow> rest))))"

definition get_commands :: "Command list wm" where
  "get_commands =
     act_then (act_modify (\<lambda>s. s\<lparr> wm_observed_internal_flags := write_all_known (wm_observed_internal_flags s) \<rparr>))
     (act_bind (act_get wm_commands) sendable_commands)"

record WorkflowActivation =
  wa_timestamp :: "int option"
  wa_is_replaying :: bool
  wa_run_id :: string
  wa_history_length :: u32
  wa_jobs :: "JobVariant list"
  wa_available_internal_flags :: "u32 list"
  wa_history_size_bytes :: int
  wa_continue_as_new_suggested :: bool
  wa_deployment_version_for_current_task :: "WorkerDeploymentVersion option"

definition is_query_job :: "JobVariant \<Rightarrow> bool" where
  "is_query_job j = (case j of QueryWorkflow _ \<Rightarrow> True | _ \<Rightarrow> False)"

definition get_wf_activation :: "WorkflowMachines \<Rightarrow> WorkflowActivation \<times> WorkflowMachines" where
  "get_wf_activation s =
     (let (jobs, d) = drain_jobs (wm_drive_me s);
          is_replaying = (wm_replaying s \<or> list_all is_query_job jobs);
          s' = (if is_replaying then s\<lparr> wm_drive_me := d \<rparr>
                else s\<lparr> wm_drive_me := d,
                        wm_current_wft_deployment_info := computed_deployment_version (wm_worker_config s) \<rparr>)
      in (\<lparr> wa_timestamp = wm_current_wf_time s', wa_is_replaying = is_replaying, wa_run_id = wm_run_id s',
            wa_history_length = word_of_int (wm_last_processed_event s'), wa_jobs = jobs,
            wa_available_internal_flags = all_lang (wm_observed_internal_flags s'),
            wa_history_size_bytes = wm_history_size_bytes s',
            wa_continue_as_new_suggested = wm_continue_as_new_suggested s',
            wa_deployment_version_for_current_task = wm_current_wft_deployment_info s' \<rparr>, s'))"

definition has_pending_jobs :: "WorkflowMachines \<Rightarrow> bool" where
  "has_pending_jobs s = (dw_outgoing_wf_activation_jobs (wm_drive_me s) \<noteq> [])"

definition is_local_activity_resolution :: "JobVariant \<Rightarrow> bool" where
  "is_local_activity_resolution j = (case j of JobResolveActivity ra \<Rightarrow> ra_is_local ra | _ \<Rightarrow> False)"

definition has_pending_la_resolutions :: "WorkflowMachines \<Rightarrow> bool" where
  "has_pending_la_resolutions s =
     list_ex is_local_activity_resolution (dw_outgoing_wf_activation_jobs (wm_drive_me s))"

definition get_metadata_for_wft_complete :: "WorkflowTaskCompletedMetadata wm" where
  "get_metadata_for_wft_complete s =
     (case gather_for_wft_complete (wm_observed_internal_flags s) of
        (md, fl) \<Rightarrow> (Ok md, s\<lparr> wm_current_wft_deployment_info := computed_deployment_version (wm_worker_config s),
          wm_observed_internal_flags := fl \<rparr>))"

definition add_lang_used_flags :: "u32 list \<Rightarrow> WorkflowMachines \<Rightarrow> WorkflowMachines" where
  "add_lang_used_flags flags s = s\<lparr> wm_observed_internal_flags := add_lang_used (wm_observed_internal_flags s) flags \<rparr>"

definition try_use_flag :: "CoreInternalFlags \<Rightarrow> bool \<Rightarrow> bool wm" where
  "try_use_flag flag should_record s = (case try_use (wm_observed_internal_flags s) flag should_record of
     (b, fl) \<Rightarrow> (Ok b, s\<lparr> wm_observed_internal_flags := fl \<rparr>))"

definition reset_last_started_id :: "int \<Rightarrow> WorkflowMachines \<Rightarrow> WorkflowMachines" where
  "reset_last_started_id i s =
     (let last_processed = wm_last_processed_event s - 2;
          removed = filter (\<lambda>(mid, _). mid > last_processed) (wm_machines_by_event_id s)
      in s\<lparr> wm_current_started_event_id := i, wm_last_processed_event := last_processed,
            wm_machines_by_event_id := filter (\<lambda>(mid, _). \<not> mid > last_processed) (wm_machines_by_event_id s),
            wm_all_machines := filter (\<lambda>(k, _). k \<notin> set (map snd removed)) (wm_all_machines s) \<rparr>)"

definition ready_to_apply_next_wft :: "WorkflowMachines \<Rightarrow> bool" where
  "ready_to_apply_next_wft s =
     can_take_next_wft_sequence (wm_last_history_from_server s) (wm_current_started_event_id s)"

text \<open>\<^verbatim>\<open>MachinesWFTResponseContent\<close>: what a completion of the workflow task takes out of the run.\<close>

definition take_messages :: "ProtocolMessage list wm" where
  "take_messages s = (Ok (wm_message_outbox s), s\<lparr> wm_message_outbox := [] \<rparr>)"

end
