(* ===== verification/WorkflowManager.thy ===== *)
theory WorkflowManager
  imports WorkflowMachines
begin

text \<open>
  \<^verbatim>\<open>WorkflowManager\<close> of \<^verbatim>\<open>core/src/worker/workflow/managed_run.rs\<close>, through which the run of a workflow
  drives its machines, and the reordering of the commands of lang before they reach the machines.  The
  manager's state is that of the machines: its other field is the sending half of the channel whose
  receiving half the driven workflow holds.
\<close>

section \<open>Commands of a completion\<close>

definition query_response :: "WFCommand \<Rightarrow> string option" where
  "query_response c = (case wfc_variant c of WFC_QueryResponse qr \<Rightarrow> Some qr | _ \<Rightarrow> None)"

fun preprocess_split :: "WFCommand list \<Rightarrow> WFCommand list \<times> WFCommand list \<times> string list" where
  "preprocess_split [] = ([], [], [])"
| "preprocess_split (c # cs) = (case preprocess_split cs of (commands, terminals, query_results) \<Rightarrow>
     (case query_response c of
        Some qr \<Rightarrow> (commands, terminals, qr # query_results)
      | None \<Rightarrow> if is_terminal (wfc_variant c) then (commands, c # terminals, query_results)
                else (c # commands, terminals, query_results)))"

definition preprocess_command_sequence :: "WFCommand list \<Rightarrow> WFCommand list \<times> string list" where
  "preprocess_command_sequence cs = (case preprocess_split cs of (commands, terminals, query_results) \<Rightarrow>
     (case first_of terminals of
        Some first_terminal \<Rightarrow> (commands @ [first_terminal], query_results)
      | None \<Rightarrow> (commands, query_results)))"

fun preprocess_old :: "bool \<Rightarrow> WFCommand list \<Rightarrow> WFCommand list \<times> string list" where
  "preprocess_old seen_terminal [] = ([], [])"
| "preprocess_old seen_terminal (c # cs) = (case query_response c of
      Some qr \<Rightarrow> (case preprocess_old seen_terminal cs of (commands, qrs) \<Rightarrow> (commands, qr # qrs))
    | None \<Rightarrow>
        if seen_terminal then preprocess_old seen_terminal cs
        else (case preprocess_old (is_terminal (wfc_variant c)) cs of (commands, qrs) \<Rightarrow> (c # commands, qrs)))"

definition preprocess_command_sequence_old_behavior :: "WFCommand list \<Rightarrow> WFCommand list \<times> string list" where
  "preprocess_command_sequence_old_behavior cs = preprocess_old False cs"

definition run_preprocess_command_sequence :: "WFCommand list \<Rightarrow> (WFCommand list \<times> string list) wm" where
  "run_preprocess_command_sequence commands =
     act_bind (act_get wm_replaying) (\<lambda>replaying.
     if replaying then
       act_bind (try_use_flag MoveTerminalCommands False) (\<lambda>allowed.
       act_return (if \<not> allowed then preprocess_command_sequence_old_behavior commands
                   else preprocess_command_sequence commands))
     else act_return (preprocess_command_sequence commands))"

section \<open>The manager\<close>

definition wf_activation :: "WorkflowActivation wm" where
  "wf_activation s = (case get_wf_activation s of (a, s') \<Rightarrow> (Ok a, s'))"

definition get_next_activation :: "WMEnv \<Rightarrow> WorkflowActivation wm" where
  "get_next_activation env =
     act_bind wf_activation (\<lambda>activation.
     if wa_jobs activation \<noteq> [] then act_return activation
     else act_bind (apply_next_wft_from_history env) (\<lambda>_. wf_activation))"

definition manager_new_work_from_server ::
  "WMEnv \<Rightarrow> HistoryUpdate \<Rightarrow> IncomingProtocolMessage list \<Rightarrow> WorkflowActivation wm" where
  "manager_new_work_from_server env update messages =
     act_then (new_work_from_server env update messages) (get_next_activation env)"

text \<open>
  The loop of \<^verbatim>\<open>apply_next_task_if_ready\<close>, for at most \<open>n\<close> rounds: a round that goes on has taken at
  least one event out of the history, so one round per event and one more are enough.
\<close>

fun apply_tasks :: "nat \<Rightarrow> WMEnv \<Rightarrow> unit wm" where
  "apply_tasks 0 env = act_lift (Panic ''out of rounds'')"
| "apply_tasks (Suc n) env =
     act_bind (apply_next_wft_from_history env) (\<lambda>consumed_events.
     act_bind (act_get (\<lambda>s. consumed_events = 0 \<or> \<not> wm_replaying s \<or> has_pending_jobs s)) (\<lambda>stop.
     if stop then act_return () else apply_tasks n env))"

definition apply_next_task_if_ready :: "WMEnv \<Rightarrow> unit wm" where
  "apply_next_task_if_ready env =
     act_bind (act_get has_pending_jobs) (\<lambda>pending.
     if pending then act_return ()
     else act_bind (act_get (\<lambda>s. length (hu_events (wm_last_history_from_server s)))) (\<lambda>n.
       apply_tasks (Suc n) env))"

definition push_commands_and_iterate :: "WMEnv \<Rightarrow> WFCommand list \<Rightarrow> unit wm" where
  "push_commands_and_iterate env cmds =
     act_then (act_modify (\<lambda>s. s\<lparr> wm_drive_me := (wm_drive_me s)\<lparr> dw_incoming_commands :=
         dw_incoming_commands (wm_drive_me s) @ [cmds] \<rparr> \<rparr>))
     (iterate_machines env)"

section \<open>What reordering does\<close>

lemma map_filter_simps':
  "List.map_filter f [] = []"
  "List.map_filter f (x # xs) = (case f x of None \<Rightarrow> List.map_filter f xs | Some y \<Rightarrow> y # List.map_filter f xs)"
  by (simp_all add: List.map_filter_def split: option.split)

lemma preprocess_split_eq:
  "preprocess_split cs =
     (filter (\<lambda>c. query_response c = None \<and> \<not> is_terminal (wfc_variant c)) cs,
      filter (\<lambda>c. query_response c = None \<and> is_terminal (wfc_variant c)) cs,
      List.map_filter query_response cs)"
  by (induction cs) (auto simp: map_filter_simps' split: option.split)

lemma preprocess_old_eq:
  "preprocess_old seen cs =
     (if seen then [] else
        (let live = filter (\<lambda>c. query_response c = None) cs
         in takeWhile (\<lambda>c. \<not> is_terminal (wfc_variant c)) live @
            take 1 (dropWhile (\<lambda>c. \<not> is_terminal (wfc_variant c)) live)),
      List.map_filter query_response cs)"
  by (induction cs arbitrary: seen) (auto simp: map_filter_simps' Let_def split: option.split)

text \<open>
  C14: Lang's commands reach the machines in order, with at most one terminal command.  Reordering keeps
  the commands that neither end the workflow nor answer a query, in their order, followed by the first
  command that ends the workflow, if there is one; the answers to queries are returned in order.  The
  old behaviour, used to replay histories written with it, instead drops what follows the first
  terminal command.
\<close>

theorem preprocess_keeps_commands:
  "preprocess_command_sequence cs =
     (filter (\<lambda>c. query_response c = None \<and> \<not> is_terminal (wfc_variant c)) cs @
      take 1 (filter (\<lambda>c. query_response c = None \<and> is_terminal (wfc_variant c)) cs),
      List.map_filter query_response cs) \<and>
   preprocess_command_sequence_old_behavior cs =
     (let live = filter (\<lambda>c. query_response c = None) cs
      in takeWhile (\<lambda>c. \<not> is_terminal (wfc_variant c)) live @
         take 1 (dropWhile (\<lambda>c. \<not> is_terminal (wfc_variant c)) live),
      List.map_filter query_response cs)"
  by (cases "filter (\<lambda>c. query_response c = None \<and> is_terminal (wfc_variant c)) cs")
    (simp_all add: preprocess_command_sequence_def preprocess_command_sequence_old_behavior_def
      preprocess_split_eq preprocess_old_eq)

end
