(* ===== verification/MachineContracts.thy ===== *)
theory MachineContracts
  imports Machines
begin

text \<open>
  What a workflow run relies on of each of its state machines, as one interface, and that every
  machine provides it: in a healthy state no call panics, a successful call leaves the machine
  healthy, only local activity machines ask for the cancellation of a local activity, taking over a
  command has no response, and no transition leaves a final state.
\<close>

section \<open>The interface\<close>

definition requests_la_cancel :: "MachineResponse \<Rightarrow> bool" where
  "requests_la_cancel r = (case r of RequestCancelLocalActivity _ \<Rightarrow> True | _ \<Rightarrow> False)"

definition quiet :: "MachineResponse list \<Rightarrow> bool" where
  "quiet rs = list_all (\<lambda>r. \<not> requests_la_cancel r) rs"

lemma quiet_simps [simp]:
  "quiet []" "quiet (r # rs) \<longleftrightarrow> \<not> requests_la_cancel r \<and> quiet rs" "quiet (rs @ rs') \<longleftrightarrow> quiet rs \<and> quiet rs'"
  by (auto simp: quiet_def)

text \<open>A call keeps the contract: no panic, and on success a good machine and admissible responses.\<close>

definition contract ::
  "('m \<Rightarrow> bool) \<Rightarrow> (MachineResponse list \<Rightarrow> bool) \<Rightarrow> responses \<times> 'm \<Rightarrow> bool" where
  "contract good admits r = (case r of
      (Ok rs, m') \<Rightarrow> good m' \<and> admits rs
    | (Err _, _) \<Rightarrow> True
    | (Panic _, _) \<Rightarrow> False)"

lemma contractI:
  assumes "\<not> is_panic (fst r)" and "\<And>rs m'. r = (Ok rs, m') \<Longrightarrow> good m' \<and> admits rs"
  shows "contract good admits r"
  using assms by (cases r; cases "fst r") (auto simp: contract_def)

lemma process_machine_commands_admits:
  assumes "process_machine_commands adapt m cs info = Ok rs"
    and "\<And>c rs. adapt m c info = Ok rs \<Longrightarrow> list_all P rs"
  shows "list_all P rs"
  using assms by (induction cs arbitrary: rs) (auto simp: outcome_simps)

locale core_machine = temporal_machine tf ok_state ok_event try_event try_cmd adapt
  for tf :: "('st, 'sh, 'ev, 'c, WFMachinesError) transitions"
    and ok_state ok_event try_event try_cmd adapt +
  fixes admits :: "MachineResponse \<Rightarrow> bool"
    and final :: "'st \<Rightarrow> bool"
  assumes adapt_admits: "adapt m c info = Ok rs \<Longrightarrow> list_all admits rs"
    and command_silent: "\<lbrakk> try_cmd ct = Some ev; tf st sh ev = Arm sh' (TR_Ok cmds st') \<rbrakk> \<Longrightarrow> cmds = []"
    and final_stuck: "final st \<Longrightarrow> tf st sh ev = Unmatched"
begin

lemma event_contract:
  "machine_inv ok_state m \<Longrightarrow>
   contract (machine_inv ok_state) (list_all admits) (handle_event tf try_event adapt m d)"
  by (rule contractI, simp add: handle_event_no_panic)
    (auto dest: handle_event_keeps elim!: handle_event_OkE
      intro: on_event_keeps process_machine_commands_admits adapt_admits)

lemma command_contract:
  assumes "machine_inv ok_state m"
  shows "contract (machine_inv ok_state) (\<lambda>rs. rs = []) (handle_command tf try_cmd adapt m ct)"
proof (rule contractI)
  show "\<not> is_panic (fst (handle_command tf try_cmd adapt m ct))"
    using assms by (rule handle_command_no_panic)
next
  fix rs m' assume ok: "handle_command tf try_cmd adapt m ct = (Ok rs, m')"
  then obtain ev cmds where ev: "try_cmd ct = Some ev" "on_event tf m ev = (Ok cmds, m')"
    "process_machine_commands adapt m' cmds None = Ok rs"
    by (auto simp: handle_command_def outcome_simps
        split: outcome.splits prod.splits MachineError.splits option.splits)
  then have "cmds = []" by (auto elim!: on_event_OkE dest: command_silent)
  with ev ok assms show "machine_inv ok_state m' \<and> rs = []" by (auto dest: handle_command_keeps)
qed

lemma process_admits: "process_machine_commands adapt m cmds info = Ok rs \<Longrightarrow> list_all admits rs"
  by (rule process_machine_commands_admits) (auto intro: adapt_admits)

text \<open>A final state rejects everything and stays as it is.\<close>

lemma final_rejects:
  assumes "has_reached_final_state final m = Ok True"
  shows "\<exists>e. handle_event tf try_event adapt m d = (Err e, m)"
    and "\<exists>e. handle_command tf try_cmd adapt m ct = (Err e, m)"
proof -
  obtain st where st: "mstate m = Some st" "final st"
    using assms by (cases "mstate m") (auto simp: has_reached_final_state_def get_state_def)
  then have stuck: "on_event tf m ev = (Err InvalidTransition, m)" for ev
    by (simp add: on_event_def final_stuck)
  show "\<exists>e. handle_event tf try_event adapt m d = (Err e, m)"
    using st stuck try_event_no_panic[of d]
    by (cases "try_event d") (auto simp: handle_event_def get_state_def)
  show "\<exists>e. handle_command tf try_cmd adapt m ct = (Err e, m)"
    using st stuck by (cases "try_cmd ct") (auto simp: handle_command_def get_state_def)
qed

end


section \<open>Every machine provides it\<close>

abbreviation not_la_cancel :: "MachineResponse \<Rightarrow> bool" where
  "not_la_cancel r \<equiv> \<not> requests_la_cancel r"

lemmas admit_simps = requests_la_cancel_def outcome_simps

interpretation timer_core: core_machine timer_transitions "timer_ok attribs" "\<lambda>_ _. True" timer_try_from_event
  timer_try_from_command timer_adapt_response not_la_cancel "\<lambda>_. False" for attribs
  by standard (auto simp: timer_adapt_response_def timer_try_from_command_def timer_transitions_def admit_simps
    split: TimerMachineCommand.splits CommandType.splits TimerMachineState.splits)

interpretation activity_core: core_machine activity_transitions "activity_ok attrs" activity_ok_event
  activity_try_from_event activity_try_from_command activity_adapt_response not_la_cancel
  "\<lambda>st. case st of ActivityMachineState.Completed \<Rightarrow> True | ActivityMachineState.Failed \<Rightarrow> True
    | ActivityMachineState.TimedOut \<Rightarrow> True | _ \<Rightarrow> False" for attrs
  by standard (auto simp: activity_adapt_response_def activity_try_from_command_def activity_transitions_def
    activity_resolution_def machine_responses_from_cancel_request_def activity_handler_defs admit_simps
    split: ActivityMachineCommand.splits CommandType.splits ActivityMachineState.splits if_splits)

interpretation child_core: core_machine child_transitions "child_ok seq" "\<lambda>_ _. True"
  child_try_from_event child_try_from_command child_adapt_response not_la_cancel
  "\<lambda>st. st = ChildWorkflowMachineState.Terminated" for seq
  by standard (auto simp: child_adapt_response_def child_try_from_command_def child_transitions_def
    child_handler_defs admit_simps
    split: ChildWorkflowCommand.splits CommandType.splits ChildWorkflowMachineState.splits if_splits)

interpretation nexus_core: core_machine nexus_transitions "nexus_ok imm" "\<lambda>_ _. True"
  nexus_try_from_event nexus_try_from_command nexus_adapt_response not_la_cancel "\<lambda>_. False" for imm
  by standard (auto simp: nexus_adapt_response_def nexus_try_from_command_def nexus_transitions_def
    nexus_handler_defs admit_simps
    split: NexusOperationCommand.splits CommandType.splits NexusOperationMachineState.splits if_splits)

interpretation complete_core: core_machine complete_transitions "\<lambda>_ _. True" "\<lambda>_ _. True"
  complete_try_from_event complete_try_from_command complete_adapt_response not_la_cancel "\<lambda>st. st = CompleteWorkflowCommandRecorded"
  by standard (auto simp: complete_adapt_response_def complete_try_from_event_def complete_try_from_command_def complete_transitions_def admit_simps
    split: CompleteWorkflowMachineEvents.splits CompleteWorkflowMachineState.splits if_splits option.splits)

interpretation fail_core: core_machine fail_transitions "\<lambda>_ _. True" "\<lambda>_ _. True"
  fail_try_from_event fail_try_from_command fail_adapt_response not_la_cancel "\<lambda>st. st = FailWorkflowCommandRecorded"
  by standard (auto simp: fail_adapt_response_def fail_try_from_event_def fail_try_from_command_def fail_transitions_def admit_simps
    split: FailWorkflowMachineEvents.splits FailWorkflowMachineState.splits if_splits option.splits)

interpretation cancel_wf_core: core_machine cancel_wf_transitions "\<lambda>_ _. True" "\<lambda>_ _. True"
  cancel_wf_try_from_event cancel_wf_try_from_command cancel_wf_adapt_response not_la_cancel "\<lambda>st. st = CancelWorkflowCommandRecorded"
  by standard (auto simp: cancel_wf_adapt_response_def cancel_wf_try_from_event_def cancel_wf_try_from_command_def cancel_wf_transitions_def admit_simps
    split: CancelWorkflowMachineEvents.splits CancelWorkflowMachineState.splits if_splits option.splits)

interpretation can_core: core_machine can_transitions "\<lambda>_ _. True" "\<lambda>_ _. True"
  can_try_from_event can_try_from_command can_adapt_response not_la_cancel "\<lambda>st. st = ContinueAsNewWorkflowCommandRecorded"
  by standard (auto simp: can_adapt_response_def can_try_from_event_def can_try_from_command_def can_transitions_def admit_simps
    split: ContinueAsNewWorkflowMachineEvents.splits ContinueAsNewWorkflowMachineState.splits if_splits option.splits)

interpretation upsert_core: core_machine upsert_transitions "\<lambda>_ _. True" "\<lambda>_ _. True"
  upsert_try_from_event upsert_try_from_command upsert_adapt_response not_la_cancel "\<lambda>st. st = UpsertDone"
  by standard (auto simp: upsert_adapt_response_def upsert_try_from_event_def upsert_try_from_command_def upsert_transitions_def admit_simps
    split: UpsertSearchAttributesMachineEvents.splits UpsertSearchAttributesMachineState.splits if_splits option.splits)

interpretation modify_core: core_machine modify_transitions "\<lambda>_ _. True" "\<lambda>_ _. True"
  modify_try_from_event modify_try_from_command modify_adapt_response not_la_cancel "\<lambda>st. st = ModifyDone"
  by standard (auto simp: modify_adapt_response_def modify_try_from_event_def modify_try_from_command_def modify_transitions_def admit_simps
    split: ModifyWorkflowPropertiesMachineEvents.splits ModifyWorkflowPropertiesMachineState.splits if_splits option.splits)

interpretation patch_core: core_machine patch_transitions "\<lambda>_ _. True" "\<lambda>_ _. True"
  "patch_try_from_event cd" patch_try_from_command patch_adapt_response not_la_cancel "\<lambda>st. st = PatchMachineState.MarkerCommandRecorded" for cd
  by standard (auto simp: patch_adapt_response_def patch_try_from_event_def patch_try_from_command_def patch_transitions_def
    patch_on_marker_recorded_def admit_simps
    split: PatchMachineEvents.splits PatchMachineState.splits if_splits option.splits)

interpretation signal_core: core_machine signal_transitions "\<lambda>_ _. True" signal_ok_event
  signal_try_from_event signal_try_from_command "signal_adapt_response show_cause" not_la_cancel
  "\<lambda>st. st = SignalExternalMachineState.Failed" for show_cause
  by standard (auto simp: signal_adapt_response_def signal_try_from_command_def signal_transitions_def admit_simps
    split: SignalExternalCommand.splits CommandType.splits SignalExternalMachineState.splits if_splits)

interpretation cancel_external_core: core_machine cancel_external_transitions "\<lambda>_ _. True" "\<lambda>_ _. True"
  cancel_external_try_from_event cancel_external_try_from_command "cancel_external_adapt_response show_cause"
  not_la_cancel "\<lambda>st. case st of CancelExternalMachineState.CancelRequested \<Rightarrow> True
    | CancelExternalMachineState.RequestCancelFailed \<Rightarrow> True | _ \<Rightarrow> False" for show_cause
  by standard (auto simp: cancel_external_adapt_response_def cancel_external_try_from_command_def
    cancel_external_transitions_def admit_simps
    split: CancelExternalCommand.splits CommandType.splits CancelExternalMachineState.splits if_splits)

interpretation workflow_task_core: core_machine workflow_task_transitions "\<lambda>_ _. True" "\<lambda>_ _. True"
  "workflow_task_try_from_event time_of" workflow_task_try_from_command workflow_task_adapt_response
  not_la_cancel "\<lambda>st. case st of WT_Completed \<Rightarrow> True | WT_Failed \<Rightarrow> True | WT_TimedOut \<Rightarrow> True | _ \<Rightarrow> False" for time_of
  by standard (auto simp: workflow_task_adapt_response_def workflow_task_try_from_command_def
    workflow_task_transitions_def admit_simps
    split: WFTaskMachineCommand.splits WorkflowTaskMachineState.splits option.splits if_splits)

interpretation update_core: core_machine update_transitions "\<lambda>_ _. True" "\<lambda>_ _. True" update_try_from_event
  update_try_from_command "update_adapt_response encode" not_la_cancel
  "\<lambda>st. case st of UpdateMachineState.Rejected \<Rightarrow> True | UpdateMachineState.CompletedCommandRecorded \<Rightarrow> True
    | _ \<Rightarrow> False" for encode
  by standard (auto simp: update_adapt_response_def update_try_from_command_def update_transitions_def
    build_command_msg_def build_msg_def admit_simps Let_def
    split: UpdateMachineCommand.splits UpdateMachineState.splits option.splits if_splits)

interpretation la_core: core_machine "local_activity_transitions cd" "\<lambda>_ _. True" "\<lambda>_ _. True"
  "local_activity_try_from_event cd" local_activity_try_from_command "local_activity_adapt_response cd"
  "\<lambda>_. True" "\<lambda>_. False" for cd
  by standard (auto simp: local_activity_try_from_command_def local_activity_transitions_def list_all_iff
    split: LocalActivityMachineState.splits if_splits)

section \<open>Healthy machines\<close>

definition healthy :: "Machines \<Rightarrow> bool" where
  "healthy mach = (case mach of
      ActivityMachine m \<Rightarrow> machine_inv (activity_ok (act_attrs (shared_state m))) m
    | CancelExternalMachine m \<Rightarrow> machine_inv (\<lambda>_ _. True) m
    | CancelWorkflowMachine m \<Rightarrow> machine_inv (\<lambda>_ _. True) m
    | ChildWorkflowMachine m \<Rightarrow> machine_inv (child_ok (cw_lang_sequence_number (shared_state m))) m
    | CompleteWorkflowMachine m \<Rightarrow> machine_inv (\<lambda>_ _. True) m
    | ContinueAsNewWorkflowMachine m \<Rightarrow> machine_inv (\<lambda>_ _. True) m
    | FailWorkflowMachine m \<Rightarrow> machine_inv (\<lambda>_ _. True) m
    | LocalActivityMachine m \<Rightarrow> machine_inv (\<lambda>_ _. True) m
    | PatchMachine m \<Rightarrow> machine_inv (\<lambda>_ _. True) m
    | SignalExternalMachine m \<Rightarrow> machine_inv (\<lambda>_ _. True) m
    | TimerMachine m \<Rightarrow> machine_inv (timer_ok (tm_attrs (shared_state m))) m
    | WorkflowTaskMachine m \<Rightarrow> machine_inv (\<lambda>_ _. True) m
    | UpsertSearchAttributesMachine m \<Rightarrow> machine_inv (\<lambda>_ _. True) m
    | ModifyWorkflowPropertiesMachine m \<Rightarrow> machine_inv (\<lambda>_ _. True) m
    | UpdateMachine m \<Rightarrow> machine_inv (\<lambda>_ _. True) m
    | NexusOperationMachine m \<Rightarrow> machine_inv (nexus_ok (immediate (shared_state m))) m)"

definition is_la :: "Machines \<Rightarrow> bool" where
  "is_la mach = (case mach of LocalActivityMachine _ \<Rightarrow> True | _ \<Rightarrow> False)"

text \<open>What a call on a machine of the run promises: local activity machines stay such machines.\<close>

definition machine_contract :: "(MachineResponse list \<Rightarrow> bool) \<Rightarrow> Machines \<Rightarrow> responses \<times> Machines \<Rightarrow> bool" where
  "machine_contract admits mach = contract (\<lambda>m'. healthy m' \<and> is_la m' = is_la mach) admits"

lemma healthy_any:
  "machine_inv (activity_ok attrs) m \<Longrightarrow> healthy (ActivityMachine m)"
  "machine_inv (child_ok seq) m2 \<Longrightarrow> healthy (ChildWorkflowMachine m2)"
  "machine_inv (timer_ok attribs) m3 \<Longrightarrow> healthy (TimerMachine m3)"
  "machine_inv (nexus_ok imm) m4 \<Longrightarrow> healthy (NexusOperationMachine m4)"
  by (auto simp: healthy_def machine_inv_def activity_ok_def child_ok_def timer_ok_def nexus_ok_def
      split: option.splits)

lemma dispatch_contract:
  assumes "contract (machine_inv ok) admits r"
    and "\<And>m. machine_inv ok m \<Longrightarrow> healthy (wrap m)" and "\<And>m. is_la (wrap m) = is_la mach"
    and "\<And>rs. admits rs \<Longrightarrow> admits' rs"
  shows "machine_contract admits' mach (map_prod id wrap r)"
  using assms by (cases r; cases "fst r") (auto simp: contract_def machine_contract_def)

lemmas event_contracts = activity_core.event_contract cancel_external_core.event_contract
  cancel_wf_core.event_contract child_core.event_contract complete_core.event_contract
  can_core.event_contract fail_core.event_contract la_core.event_contract patch_core.event_contract
  signal_core.event_contract timer_core.event_contract workflow_task_core.event_contract
  upsert_core.event_contract modify_core.event_contract update_core.event_contract
  nexus_core.event_contract

lemmas command_contracts = activity_core.command_contract cancel_external_core.command_contract
  cancel_wf_core.command_contract child_core.command_contract complete_core.command_contract
  can_core.command_contract fail_core.command_contract la_core.command_contract
  patch_core.command_contract signal_core.command_contract timer_core.command_contract
  workflow_task_core.command_contract upsert_core.command_contract modify_core.command_contract
  update_core.command_contract nexus_core.command_contract

lemma healthy_plain [simp]:
  "healthy (CancelExternalMachine a) = machine_inv (\<lambda>_ _. True) a"
  "healthy (CancelWorkflowMachine b) = machine_inv (\<lambda>_ _. True) b"
  "healthy (CompleteWorkflowMachine c) = machine_inv (\<lambda>_ _. True) c"
  "healthy (ContinueAsNewWorkflowMachine d) = machine_inv (\<lambda>_ _. True) d"
  "healthy (FailWorkflowMachine e) = machine_inv (\<lambda>_ _. True) e"
  "healthy (LocalActivityMachine f) = machine_inv (\<lambda>_ _. True) f"
  "healthy (PatchMachine g) = machine_inv (\<lambda>_ _. True) g"
  "healthy (SignalExternalMachine h) = machine_inv (\<lambda>_ _. True) h"
  "healthy (WorkflowTaskMachine i) = machine_inv (\<lambda>_ _. True) i"
  "healthy (UpsertSearchAttributesMachine j) = machine_inv (\<lambda>_ _. True) j"
  "healthy (ModifyWorkflowPropertiesMachine k) = machine_inv (\<lambda>_ _. True) k"
  "healthy (UpdateMachine l) = machine_inv (\<lambda>_ _. True) l"
  by (simp_all add: healthy_def)

lemma healthyE:
  assumes "healthy mach"
  obtains m attrs where "mach = ActivityMachine m" "machine_inv (activity_ok attrs) m"
  | m seq where "mach = ChildWorkflowMachine m" "machine_inv (child_ok seq) m"
  | m attribs where "mach = TimerMachine m" "machine_inv (timer_ok attribs) m"
  | m imm where "mach = NexusOperationMachine m" "machine_inv (nexus_ok imm) m"
  | m where "mach = CancelExternalMachine m" "machine_inv (\<lambda>_ _. True) m"
  | m where "mach = CancelWorkflowMachine m" "machine_inv (\<lambda>_ _. True) m"
  | m where "mach = CompleteWorkflowMachine m" "machine_inv (\<lambda>_ _. True) m"
  | m where "mach = ContinueAsNewWorkflowMachine m" "machine_inv (\<lambda>_ _. True) m"
  | m where "mach = FailWorkflowMachine m" "machine_inv (\<lambda>_ _. True) m"
  | m where "mach = LocalActivityMachine m" "machine_inv (\<lambda>_ _. True) m"
  | m where "mach = PatchMachine m" "machine_inv (\<lambda>_ _. True) m"
  | m where "mach = SignalExternalMachine m" "machine_inv (\<lambda>_ _. True) m"
  | m where "mach = WorkflowTaskMachine m" "machine_inv (\<lambda>_ _. True) m"
  | m where "mach = UpsertSearchAttributesMachine m" "machine_inv (\<lambda>_ _. True) m"
  | m where "mach = ModifyWorkflowPropertiesMachine m" "machine_inv (\<lambda>_ _. True) m"
  | m where "mach = UpdateMachine m" "machine_inv (\<lambda>_ _. True) m"
  using assms by (cases mach) (auto simp: healthy_def)

lemma machine_handle_event_contract:
  assumes "healthy mach"
  shows "machine_contract (\<lambda>rs. is_la mach \<or> quiet rs) mach (machine_handle_event env mach d)"
  using assms by (rule healthyE)
    (simp_all only: machine_handle_event_def Machines.case,
      (rule dispatch_contract, erule event_contracts, auto simp: quiet_def is_la_def intro: healthy_any)+)

lemma machine_handle_command_contract:
  assumes "healthy mach"
  shows "machine_contract (\<lambda>rs. rs = []) mach (machine_handle_command env mach ct)"
  using assms by (rule healthyE)
    (simp_all only: machine_handle_command_def Machines.case,
      (rule dispatch_contract, erule command_contracts, auto simp: is_la_def intro: healthy_any)+)

section \<open>The calls of lang\<close>

locale core_machine_calls =
  core_machine tf ok_state ok_event try_event try_cmd adapt admits final +
  event_lang tf ok_state ok_event try_event try_cmd adapt lang
  for tf :: "('st, 'sh, 'ev, 'c, WFMachinesError) transitions"
    and ok_state ok_event try_event try_cmd adapt admits final
    and lang :: "('st, 'sh) machine \<Rightarrow> 'x \<Rightarrow> responses \<times> ('st, 'sh) machine"
begin

lemma lang_contract:
  "machine_inv ok_state m \<Longrightarrow> contract (machine_inv ok_state) (list_all admits) (lang m x)"
  by (rule contractI, simp add: lang_not_panic) (auto dest: lang_keeps lang_event intro: process_admits)

end

interpretation timer_calls: core_machine_calls timer_transitions "timer_ok attribs" "\<lambda>_ _. True"
  timer_try_from_event timer_try_from_command timer_adapt_response not_la_cancel "\<lambda>_. False" timer_lang for attribs ..

interpretation activity_calls: core_machine_calls activity_transitions "activity_ok attrs" activity_ok_event
  activity_try_from_event activity_try_from_command activity_adapt_response not_la_cancel
  "\<lambda>st. case st of ActivityMachineState.Completed \<Rightarrow> True | ActivityMachineState.Failed \<Rightarrow> True
    | ActivityMachineState.TimedOut \<Rightarrow> True | _ \<Rightarrow> False" activity_lang for attrs ..

interpretation child_calls: core_machine_calls child_transitions "child_ok seq" "\<lambda>_ _. True"
  child_try_from_event child_try_from_command child_adapt_response not_la_cancel
  "\<lambda>st. st = ChildWorkflowMachineState.Terminated" child_lang for seq ..

interpretation nexus_calls: core_machine_calls nexus_transitions "nexus_ok imm" "\<lambda>_ _. True"
  nexus_try_from_event nexus_try_from_command nexus_adapt_response not_la_cancel "\<lambda>_. False" nexus_lang for imm ..

interpretation update_calls: core_machine_calls update_transitions "\<lambda>_ _. True" "\<lambda>_ _. True" update_try_from_event
  update_try_from_command "update_adapt_response encode" not_la_cancel
  "\<lambda>st. case st of UpdateMachineState.Rejected \<Rightarrow> True | UpdateMachineState.CompletedCommandRecorded \<Rightarrow> True
    | _ \<Rightarrow> False" "handle_response encode" for encode ..

interpretation la_calls: core_machine_calls "local_activity_transitions cd" "\<lambda>_ _. True" "\<lambda>_ _. True"
  "local_activity_try_from_event cd" local_activity_try_from_command "local_activity_adapt_response cd"
  "\<lambda>_. True" "\<lambda>_. False" "local_activity_lang cd" for cd ..

lemma signal_lang_contract:
  "machine_inv (\<lambda>_ _. True) m \<Longrightarrow> contract (machine_inv (\<lambda>_ _. True)) (list_all not_la_cancel) (signal_lang m x)"
  by (rule contractI, simp add: signal.lang_no_panic)
    (auto dest: signal.lang_keeps simp: signal_lang_def signal_cancel_def map_err_Ok_iff requests_la_cancel_def
      split: prod.splits outcome.splits list.splits SignalExternalCommand.splits)

lemmas lang_contracts = timer_calls.lang_contract activity_calls.lang_contract child_calls.lang_contract
  nexus_calls.lang_contract update_calls.lang_contract la_calls.lang_contract signal_lang_contract

section \<open>Questions to a machine\<close>

lemma with_flags_healthy [simp]: "healthy (with_flags fl mach) = healthy mach" "is_la (with_flags fl mach) = is_la mach"
  by (auto simp: with_flags_def healthy_def is_la_def machine_inv_def activity_ok_def child_ok_def
      split: Machines.split option.split)

lemma was_cancelled_Ok: "healthy mach \<Longrightarrow> \<exists>b. machine_was_cancelled_before_sent_to_server mach = Ok b"
  by (erule healthyE) (auto simp: machine_was_cancelled_before_sent_to_server_def
      signal_was_cancelled_before_sent_to_server_def get_state_def machine_inv_def split: option.splits)

lemma is_final_Ok: "healthy mach \<Longrightarrow> \<exists>b. machine_is_final_state mach = Ok b"
  by (erule healthyE) (auto simp: machine_is_final_state_def has_reached_final_state_def get_state_def
      machine_inv_def split: option.splits)

text \<open>
  Responses that need no further call of \<^verbatim>\<open>process_machine_responses\<close>: everything a local activity
  machine answers to a result or to a new workflow task.
\<close>

definition shallow :: "MachineResponse \<Rightarrow> bool" where
  "shallow r = (case r of RequestCancelLocalActivity _ \<Rightarrow> False | TriggerWFTaskStarted _ _ \<Rightarrow> False | _ \<Rightarrow> True)"

lemma la_adapt_shallow:
  "local_activity_adapt_response cd m c info = Ok rs \<Longrightarrow> c \<noteq> RequestCancel \<Longrightarrow> list_all shallow rs"
  by (auto simp: local_activity_adapt_response_def shallow_def outcome_simps Let_def
      split: LocalActivityCommand.splits if_splits)

lemma la_result_commands:
  assumes "on_event (local_activity_transitions cd) m ev = (Ok cmds, m')"
    and "ev = StartedNonReplayWFT \<or> (\<exists>d. ev = HandleResult d \<or> ev = HandleKnownResult d)"
  shows "RequestCancel \<notin> set cmds"
  using assms by (auto elim!: on_event_OkE simp: local_activity_transitions_def Let_def
      split: LocalActivityMachineState.splits)

lemma la_process_shallow:
  "process_machine_commands (local_activity_adapt_response cd) m cmds info = Ok rs \<Longrightarrow> RequestCancel \<notin> set cmds \<Longrightarrow>
   list_all shallow rs"
proof (induction cmds arbitrary: rs)
  case (Cons c cmds)
  then show ?case by (auto simp: outcome_simps dest!: la_adapt_shallow)
qed auto

lemma la_answers_shallow:
  assumes "local_activity_lang cd m x = (Ok rs, m')" and "x \<noteq> LACancel"
  shows "list_all shallow rs"
proof (cases x)
  case NonReplayWFT
  then show ?thesis
    using assms
    by (auto simp: local_activity_lang_def encountered_non_replay_wft_def outcome_simps
        dest!: la_result_commands la_adapt_shallow
        split: outcome.splits prod.splits bool.splits list.splits MachineError.splits)
next
  case (TryResolve res runtime attempt backoff ost)
  then show ?thesis
    using assms
    by (auto simp: local_activity_lang_def try_resolve_def try_resolve_inner_def outcome_simps
        dest!: la_result_commands intro: la_process_shallow
        split: outcome.splits prod.splits MachineError.splits)
next
  case (TryResolveWithDat d)
  then show ?thesis
    using assms
    by (auto simp: local_activity_lang_def try_resolve_with_dat_def try_resolve_inner_def outcome_simps
        dest!: la_result_commands intro: la_process_shallow
        split: outcome.splits prod.splits MachineError.splits)
qed (use assms in simp)

section \<open>Final states\<close>

lemmas final_rejections = activity_core.final_rejects cancel_external_core.final_rejects
  cancel_wf_core.final_rejects child_core.final_rejects complete_core.final_rejects
  can_core.final_rejects fail_core.final_rejects la_core.final_rejects patch_core.final_rejects
  signal_core.final_rejects timer_core.final_rejects workflow_task_core.final_rejects
  upsert_core.final_rejects modify_core.final_rejects update_core.final_rejects
  nexus_core.final_rejects

lemma dispatch_rejects: "\<exists>e. r = (Err e, m) \<Longrightarrow> \<exists>e. map_prod id wrap r = (Err e, wrap m)"
  by auto

text \<open>
  C13: A machine that has reached a final state is done: every further history event and every further
  command is answered with an error, without a panic, and leaves the machine as it was.  This holds
  for each of the sixteen machines, with the final states the macro derives from its transitions.
\<close>

theorem final_machine_rejects:
  assumes "machine_is_final_state mach = Ok True"
  shows "(\<exists>e. machine_handle_event env mach d = (Err e, mach)) \<and>
    (\<exists>e. machine_handle_command env mach ct = (Err e, mach))"
  using assms unfolding machine_is_final_state_def machine_handle_event_def machine_handle_command_def
  by (cases mach; simp only: Machines.case)
    (blast intro!: dispatch_rejects final_rejections)+

theorem final_machine_rejects_witness:
  "\<forall>env. (\<exists>e. machine_handle_event env (UpsertSearchAttributesMachine (from_parts UpsertDone ()))
        (live_event 7 (UpsertWorkflowSearchAttributesEventAttributes None)) =
      (Err e, UpsertSearchAttributesMachine (from_parts UpsertDone ()))) \<and>
   (\<exists>e. machine_handle_command env (UpsertSearchAttributesMachine (from_parts UpsertDone ()))
        CT_UpsertWorkflowSearchAttributes =
      (Err e, UpsertSearchAttributesMachine (from_parts UpsertDone ())))"
  by (intro allI, rule final_machine_rejects)
    (simp add: machine_is_final_state_def has_reached_final_state_def get_state_def)

end
