(* ===== verification/RunSafety.thy ===== *)
theory RunSafety
  imports WorkflowManager MachineContracts
begin

text \<open>
  A workflow run never panics before its first error.  The invariant of a run says that its machines
  are healthy, that every key it holds is the key of a machine, that its pending messages carry a
  request, and that no answer to a query waits among its commands; every operation of the run keeps
  it, by the contracts of the machines.  The one panic left is the one \<^verbatim>\<open>take_next_wft_sequence\<close> raises
  on a history update that ends inside a workflow task.
\<close>

section \<open>The invariant of a run\<close>

abbreviation keys_of :: "WorkflowMachines \<Rightarrow> MachineKey set" where
  "keys_of s \<equiv> fst ` set (wm_all_machines s)"

definition run_ok :: "WorkflowMachines \<Rightarrow> bool" where
  "run_ok s =
     (keys_of s \<subseteq> set (wm_keys_issued s) \<and>
      (\<forall>m \<in> snd ` set (wm_all_machines s). healthy m) \<and>
      snd ` set (wm_id_to_machine s) \<subseteq> keys_of s \<and>
      snd ` set (wm_machines_by_event_id s) \<subseteq> keys_of s \<and>
      snd ` set (wm_machines_by_protocol_instance_id s) \<subseteq> keys_of s \<and>
      cam_machine ` set (wm_commands s) \<subseteq> keys_of s \<and>
      cam_machine ` set (wm_current_wf_task_commands s) \<subseteq> keys_of s \<and>
      (\<forall>m \<in> set (wm_protocol_msgs s). valid_update_request (ipm_body m)) \<and>
      (\<forall>cs \<in> set (dw_incoming_commands (wm_drive_me s)). \<forall>c \<in> set cs. query_response c = None))"

text \<open>Machines are never removed or replaced by machines of another kind.\<close>

definition run_extends :: "WorkflowMachines \<Rightarrow> WorkflowMachines \<Rightarrow> bool" where
  "run_extends s t = (\<forall>k m. map_of (wm_all_machines s) k = Some m \<longrightarrow>
     (\<exists>m'. map_of (wm_all_machines t) k = Some m' \<and> is_la m' = is_la m))"

definition incomplete_history :: "string \<Rightarrow> bool" where
  "incomplete_history p = (p = ''HistoryUpdate was created with an incomplete WFT. This is an SDK bug.'')"

interpretation run: action_logic run_extends run_ok incomplete_history
  by standard (fastforce simp: run_extends_def)+

abbreviation safe :: "(WorkflowMachines \<Rightarrow> bool) \<Rightarrow> 'a wm \<Rightarrow> ('a \<Rightarrow> WorkflowMachines \<Rightarrow> bool) \<Rightarrow> bool" where
  "safe \<equiv> safe_action run_ok run_extends incomplete_history"

abbreviation always :: "WorkflowMachines \<Rightarrow> bool" where
  "always \<equiv> \<lambda>_. True"

abbreviation done_ok :: "'a \<Rightarrow> WorkflowMachines \<Rightarrow> bool" where
  "done_ok \<equiv> \<lambda>_ _. True"

definition has_key :: "MachineKey \<Rightarrow> WorkflowMachines \<Rightarrow> bool" where
  "has_key k s = (k \<in> keys_of s)"

definition has_la :: "MachineKey \<Rightarrow> WorkflowMachines \<Rightarrow> bool" where
  "has_la k s = (\<exists>m. map_of (wm_all_machines s) k = Some m \<and> is_la m)"

lemma has_key_map_of: "has_key k s \<longleftrightarrow> (\<exists>m. map_of (wm_all_machines s) k = Some m)"
  using map_of_eq_None_iff[of "wm_all_machines s" k] by (auto simp: has_key_def)

lemma stable_keys [simp]: "run.stable (has_key k)" "run.stable (has_la k)"
  by (auto simp: has_key_map_of has_la_def run_extends_def)

lemma has_la_key: "has_la k s \<Longrightarrow> has_key k s"
  by (auto simp: has_key_map_of has_la_def)

lemma run_ok_machine: "run_ok s \<Longrightarrow> map_of (wm_all_machines s) k = Some m \<Longrightarrow> healthy m"
  by (force simp: run_ok_def dest: map_of_SomeD)

section \<open>Updates of the state\<close>

text \<open>An update that leaves the machines and the keys alone.\<close>

definition same_keys :: "WorkflowMachines \<Rightarrow> WorkflowMachines \<Rightarrow> bool" where
  "same_keys s t = (wm_all_machines t = wm_all_machines s \<and> wm_keys_issued t = wm_keys_issued s \<and>
     wm_id_to_machine t = wm_id_to_machine s \<and> wm_machines_by_event_id t = wm_machines_by_event_id s \<and>
     wm_machines_by_protocol_instance_id t = wm_machines_by_protocol_instance_id s \<and>
     wm_commands t = wm_commands s \<and> wm_current_wf_task_commands t = wm_current_wf_task_commands s \<and>
     wm_protocol_msgs t = wm_protocol_msgs s \<and>
     dw_incoming_commands (wm_drive_me t) = dw_incoming_commands (wm_drive_me s))"

lemma same_keys_ok: "same_keys s t \<Longrightarrow> run_ok s \<Longrightarrow> run_ok t \<and> run_extends s t"
  by (simp add: same_keys_def run_ok_def run_extends_def)

lemma safe_same: "(\<And>s. same_keys s (f s)) \<Longrightarrow> (\<And>s. P s \<Longrightarrow> Q () (f s)) \<Longrightarrow> safe P (act_modify f) Q"
  by (rule run.safe_modify) (blast dest: same_keys_ok)

lemma same_keys_updates [simp]:
  "same_keys s (s\<lparr> wm_last_history_from_server := x0 \<rparr>)"
  "same_keys s (s\<lparr> wm_current_started_event_id := x1 \<rparr>)"
  "same_keys s (s\<lparr> wm_next_started_event_id := x2 \<rparr>)"
  "same_keys s (s\<lparr> wm_last_processed_event := x3 \<rparr>)"
  "same_keys s (s\<lparr> wm_replaying := x4 \<rparr>)"
  "same_keys s (s\<lparr> wm_have_seen_terminal_event := x5 \<rparr>)"
  "same_keys s (s\<lparr> wm_workflow_start_time := x6 \<rparr>)"
  "same_keys s (s\<lparr> wm_workflow_end_time := x7 \<rparr>)"
  "same_keys s (s\<lparr> wm_wft_start_time := x8 \<rparr>)"
  "same_keys s (s\<lparr> wm_current_wf_time := x9 \<rparr>)"
  "same_keys s (s\<lparr> wm_observed_internal_flags := x10 \<rparr>)"
  "same_keys s (s\<lparr> wm_machine_is_core_created := x11 \<rparr>)"
  "same_keys s (s\<lparr> wm_message_outbox := x12 \<rparr>)"
  "same_keys s (s\<lparr> wm_encountered_patch_markers := x13 \<rparr>)"
  "same_keys s (s\<lparr> wm_local_activity_data := x14 \<rparr>)"
  "same_keys s (s\<lparr> wm_drive_me := send_job j (wm_drive_me s) \<rparr>)"
  "same_keys s (s\<lparr> wm_drive_me := search_attributes_update sa (wm_drive_me s) \<rparr>)"
  "same_keys s (s\<lparr> wm_drive_me := driven_start dur wid seed t attrs (wm_drive_me s) \<rparr>)"
  "same_keys s (s\<lparr> wm_current_wft_deployment_info := x16 \<rparr>)"
  by (simp_all add: same_keys_def send_job_def search_attributes_update_def driven_start_def Let_def)

lemma set_current_time_same [simp]: "same_keys s (set_current_time t s)"
  by (simp add: set_current_time_def same_keys_def)

lemma same_keys_refl [simp]: "same_keys s s"
  by (simp add: same_keys_def)

lemma send_job_same [simp]: "same_keys s (send_job_wm j s)"
  by (simp add: send_job_wm_def)

lemma values_update: "x \<in> snd ` set (AList.update k v al) \<Longrightarrow> x = v \<or> x \<in> snd ` set al"
  by (induction al) (auto split: if_splits)

lemma all_values_update: "(\<forall>m \<in> snd ` set al. P m) \<Longrightarrow> P v \<Longrightarrow> \<forall>m \<in> snd ` set (AList.update k v al). P m"
proof
  fix m assume all: "\<forall>m \<in> snd ` set al. P m" "P v" and m: "m \<in> snd ` set (AList.update k v al)"
  show "P m" using values_update[OF m] all by (elim disjE) blast+
qed

lemma values_update_subset: "snd ` set al \<subseteq> K \<Longrightarrow> v \<in> K \<Longrightarrow> snd ` set (AList.update k v al) \<subseteq> K"
proof
  fix m assume K: "snd ` set al \<subseteq> K" "v \<in> K" and m: "m \<in> snd ` set (AList.update k v al)"
  show "m \<in> K" using values_update[OF m] K by (elim disjE) blast+
qed

lemma keys_update: "fst ` set (AList.update k v al) = insert k (fst ` set al)"
  by (induction al) auto

text \<open>An action that always succeeds and leaves the machines and the keys alone.\<close>

lemma safe_pure: "(\<And>s. \<exists>x t. f s = (Ok x, t) \<and> same_keys s t) \<Longrightarrow> safe always f done_ok"
  by (rule run.safeI) (metis fst_conv outcome.distinct(3) outcome.inject(1) same_keys_ok snd_conv)+

lemma safe_la_update: "safe always (la_update f) done_ok"
  by (rule safe_pure) (simp add: la_update_def same_keys_def split: prod.split)

lemma safe_read_clock: "safe always (read_clock env) done_ok"
  by (rule safe_pure) (simp add: read_clock_def same_keys_def)

section \<open>Access to the machines\<close>

lemma safe_machine: "safe (has_key k) (wm_machine k) (\<lambda>m s. healthy m \<and> map_of (wm_all_machines s) k = Some m)"
  by (rule run.safeI)
    (auto simp: wm_machine_def has_key_map_of run_ok_machine run.R_refl split: option.splits)

text \<open>Responses that machine \<open>k\<close> may give: only a local activity asks for a cancellation.\<close>

definition fits :: "MachineKey \<Rightarrow> MachineResponse list \<Rightarrow> WorkflowMachines \<Rightarrow> bool" where
  "fits k rs s = (quiet rs \<or> has_la k s)"

lemma stable_fits [simp]: "run.stable (fits k rs)"
  using stable_keys(2)[of k] by (auto simp: fits_def)

lemma update_machine_ok:
  assumes "run_ok s" and k: "map_of (wm_all_machines s) k = Some m" and m': "healthy m'" "is_la m' = is_la m"
    and t_def: "t = s\<lparr> wm_all_machines := AList.update k m' (wm_all_machines s), wm_observed_internal_flags := fl \<rparr>"
  shows "run_ok t" and "run_extends s t" and "map_of (wm_all_machines t) k = Some m'"
proof -
  have al: "wm_all_machines t = AList.update k m' (wm_all_machines s)" by (simp add: t_def)
  have "k \<in> keys_of s" using k by (metis (no_types) domI dom_map_of_conv_image_fst)
  then have "keys_of t = keys_of s" unfolding al keys_update by auto
  moreover have "\<forall>x \<in> snd ` set (wm_all_machines t). healthy x"
    unfolding al using assms(1) m'(1) by (intro all_values_update) (simp_all add: run_ok_def)
  ultimately show "run_ok t" using assms(1) by (simp add: run_ok_def t_def)
  show "run_extends s t" using k m' by (auto simp: run_extends_def t_def update_conv')
  show "map_of (wm_all_machines t) k = Some m'" by (simp add: t_def update_conv')
qed

lemma safe_call_machine:
  assumes f: "\<And>m. healthy m \<Longrightarrow> ok m \<Longrightarrow> machine_contract (adm m) m (f m)"
    and ok: "\<And>s m. P s \<Longrightarrow> map_of (wm_all_machines s) k = Some m \<Longrightarrow> ok (with_flags (wm_observed_internal_flags s) m)"
    and key: "\<And>s. P s \<Longrightarrow> has_key k s"
    and Q: "\<And>m rs s. adm m rs \<Longrightarrow> (is_la m \<Longrightarrow> has_la k s) \<Longrightarrow> Q rs s"
  shows "safe P (call_machine k f) Q"
proof (rule run.safeI)
  fix s rs t assume s: "run_ok s" "P s" and t: "call_machine k f s = (Ok rs, t)"
  obtain m where m: "map_of (wm_all_machines s) k = Some m" using key s by (auto simp: has_key_map_of)
  let ?m = "with_flags (wm_observed_internal_flags s) m"
  obtain m' where m': "f ?m = (Ok rs, m')" and t': "t = s\<lparr> wm_all_machines := AList.update k m' (wm_all_machines s),
      wm_observed_internal_flags := machine_flags (wm_observed_internal_flags s) m' \<rparr>"
    using t m by (auto simp: call_machine_def split: prod.splits)
  have "machine_contract (adm ?m) ?m (f ?m)" using f ok m s by (simp add: run_ok_machine)
  then have c: "healthy m'" "is_la m' = is_la m" "adm ?m rs"
    by (auto simp: machine_contract_def contract_def m')
  note upd = update_machine_ok[OF s(1) m c(1,2) t']
  have "Q rs t" using c upd(3) by (intro Q[of ?m]) (auto simp: has_la_def)
  with upd show "run_ok t \<and> run_extends s t \<and> Q rs t" by blast
next
  fix s p t assume s: "run_ok s" "P s" and t: "call_machine k f s = (Panic p, t)"
  obtain m where m: "map_of (wm_all_machines s) k = Some m" using key s by (auto simp: has_key_map_of)
  let ?m = "with_flags (wm_observed_internal_flags s) m"
  have "machine_contract (adm ?m) ?m (f ?m)" using f ok m s by (simp add: run_ok_machine)
  with t m show "incomplete_history p"
    by (auto simp: call_machine_def machine_contract_def contract_def split: prod.splits)
qed

lemma safe_insert_machine:
  assumes laws: "slot_map_laws env" and m: "healthy m"
  shows "safe always (insert_machine env m) (\<lambda>k s. has_key k s \<and> (is_la m \<longrightarrow> has_la k s))"
proof (rule run.safeI)
  fix s k t assume s: "run_ok s" and t: "insert_machine env m s = (Ok k, t)"
  have k: "k = env_fresh_key env (wm_keys_issued s)"
    and t': "t = s\<lparr> wm_all_machines := AList.update k m (wm_all_machines s), wm_keys_issued := k # wm_keys_issued s \<rparr>"
    using t by (auto simp: insert_machine_def Let_def)
  have al: "wm_all_machines t = AList.update k m (wm_all_machines s)" by (simp add: t')
  have "k \<notin> set (wm_keys_issued s)" using laws k by (simp add: slot_map_laws_def)
  then have new: "k \<notin> keys_of s" using s by (meson run_ok_def subsetD)
  have keys: "keys_of t = insert k (keys_of s)" unfolding al keys_update ..
  have "\<forall>x \<in> snd ` set (wm_all_machines t). healthy x"
    unfolding al using s m by (intro all_values_update) (simp_all add: run_ok_def)
  then have "run_ok t"
    unfolding run_ok_def keys using s by (simp add: t' run_ok_def subset_insertI2)
  moreover have "run_extends s t"
    using new map_of_eq_None_iff[of "wm_all_machines s" k] by (auto simp: run_extends_def al update_conv')
  ultimately show "run_ok t \<and> run_extends s t \<and> has_key k t \<and> (is_la m \<longrightarrow> has_la k t)"
    by (simp add: has_key_map_of has_la_def al update_conv')
qed (simp add: insert_machine_def Let_def)

section \<open>Rules for sequences\<close>

lemma safe_seq: "safe always f Q \<Longrightarrow> (\<And>x. safe (Q x) (g x) T) \<Longrightarrow> safe always (act_bind f g) T"
  by (rule run.safe_bind) (simp_all add: run.safe_weaken)

lemma safe_seq_any: "safe always f done_ok \<Longrightarrow> (\<And>x. safe always (g x) T) \<Longrightarrow> safe always (act_bind f g) T"
  by (rule safe_seq)

lemma safe_then_any: "safe always f done_ok \<Longrightarrow> safe always g T \<Longrightarrow> safe always (act_then f g) T"
  by (rule run.safe_then) simp_all

lemma safe_always: "safe always f Q \<Longrightarrow> safe P f Q"
  by (erule run.safe_weaken) simp_all

lemma safe_done: "safe P f Q \<Longrightarrow> safe P f done_ok"
  by (erule run.safe_weaken) simp_all

lemma safe_get_any: "safe always (act_get f) done_ok"
  by (rule run.safe_get) simp

lemma safe_return_any: "safe P (act_return x) done_ok"
  by (rule run.safe_return) simp

lemma safe_err: "safe P (act_lift (Err e)) Q"
  by (rule run.safe_lift) simp_all

lemma safe_bind_key:
  "safe (has_key k) f done_ok \<Longrightarrow> (\<And>x. safe (has_key k) (g x) T) \<Longrightarrow> safe (has_key k) (act_bind f g) T"
  by (erule run.safe_bind) simp_all

lemma safe_same_any: "(\<And>s. same_keys s (f s)) \<Longrightarrow> safe P (act_modify f) done_ok"
  by (rule safe_same) simp_all

section \<open>New machines\<close>

lemma safe_push_command: "safe (has_key (cam_machine c)) (act_modify (push_current_command c)) done_ok"
  by (rule run.safe_modify) (simp add: push_current_command_def run_ok_def run_extends_def has_key_def)

lemma safe_add_new_command_machine:
  assumes "slot_map_laws env" "healthy (snd machine)"
  shows "safe always (add_new_command_machine env machine md) (\<lambda>c s. has_key (cam_machine c) s)"
  unfolding add_new_command_machine_def
  by (rule safe_seq[OF safe_insert_machine[OF assms]]) (rule run.safe_return, simp)

lemma safe_add_cmd_to_wf_task:
  assumes "slot_map_laws env" "healthy (snd machine)"
  shows "safe always (add_cmd_to_wf_task env machine md i) (\<lambda>k s. has_key k s)"
  unfolding add_cmd_to_wf_task_def Let_def
proof (rule safe_seq[OF safe_add_new_command_machine[OF assms]])
  fix c :: CommandAndMachine
  have id: "safe (has_key (cam_machine c)) (act_modify (\<lambda>s. case i of
      LangIssued cid \<Rightarrow> s\<lparr> wm_id_to_machine := AList.update cid (cam_machine c) (wm_id_to_machine s) \<rparr> | _ \<Rightarrow> s)) done_ok"
  proof (rule run.safe_modify)
    fix s assume s: "run_ok s" "has_key (cam_machine c) s"
    have "snd ` set (AList.update cid (cam_machine c) (wm_id_to_machine s)) \<subseteq> keys_of s" for cid
      by (rule values_update_subset) (use s in \<open>simp_all add: run_ok_def has_key_def\<close>)
    with s show "run_ok (case i of LangIssued cid \<Rightarrow>
          s\<lparr> wm_id_to_machine := AList.update cid (cam_machine c) (wm_id_to_machine s) \<rparr> | _ \<Rightarrow> s) \<and>
        run_extends s (case i of LangIssued cid \<Rightarrow>
          s\<lparr> wm_id_to_machine := AList.update cid (cam_machine c) (wm_id_to_machine s) \<rparr> | _ \<Rightarrow> s) \<and> True"
      by (simp add: run_ok_def run_extends_def split: CommandIdKind.split)
  qed
  show "safe (has_key (cam_machine c))
     (act_then (act_modify (\<lambda>s. case i of
         LangIssued cid \<Rightarrow> s\<lparr> wm_id_to_machine := AList.update cid (cam_machine c) (wm_id_to_machine s) \<rparr> | _ \<Rightarrow> s))
     (act_then (act_modify (\<lambda>s. if i = CoreInternal
         then s\<lparr> wm_machine_is_core_created := List.insert (cam_machine c) (wm_machine_is_core_created s) \<rparr> else s))
     (act_then (act_modify (push_current_command c)) (act_return (cam_machine c))))) has_key"
    by (intro run.safe_then id safe_push_command stable_keys)
      (auto intro!: safe_same_any run.safe_return simp: same_keys_def)
qed

lemma safe_add_cmd:
  assumes "slot_map_laws env" "healthy m"
  shows "safe P (act_bind (add_cmd_to_wf_task env (c, m) md i) (\<lambda>_. act_return ())) done_ok"
  by (rule safe_always, rule safe_seq[OF safe_add_cmd_to_wf_task]) (use assms in \<open>simp_all add: safe_return_any\<close>)

lemma lift_bind:
  "act_bind (act_lift (Ok x)) g = g x" "act_bind (act_lift (Err e)) g = act_lift (Err e)"
  by (rule ext, simp add: act_bind_def act_lift_def)+

section \<open>Responses\<close>

lemma new_external_cancel_healthy:
  obtains c m where "new_external_cancel seq we b r = (Ok (c, m) :: (WFMachinesError, _) outcome)" "healthy (CancelExternalMachine m)"
  by (simp add: new_external_cancel_def cancel_external_transitions_def healthy_plain)

lemma safe_core_originated:
  assumes laws: "slot_map_laws env"
  shows "safe P (process_response env again k (NewCoreOriginatedCommand attrs)) done_ok"
proof (cases attrs)
  case (RequestCancelExternalWorkflowExecutionCommandAttributes a)
  obtain c m where cm: "new_external_cancel 0 \<lparr> nwe_namespace = rce_namespace a,
      nwe_workflow_id = rce_workflow_id a, nwe_run_id = rce_run_id a \<rparr> (rce_child_workflow_only a) (rce_reason a) =
      (Ok (c, m) :: (WFMachinesError, _) outcome)" "healthy (CancelExternalMachine m)"
    by (rule new_external_cancel_healthy)
  show ?thesis
    by (simp add: RequestCancelExternalWorkflowExecutionCommandAttributes process_response_def cm(1) lift_bind
        safe_add_cmd[OF laws cm(2)])
next
  case (UpsertWorkflowSearchAttributesCommandAttributes a)
  then show ?thesis
    by (simp add: process_response_def upsert_search_attrs_internal_def create_new_def safe_add_cmd[OF laws] healthy_plain)
qed (simp_all add: process_response_def safe_err)

lemma safe_response_shallow:
  assumes laws: "slot_map_laws env" and r: "shallow r"
  shows "safe (has_key k) (process_response env again k r) done_ok"
proof (cases r)
  case (NewCoreOriginatedCommand a)
  then show ?thesis using safe_core_originated[OF laws] by simp
next
  case (IssueNewCommand c)
  then show ?thesis
    using safe_push_command[of "\<lparr> cam_command = Real c, cam_machine = k \<rparr>"] by (simp add: process_response_def)
next
  case (IssueFakeLocalActivityMarker seq)
  then show ?thesis
    using safe_push_command[of "\<lparr> cam_command = FakeLocalActivityMarker seq, cam_machine = k \<rparr>"]
    by (simp add: process_response_def)
next
  case (UpdateWFTime t)
  then show ?thesis
    by (cases t) (auto simp: process_response_def safe_return_any intro!: safe_same_any)
next
  case (PushWFJob j)
  then show ?thesis by (simp add: process_response_def safe_same_any)
next
  case (UpdateRunIdOnWorkflowReset i)
  then show ?thesis by (simp add: process_response_def safe_same_any)
next
  case (IssueNewMessage m)
  then show ?thesis by (simp add: process_response_def safe_same_any same_keys_def)
next
  case (QueueLocalActivity a)
  then show ?thesis by (simp add: process_response_def safe_always[OF safe_la_update])
next
  case (AbandonLocalActivity a)
  then show ?thesis by (simp add: process_response_def safe_always[OF safe_la_update])
qed (use r in \<open>simp_all add: shallow_def\<close>)

lemma safe_for_key:
  assumes "\<And>x. x \<in> set xs \<Longrightarrow> safe (has_key k) (f x) done_ok"
  shows "safe (has_key k) (act_for f xs) done_ok"
  using assms stable_keys(1) by (intro run.safe_for) simp_all

lemma safe_responses_shallow:
  assumes "slot_map_laws env" "list_all shallow rs"
  shows "safe (has_key k) (process_responses_at (Suc n) env k rs) done_ok"
  unfolding process_responses_at.simps
  by (rule safe_bind_key[OF safe_done[OF safe_machine]], rule safe_for_key)
    (use assms in \<open>simp add: list_all_iff safe_response_shallow\<close>)

section \<open>Local activities\<close>

lemma la_call_contract:
  assumes "\<And>m. f m = local_activity_lang cd m x" "x \<noteq> LACancel" and m: "healthy mach"
    and otherwise: "is_la mach \<or> \<not> is_panic otherwise \<and> (\<forall>rs. otherwise = Ok rs \<longrightarrow> list_all shallow rs)"
  shows "machine_contract (list_all shallow) mach (on_la otherwise f mach)"
proof (cases mach)
  case (LocalActivityMachine la)
  then have "contract (machine_inv (\<lambda>_ _. True)) (list_all (\<lambda>_. True)) (local_activity_lang cd la x)"
    using m by (intro lang_contracts) simp
  then have "contract (machine_inv (\<lambda>_ _. True)) (list_all shallow) (f la)"
    unfolding assms(1) contract_def using la_answers_shallow[OF _ assms(2)] by (fastforce split: outcome.splits)
  then show ?thesis
    unfolding LocalActivityMachine on_la_def Machines.case by (rule dispatch_contract) (simp_all add: is_la_def)
qed (use m otherwise in \<open>auto simp: on_la_def machine_contract_def is_la_def intro!: contractI\<close>)

lemma safe_la_call:
  assumes f: "\<And>m. f m = local_activity_lang cd m x" "x \<noteq> LACancel"
    and P: "\<And>s. P s \<Longrightarrow> has_key k s"
    and otherwise: "(\<forall>s. P s \<longrightarrow> has_la k s) \<or> \<not> is_panic otherwise \<and> (\<forall>rs. otherwise = Ok rs \<longrightarrow> list_all shallow rs)"
  shows "safe P (call_machine k (on_la otherwise f)) (\<lambda>rs _. list_all shallow rs)"
proof (rule safe_call_machine)
  fix m assume "healthy m" "is_la m \<or> \<not> is_panic otherwise \<and> (\<forall>rs. otherwise = Ok rs \<longrightarrow> list_all shallow rs)"
  then show "machine_contract (list_all shallow) m (on_la otherwise f m)"
    by (intro la_call_contract[OF f])
next
  fix s m assume "P s" "map_of (wm_all_machines s) k = Some m"
  then show "is_la (with_flags (wm_observed_internal_flags s) m) \<or>
      \<not> is_panic otherwise \<and> (\<forall>rs. otherwise = Ok rs \<longrightarrow> list_all shallow rs)"
    using otherwise by (auto simp: has_la_def)
qed (use P in auto)

lemma la_lang_calls:
  "encountered_non_replay_wft cd m = local_activity_lang cd m NonReplayWFT"
  "try_resolve cd m res runtime attempt backoff ost = local_activity_lang cd m (TryResolve res runtime attempt backoff ost)"
  "try_resolve_with_dat cd m dat = local_activity_lang cd m (TryResolveWithDat dat)"
  by (simp_all add: local_activity_lang_def)

text \<open>The answers collected when a new workflow task starts.\<close>

definition shallow_answers :: "(MachineKey \<times> MachineResponse list) list \<Rightarrow> WorkflowMachines \<Rightarrow> bool" where
  "shallow_answers xs s = (\<forall>x \<in> set xs. list_all shallow (snd x) \<and> has_key (fst x) s)"

lemma stable_shallow_answers [simp]: "run.stable (shallow_answers xs)"
  using stable_keys(1) by (simp add: shallow_answers_def)

lemma shallow_answers_append [simp]: "shallow_answers (xs @ ys) s \<longleftrightarrow> shallow_answers xs s \<and> shallow_answers ys s"
  by (auto simp: shallow_answers_def)

lemma safe_collect_non_replay_wft: "safe (has_key k) (collect_non_replay_wft env k) shallow_answers"
  unfolding collect_non_replay_wft_def
proof (rule run.safe_bind[OF safe_machine _ stable_keys(1)])
  fix mach :: Machines
  let ?P = "\<lambda>s. has_key k s \<and> healthy mach \<and> map_of (wm_all_machines s) k = Some mach"
  have call: "safe (has_key k) (call_machine k (on_la (Ok []) (encountered_non_replay_wft (me_codec (env_machine env)))))
      (\<lambda>rs _. list_all shallow rs)"
    by (rule safe_la_call[where x=NonReplayWFT, OF la_lang_calls(1)]) auto
  have "safe (has_key k) (act_bind (call_machine k (on_la (Ok [])
      (encountered_non_replay_wft (me_codec (env_machine env))))) (\<lambda>resps. act_return [(k, resps)])) shallow_answers"
    by (rule run.safe_bind[OF call _ stable_keys(1)]) (rule run.safe_return, simp add: shallow_answers_def)
  then show "safe ?P (case mach of LocalActivityMachine _ \<Rightarrow> act_bind (call_machine k (on_la (Ok [])
      (encountered_non_replay_wft (me_codec (env_machine env))))) (\<lambda>resps. act_return [(k, resps)])
      | _ \<Rightarrow> act_return []) shallow_answers"
    by (cases mach) (auto intro!: run.safe_return elim: run.safe_weaken simp: shallow_answers_def)
qed

lemma stable_all_keys [simp]: "run.stable (\<lambda>s. \<forall>k \<in> K. has_key k s)"
  using stable_keys(1) by blast

lemma safe_collect_all:
  "(\<And>k. safe (has_key k) (f k) shallow_answers) \<Longrightarrow>
   safe (\<lambda>s. \<forall>k \<in> set ks. has_key k s) (collect_all f ks) shallow_answers"
proof (induction ks)
  case (Cons k ks)
  have f: "safe (\<lambda>s. \<forall>k \<in> set (k # ks). has_key k s) (f k) shallow_answers"
    by (rule run.safe_weaken[OF Cons.prems]) simp_all
  have rest: "safe (\<lambda>s. (\<forall>k \<in> set (k # ks). has_key k s) \<and> shallow_answers xs s) (collect_all f ks) shallow_answers" for xs
    by (rule run.safe_weaken[OF Cons.IH[OF Cons.prems]]) simp_all
  show ?case
    unfolding collect_all.simps
    by (rule run.safe_bind[OF f _ stable_all_keys], rule run.safe_bind[OF rest])
      (use stable_keys(1) stable_shallow_answers in \<open>auto intro!: run.safe_return\<close>)
qed (simp add: shallow_answers_def run.safe_return)

section \<open>The responses of any machine\<close>

lemma safe_task_started:
  assumes laws: "slot_map_laws env"
    and again: "\<And>k rs. list_all shallow rs \<Longrightarrow> safe (has_key k) (again k rs) done_ok"
  shows "safe P (task_started env again i t) done_ok"
proof -
  let ?keys = "act_get (\<lambda>s. env_iter_order env (map fst (wm_all_machines s))) :: MachineKey list wm"
  have "set (env_iter_order env ks) = set ks" for ks
    using laws by (metis slot_map_laws_def set_mset_mset)
  then have keys: "safe always ?keys (\<lambda>ks s. \<forall>k \<in> set ks. has_key k s)"
    by (intro run.safe_get) (simp add: has_key_def)
  have answer: "safe (shallow_answers resps) (case x of (mkey, resp_set) \<Rightarrow> again mkey resp_set) done_ok"
    if "x \<in> set resps" for x resps
  proof (cases "list_all shallow (snd x)")
    case True
    then have "safe (shallow_answers resps) (again (fst x) (snd x)) done_ok"
      using that by (intro run.safe_weaken[OF again]) (auto simp: shallow_answers_def)
    then show ?thesis by (simp add: split_beta)
  qed (use that in \<open>auto simp: shallow_answers_def intro!: run.safeI\<close>)
  have "safe always (act_bind ?keys (\<lambda>ks. act_bind (collect_all (collect_non_replay_wft env) ks) (\<lambda>resps.
      act_for (\<lambda>(mkey, resp_set). again mkey resp_set) resps))) done_ok"
  proof (rule safe_seq[OF keys], rule run.safe_bind[OF safe_collect_all[OF safe_collect_non_replay_wft] _ stable_all_keys])
    fix ks resps
    show "safe (\<lambda>s. (\<forall>k \<in> set ks. has_key k s) \<and> shallow_answers resps s)
        (act_for (\<lambda>(mkey, resp_set). again mkey resp_set) resps) done_ok"
      by (rule run.safe_weaken[OF run.safe_for[where P="shallow_answers resps"]])
        (use answer stable_shallow_answers in auto)
  qed
  then show ?thesis
    unfolding task_started_def
    by (intro safe_always[of _ done_ok P] safe_then_any safe_seq_any[OF safe_get_any] safe_same_any)
      (simp_all add: safe_return_any)
qed

lemma safe_la_cancel:
  assumes again: "\<And>rs. list_all shallow rs \<Longrightarrow> safe (has_la k) (again k rs) done_ok"
  shows "safe (has_la k) (process_response env again k (RequestCancelLocalActivity seq)) done_ok"
proof -
  have resolve: "safe (has_la k) (act_bind (call_machine k (on_la oth f)) (again k)) done_ok"
    if f: "\<And>m. f m = local_activity_lang cd m x" "x \<noteq> LACancel" for oth f cd x
  proof (rule run.safe_bind[OF _ _ stable_keys(2)])
    show "safe (has_la k) (call_machine k (on_la oth f)) (\<lambda>rs _. list_all shallow rs)"
      by (rule safe_la_call[OF f]) (auto simp: has_la_key)
    fix rs show "safe (\<lambda>s. has_la k s \<and> list_all shallow rs) (again k rs) done_ok"
      using again[of rs] by (cases "list_all shallow rs") (auto intro: run.safeI)
  qed
  show ?thesis
    unfolding process_response_def MachineResponse.case
    by (rule run.safe_bind[OF safe_always[OF safe_la_update] _ stable_keys(2)])
      (auto split: option.split simp: la_lang_calls safe_same_any same_keys_def
        intro!: resolve[OF refl] run.safe_bind[OF safe_always[OF safe_la_update]] )
qed

lemma safe_response:
  assumes laws: "slot_map_laws env"
    and again: "\<And>k rs. list_all shallow rs \<Longrightarrow> safe (has_key k) (again k rs) done_ok"
  shows "safe (\<lambda>s. has_key k s \<and> (requests_la_cancel r \<longrightarrow> has_la k s)) (process_response env again k r) done_ok"
proof (cases "shallow r")
  case True
  then show ?thesis by (intro run.safe_weaken[OF safe_response_shallow[OF laws]]) simp_all
next
  case False
  then consider seq where "r = RequestCancelLocalActivity seq" | i t where "r = TriggerWFTaskStarted i t"
    by (auto simp: shallow_def split: MachineResponse.splits)
  then show ?thesis
  proof cases
    case 1
    have "safe (has_la k) (again k rs) done_ok" if "list_all shallow rs" for rs
      by (rule run.safe_weaken[OF again[OF that]]) (simp_all add: has_la_key)
    then show ?thesis
      unfolding 1 by (rule run.safe_weaken[OF safe_la_cancel]) (simp_all add: requests_la_cancel_def)
  next
    case 2
    show ?thesis
      unfolding 2 process_response_def MachineResponse.case by (rule safe_task_started[OF laws again])
  qed
qed

lemma safe_responses:
  assumes laws: "slot_map_laws env"
  shows "safe (\<lambda>s. has_key k s \<and> fits k rs s) (process_responses_at (Suc (Suc n)) env k rs) done_ok"
proof -
  let ?P = "\<lambda>s. has_key k s \<and> fits k rs s"
  have stable: "run.stable ?P"
    using stable_keys(1) stable_fits by blast
  have body: "safe ?P (process_response env (process_responses_at (Suc n) env) k r) done_ok" if "r \<in> set rs" for r
    by (rule run.safe_weaken[OF safe_response[OF laws safe_responses_shallow[OF laws]]])
      (use that in \<open>auto simp: fits_def quiet_def list_all_iff\<close>)
  have machine: "safe ?P (wm_machine k) done_ok"
    by (rule run.safe_weaken[OF safe_machine]) simp_all
  show ?thesis
    unfolding process_responses_at.simps(2)[of "Suc n"]
    by (rule run.safe_bind[OF machine _ stable]) (simp add: run.safe_for[OF body stable])
qed

lemma safe_process_machine_responses:
  "slot_map_laws env \<Longrightarrow> safe (\<lambda>s. has_key k s \<and> fits k rs s) (process_machine_responses env k rs) done_ok"
  using safe_responses[of env k rs 1] by (simp add: process_machine_responses_def numeral_3_eq_3)

text \<open>The common shape: a call of a machine, whose responses are processed.\<close>

lemma safe_call_and_process:
  assumes laws: "slot_map_laws env"
    and f: "\<And>m. healthy m \<Longrightarrow> machine_contract (\<lambda>rs. is_la m \<or> quiet rs) m (f m)"
  shows "safe (has_key k) (act_bind (call_machine k f) (process_machine_responses env k)) done_ok"
proof -
  have call: "safe (has_key k) (call_machine k f) (\<lambda>rs s. fits k rs s)"
    by (rule safe_call_machine[where ok="\<lambda>_. True" and adm="\<lambda>m rs. is_la m \<or> quiet rs"])
      (use f in \<open>auto simp: fits_def\<close>)
  show ?thesis
    by (rule run.safe_bind[OF call safe_process_machine_responses[OF laws] stable_keys(1)])
qed

lemma safe_submachine_handle_event:
  "slot_map_laws env \<Longrightarrow> safe (has_key k) (submachine_handle_event env k d) done_ok"
  unfolding submachine_handle_event_def by (rule safe_call_and_process) (simp_all add: machine_handle_event_contract)

section \<open>The depth of the recursion\<close>

definition agrees :: "'a wm \<Rightarrow> 'a wm \<Rightarrow> bool" where
  "agrees f g = (\<forall>s. fst (f s) = Panic ''stack overflow'' \<or> f s = g s)"

lemma agrees_refl [simp]: "agrees f f"
  by (simp add: agrees_def)

lemma agrees_bind:
  assumes f: "agrees f f'" and g: "\<And>x. agrees (g x) (g' x)"
  shows "agrees (act_bind f g) (act_bind f' g')"
proof -
  have "fst (act_bind f g s) = Panic ''stack overflow'' \<or> act_bind f g s = act_bind f' g' s" for s
  proof (cases "f s")
    case (Pair r t)
    have "fst (f s) = Panic ''stack overflow'' \<or> f s = f' s" using f by (simp add: agrees_def)
    moreover have "fst (g x t) = Panic ''stack overflow'' \<or> g x t = g' x t" for x using g by (simp add: agrees_def)
    ultimately show ?thesis
      using Pair by (cases "f' s"; cases r) (auto simp: act_bind_def split: outcome.splits)
  qed
  then show ?thesis by (simp add: agrees_def)
qed

lemma agrees_then: "agrees f f' \<Longrightarrow> agrees g g' \<Longrightarrow> agrees (act_then f g) (act_then f' g')"
  by (simp add: act_then_def agrees_bind)

lemma agrees_for: "(\<And>x. agrees (f x) (g x)) \<Longrightarrow> agrees (act_for f xs) (act_for g xs)"
  by (induction xs) (simp_all add: agrees_then)

lemma process_response_agrees:
  assumes again: "\<And>k rs. agrees (again k rs) (again' k rs)"
  shows "agrees (process_response env again k r) (process_response env again' k r)"
proof (cases r)
  case (TriggerWFTaskStarted i t)
  then show ?thesis
    unfolding process_response_def task_started_def MachineResponse.case
    by (auto intro!: agrees_then agrees_bind agrees_for again split: prod.split)
next
  case (RequestCancelLocalActivity seq)
  then show ?thesis
    by (auto simp: process_response_def intro!: agrees_bind again split: option.split)
qed (simp_all add: process_response_def)

lemma process_responses_deeper: "agrees (process_responses_at n env k rs) (process_responses_at (Suc n) env k rs)"
proof (induction n arbitrary: k rs)
  case 0
  show ?case by (simp add: agrees_def act_lift_def)
next
  case (Suc n)
  have "agrees (act_bind (wm_machine k) (\<lambda>_. act_for (process_response env (process_responses_at n env) k) rs))
      (act_bind (wm_machine k) (\<lambda>_. act_for (process_response env (process_responses_at (Suc n) env) k) rs))"
    by (intro agrees_bind agrees_for agrees_refl process_response_agrees Suc)
  then show ?case by (simp only: process_responses_at.simps)
qed

lemma process_responses_stable:
  assumes "\<And>m. fst (process_responses_at (n + m) env k rs s) \<noteq> Panic ''stack overflow''"
  shows "process_responses_at (n + m) env k rs s = process_responses_at n env k rs s"
proof (induction m)
  case (Suc m)
  with process_responses_deeper[of "n + m" env k rs] assms[of m] show ?case
    unfolding agrees_def add_Suc_right by metis
qed simp

text \<open>A slot map that counts its keys up, and a run that holds one local activity.\<close>

definition counting_slots :: "MachineEnv \<Rightarrow> WMEnv" where
  "counting_slots me = \<lparr> env_machine = me, env_dur_of = (\<lambda>_. None), env_seed_hash = (\<lambda>_. 0), env_clock = int,
     env_fresh_key = (\<lambda>ks. Suc (sum_list ks)), env_iter_order = (\<lambda>ks. ks) \<rparr>"

lemma counting_slots_laws: "slot_map_laws (counting_slots me)"
  using member_le_sum_list[where 'a=nat] by (auto simp: slot_map_laws_def counting_slots_def dest: not_less_eq_eq[THEN iffD2])

definition one_local_activity :: "RunBasics \<Rightarrow> LASharedState \<Rightarrow> WorkflowMachines" where
  "one_local_activity basics sh = (workflow_machines_new basics driven_workflow_new)\<lparr>
     wm_all_machines := [(1, LocalActivityMachine (from_parts LA_RequestSent sh))], wm_keys_issued := [1] \<rparr>"

text \<open>
  C4: Processing the responses of a machine ends.  Processing a response may call for the responses of
  other machines to be processed, but two levels of such calls are always enough: in a run whose
  machines are healthy, every bound on the depth of the calls from two on gives the result of the
  bound of three that stands for the unbounded recursion of the code, and none of them is reached.
\<close>

theorem process_machine_responses_depth:
  assumes "slot_map_laws env" "run_ok s" "has_key k s" "fits k rs s"
  shows "process_responses_at (2 + n) env k rs s = process_machine_responses env k rs s \<and>
    fst (process_machine_responses env k rs s) \<noteq> Panic ''stack overflow''"
proof -
  have no: "fst (process_responses_at (2 + m) env k rs s) \<noteq> Panic ''stack overflow''" for m
  proof
    assume "fst (process_responses_at (2 + m) env k rs s) = Panic ''stack overflow''"
    then have "incomplete_history ''stack overflow''"
      using run.safe_PanicD[OF safe_responses[OF assms(1)], of s k rs m ] assms(2-4)
      by (metis add_2_eq_Suc prod.collapse)
    then show False by (simp add: incomplete_history_def)
  qed
  show ?thesis
    using process_responses_stable[OF no, of n] process_responses_stable[OF no, of 1] no[of 1]
    by (simp add: process_machine_responses_def numeral_3_eq_3 numeral_2_eq_2)
qed

theorem process_machine_responses_depth_witness:
  "\<forall>me basics sh. process_responses_at 9 (counting_slots me) 1 [RequestCancelLocalActivity 4] (one_local_activity basics sh) =
      process_machine_responses (counting_slots me) 1 [RequestCancelLocalActivity 4] (one_local_activity basics sh) \<and>
    fst (process_machine_responses (counting_slots me) 1 [RequestCancelLocalActivity 4] (one_local_activity basics sh)) \<noteq>
      Panic ''stack overflow''"
proof (intro allI)
  fix me basics sh
  let ?s = "one_local_activity basics sh"
  have "run_ok ?s" "has_key 1 ?s" "fits 1 [RequestCancelLocalActivity 4] ?s"
    by (simp_all add: one_local_activity_def workflow_machines_new_def Let_def run_ok_def has_key_def fits_def
        has_la_def is_la_def driven_workflow_new_def split: option.split)
  from process_machine_responses_depth[OF counting_slots_laws[of me] this, where n=7]
  show "process_responses_at 9 (counting_slots me) 1 [RequestCancelLocalActivity 4] ?s =
      process_machine_responses (counting_slots me) 1 [RequestCancelLocalActivity 4] ?s \<and>
    fst (process_machine_responses (counting_slots me) 1 [RequestCancelLocalActivity 4] ?s) \<noteq> Panic ''stack overflow''"
    by (simp del: process_responses_at.simps)
qed

end
