(* ===== verification/RunOperations.thy ===== *)
theory RunOperations
  imports RunSafety
begin

text \<open>
  Every operation of a run is safe in the sense of \<open>RunSafety\<close>: the commands of lang, the preparation
  of commands, the handling of history events and messages, the application of a workflow task, and
  the calls through which the rest of the worker drives the run.
\<close>

section \<open>Keys\<close>

lemma safe_index_update:
  "safe (has_key k) (act_modify (\<lambda>s. s\<lparr> wm_id_to_machine := AList.update i k (wm_id_to_machine s) \<rparr>)) done_ok"
  "safe (has_key k) (act_modify (\<lambda>s. s\<lparr> wm_machines_by_protocol_instance_id :=
     AList.update iid k (wm_machines_by_protocol_instance_id s) \<rparr>)) done_ok"
  "safe (has_key k) (act_modify (\<lambda>s. s\<lparr> wm_machines_by_event_id :=
     AList.update eid k (wm_machines_by_event_id s) \<rparr>)) done_ok"
  by (rule run.safe_modify, simp add: run_ok_def has_key_def run_extends_def values_update_subset)+

lemma map_of_value: "map_of al i = Some k \<Longrightarrow> k \<in> snd ` set al"
  by (force dest: map_of_SomeD)

lemma safe_get_machine_key: "safe always (get_machine_key i) (\<lambda>k s. has_key k s)"
  by (rule run.safeI) (auto simp: get_machine_key_def has_key_def run_ok_def run.R_refl dest: map_of_value split: option.splits)

lemma safe_get_machine_by_msg: "safe always (get_machine_by_msg i) (\<lambda>k s. has_key k s)"
  by (rule run.safeI) (auto simp: get_machine_by_msg_def has_key_def run_ok_def run.R_refl dest: map_of_value split: option.splits)

lemma safe_add_terminal_command:
  assumes "slot_map_laws env" "healthy m"
  shows "safe P (add_terminal_command env (c, m) md) done_ok"
  unfolding add_terminal_command_def
  by (rule safe_always, rule safe_seq[OF safe_add_new_command_machine])
    (use assms in simp_all, intro run.safe_then run.safe_bind[where Q=done_ok] safe_push_command stable_keys
      safe_always[OF safe_read_clock] run.safe_weaken[OF run.safe_then], simp_all add: safe_same_any safe_push_command)

section \<open>Commands of lang\<close>

definition cancel_ok :: "(Machines \<Rightarrow> (responses \<times> Machines) option) \<Rightarrow> bool" where
  "cancel_ok cancel = (\<forall>m. healthy m \<longrightarrow> (case cancel m of
      None \<Rightarrow> True
    | Some r \<Rightarrow> machine_contract (\<lambda>rs. is_la m \<or> quiet rs) m r))"

lemma safe_cancel_machine:
  assumes laws: "slot_map_laws env" and ok: "cancel_ok cancel"
  shows "safe P (cancel_machine env i cancel) done_ok"
  unfolding cancel_machine_def
proof (rule safe_always, rule safe_seq[OF safe_get_machine_key], rule safe_call_and_process[OF laws])
  fix m assume "healthy m"
  then show "machine_contract (\<lambda>rs. is_la m \<or> quiet rs) m (case cancel m of
      None \<Rightarrow> (Err (Nondeterminism ''Machine was not a {} when it should have been during cancellation: {:?}''), m)
    | Some r \<Rightarrow> r)"
    using ok by (auto simp: cancel_ok_def machine_contract_def contract_def split: option.split)
qed

lemma lang_dispatch:
  assumes "contract (machine_inv ok) (list_all not_la_cancel) r"
    and "\<And>m. machine_inv ok m \<Longrightarrow> healthy (wrap m)" and "\<And>m. is_la (wrap m) = is_la mach"
  shows "machine_contract (\<lambda>rs. is_la mach \<or> quiet rs) mach (map_prod id wrap r)"
  by (rule dispatch_contract[OF assms]) (simp_all add: quiet_def)

lemma cancels_ok:
  "cancel_ok (\<lambda>mach. case mach of TimerMachine m \<Rightarrow> Some (map_prod id TimerMachine (timer_lang m ())) | _ \<Rightarrow> None)"
  "cancel_ok (\<lambda>mach. case mach of ActivityMachine m \<Rightarrow> Some (map_prod id ActivityMachine (activity_lang m ())) | _ \<Rightarrow> None)"
  "cancel_ok (\<lambda>mach. case mach of ChildWorkflowMachine m \<Rightarrow>
     Some (map_prod id ChildWorkflowMachine (child_lang m reason)) | _ \<Rightarrow> None)"
  "cancel_ok (\<lambda>mach. case mach of SignalExternalMachine m \<Rightarrow>
     Some (map_prod id SignalExternalMachine (signal_lang m ())) | _ \<Rightarrow> None)"
  "cancel_ok (\<lambda>mach. case mach of NexusOperationMachine m \<Rightarrow>
     Some (map_prod id NexusOperationMachine (nexus_lang m ())) | _ \<Rightarrow> None)"
  unfolding cancel_ok_def
  by (intro allI impI, erule healthyE; simp only: Machines.case option.case;
      (rule lang_dispatch, erule lang_contracts, simp add: healthy_any, simp add: is_la_def)?)+

lemma la_cancel_ok:
  "cancel_ok (\<lambda>mach. case mach of LocalActivityMachine m \<Rightarrow>
     Some (map_prod (map_err wf_error_from) LocalActivityMachine (local_activity_cancel cd m)) | _ \<Rightarrow> None)"
proof -
  have "map_prod (map_err wf_error_from) LocalActivityMachine (local_activity_cancel cd m) =
      map_prod id LocalActivityMachine (local_activity_lang cd m LACancel)" for m
    by (cases "local_activity_cancel cd m") (simp add: local_activity_lang_def)
  moreover have "machine_contract (\<lambda>rs. is_la (LocalActivityMachine m) \<or> quiet rs) (LocalActivityMachine m)
      (map_prod id LocalActivityMachine (local_activity_lang cd m LACancel))" if "machine_inv (\<lambda>_ _. True) m" for m
    by (rule dispatch_contract[OF lang_contracts(6)[OF that]]) (simp_all add: is_la_def)
  ultimately show ?thesis
    by (auto simp: cancel_ok_def elim!: healthyE)
qed

text \<open>New machines are healthy, and creating them does not panic.\<close>

lemma new_machines_healthy:
  "healthy (TimerMachine (from_parts TimerMachineState.StartCommandCreated \<lparr> tm_attrs = a, tm_cancelled_before_sent = b \<rparr>))"
  "healthy (ActivityMachine (from_parts ActivityMachineState.ScheduleCommandCreated (activity_initial attrs flags)))"
  "healthy (ChildWorkflowMachine (from_parts ChildWorkflowMachineState.StartCommandCreated (child_initial attribs flags)))"
  "healthy (NexusOperationMachine (snd (nexus_new_scheduled nattrs)))"
  by (simp_all add: healthy_def timer_ok_def activity_ok_def child_ok_def nexus_ok_def activity_initial_def
      child_initial_def nexus_new_scheduled_def cancelling_states_def)

lemma convert_option_not_Panic [simp]: "\<not> is_panic (convert_option f msg x)"
  by (simp add: convert_option_def split: option.split)

lemma from_schedule_la_not_Panic [simp]: "\<not> is_panic (from_schedule_la time_of dur_of v)"
  by (simp add: from_schedule_la_def outcome_simps Let_def split: option.split)

lemma shallow_quiet: "list_all shallow rs \<Longrightarrow> quiet rs"
  by (auto simp: quiet_def shallow_def requests_la_cancel_def list_all_iff split: MachineResponse.splits)

lemma new_local_activity_ok:
  assumes "new_local_activity cd now attrs replaying pre wf_time flags = Ok x"
  shows "healthy (LocalActivityMachine (fst x)) \<and> quiet (snd x)"
  using assms by (auto simp: new_local_activity_eq Let_def outcome_simps requests_la_cancel_def
      dest!: la_adapt_shallow intro: shallow_quiet split: if_splits option.splits)

lemma new_local_activity_not_Panic: "\<not> is_panic (new_local_activity cd now attrs replaying pre wf_time flags)"
proof -
  have "\<not> is_panic (local_activity_adapt_response cd m c info)" for m c info
    using la_adapt_Ok[of cd m c info] by auto
  then show ?thesis by (simp add: new_local_activity_eq Let_def outcome_simps split: option.split)
qed

lemma has_change_ok:
  "\<not> is_panic (fst (has_change cd i replaying dep seen ids flags))"
  "fst (has_change cd i replaying dep seen ids flags) = Ok x \<Longrightarrow> healthy (PatchMachine (snd (fst x))) \<and> quiet (snd x)"
  by (auto simp: has_change_eq Let_def requests_la_cancel_def split: option.splits if_splits prod.splits)

lemma safe_observe:
  assumes "\<And>s. P s \<Longrightarrow> \<not> is_panic (fst (f s)) \<and> same_keys s (snd (f s))"
    and "\<And>s x. P s \<Longrightarrow> fst (f s) = Ok x \<Longrightarrow> Q x"
  shows "safe P f (\<lambda>x _. Q x)"
proof (rule run.safeI)
  fix s x t assume "run_ok s" "P s" "f s = (Ok x, t)"
  with assms[of s] same_keys_ok[of s t] show "run_ok t \<and> run_extends s t \<and> Q x" by simp
next
  fix s p t assume "P s" "f s = (Panic p, t)"
  with assms(1)[of s] show "incomplete_history p" by simp
qed

text \<open>Commands that create a machine with responses to process.\<close>

lemma safe_process_quiet:
  assumes "slot_map_laws env"
  shows "safe (\<lambda>s. has_key k s \<and> quiet rs) (process_machine_responses env k rs) done_ok"
  by (rule run.safe_weaken[OF safe_process_machine_responses[OF assms]]) (simp_all add: fits_def)

lemma safe_if_known: "(A \<Longrightarrow> safe P f Q) \<Longrightarrow> safe (\<lambda>s. P s \<and> A) f Q"
  by (cases A) (simp, auto intro: run.safeI)

lemma safe_if: "safe P f Q \<Longrightarrow> safe P g Q \<Longrightarrow> safe P (if b then f else g) Q"
  by simp

lemma safe_new_local_activity:
  assumes laws: "slot_map_laws env" and la: "healthy (LocalActivityMachine la)" "quiet rs"
  shows "safe always (act_bind (insert_machine env (LocalActivityMachine la)) (\<lambda>machkey.
        act_then (act_modify (\<lambda>s. s\<lparr> wm_id_to_machine := AList.update i machkey (wm_id_to_machine s) \<rparr>))
        (process_machine_responses env machkey rs))) done_ok"
proof (rule safe_seq[OF safe_insert_machine[OF laws la(1)]], rule run.safe_weaken)
  fix k
  show "safe (has_key k) (act_then (act_modify (\<lambda>s. s\<lparr> wm_id_to_machine := AList.update i k (wm_id_to_machine s) \<rparr>))
      (process_machine_responses env k rs)) done_ok"
    by (intro run.safe_then safe_index_update run.safe_weaken[OF safe_process_quiet[OF laws]] stable_keys)
      (simp_all add: la)
qed simp_all

lemma safe_add_local_activity:
  assumes laws: "slot_map_laws env" and cmd: "wfc_variant cmd = WFC_AddLocalActivity attrs"
  shows "safe always (handle_driven_result env cmd) done_ok"
proof -
  have new: "safe always (\<lambda>s. act_lift (new_local_activity cd now la_attrs (wm_replaying s) preres
      (wm_current_wf_time s) (wm_observed_internal_flags s)) s)
      (\<lambda>x _. healthy (LocalActivityMachine (fst x)) \<and> quiet (snd x))" for cd now la_attrs preres
    by (rule safe_observe)
      (simp_all add: act_lift_def new_local_activity_not_Panic new_local_activity_ok del: healthy_plain)
  show ?thesis
    unfolding handle_driven_result_def Let_def cmd WFCommandVariant.case
    by (rule safe_seq_any[OF run.safe_lift], simp, simp, rule safe_seq_any[OF safe_la_update],
        rule safe_seq_any[OF safe_read_clock], rule safe_seq[OF new], unfold split_beta,
        rule safe_if_known[where P=always, simplified], rule safe_new_local_activity[OF laws]) blast+
qed

lemma safe_set_patch_marker:
  assumes laws: "slot_map_laws env" and cmd: "wfc_variant cmd = WFC_SetPatchMarker attrs"
  shows "safe always (handle_driven_result env cmd) done_ok"
proof -
  let ?new = "\<lambda>cd seen. (\<lambda>s. case has_change cd (spm_patch_id attrs) (wm_replaying s) (spm_deprecated attrs)
      seen (map fst (wm_encountered_patch_markers s)) (wm_observed_internal_flags s) of
      (r, fl) \<Rightarrow> (r, s\<lparr> wm_observed_internal_flags := fl \<rparr>))"
  have new: "safe always (?new cd seen) (\<lambda>x _. healthy (PatchMachine (snd (fst x))) \<and> quiet (snd x))" for cd seen
    by (rule safe_observe) (simp_all add: split_beta has_change_ok del: healthy_plain)
  have add: "safe (\<lambda>_. healthy (PatchMachine m) \<and> quiet rs)
      (act_bind (add_cmd_to_wf_task env (c, PatchMachine m) md NeverResolves) (\<lambda>mkey.
        act_then (process_machine_responses env mkey rs) (act_modify f))) done_ok"
    if f: "\<And>s. same_keys s (f s)" for c m md rs f
  proof (rule safe_if_known[where P=always, simplified], elim conjE)
    assume m: "healthy (PatchMachine m)" and rs: "quiet rs"
    show "safe always (act_bind (add_cmd_to_wf_task env (c, PatchMachine m) md NeverResolves) (\<lambda>mkey.
        act_then (process_machine_responses env mkey rs) (act_modify f))) done_ok"
      by (rule safe_seq[OF safe_add_cmd_to_wf_task[OF laws]])
        (use m in simp, intro run.safe_then safe_same_any f stable_keys run.safe_weaken[OF safe_process_quiet[OF laws]],
         use rs in simp_all)
  qed
  show ?thesis
    unfolding handle_driven_result_def Let_def cmd WFCommandVariant.case
    by (rule safe_seq_any[OF safe_get_any], rule safe_if, rule safe_return_any, rule safe_seq[OF new],
        unfold split_beta, rule add) simp
qed

lemma safe_update_response:
  assumes laws: "slot_map_laws env" and cmd: "wfc_variant cmd = WFC_UpdateResponse ur"
  shows "safe always (handle_driven_result env cmd) done_ok"
  unfolding handle_driven_result_def Let_def cmd WFCommandVariant.case
proof (rule safe_seq[OF safe_get_machine_by_msg], rule safe_call_and_process[OF laws])
  fix m assume "healthy m"
  then show "machine_contract (\<lambda>rs. is_la m \<or> quiet rs) m (case m of
      UpdateMachine m \<Rightarrow> map_prod id UpdateMachine (handle_response (me_encode (env_machine env)) m ur)
    | _ \<Rightarrow> (Err (Nondeterminism
        ''Tried to handle an update response for update with instance id {} but it was not found!''), m))"
  proof (cases m)
    case (UpdateMachine u)
    with \<open>healthy m\<close> have u: "machine_inv (\<lambda>_ _. True) u" by simp
    show ?thesis
      unfolding UpdateMachine Machines.case
      by (rule lang_dispatch[OF update_calls.lang_contract[OF u]]) (simp_all add: is_la_def)
  qed (simp_all add: machine_contract_def contract_def)
qed

lemma safe_upsert:
  assumes laws: "slot_map_laws env" and cmd: "wfc_variant cmd = WFC_UpsertSearchAttributes attrs"
  shows "safe always (handle_driven_result env cmd) done_ok"
proof -
  have new: "safe always (\<lambda>s. case upsert_search_attrs attrs (wm_observed_internal_flags s) (wm_replaying s) of
      (r, fl) \<Rightarrow> (Ok r, s\<lparr> wm_observed_internal_flags := fl \<rparr>))
      (\<lambda>x _. healthy (UpsertSearchAttributesMachine (snd x)))"
    by (rule safe_observe) (auto simp: upsert_search_attrs_eq)
  show ?thesis
    unfolding handle_driven_result_def Let_def cmd WFCommandVariant.case
    by (rule safe_then_any[OF safe_same_any], simp, rule safe_seq[OF new], unfold split_beta,
        rule safe_if_known[where P=always, simplified], rule safe_add_cmd[OF laws])
qed

lemma safe_handle_driven_result:
  assumes laws: "slot_map_laws env" and cmd: "query_response cmd = None"
  shows "safe always (handle_driven_result env cmd) done_ok"
proof (cases "wfc_variant cmd")
  case (WFC_AddTimer attrs)
  show ?thesis
    by (simp add: handle_driven_result_def Let_def WFC_AddTimer timer_new_scheduled_Ok lift_bind
        safe_add_cmd[OF laws] new_machines_healthy)
next
  case (WFC_AddActivity attrs)
  show ?thesis
    unfolding handle_driven_result_def Let_def WFC_AddActivity WFCommandVariant.case activity_new_scheduled_Ok lift_bind split
    by (intro safe_seq_any[OF safe_get_any] safe_add_cmd[OF laws] new_machines_healthy)
next
  case (WFC_AddChildWorkflow attrs)
  show ?thesis
    unfolding handle_driven_result_def Let_def WFC_AddChildWorkflow WFCommandVariant.case child_new_scheduled_Ok lift_bind split
    by (intro safe_seq_any[OF safe_get_any] safe_add_cmd[OF laws] new_machines_healthy)
next
  case (WFC_RequestCancelExternalWorkflow attrs)
  have new: "safe always (act_bind (act_lift (new_external_cancel seq we b r)) (\<lambda>(c, m).
      act_bind (add_cmd_to_wf_task env (c, CancelExternalMachine m) md i) (\<lambda>_. act_return ()))) done_ok" for seq we b r md i
  proof -
    obtain c m where cm: "new_external_cancel seq we b r = (Ok (c, m) :: (WFMachinesError, _) outcome)"
      "healthy (CancelExternalMachine m)" by (rule new_external_cancel_healthy)
    show ?thesis unfolding cm(1) lift_bind split by (rule safe_add_cmd[OF laws cm(2)])
  qed
  show ?thesis
    unfolding handle_driven_result_def Let_def WFC_RequestCancelExternalWorkflow WFCommandVariant.case
    by (cases "rcx_workflow_execution attrs") (auto simp: safe_err intro!: safe_seq_any[OF safe_get_any] new)
next
  case (WFC_SignalExternalWorkflow attrs)
  show ?thesis
    unfolding handle_driven_result_def Let_def WFC_SignalExternalWorkflow WFCommandVariant.case new_external_signal_Ok
    by (rule safe_seq_any[OF safe_get_any], cases "se_target attrs")
      (auto simp: lift_bind safe_err intro!: safe_add_cmd[OF laws])
next
  case (WFC_ContinueAsNew attrs)
  show ?thesis
    unfolding handle_driven_result_def Let_def WFC_ContinueAsNew WFCommandVariant.case new_terminal_machines lift_bind split
    by (intro safe_seq_any[OF safe_get_any] safe_add_terminal_command[OF laws]) simp
next
  case (WFC_QueryResponse q)
  then show ?thesis using cmd by (simp add: query_response_def)
next
  case (WFC_ScheduleNexusOperation attrs)
  have "map_prod id NexusOperationMachine (nexus_new_scheduled attrs) =
      (fst (nexus_new_scheduled attrs), NexusOperationMachine (snd (nexus_new_scheduled attrs)))"
    by (simp add: map_prod_def split_beta)
  then show ?thesis
    by (simp add: handle_driven_result_def Let_def WFC_ScheduleNexusOperation safe_add_cmd[OF laws] new_machines_healthy)
qed (simp_all add: safe_upsert[OF laws] safe_add_local_activity[OF laws] safe_set_patch_marker[OF laws]
      safe_update_response[OF laws], simp_all add: handle_driven_result_def Let_def safe_return_any
      safe_cancel_machine[OF laws] cancels_ok la_cancel_ok new_terminal_machines lift_bind
      safe_add_terminal_command[OF laws] safe_add_cmd[OF laws] modify_workflow_properties_def)

lemma safe_handle_driven_results:
  assumes "slot_map_laws env" "\<forall>c \<in> set cmds. query_response c = None"
  shows "safe always (handle_driven_results env cmds) done_ok"
  unfolding handle_driven_results_def
  by (rule run.safe_for) (use assms in \<open>simp_all add: safe_handle_driven_result\<close>)

section \<open>Preparing commands\<close>

definition all_commands_live :: "CommandAndMachine list \<Rightarrow> WorkflowMachines \<Rightarrow> bool" where
  "all_commands_live cs s = (\<forall>c \<in> set cs. has_key (cam_machine c) s)"

lemma stable_live [simp]: "run.stable (all_commands_live cs)"
  using stable_keys(1) by (simp add: all_commands_live_def)

lemma commands_live: "run_ok s \<Longrightarrow> all_commands_live (wm_commands s) s"
  "run_ok s \<Longrightarrow> all_commands_live (wm_current_wf_task_commands s) s"
  by (auto simp: run_ok_def all_commands_live_def has_key_def)

text \<open>A question to the machine of a command.\<close>

lemma safe_ask_machine:
  assumes q: "\<And>m. healthy m \<Longrightarrow> \<exists>b. q m = Ok b" and g: "\<And>m b. safe P (g m b) T" and key: "\<And>s. P s \<Longrightarrow> has_key k s"
    and stable: "run.stable P"
  shows "safe P (act_bind (wm_machine k) (\<lambda>m. act_bind (act_lift (q m)) (g m))) T"
proof (rule run.safe_bind[OF _ _ stable])
  show "safe P (wm_machine k) (\<lambda>m _. healthy m)"
    by (rule run.safe_weaken[OF safe_machine]) (simp_all add: key)
  fix m
  show "safe (\<lambda>s. P s \<and> healthy m) (act_bind (act_lift (q m)) (g m)) T"
  proof (rule safe_if_known)
    assume "healthy m"
    with q obtain b where "q m = Ok b" by blast
    then show "safe P (act_bind (act_lift (q m)) (g m)) T" by (simp add: lift_bind g)
  qed
qed

lemma safe_retain_commands:
  "safe (all_commands_live cs) (retain_commands cs) (\<lambda>kept s. all_commands_live kept s)"
proof (induction cs)
  case Nil
  show ?case by (simp add: run.safe_return all_commands_live_def)
next
  case (Cons c cs)
  have rest: "safe (all_commands_live (c # cs)) (retain_commands cs) (\<lambda>kept s. all_commands_live kept s)"
    by (rule run.safe_weaken[OF Cons.IH]) (simp_all add: all_commands_live_def)
  show ?case
    unfolding retain_commands.simps
  proof (rule safe_ask_machine[OF was_cancelled_Ok])
    fix b
    show "safe (all_commands_live (c # cs)) (act_bind (retain_commands cs) (\<lambda>rest.
        act_return (if b then rest else c # rest))) (\<lambda>kept s. all_commands_live kept s)"
      by (rule run.safe_bind[OF rest]) (auto simp: all_commands_live_def intro!: run.safe_return)
  qed (use stable_live in \<open>simp_all add: all_commands_live_def\<close>)
qed

lemma safe_prepare_command:
  assumes laws: "slot_map_laws env"
  shows "safe (has_key (cam_machine c)) (prepare_command env c) done_ok"
proof -
  have handle: "safe (has_key k) (act_bind (call_machine k (\<lambda>m. machine_handle_command (env_machine env) m ct))
      (process_machine_responses env k)) done_ok" for k ct
  proof (rule safe_call_and_process[OF laws])
    fix m assume "healthy m"
    from machine_handle_command_contract[OF this, of "env_machine env" ct] show
      "machine_contract (\<lambda>rs. is_la m \<or> quiet rs) m (machine_handle_command (env_machine env) m ct)"
      by (auto simp: machine_contract_def contract_def split: outcome.splits prod.splits)
  qed
  have push: "safe (has_key (cam_machine c)) (act_modify (\<lambda>s. s\<lparr> wm_commands := wm_commands s @ [c] \<rparr>)) done_ok"
    by (rule run.safe_modify) (simp add: run_ok_def run_extends_def has_key_def)
  show ?thesis
    unfolding prepare_command_def
    by (rule safe_ask_machine[OF was_cancelled_Ok], assumption, rule safe_if, rule safe_return_any,
        rule run.safe_then[OF _ push stable_keys(1)], cases "cam_command c")
      (simp_all add: handle safe_return_any)
qed

text \<open>Taking over a command has no responses, so preparing a command queues no other.\<close>

lemma process_no_responses: "has_key k s \<Longrightarrow> process_machine_responses env k [] s = (Ok (), s)"
  by (auto simp: process_machine_responses_def numeral_3_eq_3 act_bind_def wm_machine_def has_key_map_of act_return_def)

lemma call_machine_queue:
  "call_machine k f s = (r, t) \<Longrightarrow> wm_current_wf_task_commands t = wm_current_wf_task_commands s"
  by (auto simp: call_machine_def split: option.splits prod.splits)

lemma handle_command_silent:
  assumes s: "run_ok s" "has_key (cam_machine c) s" and t: "prepare_command env c s = (Ok x, t)"
  shows "wm_current_wf_task_commands t = wm_current_wf_task_commands s"
proof -
  have silent: "safe (has_key k) (call_machine k (\<lambda>m. machine_handle_command (env_machine env) m ct))
      (\<lambda>rs s. rs = [])" for k ct
    by (rule safe_call_machine[where ok="\<lambda>_. True" and adm="\<lambda>_ rs. rs = []"])
      (simp_all add: machine_handle_command_contract)
  have call: "rs = [] \<and> has_key (cam_machine c) u \<and> wm_current_wf_task_commands u = wm_current_wf_task_commands s"
    if "call_machine (cam_machine c) (\<lambda>m. machine_handle_command (env_machine env) m ct) s = (Ok rs, u)" for ct rs u
    using run.safe_OkD[OF silent s that] s(2) stable_keys(1) call_machine_queue[OF that] by blast
  from t show ?thesis
    by (auto simp: prepare_command_def act_bind_def act_then_def act_lift_def act_return_def act_modify_def wm_machine_def
        process_no_responses dest!: call
        split: prod.splits outcome.splits option.splits if_splits MachineAssociatedCommand.splits)
qed

lemma take_command:
  assumes "run_ok s" "wm_current_wf_task_commands s = c # rest"
  shows "run_ok (s\<lparr> wm_current_wf_task_commands := rest \<rparr>) \<and>
    run_extends s (s\<lparr> wm_current_wf_task_commands := rest \<rparr>) \<and>
    has_key (cam_machine c) (s\<lparr> wm_current_wf_task_commands := rest \<rparr>)"
  using assms by (simp add: run_ok_def run_extends_def has_key_def)

lemma act_then_OkE:
  assumes "act_then f g s = (Ok x, u)"
  obtains t where "f s = (Ok (), t)" "g t = (Ok x, u)"
  using assms by (auto simp: act_then_def act_bind_def split: prod.splits outcome.splits)

lemma act_then_PanicE:
  assumes "act_then f g s = (Panic p, u)"
  obtains "f s = (Panic p, u)" | t where "f s = (Ok (), t)" "g t = (Panic p, u)"
  using assms by (auto simp: act_then_def act_bind_def split: prod.splits outcome.splits)

lemma safe_prepare_loop:
  assumes laws: "slot_map_laws env"
  shows "safe (\<lambda>s. length (wm_current_wf_task_commands s) < n) (prepare_loop n env) done_ok"
proof (induction n)
  case 0
  show ?case by (rule run.safeI) simp_all
next
  case (Suc n)
  have step: "run_ok t \<and> run_extends s t \<and> length (wm_current_wf_task_commands t) < n"
    if s: "run_ok s" "length (wm_current_wf_task_commands s) < Suc n" "wm_current_wf_task_commands s = c # rest"
      and t: "prepare_command env c (s\<lparr> wm_current_wf_task_commands := rest \<rparr>) = (Ok (), t)" for s c rest t
  proof -
    note s' = take_command[OF s(1,3)]
    from run.safe_OkD[OF safe_prepare_command[OF laws] _ _ t] s' have "run_ok t" "run_extends s t"
      by (blast intro: run.R_trans)+
    moreover have "wm_current_wf_task_commands t = rest"
      using handle_command_silent[OF _ _ t] s' by simp
    ultimately show ?thesis using s by simp
  qed
  show ?case
  proof (rule run.safeI)
    fix s x u assume s: "run_ok s" "length (wm_current_wf_task_commands s) < Suc n"
      and u: "prepare_loop (Suc n) env s = (Ok x, u)"
    show "run_ok u \<and> run_extends s u \<and> True"
    proof (cases "wm_current_wf_task_commands s")
      case (Cons c rest)
      with u obtain t where t: "prepare_command env c (s\<lparr> wm_current_wf_task_commands := rest \<rparr>) = (Ok (), t)"
        "prepare_loop n env t = (Ok x, u)" by (auto elim: act_then_OkE)
      with step[OF s Cons t(1)] run.safe_OkD[OF Suc.IH _ _ t(2)] show ?thesis by (blast intro: run.R_trans)
    qed (use s u in \<open>simp add: run.R_refl\<close>)
  next
    fix s p u assume s: "run_ok s" "length (wm_current_wf_task_commands s) < Suc n"
      and u: "prepare_loop (Suc n) env s = (Panic p, u)"
    then obtain c rest where c: "wm_current_wf_task_commands s = c # rest"
      by (cases "wm_current_wf_task_commands s") auto
    with u have "act_then (prepare_command env c) (prepare_loop n env) (s\<lparr> wm_current_wf_task_commands := rest \<rparr>) = (Panic p, u)"
      by simp
    then show "incomplete_history p"
    proof (rule act_then_PanicE)
      assume "prepare_command env c (s\<lparr> wm_current_wf_task_commands := rest \<rparr>) = (Panic p, u)"
      with run.safe_PanicD[OF safe_prepare_command[OF laws]] take_command[OF s(1) c] show ?thesis by blast
    next
      fix t assume t: "prepare_command env c (s\<lparr> wm_current_wf_task_commands := rest \<rparr>) = (Ok (), t)"
        "prepare_loop n env t = (Panic p, u)"
      with step[OF s c t(1)] run.safe_PanicD[OF Suc.IH _ _ t(2)] show ?thesis by blast
    qed
  qed
qed

lemma safe_prepare_commands:
  assumes laws: "slot_map_laws env"
  shows "safe always (prepare_commands env) done_ok"
proof -
  have keep: "safe (all_commands_live kept) (act_modify (\<lambda>s. s\<lparr> wm_commands := kept \<rparr>)) done_ok" for kept
    by (rule run.safe_modify) (auto simp: run_ok_def run_extends_def all_commands_live_def has_key_def)
  have loop: "safe P (act_bind (act_get (\<lambda>s. length (wm_current_wf_task_commands s))) (\<lambda>n. prepare_loop (Suc n) env)) done_ok"
    for P
  proof (rule run.safeI)
    fix s x t
    assume s: "run_ok s" and t: "act_bind (act_get (\<lambda>s. length (wm_current_wf_task_commands s)))
      (\<lambda>n. prepare_loop (Suc n) env) s = (Ok x, t)"
    have "prepare_loop (Suc (length (wm_current_wf_task_commands s))) env s = (Ok x, t)"
      using t unfolding act_bind_def act_get_def by simp
    from run.safe_OkD[OF safe_prepare_loop[OF laws] s _ this] show "run_ok t \<and> run_extends s t \<and> True" by simp
  next
    fix s p t
    assume s: "run_ok s" and t: "act_bind (act_get (\<lambda>s. length (wm_current_wf_task_commands s)))
      (\<lambda>n. prepare_loop (Suc n) env) s = (Panic p, t)"
    have "prepare_loop (Suc (length (wm_current_wf_task_commands s))) env s = (Panic p, t)"
      using t unfolding act_bind_def act_get_def by simp
    from run.safe_PanicD[OF safe_prepare_loop[OF laws] s _ this] show "incomplete_history p" by simp
  qed
  have "safe always (act_get wm_commands) (\<lambda>cs s. all_commands_live cs s)"
    by (rule run.safe_get) (simp add: commands_live)
  then show ?thesis
    unfolding prepare_commands_def
    by (rule safe_seq, intro run.safe_bind[OF safe_retain_commands] stable_live)
      (rule run.safe_weaken[OF run.safe_then[OF keep loop stable_live]], simp_all)
qed

lemma safe_iterate_machines:
  assumes laws: "slot_map_laws env"
  shows "safe always (iterate_machines env) done_ok"
proof -
  have fetch: "safe always (\<lambda>s. case fetch_workflow_iteration_output (wm_drive_me s) of
      (results, d) \<Rightarrow> (Ok results, s\<lparr> wm_drive_me := d \<rparr>)) (\<lambda>cmds _. \<forall>c \<in> set cmds. query_response c = None)"
  proof (rule run.safeI)
    fix s cmds t assume s: "run_ok s" and t: "(case fetch_workflow_iteration_output (wm_drive_me s) of
        (results, d) \<Rightarrow> (Ok results, s\<lparr> wm_drive_me := d \<rparr>)) = (Ok cmds, t)"
    show "run_ok t \<and> run_extends s t \<and> (\<forall>c \<in> set cmds. query_response c = None)"
    proof (cases "dw_incoming_commands (wm_drive_me s)")
      case Nil
      with t have "t = s" "cmds = [\<lparr> wfc_variant = WFC_NoCommandsFromLang, wfc_metadata = None \<rparr>]"
        by (simp_all add: fetch_workflow_iteration_output_def)
      with s show ?thesis by (simp add: query_response_def run.R_refl)
    next
      case (Cons c cs)
      with t have "t = s\<lparr> wm_drive_me := (wm_drive_me s)\<lparr> dw_incoming_commands := cs \<rparr> \<rparr>" "cmds = c"
        by (simp_all add: fetch_workflow_iteration_output_def)
      with s Cons show ?thesis by (simp add: run_ok_def run_extends_def)
    qed
  qed (simp add: split_beta)
  show ?thesis
    unfolding iterate_machines_def
    by (rule safe_seq[OF fetch], rule safe_if_known[where P=always, simplified])
      (intro safe_then_any safe_handle_driven_results safe_prepare_commands laws)
qed

lemma safe_push_commands_and_iterate:
  assumes laws: "slot_map_laws env" and cmds: "\<forall>c \<in> set cmds. query_response c = None"
  shows "safe always (push_commands_and_iterate env cmds) done_ok"
proof -
  have "safe always (act_modify (\<lambda>s. s\<lparr> wm_drive_me := (wm_drive_me s)\<lparr> dw_incoming_commands :=
      dw_incoming_commands (wm_drive_me s) @ [cmds] \<rparr> \<rparr>)) done_ok"
    by (rule run.safe_modify) (use cmds in \<open>auto simp: run_ok_def run_extends_def\<close>)
  then show ?thesis
    unfolding push_commands_and_iterate_def by (rule safe_then_any[OF _ safe_iterate_machines[OF laws]])
qed

end
