(* ===== verification/RunEvents.thy ===== *)
theory RunEvents
  imports RunOperations
begin

text \<open>
  Safety of the part of a run that follows history: protocol messages, history events, the look-ahead
  and the application of a workflow task; and of the calls through which the worker drives the run.
\<close>

section \<open>Protocol messages\<close>

lemma safe_add_new_protocol_machine:
  assumes "slot_map_laws env" "healthy m"
  shows "safe always (add_new_protocol_machine env m i) (\<lambda>k s. has_key k s)"
  unfolding add_new_protocol_machine_def
proof (rule safe_seq[OF safe_insert_machine[OF assms]], rule run.safe_weaken)
  fix k
  show "safe (has_key k) (act_then (act_modify (\<lambda>s. s\<lparr> wm_machines_by_protocol_instance_id :=
      AList.update i k (wm_machines_by_protocol_instance_id s) \<rparr>)) (act_return k)) (\<lambda>k s. has_key k s)"
    by (rule run.safe_then[OF safe_index_update(2) _ stable_keys(1)]) (simp add: run.safe_return)
qed simp_all

lemma safe_handle_protocol_message:
  assumes laws: "slot_map_laws env" and valid: "valid_update_request (ipm_body msg)"
  shows "safe always (handle_protocol_message env msg) done_ok"
proof -
  have init: "\<exists>um r. update_init i iid seq (ipm_body msg) replaying = (Ok (um, PushWFJob r) :: (WFMachinesError, _) outcome) \<and>
      healthy (UpdateMachine um)" for i iid seq replaying
    using valid by (auto simp: valid_update_request_def update_init_Ok)
  have new: "safe always (act_bind (act_lift (update_init i iid seq (ipm_body msg) replaying)) (\<lambda>(um, response).
      act_bind (add_new_protocol_machine env (UpdateMachine um) iid') (\<lambda>mk.
      process_machine_responses env mk [response]))) done_ok" for i iid iid' seq replaying
  proof -
    obtain um r where um: "update_init i iid seq (ipm_body msg) replaying = (Ok (um, PushWFJob r) :: (WFMachinesError, _) outcome)"
      "healthy (UpdateMachine um)" using init by blast
    show ?thesis
      unfolding um(1) lift_bind split
      by (rule safe_seq[OF safe_add_new_protocol_machine[OF laws um(2)]],
          rule run.safe_weaken[OF safe_process_quiet[OF laws]]) (simp_all add: requests_la_cancel_def)
  qed
  show ?thesis
    unfolding handle_protocol_message_def
    by (cases "ipm_sequencing_id msg") (auto simp: safe_err intro!: safe_seq_any[OF safe_get_any] new split: SequencingId.split)
qed

definition valid_msgs :: "IncomingProtocolMessage list \<Rightarrow> bool" where
  "valid_msgs msgs = (\<forall>m \<in> set msgs. valid_update_request (ipm_body m))"

lemma safe_handle_protocol_messages:
  "slot_map_laws env \<Longrightarrow> valid_msgs msgs \<Longrightarrow> safe always (act_for (handle_protocol_message env) msgs) done_ok"
  by (rule run.safe_for) (simp_all add: safe_handle_protocol_message valid_msgs_def)

lemma safe_take_processable_msgs: "safe always (take_processable_msgs i) (\<lambda>msgs _. valid_msgs msgs)"
  by (rule run.safeI) (auto simp: take_processable_msgs_def run_ok_def run_extends_def valid_msgs_def)

section \<open>Events\<close>

lemma patch_marker_handling_not_Panic [simp]: "\<not> is_panic (patch_marker_handling cd e m n)"
  by (simp add: patch_marker_handling_def Let_def split: option.split)

lemma commands_tail: "safe (all_commands_live (c # cs)) (act_modify (\<lambda>s. s\<lparr> wm_commands := cs \<rparr>)) done_ok"
  by (rule run.safe_modify) (auto simp: run_ok_def run_extends_def all_commands_live_def has_key_def)

lemma safe_consume_command:
  assumes laws: "slot_map_laws env"
  shows "safe (all_commands_live cs) (consume_command env d n cs)
    (\<lambda>r s. case r of Inr c \<Rightarrow> has_key (cam_machine c) s | Inl _ \<Rightarrow> True)"
proof (induction cs)
  case Nil
  show ?case
    unfolding consume_command.simps
    by (rule run.safe_bind[where Q=done_ok], rule run.safe_lift)
      (auto simp: safe_err intro!: run.safe_return split: EventHandlingOutcome.split)
next
  case (Cons c cs)
  let ?Q = "\<lambda>r s. case r of Inr c \<Rightarrow> has_key (cam_machine c) s | Inl _ \<Rightarrow> True"
  let ?P = "all_commands_live (c # cs)"
  have rest: "safe ?P (consume_command env d n cs) ?Q"
    by (rule run.safe_weaken[OF Cons.IH]) (simp_all add: all_commands_live_def)
  have take: "safe ?P (submachine_handle_event env (cam_machine c) d) done_ok"
    by (rule run.safe_weaken[OF safe_submachine_handle_event[OF laws]]) (simp_all add: all_commands_live_def)
  have machine: "safe ?P (wm_machine (cam_machine c)) (\<lambda>m _. healthy m)"
    by (rule run.safe_weaken[OF safe_machine]) (simp_all add: all_commands_live_def)
  have handle: "safe ?P (if b then consume_command env d n cs
      else act_then (submachine_handle_event env (cam_machine c) d) (act_return (Inr c))) ?Q" for b
    by (rule safe_if[OF rest run.safe_then[OF take _ stable_live]])
      (rule run.safe_return, simp add: all_commands_live_def)
  have known: "safe ?P (act_bind (act_lift (machine_was_cancelled_before_sent_to_server m)) (\<lambda>canceled_before_sent.
      if canceled_before_sent then consume_command env d n cs
      else act_then (submachine_handle_event env (cam_machine c) d) (act_return (Inr c)))) ?Q" if m: "healthy m" for m
  proof -
    obtain b where "machine_was_cancelled_before_sent_to_server m = (Ok b :: (WFMachinesError, bool) outcome)"
      using was_cancelled_Ok[OF m] by blast
    then show ?thesis by (simp only: lift_bind handle)
  qed
  show ?case
    unfolding consume_command.simps
  proof (rule run.safe_bind[OF machine _ stable_live], rule safe_if_known)
    fix m assume m: "healthy m"
    show "safe ?P (act_bind (act_lift (patch_marker_handling (me_codec (env_machine env)) (hed_event d) (Some m) n))
       (\<lambda>eho. case eho of SkipEvent b \<Rightarrow> act_return (Inl (SkipEvent b))
         | SkipCommand \<Rightarrow> act_then (act_modify (\<lambda>s. s\<lparr> wm_commands := cs \<rparr>)) (consume_command env d n cs)
         | NormalOutcome \<Rightarrow> act_then (act_modify (\<lambda>s. s\<lparr> wm_commands := cs \<rparr>))
             (act_bind (act_lift (machine_was_cancelled_before_sent_to_server m)) (\<lambda>canceled_before_sent.
               if canceled_before_sent then consume_command env d n cs
               else act_then (submachine_handle_event env (cam_machine c) d) (act_return (Inr c)))))) ?Q"
      by (rule run.safe_bind[where Q=done_ok, OF run.safe_lift _ stable_live])
        (auto intro!: run.safe_return run.safe_then[OF commands_tail _ stable_live] rest known[OF m]
          split: EventHandlingOutcome.split)
  qed
qed

lemma special_handling_not_Panic: "healthy (LocalActivityMachine m) \<Longrightarrow> \<not> is_panic (marker_should_get_special_handling m)"
  by (auto simp: marker_should_get_special_handling_def get_state_def machine_inv_def outcome_simps
      split: option.splits LocalActivityMachineState.splits)

lemma safe_note_command:
  "safe (has_key (cam_machine c)) (act_bind (wm_machine (cam_machine c)) (\<lambda>m.
     act_bind (act_lift (machine_is_final_state m)) (\<lambda>final.
     act_then (act_modify (\<lambda>s. if \<not> final then s\<lparr> wm_machines_by_event_id :=
         AList.update i (cam_machine c) (wm_machines_by_event_id s) \<rparr> else s)) (act_return NormalOutcome)))) done_ok"
proof (rule safe_ask_machine[OF is_final_Ok])
  fix final :: bool
  show "safe (has_key (cam_machine c)) (act_then (act_modify (\<lambda>s. if \<not> final then s\<lparr> wm_machines_by_event_id :=
      AList.update i (cam_machine c) (wm_machines_by_event_id s) \<rparr> else s)) (act_return NormalOutcome)) done_ok"
    by (cases final) (auto intro!: run.safe_then[OF _ safe_return_any stable_keys(1)] safe_index_update safe_same_any)
qed simp_all

lemma safe_handle_command_event:
  assumes laws: "slot_map_laws env"
  shows "safe always (handle_command_event env d n) done_ok"
proof -
  let ?cd = "me_codec (env_machine env)" and ?event = "hed_event d"
  let ?queue = "act_bind (act_get wm_commands) (\<lambda>cs. act_bind (consume_command env d n cs) (\<lambda>r. case r of
      Inl eho \<Rightarrow> act_return eho
    | Inr c \<Rightarrow> act_bind (wm_machine (cam_machine c)) (\<lambda>m. act_bind (act_lift (machine_is_final_state m)) (\<lambda>final.
        act_then (act_modify (\<lambda>s. if \<not> final then s\<lparr> wm_machines_by_event_id :=
            AList.update (event_id ?event) (cam_machine c) (wm_machines_by_event_id s) \<rparr> else s))
        (act_return NormalOutcome)))))"
  have get: "safe always (act_get wm_commands) (\<lambda>cs s. all_commands_live cs s)"
    by (rule run.safe_get) (simp add: commands_live)
  have after: "safe (\<lambda>s. all_commands_live cs s \<and> (case r of Inr c \<Rightarrow> has_key (cam_machine c) s | Inl _ \<Rightarrow> True))
      (case r of Inl eho \<Rightarrow> act_return eho
       | Inr c \<Rightarrow> act_bind (wm_machine (cam_machine c)) (\<lambda>m. act_bind (act_lift (machine_is_final_state m)) (\<lambda>final.
           act_then (act_modify (\<lambda>s. if \<not> final then s\<lparr> wm_machines_by_event_id :=
            AList.update (event_id ?event) (cam_machine c) (wm_machines_by_event_id s) \<rparr> else s))
        (act_return NormalOutcome)))) done_ok" for cs r
  proof (cases r)
    case (Inr c)
    show ?thesis unfolding Inr sum.case by (rule run.safe_weaken[OF safe_note_command]) simp_all
  qed (simp add: safe_return_any)
  have queue: "safe P ?queue done_ok" for P
    by (rule safe_always, rule safe_seq[OF get], rule run.safe_bind[OF safe_consume_command[OF laws] after stable_live])
  have special: "safe (has_key k) (act_bind (act_lift (marker_should_get_special_handling lam)) (\<lambda>special.
      if special then act_then (submachine_handle_event env k d) (act_return NormalOutcome) else ?queue)) done_ok"
    if "healthy (LocalActivityMachine lam)" for k lam
  proof (rule run.safe_bind[where Q=done_ok, OF run.safe_lift _ stable_keys(1)])
    show "\<not> is_panic (marker_should_get_special_handling lam)" by (rule special_handling_not_Panic[OF that])
    have "safe (has_key k) (act_then (submachine_handle_event env k d) (act_return NormalOutcome)) done_ok"
      by (rule run.safe_then[OF safe_submachine_handle_event[OF laws] safe_return_any stable_keys(1)])
    then show "safe (\<lambda>s. has_key k s \<and> True)
        (if b then act_then (submachine_handle_event env k d) (act_return NormalOutcome) else ?queue) done_ok" for b
      by (intro safe_if queue) simp
  qed simp
  have marker: "safe (has_key k) (act_bind (wm_machine k) (\<lambda>mach. case mach of
      LocalActivityMachine lam \<Rightarrow> act_bind (act_lift (marker_should_get_special_handling lam)) (\<lambda>special.
        if special then act_then (submachine_handle_event env k d) (act_return NormalOutcome) else ?queue)
    | _ \<Rightarrow> act_lift (Err e))) done_ok" for k e
  proof (rule run.safe_bind[OF safe_machine _ stable_keys(1)])
    fix mach
    show "safe (\<lambda>s. has_key k s \<and> healthy mach \<and> map_of (wm_all_machines s) k = Some mach) (case mach of
        LocalActivityMachine lam \<Rightarrow> act_bind (act_lift (marker_should_get_special_handling lam)) (\<lambda>special.
          if special then act_then (submachine_handle_event env k d) (act_return NormalOutcome) else ?queue)
      | _ \<Rightarrow> act_lift (Err e)) done_ok"
      using special by (cases mach; cases "healthy mach") (auto simp: safe_err intro: run.safe_weaken run.safeI)
  qed
  show ?thesis
    unfolding handle_command_event_def Let_def
    by (rule safe_if, cases "event_extract_local_activity_marker_data ?cd ?event")
      (simp_all only: option.case safe_err safe_seq[OF safe_get_machine_key marker] queue)
qed

lemma safe_task_scheduled:
  assumes laws: "slot_map_laws env"
  shows "safe always (act_bind (insert_machine env (WorkflowTaskMachine (workflow_task_new i))) (\<lambda>key.
        act_then (submachine_handle_event env key d)
        (act_modify (\<lambda>s. s\<lparr> wm_machines_by_event_id := AList.update eid key (wm_machines_by_event_id s) \<rparr>)))) done_ok"
proof (rule safe_seq[OF safe_insert_machine[OF laws]])
  show "healthy (WorkflowTaskMachine (workflow_task_new i))" by (simp add: workflow_task_new_def)
  fix key
  have "safe (has_key key) (act_then (submachine_handle_event env key d)
      (act_modify (\<lambda>s. s\<lparr> wm_machines_by_event_id := AList.update eid key (wm_machines_by_event_id s) \<rparr>))) done_ok"
    by (rule run.safe_then[OF safe_submachine_handle_event[OF laws] safe_index_update(3) stable_keys(1)])
  then show "safe (\<lambda>s. has_key key s \<and> (is_la (WorkflowTaskMachine (workflow_task_new i)) \<longrightarrow> has_la key s))
     (act_then (submachine_handle_event env key d)
      (act_modify (\<lambda>s. s\<lparr> wm_machines_by_event_id := AList.update eid key (wm_machines_by_event_id s) \<rparr>))) done_ok"
    by (rule run.safe_weaken) simp_all
qed

lemma safe_handle_non_stateful_event:
  assumes laws: "slot_map_laws env"
  shows "safe always (handle_non_stateful_event env d) done_ok"
proof -
  have start: "safe always (act_then (case t of
      Some st \<Rightarrow> (case me_time_of (env_machine env) st of
          Some u \<Rightarrow> act_then (act_modify (\<lambda>s. s\<lparr> wm_workflow_start_time := Some u \<rparr>)) (act_modify (set_current_time u))
        | None \<Rightarrow> act_lift (Err e))
    | None \<Rightarrow> act_return ()) (act_modify f)) done_ok" if "\<And>s. same_keys s (f s)" for t e f
    by (rule safe_then_any) (auto simp: that safe_return_any safe_err intro!: safe_same_any safe_then_any split: option.split)
  show ?thesis
    unfolding handle_non_stateful_event_def Let_def
    by (cases "event_type (hed_event d)")
      (simp_all add: safe_err safe_same_any safe_return_any start safe_seq_any[OF safe_get_any safe_task_scheduled[OF laws]]
        split: option.split)
qed

lemma safe_wm_handle_event:
  assumes laws: "slot_map_laws env"
  shows "safe always (wm_handle_event env d n) done_ok"
proof -
  have routed: "safe always (case get_initial_command_event_id e of
      Some i \<Rightarrow> act_bind (act_get (\<lambda>s. map_of (wm_machines_by_event_id s) i)) (\<lambda>found. case found of
          Some k \<Rightarrow> submachine_handle_event env k d
        | None \<Rightarrow> act_lift (Err err))
    | None \<Rightarrow> handle_non_stateful_event env d) done_ok" for e err
  proof (cases "get_initial_command_event_id e")
    case (Some i)
    have found: "safe always (act_get (\<lambda>s. map_of (wm_machines_by_event_id s) i)) (\<lambda>r s. \<forall>k. r = Some k \<longrightarrow> has_key k s)"
      by (rule run.safe_get) (auto simp: run_ok_def has_key_def dest: map_of_value)
    have "safe (\<lambda>s. \<forall>k. r = Some k \<longrightarrow> has_key k s) (case r of Some k \<Rightarrow> submachine_handle_event env k d
        | None \<Rightarrow> act_lift (Err err)) done_ok" for r
      by (cases r) (simp_all add: safe_err safe_submachine_handle_event[OF laws])
    then show ?thesis unfolding Some option.case by (rule safe_seq[OF found])
  qed (simp add: safe_handle_non_stateful_event[OF laws])
  show ?thesis
    unfolding wm_handle_event_def Let_def
    by (intro safe_then_any safe_if routed safe_handle_command_event[OF laws] safe_same_any safe_return_any safe_err)
      (auto simp: same_keys_def split: option.split)
qed

section \<open>Applying a workflow task\<close>

lemma apply_wft_complete_data_same [simp]: "same_keys s (apply_wft_complete_data wtc s)"
  by (simp add: apply_wft_complete_data_def Let_def same_keys_def)

lemma same_keys_trans: "same_keys s t \<Longrightarrow> same_keys t u \<Longrightarrow> same_keys s u"
  by (simp add: same_keys_def)

lemma apply_complete_data_same [simp]: "same_keys s (apply_complete_data es s)"
proof (induction es arbitrary: s)
  case (Cons e es)
  show ?case
    unfolding apply_complete_data.simps Let_def
    by (rule same_keys_trans[OF _ Cons])
      (auto intro: same_keys_trans[OF apply_wft_complete_data_same apply_wft_complete_data_same] split: option.split)
qed simp

text \<open>The stashed messages are valid.\<close>

definition valid_admitted :: "admitted_msgs \<Rightarrow> bool" where
  "valid_admitted admitted = (\<forall>m \<in> snd ` set admitted. valid_update_request (ipm_body m))"

lemma protocol_message_from_event_not_Panic [simp]: "\<not> is_panic (protocol_message_from_event e)"
  by (simp add: protocol_message_from_event_def outcome_simps split: option.split)

lemma valid_admitted_update:
  "valid_admitted al \<Longrightarrow> valid_update_request (ipm_body m) \<Longrightarrow> valid_admitted (AList.update i m al)"
  unfolding valid_admitted_def by (rule all_values_update)

lemma safe_message_from_event:
  "safe P (act_lift (map_err err (protocol_message_from_event e))) (\<lambda>msg _. valid_update_request (ipm_body msg))"
  by (rule run.safe_lift) (auto simp: map_err_Ok_iff dest: protocol_message_valid)

lemma safe_admit:
  assumes "valid_admitted admitted"
  shows "safe always (case a of
      Some _ \<Rightarrow> act_bind (act_lift (map_err err (protocol_message_from_event e))) (\<lambda>msg.
        act_bind (act_get wm_replaying) (\<lambda>replaying.
        if replaying then act_return (False, AList.update (ipm_protocol_instance_id msg) msg admitted)
        else act_then (act_modify (\<lambda>s. s\<lparr> wm_protocol_msgs := wm_protocol_msgs s @ [msg] \<rparr>)) (act_return (False, admitted))))
    | None \<Rightarrow> act_return (b, admitted)) (\<lambda>r _. valid_admitted (snd r))"
proof (cases a)
  case (Some x)
  have push: "safe always (act_modify (\<lambda>s. s\<lparr> wm_protocol_msgs := wm_protocol_msgs s @ [msg] \<rparr>)) done_ok"
    if "valid_update_request (ipm_body msg)" for msg
    by (rule run.safe_modify) (use that in \<open>auto simp: run_ok_def run_extends_def\<close>)
  show ?thesis
    unfolding Some option.case
    by (rule safe_seq[OF safe_message_from_event], rule safe_if_known[where P=always, simplified],
        rule safe_seq_any[OF safe_get_any], rule safe_if)
      (use assms in \<open>auto intro!: run.safe_return safe_then_any[OF push] valid_admitted_update\<close>)
qed (use assms in \<open>simp add: run.safe_return\<close>)

lemma safe_apply_event:
  assumes laws: "slot_map_laws env" and acc: "valid_admitted (snd acc)"
  shows "safe always (apply_event env final e n acc) (\<lambda>r _. valid_admitted (snd r))"
proof -
  obtain b admitted where acc_eq: "acc = (b, admitted)" by (cases acc)
  have handle: "safe always (if do_handle then act_bind (act_get wm_replaying) (\<lambda>replaying.
      act_bind (wm_handle_event env (d replaying) n) (\<lambda>eho. act_return (eho \<noteq> SkipEvent True))) else act_return True) done_ok"
    for do_handle d
    by (intro safe_if safe_seq_any[OF safe_get_any] safe_seq_any[OF safe_wm_handle_event[OF laws]] safe_return_any)
  have finish: "safe always (act_then (act_modify (\<lambda>s. s\<lparr> wm_last_processed_event := i \<rparr>)) (act_return (x, admitted')))
      (\<lambda>r _. valid_admitted (snd r))" if "valid_admitted admitted'" for i x admitted'
    by (rule safe_then_any[OF safe_same_any]) (use that in \<open>simp_all add: run.safe_return\<close>)
  show ?thesis
    unfolding apply_event_def acc_eq split Let_def
    by (rule safe_seq_any[OF safe_get_any], rule safe_if, rule safe_err, rule safe_then_any[OF safe_same_any], simp,
        rule safe_seq[OF safe_admit], use acc acc_eq in simp, unfold split_beta, rule safe_if_known[where P=always, simplified],
        rule safe_seq[OF safe_take_processable_msgs], rule safe_if_known[where P=always, simplified],
        rule safe_then_any[OF safe_handle_protocol_messages[OF laws]], assumption,
        rule safe_seq_any[OF handle], rule finish, assumption)
qed

lemma safe_apply_events:
  assumes laws: "slot_map_laws env"
  shows "valid_admitted (snd acc) \<Longrightarrow> safe always (apply_events env final es acc) (\<lambda>r _. valid_admitted (snd r))"
proof (induction es arbitrary: acc)
  case (Cons e es)
  show ?case
    unfolding apply_events.simps
    by (rule safe_seq[OF safe_apply_event[OF laws Cons.prems]], rule safe_if_known[where P=always, simplified], rule Cons.IH)
qed (simp add: run.safe_return)

text \<open>The look-ahead.\<close>

definition delayed_ok :: "DelayedAction list \<Rightarrow> WorkflowMachines \<Rightarrow> bool" where
  "delayed_ok ds s = (\<forall>a \<in> set ds. case a of
      WakeLa k _ \<Rightarrow> has_key k s
    | DelayedProtocolMessage pm \<Rightarrow> valid_update_request (ipm_body pm))"

lemma stable_delayed [simp]: "run.stable (delayed_ok ds)"
  using stable_keys(1) by (auto simp: delayed_ok_def split: DelayedAction.splits)

lemma delayed_ok_simps [simp]:
  "delayed_ok [] s" "delayed_ok (ds @ es) s \<longleftrightarrow> delayed_ok ds s \<and> delayed_ok es s"
  "delayed_ok [WakeLa k d] s \<longleftrightarrow> has_key k s"
  "delayed_ok [DelayedProtocolMessage pm] s \<longleftrightarrow> valid_update_request (ipm_body pm)"
  by (auto simp: delayed_ok_def)

lemma safe_delayed_then:
  "safe always f done_ok \<Longrightarrow> safe (delayed_ok ds) g Q \<Longrightarrow> safe (delayed_ok ds) (act_then f g) Q"
  by (rule run.safe_then[OF safe_always _ stable_delayed])

lemma safe_peek_event:
  assumes admitted: "valid_admitted admitted"
  shows "safe (delayed_ok ds) (peek_event env e (admitted, ds)) (\<lambda>r s. valid_admitted (fst r) \<and> delayed_ok (snd r) s)"
proof -
  let ?Q = "\<lambda>r s. valid_admitted (fst r) \<and> delayed_ok (snd r) s"
  have same: "safe (delayed_ok ds) (act_return (admitted, ds)) ?Q"
    by (rule run.safe_return) (simp add: admitted)
  have wake: "safe (delayed_ok ds) (act_bind (act_get (\<lambda>s. map_of (wm_id_to_machine s) i)) (\<lambda>found. case found of
      Some mk \<Rightarrow> act_return (admitted, ds @ [WakeLa mk la_dat])
    | None \<Rightarrow> act_then (la_update f) (act_return (admitted, ds)))) ?Q" for i la_dat f
  proof (rule run.safe_bind[OF run.safe_get _ stable_delayed])
    show "\<forall>k. map_of (wm_id_to_machine s) i = Some k \<longrightarrow> has_key k s" if "run_ok s" for s
      using that by (auto simp: run_ok_def has_key_def dest: map_of_value)
    show "safe (\<lambda>s. delayed_ok ds s \<and> (\<forall>k. found = Some k \<longrightarrow> has_key k s)) (case found of
      Some mk \<Rightarrow> act_return (admitted, ds @ [WakeLa mk la_dat])
    | None \<Rightarrow> act_then (la_update f) (act_return (admitted, ds))) ?Q" for found
      by (cases found) (auto simp: admitted intro!: run.safe_return safe_delayed_then[OF safe_la_update same])
  qed
  have accepted: "safe (delayed_ok ds) (case map_of admitted i of
      Some pm \<Rightarrow> act_return (AList.delete i admitted, ds @ [DelayedProtocolMessage pm])
    | None \<Rightarrow> act_bind (act_lift (map_err err (protocol_message_from_event e))) (\<lambda>pm.
        act_return (admitted, ds @ [DelayedProtocolMessage pm]))) ?Q" for i err
  proof (cases "map_of admitted i")
    case None
    show ?thesis
      unfolding None option.case
      by (rule run.safe_bind[OF safe_message_from_event _ stable_delayed]) (rule run.safe_return, simp add: admitted)
  next
    case (Some pm)
    with admitted have "valid_update_request (ipm_body pm)" "valid_admitted (AList.delete i admitted)"
      by (auto simp: valid_admitted_def AList.delete_eq dest: map_of_value)
    with Some show ?thesis by (simp add: run.safe_return)
  qed
  show ?thesis
  proof (cases "get_patch_marker_details (me_codec (env_machine env)) e")
    case (Some p)
    then show ?thesis
      unfolding peek_event_def Let_def split
      by (cases p) (auto intro!: safe_delayed_then same safe_same_any)
  next
    case None
    show ?thesis
      unfolding peek_event_def Let_def split None option.case
      by (cases "is_local_activity_marker e"; cases "into_local_activity_marker_details (me_codec (env_machine env)) e";
          cases "as_update_accepted (attributes e)")
        (simp_all only: if_True if_False option.case safe_err wake accepted same not_True_eq_False)
  qed
qed

lemma safe_peek_events:
  "valid_admitted admitted \<Longrightarrow>
   safe (delayed_ok ds) (peek_events env es (admitted, ds)) (\<lambda>r s. valid_admitted (fst r) \<and> delayed_ok (snd r) s)"
proof (induction es arbitrary: admitted ds)
  case Nil
  then show ?case by (simp add: run.safe_return)
next
  case (Cons e es)
  show ?case
    unfolding peek_events.simps
  proof (rule run.safe_bind[OF safe_peek_event[OF Cons.prems] _ stable_delayed])
    fix r
    show "safe (\<lambda>s. delayed_ok ds s \<and> valid_admitted (fst r) \<and> delayed_ok (snd r) s) (peek_events env es r)
        (\<lambda>r s. valid_admitted (fst r) \<and> delayed_ok (snd r) s)"
      using Cons.IH[of "fst r" "snd r"] by (cases "valid_admitted (fst r)") (auto intro: run.safe_weaken run.safeI)
  qed
qed

lemma safe_wake_la:
  assumes laws: "slot_map_laws env"
  shows "safe (has_key k) (do_delayed_action env (WakeLa k la_dat)) done_ok"
proof -
  let ?cd = "me_codec (env_machine env)"
  have call: "safe (has_key k) (call_machine k (on_la (Ok []) (\<lambda>lam. try_resolve_with_dat ?cd lam dat)))
      (\<lambda>rs _. quiet rs)" for dat
    by (rule run.safe_weaken[OF safe_la_call[where P="has_key k", OF la_lang_calls(3)]]) (auto simp: shallow_quiet)
  have resolve: "safe (has_key k) (act_bind (call_machine k (on_la (Ok []) (\<lambda>lam. try_resolve_with_dat ?cd lam dat)))
      (process_machine_responses env k)) done_ok" for dat
    by (rule run.safe_bind[OF call safe_process_quiet[OF laws] stable_keys(1)])
  have wake: "safe (has_key k) (act_bind (act_lift (will_accept_resolve_marker lam)) (\<lambda>accepts.
      if accepts then act_bind (call_machine k (on_la (Ok []) (\<lambda>lam. try_resolve_with_dat ?cd lam dat)))
        (process_machine_responses env k) else la_update f)) done_ok" if "healthy (LocalActivityMachine lam)" for lam dat f
    by (rule run.safe_bind[where Q=done_ok, OF run.safe_lift _ stable_keys(1)])
      (use that resolve safe_always[OF safe_la_update] in
        \<open>auto simp: will_accept_resolve_marker_def get_state_def machine_inv_def outcome_simps split: option.splits\<close>)
  show ?thesis
    unfolding do_delayed_action_def Let_def DelayedAction.case
  proof (rule run.safe_bind[OF safe_machine _ stable_keys(1)])
    fix mach
    show "safe (\<lambda>s. has_key k s \<and> healthy mach \<and> map_of (wm_all_machines s) k = Some mach) (case mach of
        LocalActivityMachine lam \<Rightarrow> act_bind (act_lift (will_accept_resolve_marker lam)) (\<lambda>accepts.
          if accepts then act_bind (call_machine k (on_la (Ok []) (\<lambda>lam. try_resolve_with_dat ?cd lam (resolve_dat_from ?cd la_dat))))
            (process_machine_responses env k) else la_update (\<lambda>d. ((), insert_peeked_marker ?cd la_dat d)))
      | _ \<Rightarrow> act_return ()) done_ok"
      using wake by (cases mach; cases "healthy mach") (auto simp: safe_return_any intro: run.safe_weaken run.safeI)
  qed
qed

lemma take_next_Panic: "take_next_wft_sequence u i = Panic p \<Longrightarrow> incomplete_history p"
proof (cases "find_end_index_of_next_wft_seq (relevant u i) i (hu_has_last_wft u)")
  case (Complete j)
  moreover assume "take_next_wft_sequence u i = Panic p"
  ultimately show ?thesis using find_end_Complete[OF Complete]
    by (simp add: take_next_eq Let_def build_next_wft_def)
next
  case (Incomplete j)
  moreover assume "take_next_wft_sequence u i = Panic p"
  ultimately show ?thesis using find_end_Incomplete[OF Incomplete]
    by (auto simp: take_next_eq Let_def build_next_wft_def incomplete_history_def split: if_splits)
qed

lemma safe_delayed_actions:
  assumes laws: "slot_map_laws env"
  shows "safe (delayed_ok ds) (act_for (do_delayed_action env) ds) done_ok"
proof (rule run.safe_for[OF _ stable_delayed])
  fix a assume a: "a \<in> set ds"
  show "safe (delayed_ok ds) (do_delayed_action env a) done_ok"
  proof (cases a)
    case (WakeLa k la_dat)
    show ?thesis
      unfolding WakeLa by (rule run.safe_weaken[OF safe_wake_la[OF laws]]) (use a WakeLa in \<open>auto simp: delayed_ok_def\<close>)
  next
    case (DelayedProtocolMessage pm)
    show ?thesis
    proof (cases "valid_update_request (ipm_body pm)")
      case True
      then show ?thesis
        using safe_always[OF safe_handle_protocol_message[OF laws True]]
        by (simp add: DelayedProtocolMessage do_delayed_action_def)
    next
      case False
      with a DelayedProtocolMessage have "\<not> delayed_ok ds s" for s by (force simp: delayed_ok_def)
      then show ?thesis by (intro run.safeI) blast+
    qed
  qed
qed

lemma safe_apply_next_wft_from_history:
  assumes laws: "slot_map_laws env"
  shows "safe always (apply_next_wft_from_history env) done_ok"
proof -
  have take: "safe always (\<lambda>s. case take_next_wft_sequence (wm_last_history_from_server s) i of
      Ok (next_wft, u) \<Rightarrow> (Ok next_wft, s\<lparr> wm_last_history_from_server := u \<rparr>)
    | Err e \<Rightarrow> (Err (Fatal e), s) | Panic p \<Rightarrow> (Panic p, s)) done_ok" for i
  proof (rule run.safeI)
    fix s x t assume "run_ok s" and "(case take_next_wft_sequence (wm_last_history_from_server s) i of
      Ok (next_wft, u) \<Rightarrow> (Ok next_wft, s\<lparr> wm_last_history_from_server := u \<rparr>)
      | Err e \<Rightarrow> (Err (Fatal e), s) | Panic p \<Rightarrow> (Panic p, s)) = (Ok x, t)"
    then show "run_ok t \<and> run_extends s t \<and> True"
      using same_keys_ok[OF same_keys_updates(1)] by (auto split: outcome.splits prod.splits)
  qed (auto split: outcome.splits prod.splits dest: take_next_Panic)
  have events: "safe always (\<lambda>s. case next_wft of
      ReplayOver \<Rightarrow> (Ok ([], True), s)
    | WFT evts has_final_event \<Rightarrow> (Ok (filter (\<lambda>e. event_id e > wm_last_processed_event s) evts, has_final_event), s)
    | NeedFetch \<Rightarrow> (Err err, s)) done_ok" for next_wft err
    by (rule safe_observe) (simp_all split: NextWFT.split)
  have finish: "safe always (act_bind (apply_events env final evs (True, [])) (\<lambda>(_, admitted).
      act_bind (act_get f) (\<lambda>peeked. act_bind (peek_events env peeked (admitted, [])) (\<lambda>(_, delayed_actions).
      act_then (act_for (do_delayed_action env) delayed_actions) (act_return n))))) done_ok" for final evs f n
  proof (rule safe_seq[OF safe_apply_events[OF laws]], simp add: valid_admitted_def, unfold split_beta,
      rule safe_if_known[where P=always, simplified], rule safe_seq_any[OF safe_get_any])
    fix r peeked assume r: "valid_admitted (snd r)"
    have "safe always (peek_events env peeked (snd r, [])) (\<lambda>r s. delayed_ok (snd r) s)"
      by (rule run.safe_weaken[OF safe_peek_events[OF r]]) simp_all
    then show "safe always (act_bind (peek_events env peeked (snd r, [])) (\<lambda>x.
        act_then (act_for (do_delayed_action env) (snd x)) (act_return n))) done_ok"
      by (rule safe_seq) (rule run.safe_then[OF safe_delayed_actions[OF laws] safe_return_any stable_delayed])
  qed
  show ?thesis
    unfolding apply_next_wft_from_history_def
    by (rule safe_seq_any[OF safe_get_any], rule safe_if, rule safe_then_any[OF safe_same_any safe_return_any], simp,
        rule safe_seq_any[OF safe_get_any], rule safe_seq_any[OF take], rule safe_seq_any[OF events], unfold split_beta,
        intro safe_then_any safe_same_any finish[unfolded split_beta]) (auto split: option.split)
qed

end
