(* ===== verification/RunOrder.thy ===== *)
theory RunOrder
  imports WorkflowManager
begin

text \<open>
  What every operation of a run keeps, whatever its outcome: the run stays the same run, workflow time
  never goes back, and the history is only read.  The exception is the application of a workflow task,
  which takes events off the front of the history; this bounds the loop that applies tasks.
\<close>

section \<open>The order of states\<close>

definition time_le :: "int option \<Rightarrow> int option \<Rightarrow> bool" where
  "time_le a b = (case a of None \<Rightarrow> True | Some x \<Rightarrow> (case b of None \<Rightarrow> False | Some y \<Rightarrow> x \<le> y))"

definition same_run :: "WorkflowMachines \<Rightarrow> WorkflowMachines \<Rightarrow> bool" where
  "same_run s t = (wm_run_id t = wm_run_id s \<and> wm_workflow_id t = wm_workflow_id s \<and>
     wm_workflow_type t = wm_workflow_type s \<and> wm_worker_config t = wm_worker_config s)"

definition later :: "WorkflowMachines \<Rightarrow> WorkflowMachines \<Rightarrow> bool" where
  "later s t = (same_run s t \<and> wm_last_history_from_server t = wm_last_history_from_server s \<and>
     time_le (wm_current_wf_time s) (wm_current_wf_time t))"

lemma time_le_refl [simp]: "time_le a a"
  by (simp add: time_le_def split: option.split)

lemma time_le_trans: "time_le a b \<Longrightarrow> time_le b c \<Longrightarrow> time_le a c"
  by (auto simp: time_le_def split: option.splits)

interpretation order: state_order later
  by standard (auto simp: later_def same_run_def intro: time_le_trans)

named_theorems keeps_intros

declare order.keeps_rules [keeps_intros]

lemma keeps_modify: "(\<And>s. later s (f s)) \<Longrightarrow> keeps later (act_modify f)"
  by (simp add: keeps_def act_modify_def)

lemma keeps_state: "(\<And>s. later s (snd (f s))) \<Longrightarrow> keeps later f"
  by (simp add: keeps_def)

lemma later_updates [simp]:
  "later s (s\<lparr> wm_protocol_msgs := x0 \<rparr>)" "later s (s\<lparr> wm_current_started_event_id := x1 \<rparr>)"
  "later s (s\<lparr> wm_next_started_event_id := x2 \<rparr>)" "later s (s\<lparr> wm_last_processed_event := x3 \<rparr>)"
  "later s (s\<lparr> wm_replaying := x4 \<rparr>)" "later s (s\<lparr> wm_have_seen_terminal_event := x5 \<rparr>)"
  "later s (s\<lparr> wm_workflow_start_time := x6 \<rparr>)" "later s (s\<lparr> wm_workflow_end_time := x7 \<rparr>)"
  "later s (s\<lparr> wm_wft_start_time := x8 \<rparr>)" "later s (s\<lparr> wm_observed_internal_flags := x9 \<rparr>)"
  "later s (s\<lparr> wm_current_wft_deployment_info := x10 \<rparr>)" "later s (s\<lparr> wm_all_machines := x11 \<rparr>)"
  "later s (s\<lparr> wm_machine_is_core_created := x12 \<rparr>)" "later s (s\<lparr> wm_machines_by_event_id := x13 \<rparr>)"
  "later s (s\<lparr> wm_machines_by_protocol_instance_id := x14 \<rparr>)" "later s (s\<lparr> wm_id_to_machine := x15 \<rparr>)"
  "later s (s\<lparr> wm_commands := x16 \<rparr>)" "later s (s\<lparr> wm_current_wf_task_commands := x17 \<rparr>)"
  "later s (s\<lparr> wm_message_outbox := x18 \<rparr>)" "later s (s\<lparr> wm_encountered_patch_markers := x19 \<rparr>)"
  "later s (s\<lparr> wm_local_activity_data := x20 \<rparr>)" "later s (s\<lparr> wm_drive_me := x21 \<rparr>)"
  "later s (s\<lparr> wm_history_size_bytes := x22, wm_continue_as_new_suggested := x23 \<rparr>)"
  by (simp_all add: later_def same_run_def)

lemma later_refl [simp]: "later s s"
  by (rule order.R_refl)

lemma later_set_current_time [simp]: "later s (set_current_time t s)"
  by (auto simp: later_def same_run_def set_current_time_def time_le_def split: option.splits)

lemma later_send_job [simp]: "later s (send_job_wm j s)"
  by (simp add: send_job_wm_def)

lemma later_push_command [simp]: "later s (push_current_command c s)"
  by (simp add: push_current_command_def)

section \<open>Every operation keeps the order\<close>

lemma keeps_primitives [keeps_intros]:
  "keeps later (wm_machine k)" "keeps later (call_machine k f)" "keeps later (insert_machine env m)"
  "keeps later (get_machine_key i)" "keeps later (get_machine_by_msg p)" "keeps later (read_clock env)"
  "keeps later (la_update g)" "keeps later (take_processable_msgs n)"
  by (rule keeps_state, auto simp: wm_machine_def call_machine_def insert_machine_def get_machine_key_def
      get_machine_by_msg_def read_clock_def la_update_def take_processable_msgs_def later_def same_run_def Let_def
      split: option.split prod.split)+

lemma keeps_new_machines [keeps_intros]:
  "keeps later (add_new_command_machine env m md)" "keeps later (add_cmd_to_wf_task env m md i)"
  "keeps later (add_terminal_command env m md)" "keeps later (add_new_protocol_machine env mach iid)"
  unfolding add_new_command_machine_def add_cmd_to_wf_task_def add_terminal_command_def add_new_protocol_machine_def Let_def
  by (auto intro!: keeps_intros keeps_modify split: CommandIdKind.split)

lemma keeps_collect_all: "(\<And>k. keeps later (f k)) \<Longrightarrow> keeps later (collect_all f ks)"
  by (induction ks) (auto intro!: keeps_intros)

lemma keeps_task_started:
  assumes "\<And>k rs. keeps later (again k rs)"
  shows "keeps later (task_started env again i t)"
  unfolding task_started_def collect_non_replay_wft_def
  by (intro keeps_intros keeps_modify, auto intro!: keeps_intros keeps_collect_all assms split: Machines.split)

lemma keeps_process_response:
  assumes "\<And>k rs. keeps later (again k rs)"
  shows "keeps later (process_response env again k r)"
  unfolding process_response_def
  by (cases r) (auto intro!: keeps_intros keeps_modify keeps_task_started assms split: CommandAttributes.split option.split)

lemma keeps_process_responses_at: "keeps later (process_responses_at n env k rs)"
  by (induction n arbitrary: k rs) (auto intro!: keeps_intros keeps_process_response)

lemma keeps_process_machine_responses [keeps_intros]:
  "keeps later (process_machine_responses env k rs)" "keeps later (submachine_handle_event env k d)"
  by (auto simp: process_machine_responses_def submachine_handle_event_def intro!: keeps_intros keeps_process_responses_at)

lemma keeps_handle_protocol_message [keeps_intros]: "keeps later (handle_protocol_message env m)"
  unfolding handle_protocol_message_def
  by (auto intro!: keeps_intros split: option.split SequencingId.split)

lemma keeps_cancel_machine [keeps_intros]: "keeps later (cancel_machine env i f)"
  unfolding cancel_machine_def by (intro keeps_intros)

lemma keeps_readers [keeps_intros]:
  "keeps later (\<lambda>s. case f s of (r, fl) \<Rightarrow> (g r, s\<lparr> wm_observed_internal_flags := fl \<rparr>))"
  "keeps later (\<lambda>s. case f' s of (r, d) \<Rightarrow> (g' r, s\<lparr> wm_drive_me := d \<rparr>))"
  "keeps later (\<lambda>s. act_lift (h s) s)"
  by (rule keeps_state, simp add: act_lift_def split: prod.split)+

lemma keeps_handle_driven_result [keeps_intros]: "keeps later (handle_driven_result env cmd)"
  unfolding handle_driven_result_def Let_def
  by (cases "wfc_variant cmd") (auto intro!: keeps_intros keeps_modify split: option.split)

lemma keeps_retain_commands [keeps_intros]: "keeps later (retain_commands cs)"
  by (induction cs) (auto intro!: keeps_intros)

lemma keeps_prepare_command [keeps_intros]: "keeps later (prepare_command env c)"
  unfolding prepare_command_def
  by (auto intro!: keeps_intros keeps_modify split: MachineAssociatedCommand.split)

lemma keeps_prepare_loop [keeps_intros]: "keeps later (prepare_loop n env)"
proof (induction n)
  case (Suc n)
  have "later s (snd (prepare_loop (Suc n) env s))" for s
  proof (cases "wm_current_wf_task_commands s")
    case (Cons c rest)
    have "keeps later (act_then (prepare_command env c) (prepare_loop n env))"
      by (intro keeps_intros Suc)
    then have "later (s\<lparr> wm_current_wf_task_commands := rest \<rparr>) (snd (prepare_loop (Suc n) env s))"
      using Cons by (simp add: keeps_def)
    then show ?thesis by (rule order.R_trans[OF later_updates(18)])
  qed simp
  then show ?case by (simp add: keeps_def)
qed (auto intro!: keeps_intros)

lemma keeps_iterate_machines [keeps_intros]:
  "keeps later (prepare_commands env)" "keeps later (iterate_machines env)" "keeps later (push_commands_and_iterate env cmds)"
  unfolding prepare_commands_def iterate_machines_def push_commands_and_iterate_def handle_driven_results_def
  by (intro keeps_intros keeps_modify; simp)+

lemma keeps_consume_command [keeps_intros]: "keeps later (consume_command env d n cs)"
  by (induction cs) (auto intro!: keeps_intros keeps_modify split: EventHandlingOutcome.split)

lemma keeps_handle_command_event [keeps_intros]: "keeps later (handle_command_event env d n)"
  unfolding handle_command_event_def Let_def
  by (auto intro!: keeps_intros keeps_modify split: option.split Machines.split sum.split)

lemma keeps_handle_non_stateful_event [keeps_intros]: "keeps later (handle_non_stateful_event env d)"
  unfolding handle_non_stateful_event_def Let_def
  by (cases "event_type (hed_event d)") (auto intro!: keeps_intros keeps_modify split: option.split)

lemma keeps_wm_handle_event [keeps_intros]: "keeps later (wm_handle_event env d n)"
  unfolding wm_handle_event_def Let_def
  by (intro keeps_intros keeps_modify) (auto intro!: keeps_intros keeps_modify split: option.split)

lemma keeps_apply_event [keeps_intros]: "keeps later (apply_event env final e n acc)"
  unfolding apply_event_def Let_def split_beta
  by (intro keeps_intros keeps_modify) (auto intro!: keeps_intros keeps_modify split: option.split)

lemma keeps_apply_events [keeps_intros]: "keeps later (apply_events env final es acc)"
  by (induction es arbitrary: acc) (auto intro!: keeps_intros)

lemma keeps_peek_event [keeps_intros]: "keeps later (peek_event env e acc)"
  unfolding peek_event_def Let_def split_beta
  by (auto intro!: keeps_intros keeps_modify split: option.split)

lemma keeps_peek_events [keeps_intros]: "keeps later (peek_events env es acc)"
  by (induction es arbitrary: acc) (auto intro!: keeps_intros)

lemma keeps_do_delayed_action [keeps_intros]: "keeps later (do_delayed_action env a)"
  unfolding do_delayed_action_def Let_def
  by (cases a) (auto intro!: keeps_intros split: Machines.split)

section \<open>Taking history\<close>

text \<open>A state with the same run, no earlier time, and a rest of the history.\<close>

definition consumes :: "WorkflowMachines \<Rightarrow> WorkflowMachines \<Rightarrow> bool" where
  "consumes s t = (same_run s t \<and> time_le (wm_current_wf_time s) (wm_current_wf_time t) \<and>
     (\<exists>k. wm_last_history_from_server t = (wm_last_history_from_server s)\<lparr> hu_events :=
        drop k (hu_events (wm_last_history_from_server s)) \<rparr>))"

abbreviation events_left :: "WorkflowMachines \<Rightarrow> nat" where
  "events_left s \<equiv> length (hu_events (wm_last_history_from_server s))"

interpretation history: action_logic consumes "\<lambda>_. True" "\<lambda>_. True"
proof
  show "consumes s s" for s
    unfolding consumes_def by (auto simp: same_run_def intro!: exI[of _ 0])
  show "consumes s u" if "consumes s t" "consumes t u" for s t u
    using that unfolding consumes_def by (auto simp: same_run_def intro: time_le_trans exI[of _ "_ + _"])
qed

lemma later_consumes: "later s t \<Longrightarrow> consumes s t"
  unfolding consumes_def later_def by (auto intro!: exI[of _ 0])

lemma consumes_events: "consumes s t \<Longrightarrow> events_left t \<le> events_left s"
  by (auto simp: consumes_def)

abbreviation consuming ::
  "(WorkflowMachines \<Rightarrow> bool) \<Rightarrow> 'a wm \<Rightarrow> ('a \<Rightarrow> WorkflowMachines \<Rightarrow> bool) \<Rightarrow> bool" where
  "consuming \<equiv> safe_action (\<lambda>_. True) consumes (\<lambda>_. True)"

lemma consuming_keeps: "keeps later f \<Longrightarrow> consuming P f (\<lambda>_ _. True)"
  by (rule history.safeI) (metis keeps_def later_consumes snd_conv, simp)

lemma take_next_suffix:
  assumes "take_next_wft_sequence u i = Ok (next_wft, u')"
  shows "\<exists>k. u' = u\<lparr> hu_events := drop k (hu_events u) \<rparr> \<and> ((\<exists>es b. next_wft = WFT es b) \<longrightarrow> 0 < k \<and> k \<le> length (hu_events u))"
proof -
  obtain j where j: "relevant u i = drop j (hu_events u)" "j \<le> length (hu_events u)"
    unfolding relevant_def Let_def by (metis drop_0 dropWhile_eq_drop length_takeWhile_le zero_le)
  have build: "\<exists>k. u' = u\<lparr> hu_events := drop k (hu_events u) \<rparr> \<and> 0 < k \<and> k \<le> length (hu_events u)"
    if "build_next_wft (u\<lparr> hu_events := relevant u i \<rparr>) m = Ok (next_wft, u')" for m
    using that j by (intro exI[of _ "j + (m + 1)"]) (auto simp: build_next_wft_def Let_def add.commute split: if_splits)
  show ?thesis
    using assms build j by (auto simp: take_next_eq Let_def split: NextWFTSeqEndIndex.splits if_splits)
qed

lemma consuming_then:
  "keeps later f \<Longrightarrow> history.stable P \<Longrightarrow> consuming P g Q \<Longrightarrow> consuming P (act_then f g) Q"
  by (rule history.safe_then[OF consuming_keeps])

lemma consuming_bind:
  "keeps later f \<Longrightarrow> history.stable P \<Longrightarrow> (\<And>x. consuming P (g x) Q) \<Longrightarrow> consuming P (act_bind f g) Q"
  by (rule history.safe_bind[OF consuming_keeps]) simp_all

lemma later_complete_data: "later s (apply_complete_data es s)"
proof (induction es arbitrary: s)
  case (Cons e es)
  have step: "later s (apply_wft_complete_data wtc s)" for wtc s
    by (simp add: apply_wft_complete_data_def Let_def later_def same_run_def)
  show ?case
    unfolding apply_complete_data.simps Let_def
    by (rule order.R_trans[OF _ Cons]) (auto intro: step order.R_trans[OF step step] split: option.split)
qed simp

text \<open>A workflow task that had events to apply leaves fewer events behind.\<close>

lemma apply_next_consumes:
  "consuming (\<lambda>s. events_left s \<le> n) (apply_next_wft_from_history env) (\<lambda>k s. k \<noteq> 0 \<longrightarrow> events_left s < n)"
proof -
  let ?P = "\<lambda>s. events_left s \<le> n"
  let ?left = "\<lambda>next_wft s. (\<exists>es b. next_wft = WFT es b) \<longrightarrow> events_left s < n"
  have stable: "history.stable ?P" and stable': "history.stable (\<lambda>s. ?P s \<and> ?left next_wft s)" for next_wft
    by (fastforce dest: consumes_events)+
  have take: "consuming ?P (\<lambda>s. case take_next_wft_sequence (wm_last_history_from_server s) i of
      Ok (next_wft, u) \<Rightarrow> (Ok next_wft, s\<lparr> wm_last_history_from_server := u \<rparr>)
    | Err e \<Rightarrow> (Err (Fatal e), s) | Panic p \<Rightarrow> (Panic p, s)) ?left" for i
  proof (rule history.safeI)
    fix s x t assume "?P s" and "(case take_next_wft_sequence (wm_last_history_from_server s) i of
      Ok (next_wft, u) \<Rightarrow> (Ok next_wft, s\<lparr> wm_last_history_from_server := u \<rparr>)
      | Err e \<Rightarrow> (Err (Fatal e), s) | Panic p \<Rightarrow> (Panic p, s)) = (Ok x, t)"
    then obtain u where u: "take_next_wft_sequence (wm_last_history_from_server s) i = Ok (x, u)"
      and t: "t = s\<lparr> wm_last_history_from_server := u \<rparr>" by (auto split: outcome.splits prod.splits)
    from take_next_suffix[OF u] \<open>?P s\<close> show "True \<and> consumes s t \<and> ?left x t"
      by (auto simp: t consumes_def same_run_def)
  qed simp
  have events: "consuming P (\<lambda>s. case next_wft of
      ReplayOver \<Rightarrow> (Ok ([], True), s)
    | WFT evts has_final_event \<Rightarrow> (Ok (filter (\<lambda>e. event_id e > wm_last_processed_event s) evts, has_final_event), s)
    | NeedFetch \<Rightarrow> (Err err, s)) (\<lambda>r _. fst r \<noteq> [] \<longrightarrow> (\<exists>es b. next_wft = WFT es b))" for P next_wft err
    by (rule history.safeI) (auto simp: history.R_refl split: NextWFT.splits)
  have stable'': "history.stable (\<lambda>s. es \<noteq> [] \<longrightarrow> events_left s < n)" for es :: "HistoryEvent list"
    by (fastforce dest: consumes_events)
  have finish: "consuming (\<lambda>s. (?P s \<and> ?left next_wft s) \<and> (fst r \<noteq> [] \<longrightarrow> (\<exists>es b. next_wft = WFT es b)))
     (case r of (events, has_final_event) \<Rightarrow>
       act_then (act_modify (apply_complete_data events))
       (act_then (act_modify (\<lambda>s. if events = [] then s\<lparr> wm_replaying := False \<rparr> else s))
       (act_then (act_modify (g events))
       (act_bind (apply_events env has_final_event events (True, [])) (\<lambda>(_, admitted).
       act_bind (act_get f) (\<lambda>peeked.
       act_bind (peek_events env peeked (admitted, [])) (\<lambda>(_, delayed_actions).
       act_then (act_for (do_delayed_action env) delayed_actions)
       (act_return (length events))))))))) (\<lambda>k s. k \<noteq> 0 \<longrightarrow> events_left s < n)"
    if g: "\<And>es s. later s (g es s)" for r next_wft f g
    by (rule history.safe_weaken[where P="\<lambda>s. fst r \<noteq> [] \<longrightarrow> events_left s < n"], unfold split_beta,
        intro consuming_then consuming_bind stable'' keeps_intros keeps_modify g later_complete_data history.safe_return) auto
  have stop: "consuming ?P (act_then (act_modify (\<lambda>s. s\<lparr> wm_replaying := False \<rparr>)) (act_return 0))
      (\<lambda>k s. k \<noteq> 0 \<longrightarrow> events_left s < n)"
    by (intro consuming_then stable keeps_modify history.safe_return) simp_all
  have if_rule: "consuming P f Q \<Longrightarrow> consuming P g Q \<Longrightarrow> consuming P (if b then f else g) Q"
    for P b Q and f g :: "'a wm" by simp
  show ?thesis
    unfolding apply_next_wft_from_history_def
    by (rule consuming_bind[OF order.keeps_get stable], rule if_rule[OF stop], rule consuming_bind[OF order.keeps_get stable],
        rule history.safe_bind[OF take _ stable], rule history.safe_bind[OF events _ stable'], rule finish)
      (simp split: option.split)
qed

section \<open>The calls that drive a run\<close>

text \<open>
  The calls of \<^verbatim>\<open>WorkflowManager\<close> by which the rest of the worker drives a run, as one step each; the
  commands of lang are reordered before they are pushed, as \<^verbatim>\<open>ManagedRun\<close> does, and a response to a
  workflow task reads the commands, the messages and the metadata.
\<close>

datatype run_call =
    NewWork HistoryUpdate "IncomingProtocolMessage list"
  | NewPage HistoryUpdate
  | LangCommands "WFCommand list"
  | ApplyNextTask
  | NextActivation
  | LocalResult LocalActivityResolution
  | DispatchLocalActivities
  | RespondToTask

definition run_step :: "WMEnv \<Rightarrow> run_call \<Rightarrow> unit wm" where
  "run_step env c = (case c of
      NewWork update messages \<Rightarrow> act_bind (manager_new_work_from_server env update messages) (\<lambda>_. act_return ())
    | NewPage update \<Rightarrow> new_history_from_server env update
    | LangCommands cmds \<Rightarrow> act_bind (run_preprocess_command_sequence cmds) (\<lambda>(commands, _).
        push_commands_and_iterate env commands)
    | ApplyNextTask \<Rightarrow> apply_next_task_if_ready env
    | NextActivation \<Rightarrow> act_bind (get_next_activation env) (\<lambda>_. act_return ())
    | LocalResult r \<Rightarrow> act_bind (local_resolution env r) (\<lambda>_. act_return ())
    | DispatchLocalActivities \<Rightarrow> act_bind (drain_queued_local_activities env) (\<lambda>_. act_return ())
    | RespondToTask \<Rightarrow> act_bind get_commands (\<lambda>_. act_bind take_messages (\<lambda>_.
        act_bind get_metadata_for_wft_complete (\<lambda>_. act_return ()))))"

text \<open>The calls in order, up to the first one that fails.\<close>

abbreviation drive_run :: "WMEnv \<Rightarrow> run_call list \<Rightarrow> unit wm" where
  "drive_run env \<equiv> act_for (run_step env)"

definition forward :: "WorkflowMachines \<Rightarrow> WorkflowMachines \<Rightarrow> bool" where
  "forward s t = (same_run s t \<and> time_le (wm_current_wf_time s) (wm_current_wf_time t))"

interpretation forward: state_order forward
  by standard (auto simp: forward_def same_run_def intro: time_le_trans)

lemma keeps_forward: "keeps later f \<Longrightarrow> keeps forward f"
  by (auto simp: keeps_def later_def forward_def)

lemma forward_modify: "(\<And>s. forward s (f s)) \<Longrightarrow> keeps forward (act_modify f)"
  by (simp add: keeps_def act_modify_def)

lemma forward_if: "keeps forward f \<Longrightarrow> keeps forward g \<Longrightarrow> keeps forward (if b then f else g)"
  by simp

lemma forward_apply_next: "keeps forward (apply_next_wft_from_history env)"
proof -
  have take: "keeps forward (\<lambda>s. case take_next_wft_sequence (wm_last_history_from_server s) i of
      Ok (next_wft, u) \<Rightarrow> (Ok next_wft, s\<lparr> wm_last_history_from_server := u \<rparr>)
    | Err e \<Rightarrow> (Err (Fatal e), s) | Panic p \<Rightarrow> (Panic p, s))" for i
    by (simp add: keeps_def forward_def same_run_def split: outcome.split prod.split)
  have events: "keeps later (\<lambda>s. case next_wft of
      ReplayOver \<Rightarrow> (Ok ([], True), s)
    | WFT evts has_final_event \<Rightarrow> (Ok (filter (\<lambda>e. event_id e > wm_last_processed_event s) evts, has_final_event), s)
    | NeedFetch \<Rightarrow> (Err err, s))" for next_wft err
    by (simp add: keeps_def split: NextWFT.split)
  show ?thesis
    unfolding apply_next_wft_from_history_def
    by (rule forward.keeps_bind[OF forward.keeps_get], rule forward_if, rule keeps_forward,
        intro keeps_intros keeps_modify, simp, rule forward.keeps_bind[OF forward.keeps_get],
        rule forward.keeps_bind[OF take], rule keeps_forward)
      (auto intro!: keeps_intros keeps_modify events later_complete_data split: option.split)
qed

lemma keeps_local_calls [keeps_intros]:
  "keeps later (local_resolution env r)" "keeps later (drain_queued_local_activities env)"
  "keeps later (sendable_commands cs)" "keeps later get_commands" "keeps later take_messages"
  "keeps later get_metadata_for_wft_complete" "keeps later (run_preprocess_command_sequence cmds)" "keeps later wf_activation"
proof -
  show send: "keeps later (sendable_commands cs)" for cs
    by (induction cs) (auto intro!: keeps_intros split: MachineAssociatedCommand.split)
  show "keeps later get_commands" unfolding get_commands_def by (intro keeps_intros keeps_modify send) simp
  show "keeps later (local_resolution env r)" unfolding local_resolution_def by (intro keeps_intros)
  show "keeps later (run_preprocess_command_sequence cmds)"
    unfolding run_preprocess_command_sequence_def try_use_flag_def by (auto intro!: keeps_intros)
qed (rule keeps_state, simp add: drain_queued_local_activities_def take_messages_def get_metadata_for_wft_complete_def
    wf_activation_def get_wf_activation_def later_def same_run_def Let_def split: prod.split)+

lemma forward_apply_tasks: "keeps forward (apply_tasks n env)"
proof (induction n)
  case (Suc n)
  then show ?case
    unfolding apply_tasks.simps
    by (intro forward.keeps_bind[OF forward_apply_next] forward.keeps_bind[OF forward.keeps_get] forward_if forward.keeps_return)
qed (simp add: forward.keeps_lift)

lemma forward_new_history: "keeps forward (new_history_from_server env u)"
  unfolding new_history_from_server_def
  by (intro forward.keeps_then forward.keeps_bind forward_apply_next forward.keeps_return forward_modify)
    (simp_all add: forward_def same_run_def)

lemma forward_get_next_activation: "keeps forward (get_next_activation env)"
  unfolding get_next_activation_def
  by (intro forward.keeps_bind[OF keeps_forward[OF keeps_local_calls(8)]] forward_if forward.keeps_return
      forward.keeps_bind[OF forward_apply_next] keeps_forward[OF keeps_local_calls(8)])

lemma forward_run_step: "keeps forward (run_step env c)"
proof (cases c)
  case (NewWork u msgs)
  show ?thesis
    unfolding NewWork run_step_def run_call.case manager_new_work_from_server_def new_work_from_server_def
    by (intro forward.keeps_bind forward.keeps_then forward_get_next_activation forward_new_history forward.keeps_return
        keeps_forward[OF keeps_modify]) simp
next
  case (NewPage u)
  then show ?thesis by (simp add: run_step_def forward_new_history)
next
  case ApplyNextTask
  then show ?thesis
    by (auto simp: run_step_def apply_next_task_if_ready_def intro!: forward.keeps_bind forward.keeps_get
        forward.keeps_return forward_apply_tasks simp del: apply_tasks.simps)
next
  case NextActivation
  then show ?thesis
    by (simp add: run_step_def forward.keeps_bind[OF forward_get_next_activation forward.keeps_return])
qed (auto simp: run_step_def intro!: keeps_forward keeps_intros)

text \<open>
  C3: Workflow time never goes back.  Whatever calls drive a run, on whatever history and with whatever
  outcome, the run stays the same run of the same workflow, and its current time is never earlier than
  it was, nor lost once it is known.
\<close>

theorem workflow_time_never_goes_back:
  "same_run s (snd (drive_run env calls s)) \<and>
   time_le (wm_current_wf_time s) (wm_current_wf_time (snd (drive_run env calls s)))"
proof -
  have "keeps forward (drive_run env calls)"
    by (rule forward.keeps_for) (rule forward_run_step)
  then show ?thesis by (simp add: keeps_def forward_def)
qed

end
