(* ===== verification/WorkflowRuns.thy ===== *)
theory WorkflowRuns
  imports RunEvents RunOrder
begin

text \<open>
  The safety of a whole run: every call that drives it is safe, so no sequence of calls panics before
  its first error, and the loop that applies workflow tasks ends.
\<close>

section \<open>Every call is safe\<close>

lemma safe_get_wf_activation: "safe P wf_activation done_ok"
  by (rule safe_always, rule safe_pure)
    (simp add: wf_activation_def get_wf_activation_def drain_jobs_def same_keys_def Let_def)

lemma safe_get_next_activation: "slot_map_laws env \<Longrightarrow> safe always (get_next_activation env) done_ok"
  unfolding get_next_activation_def
  by (intro safe_seq_any[OF safe_get_wf_activation] safe_if safe_return_any
      safe_seq_any[OF safe_apply_next_wft_from_history] safe_get_wf_activation)

lemma safe_new_history: "slot_map_laws env \<Longrightarrow> safe always (new_history_from_server env u) done_ok"
  unfolding new_history_from_server_def
  by (intro safe_then_any safe_same_any safe_seq_any[OF safe_apply_next_wft_from_history] safe_return_any) simp_all

lemma safe_new_work:
  assumes laws: "slot_map_laws env" and msgs: "valid_msgs msgs"
  shows "safe always (manager_new_work_from_server env u msgs) done_ok"
proof -
  have "safe always (act_modify (\<lambda>s. s\<lparr> wm_protocol_msgs := msgs \<rparr>)) done_ok"
    by (rule run.safe_modify) (use msgs in \<open>simp add: run_ok_def run_extends_def valid_msgs_def\<close>)
  then show ?thesis
    unfolding manager_new_work_from_server_def new_work_from_server_def
    by (intro safe_then_any safe_new_history[OF laws] safe_get_next_activation[OF laws])
qed

lemma safe_local_resolution:
  assumes laws: "slot_map_laws env"
  shows "safe always (local_resolution env r) done_ok"
  unfolding local_resolution_def
proof (rule safe_seq[OF safe_get_machine_key])
  fix k
  let ?call = "call_machine k (on_la
      (Err (Nondeterminism ''Command matching activity with seq num {seq} existed but was not a local activity!''))
      (\<lambda>lam. try_resolve (me_codec (env_machine env)) lam (lr_result r) (lr_runtime r) (lr_attempt r)
         (lr_backoff r) (lr_original_schedule_time r)))"
  have call: "safe (has_key k) ?call (\<lambda>rs _. quiet rs)"
    by (rule run.safe_weaken[OF safe_la_call[where P="has_key k", OF la_lang_calls(2)]]) (auto simp: shallow_quiet)
  have finish: "safe (has_key k) (act_then (la_update f) (act_return b)) done_ok" for f and b :: bool
    by (rule run.safe_then[OF safe_always[OF safe_la_update] safe_return_any stable_keys(1)])
  show "safe (has_key k) (act_bind ?call (\<lambda>resps. act_then (process_machine_responses env k resps)
      (act_then (la_update (\<lambda>d. ((), la_done_executing (lr_seq r) d))) (act_return (resps \<noteq> []))))) done_ok"
  proof (rule run.safe_bind[OF call _ stable_keys(1)], rule safe_if_known)
    fix resps assume "quiet resps"
    then have "safe (has_key k) (process_machine_responses env k resps) done_ok"
      by (intro run.safe_weaken[OF safe_process_quiet[OF laws]]) simp_all
    then show "safe (has_key k) (act_then (process_machine_responses env k resps)
      (act_then (la_update (\<lambda>d. ((), la_done_executing (lr_seq r) d))) (act_return (resps \<noteq> [])))) done_ok"
      by (rule run.safe_then[OF _ finish stable_keys(1)])
  qed
qed

lemma safe_sendable_commands: "safe (all_commands_live cs) (sendable_commands cs) done_ok"
proof (induction cs)
  case (Cons c cs)
  have rest: "safe (all_commands_live (c # cs)) (sendable_commands cs) done_ok"
    by (rule run.safe_weaken[OF Cons]) (simp_all add: all_commands_live_def)
  show ?case
    unfolding sendable_commands.simps
  proof (rule safe_ask_machine[OF is_final_Ok])
    fix final :: bool
    show "safe (all_commands_live (c # cs)) (act_bind (sendable_commands cs) (\<lambda>rest. act_return (case cam_command c of
        Real cmd \<Rightarrow> if \<not> final then cmd # rest else rest | FakeLocalActivityMarker _ \<Rightarrow> rest))) done_ok"
      by (rule run.safe_bind[OF rest safe_return_any stable_live])
  qed (use stable_live in \<open>simp_all add: all_commands_live_def\<close>)
qed (simp add: safe_return_any)

lemma safe_get_commands: "safe always get_commands done_ok"
proof -
  have "safe always (act_get wm_commands) (\<lambda>cs s. all_commands_live cs s)"
    by (rule run.safe_get) (simp add: commands_live)
  then show ?thesis
    unfolding get_commands_def
    by (intro safe_then_any safe_same_any safe_seq[OF _ safe_sendable_commands]) simp_all
qed

lemma safe_respond:
  "safe always (act_bind get_commands (\<lambda>_. act_bind take_messages (\<lambda>_.
     act_bind get_metadata_for_wft_complete (\<lambda>_. act_return ())))) done_ok"
proof -
  have "safe always take_messages done_ok" "safe always get_metadata_for_wft_complete done_ok"
    by (rule safe_pure, simp add: take_messages_def get_metadata_for_wft_complete_def same_keys_def split: prod.split)+
  then show ?thesis
    by (intro safe_seq_any[OF safe_get_commands] safe_seq_any safe_return_any)
qed

lemma preprocess_no_queries:
  "c \<in> set (fst (preprocess_command_sequence cs)) \<Longrightarrow> query_response c = None"
  "c \<in> set (fst (preprocess_command_sequence_old_behavior cs)) \<Longrightarrow> query_response c = None"
proof -
  have terminal: "first_of (filter P cs) = Some x \<Longrightarrow> P x" for P x
    by (cases "filter P cs") (auto dest: filter_eq_ConsD)
  assume "c \<in> set (fst (preprocess_command_sequence cs))"
  then show "query_response c = None"
    by (auto simp: preprocess_command_sequence_def preprocess_split_eq dest: terminal split: option.splits)
next
  assume "c \<in> set (fst (preprocess_command_sequence_old_behavior cs))"
  then show "query_response c = None"
    by (auto simp: preprocess_command_sequence_old_behavior_def preprocess_old_eq Let_def
        dest: set_takeWhileD dest!: in_set_takeD set_dropWhileD)
qed

lemma safe_lang_commands:
  assumes laws: "slot_map_laws env"
  shows "safe always (act_bind (run_preprocess_command_sequence cmds) (\<lambda>(commands, _).
    push_commands_and_iterate env commands)) done_ok"
proof -
  have use_flag: "safe always (try_use_flag f b) done_ok" for f b
    by (rule safe_pure) (simp add: try_use_flag_def split: prod.split)
  have "safe always (run_preprocess_command_sequence cmds) (\<lambda>r _. \<forall>c \<in> set (fst r). query_response c = None)"
    unfolding run_preprocess_command_sequence_def
    by (intro safe_seq_any[OF safe_get_any] safe_if safe_seq_any[OF use_flag] run.safe_return)
      (auto simp: preprocess_no_queries)
  then show ?thesis
    unfolding split_beta
    by (rule safe_seq) (rule safe_if_known[where P=always, simplified], rule safe_push_commands_and_iterate[OF laws])
qed

section \<open>The loop over workflow tasks\<close>

lemma apply_next_shrinks:
  "apply_next_wft_from_history env s = (Ok k, t) \<Longrightarrow> k \<noteq> 0 \<Longrightarrow> events_left t < events_left s"
  using history.safe_OkD[OF apply_next_consumes[of "events_left s"]] by blast

lemma safe_apply_tasks:
  assumes laws: "slot_map_laws env"
  shows "safe (\<lambda>s. events_left s < n) (apply_tasks n env) done_ok"
proof (induction n)
  case 0
  show ?case by (rule run.safeI) simp_all
next
  case (Suc n)
  note next_ok = run.safe_OkD[OF safe_apply_next_wft_from_history[OF laws]]
  show ?case
  proof (rule run.safeI)
    fix s x u assume s: "run_ok s" "events_left s < Suc n" and u: "apply_tasks (Suc n) env s = (Ok x, u)"
    then obtain k t where t: "apply_next_wft_from_history env s = (Ok k, t)"
      by (auto simp: act_bind_def split: prod.splits outcome.splits)
    from next_ok[OF s(1) _ t] have ok: "run_ok t" "run_extends s t" by auto
    show "run_ok u \<and> run_extends s u \<and> True"
    proof (cases "k = 0 \<or> \<not> wm_replaying t \<or> has_pending_jobs t")
      case True
      with u t ok show ?thesis by (auto simp: act_bind_def act_get_def act_return_def)
    next
      case False
      with u t have "apply_tasks n env t = (Ok x, u)" by (simp add: act_bind_def act_get_def)
      with run.safe_OkD[OF Suc.IH ok(1)] ok apply_next_shrinks[OF t] False s(2) show ?thesis
        by (auto intro: run.R_trans)
    qed
  next
    fix s p u assume s: "run_ok s" "events_left s < Suc n" and u: "apply_tasks (Suc n) env s = (Panic p, u)"
    show "incomplete_history p"
    proof (cases "\<exists>k t. apply_next_wft_from_history env s = (Ok k, t)")
      case True
      then obtain k t where t: "apply_next_wft_from_history env s = (Ok k, t)" by blast
      from next_ok[OF s(1) _ t] have ok: "run_ok t" by auto
      from u t have go: "k \<noteq> 0" "apply_tasks n env t = (Panic p, u)"
        by (auto simp: act_bind_def act_get_def act_return_def split: if_splits)
      with run.safe_PanicD[OF Suc.IH ok] apply_next_shrinks[OF t] s(2) show ?thesis by auto
    next
      case False
      with u have "apply_next_wft_from_history env s = (Panic p, u)"
        by (auto simp: act_bind_def split: prod.splits outcome.splits)
      with run.safe_PanicD[OF safe_apply_next_wft_from_history[OF laws] s(1)] show ?thesis by blast
    qed
  qed
qed

lemma safe_apply_next_task_if_ready:
  assumes laws: "slot_map_laws env"
  shows "safe always (apply_next_task_if_ready env) done_ok"
proof -
  have loop: "safe always (act_bind (act_get (\<lambda>s. length (hu_events (wm_last_history_from_server s)))) (\<lambda>n.
      apply_tasks (Suc n) env)) done_ok"
  proof (rule run.safeI)
    fix s x t
    assume s: "run_ok s" and "act_bind (act_get (\<lambda>s. length (hu_events (wm_last_history_from_server s)))) (\<lambda>n.
      apply_tasks (Suc n) env) s = (Ok x, t)"
    then have "apply_tasks (Suc (events_left s)) env s = (Ok x, t)" unfolding act_bind_def act_get_def by simp
    from run.safe_OkD[OF safe_apply_tasks[OF laws] s _ this] show "run_ok t \<and> run_extends s t \<and> True" by simp
  next
    fix s p t
    assume s: "run_ok s" and "act_bind (act_get (\<lambda>s. length (hu_events (wm_last_history_from_server s)))) (\<lambda>n.
      apply_tasks (Suc n) env) s = (Panic p, t)"
    then have "apply_tasks (Suc (events_left s)) env s = (Panic p, t)" unfolding act_bind_def act_get_def by simp
    from run.safe_PanicD[OF safe_apply_tasks[OF laws] s _ this] show "incomplete_history p" by simp
  qed
  show ?thesis
    unfolding apply_next_task_if_ready_def
    by (rule safe_seq_any[OF safe_get_any safe_if[OF safe_return_any loop]])
qed

section \<open>Whole runs\<close>

text \<open>The messages of new work have been decoded from the messages of the server.\<close>

definition decoded :: "IncomingProtocolMessage \<Rightarrow> bool" where
  "decoded m = (\<exists>unpack raw. protocol_message_try_from unpack raw = Ok m)"

definition call_decoded :: "run_call \<Rightarrow> bool" where
  "call_decoded c = (case c of NewWork _ messages \<Rightarrow> list_all decoded messages | _ \<Rightarrow> True)"

lemma safe_run_step:
  assumes laws: "slot_map_laws env" and c: "call_decoded c"
  shows "safe always (run_step env c) done_ok"
proof (cases c)
  case (NewWork u msgs)
  with c have "valid_msgs msgs"
    by (auto simp: call_decoded_def decoded_def valid_msgs_def list_all_iff dest: protocol_message_valid)
  then show ?thesis
    by (simp add: NewWork run_step_def safe_seq_any[OF safe_new_work[OF laws] safe_return_any])
next
  case DispatchLocalActivities
  have "safe always (drain_queued_local_activities env) done_ok"
    by (rule safe_pure) (simp add: drain_queued_local_activities_def same_keys_def split: prod.split)
  then show ?thesis by (simp add: DispatchLocalActivities run_step_def safe_seq_any[OF _ safe_return_any])
qed (simp_all add: run_step_def safe_new_history[OF laws] safe_lang_commands[OF laws]
    safe_apply_next_task_if_ready[OF laws] safe_respond safe_seq_any[OF safe_get_next_activation[OF laws] safe_return_any]
    safe_seq_any[OF safe_local_resolution[OF laws] safe_return_any])

lemma new_run_ok: "run_ok (workflow_machines_new basics driven_workflow_new)"
  by (simp add: workflow_machines_new_def Let_def run_ok_def driven_workflow_new_def split: option.split)


definition update_call :: "HistoryUpdate \<Rightarrow> UpdateMeta \<Rightarrow> UpdateInput \<Rightarrow> run_call" where
  "update_call u meta i = NewWork u [\<lparr> ipm_id = ''m1'', ipm_protocol_instance_id = ''u1'',
     ipm_sequencing_id = Some (SequencingEventId 1), ipm_body = \<lparr> urq_meta = Some meta, urq_input = Some i \<rparr> \<rparr>]"

lemma update_call_decoded: "call_decoded (update_call u meta i)"
proof -
  let ?r = "\<lparr> urq_meta = Some meta, urq_input = Some i \<rparr>"
  have "protocol_message_try_from (\<lambda>_. Some ?r) \<lparr> msg_id = ''m1'', msg_protocol_instance_id = ''u1'',
      msg_sequencing_id = Some (SequencingEventId 1),
      msg_body = Some (''type.googleapis.com/temporal.api.update.v1.Request'', []) \<rparr> =
    Ok \<lparr> ipm_id = ''m1'', ipm_protocol_instance_id = ''u1'', ipm_sequencing_id = Some (SequencingEventId 1), ipm_body = ?r \<rparr>"
    by (simp add: protocol_message_try_from_def message_body_try_from_def update_request_try_from_def)
  then show ?thesis by (auto simp: call_decoded_def update_call_def decoded_def)
qed


end
