(* ===== verification/HistoryPaginator.thy ===== *)
theory HistoryPaginator
  imports HistoryUpdate
begin

text \<open>
  The \<^verbatim>\<open>HistoryPaginator\<close> of \<^verbatim>\<open>history_update.rs\<close>.  The answers of the server to the coming history
  requests are the list \<open>answers\<close>; a fetch consumes the first, and \<open>None\<close> says that the paginator
  awaits an answer that has not come.
\<close>

section \<open>State\<close>

datatype Status = Status string

datatype NextPageToken = FetchFromStart | NextPage bytes | PagesDone

definition next_page_token_from :: "bytes \<Rightarrow> NextPageToken" where
  "next_page_token_from page_token = (if page_token = [] then PagesDone else NextPage page_token)"

record HistoryPage =
  page_history :: "HistoryEvent list option"
  page_next_page_token :: bytes

type_synonym answers = "(Status + HistoryPage) list"

record HistoryPaginator =
  pg_wf_id :: string
  pg_run_id :: string
  pg_previous_wft_started_id :: int
  pg_wft_started_event_id :: int
  pg_id_of_last_event_in_last_extracted_update :: "int option"
  pg_event_queue :: "HistoryEvent list"
  pg_next_page_token :: NextPageToken
  pg_final_events :: "HistoryEvent list"

definition EMPTY_FETCH_ERR :: Status where
  "EMPTY_FETCH_ERR = Status ''Fetched empty history page''"

definition EMPTY_TASK_ERR :: Status where
  "EMPTY_TASK_ERR = Status ''Received an empty workflow task with no queries or history''"

definition paginator_new ::
  "HistoryEvent list \<Rightarrow> int \<Rightarrow> int \<Rightarrow> string \<Rightarrow> string \<Rightarrow> NextPageToken \<Rightarrow> HistoryPaginator" where
  "paginator_new initial_history previous_wft_started_id wft_started_event_id wf_id run_id next_page_token =
     \<lparr> pg_wf_id = wf_id, pg_run_id = run_id, pg_previous_wft_started_id = previous_wft_started_id,
       pg_wft_started_event_id = wft_started_event_id, pg_id_of_last_event_in_last_extracted_update = None,
       pg_event_queue = (if next_page_token = FetchFromStart then [] else initial_history),
       pg_next_page_token = next_page_token,
       pg_final_events = (if next_page_token = FetchFromStart then initial_history else []) \<rparr>"

section \<open>Fetching\<close>

text \<open>The loop of \<^verbatim>\<open>get_next_page\<close>: the history fetched and the next token.  The token is replaced by
  \<open>PagesDone\<close> before the call, which an error leaves in place.\<close>

fun fetch_pages ::
  "NextPageToken \<Rightarrow> answers \<Rightarrow> ((Status, HistoryEvent list option) outcome \<times> NextPageToken \<times> answers) option" where
  "fetch_pages PagesDone as = Some (Ok None, PagesDone, as)"
| "fetch_pages tok [] = None"
| "fetch_pages tok (Inl st # as) = Some (Err st, PagesDone, as)"
| "fetch_pages tok (Inr fetch_res # as) =
     (let tok' = next_page_token_from (page_next_page_token fetch_res);
          history_is_empty = (case page_history fetch_res of Some es \<Rightarrow> es = [] | None \<Rightarrow> True)
      in if history_is_empty \<and> tok' \<noteq> PagesDone then fetch_pages tok' as
         else Some (Ok (page_history fetch_res), tok', as))"

definition back_id :: "HistoryEvent list \<Rightarrow> int" where
  "back_id es = (if es = [] then 0 else event_id (last es))"

definition get_next_page ::
  "HistoryPaginator \<Rightarrow> answers \<Rightarrow> ((Status, bool) outcome \<times> HistoryPaginator \<times> answers) option" where
  "get_next_page p as = (case fetch_pages (pg_next_page_token p) as of
      None \<Rightarrow> None
    | Some (Err st, tok, as') \<Rightarrow> Some (Err st, p\<lparr> pg_next_page_token := tok \<rparr>, as')
    | Some (Panic s, tok, as') \<Rightarrow> Some (Panic s, p\<lparr> pg_next_page_token := tok \<rparr>, as')
    | Some (Ok history, tok, as') \<Rightarrow>
        let queue = pg_event_queue p @ dropWhile (\<lambda>e. event_id e \<le> back_id (pg_event_queue p))
              (case history of Some es \<Rightarrow> es | None \<Rightarrow> []);
            p' = (if tok = PagesDone \<and> queue \<noteq> [] then
                    p\<lparr> pg_next_page_token := tok, pg_final_events := [],
                       pg_event_queue := queue @ dropWhile (\<lambda>e2. event_id e2 \<le> event_id (last queue)) (pg_final_events p) \<rparr>
                  else p\<lparr> pg_next_page_token := tok, pg_event_queue := queue \<rparr>)
        in Some (Ok (tok \<noteq> PagesDone), p', as'))"

text \<open>One round of the loop of \<^verbatim>\<open>extract_next_update\<close>: a returned result, or \<open>None\<close> to go on.\<close>

definition extract_round ::
  "HistoryPaginator \<Rightarrow> answers \<Rightarrow> ((Status, HistoryUpdate) outcome option \<times> HistoryPaginator \<times> answers) option" where
  "extract_round p0 as0 = (case get_next_page p0 as0 of
      None \<Rightarrow> None
    | Some (Err st, p, as) \<Rightarrow> Some (Some (Err st), p, as)
    | Some (Panic s, p, as) \<Rightarrow> Some (Some (Panic s), p, as)
    | Some (Ok has_next_page, p1, as) \<Rightarrow>
        let no_next_page = (\<not> has_next_page);
            current_events = pg_event_queue p1;
            p = p1\<lparr> pg_event_queue := [] \<rparr>;
            seen_enough_events = (back_id current_events \<ge> pg_wft_started_event_id p);
            already_sent_update_with_enough_events =
              ((case pg_id_of_last_event_in_last_extracted_update p of Some i \<Rightarrow> i | None \<Rightarrow> 0)
                 \<ge> pg_wft_started_event_id p)
        in if current_events = [] \<and> no_next_page \<and> already_sent_update_with_enough_events then
             Some (Some (case from_events [] (pg_previous_wft_started_id p) (pg_wft_started_event_id p) True of
                Ok (u, _) \<Rightarrow> Ok u | Err s \<Rightarrow> Panic s | Panic s \<Rightarrow> Panic s), p, as)
           else if current_events = [] \<or> (no_next_page \<and> \<not> seen_enough_events) then
             Some (Some (Err EMPTY_FETCH_ERR), p, as)
           else
             let first_event_id = event_id (hd current_events);
                 no_more = (pg_next_page_token p = PagesDone \<and> seen_enough_events)
             in case from_events current_events (pg_previous_wft_started_id p) (pg_wft_started_event_id p) no_more of
                  Err s \<Rightarrow> Some (Some (Panic s), p, as)
                | Panic s \<Rightarrow> Some (Some (Panic s), p, as)
                | Ok (update, extra) \<Rightarrow>
                    if pg_next_page_token p \<noteq> PagesDone \<and> hu_wft_count update < 2 then
                      Some (None, p\<lparr> pg_event_queue := hu_events update @ extra \<rparr>, as)
                    else
                      let extra_eid_same = (case extra of e # _ \<Rightarrow> event_id e = first_event_id | [] \<Rightarrow> False);
                          p' = p\<lparr> pg_event_queue := extra \<rparr>
                      in if \<not> no_more \<and> extra_eid_same then Some (None, p', as)
                         else Some (Some (Ok update), p'\<lparr> pg_id_of_last_event_in_last_extracted_update :=
                                (if hu_events update = [] then None else Some (event_id (last (hu_events update)))) \<rparr>, as))"

lemma fetch_pages_consumes:
  "\<lbrakk> fetch_pages tok as = Some (r, tok', as'); tok' \<noteq> PagesDone \<rbrakk> \<Longrightarrow> length as' < length as"
  by (induction tok as rule: fetch_pages.induct) (fastforce simp: Let_def split: if_splits)+

lemma extract_round_continues:
  assumes "extract_round p as = Some (None, p', as')"
  shows "pg_next_page_token p' \<noteq> PagesDone \<and> length as' < length as"
proof -
  obtain r tok as1 where fetch: "fetch_pages (pg_next_page_token p) as = Some (r, tok, as1)"
    using assms by (cases "fetch_pages (pg_next_page_token p) as") (auto simp: extract_round_def get_next_page_def)
  then have "tok \<noteq> PagesDone \<and> as' = as1 \<and> pg_next_page_token p' = tok"
    using assms
    by (auto simp: extract_round_def get_next_page_def Let_def split: outcome.splits if_splits prod.splits)
  with fetch_pages_consumes[OF fetch] show ?thesis by simp
qed

function extract_next_update ::
  "HistoryPaginator \<Rightarrow> answers \<Rightarrow> ((Status, HistoryUpdate) outcome \<times> HistoryPaginator \<times> answers) option" where
  "extract_next_update p as = (case extract_round p as of
      None \<Rightarrow> None
    | Some (Some res, p', as') \<Rightarrow> Some (res, p', as')
    | Some (None, p', as') \<Rightarrow> extract_next_update p' as')"
  by pat_completeness auto
termination extract_next_update
  by (relation "measure (\<lambda>(_, as). length as)") (auto dest: extract_round_continues)

declare extract_next_update.simps [simp del]

section \<open>Pages reassemble the history\<close>

text \<open>A server that answers every request, with the last page last.\<close>

fun well_paged :: "NextPageToken \<Rightarrow> answers \<Rightarrow> bool" where
  "well_paged PagesDone as = (as = [])"
| "well_paged tok [] = False"
| "well_paged tok (Inl st # as) = False"
| "well_paged tok (Inr page # as) = well_paged (next_page_token_from (page_next_page_token page)) as"

definition page_events :: "Status + HistoryPage \<Rightarrow> HistoryEvent list" where
  "page_events a = (case a of Inr page \<Rightarrow> (case page_history page of Some es \<Rightarrow> es | None \<Rightarrow> []) | Inl _ \<Rightarrow> [])"

text \<open>What the paginator has still to give: its queue and the pages to come.\<close>

definition undelivered :: "HistoryPaginator \<Rightarrow> answers \<Rightarrow> HistoryEvent list" where
  "undelivered p as = pg_event_queue p @ concat (map page_events as)"

lemma fetch_pages_well_paged:
  "well_paged tok as \<Longrightarrow> \<exists>history tok' as'. fetch_pages tok as = Some (Ok history, tok', as') \<and>
     well_paged tok' as' \<and>
     concat (map page_events as) = (case history of Some es \<Rightarrow> es | None \<Rightarrow> []) @ concat (map page_events as') \<and>
     (tok' = PagesDone \<or> (case history of Some es \<Rightarrow> es | None \<Rightarrow> []) \<noteq> [])"
  by (induction tok as rule: well_paged.induct)
    (auto simp: Let_def page_events_def split: option.splits)

lemma back_id_less:
  assumes "ids_increase (es @ fs)" "\<forall>e \<in> set (es @ fs). event_id e > 0"
  shows "dropWhile (\<lambda>e. event_id e \<le> back_id es) fs = fs"
proof (cases fs)
  case (Cons f fs')
  with assms show ?thesis
    by (cases es rule: rev_cases) (auto simp: back_id_def sorted_wrt_append)
qed simp

lemma get_next_page_keeps:
  assumes "well_paged (pg_next_page_token p) as" "ids_increase (undelivered p as)"
    and "\<forall>e \<in> set (undelivered p as). event_id e > 0"
    and "\<forall>f \<in> set (pg_final_events p). \<exists>e \<in> set (undelivered p as). event_id f \<le> event_id e"
  shows "\<exists>tok as' queue finals. get_next_page p as = Some (Ok (tok \<noteq> PagesDone),
      p\<lparr> pg_next_page_token := tok, pg_event_queue := queue, pg_final_events := finals \<rparr>, as') \<and>
    well_paged tok as' \<and> queue @ concat (map page_events as') = undelivered p as \<and>
    set finals \<subseteq> set (pg_final_events p) \<and> (queue = [] \<longrightarrow> tok = PagesDone)"
proof -
  obtain history tok as' where fetch: "fetch_pages (pg_next_page_token p) as = Some (Ok history, tok, as')"
    "well_paged tok as'"
    "concat (map page_events as) = (case history of Some es \<Rightarrow> es | None \<Rightarrow> []) @ concat (map page_events as')"
    "tok = PagesDone \<or> (case history of Some es \<Rightarrow> es | None \<Rightarrow> []) \<noteq> []"
    using fetch_pages_well_paged[OF assms(1)] by blast
  define new where "new = (case history of Some es \<Rightarrow> es | None \<Rightarrow> [])"
  define queue where "queue = pg_event_queue p @ new"
  have und: "undelivered p as = queue @ concat (map page_events as')"
    using fetch(3) by (simp add: undelivered_def queue_def new_def)
  have inc: "ids_increase queue" "\<forall>e \<in> set queue. event_id e > 0"
    using assms(2,3) und by (auto simp: sorted_wrt_append)
  have skip: "dropWhile (\<lambda>e. event_id e \<le> back_id (pg_event_queue p)) new = new"
    using back_id_less[of "pg_event_queue p" new] inc by (simp add: queue_def)
  have final: "dropWhile (\<lambda>e2. event_id e2 \<le> event_id (last queue)) (pg_final_events p) = []"
    if "tok = PagesDone" "queue \<noteq> []"
  proof -
    have "undelivered p as = queue" using und fetch(2) that(1) by simp
    moreover have "event_id e \<le> event_id (last queue)" if "e \<in> set queue" for e
      using inc(1) that \<open>queue \<noteq> []\<close> by (cases queue rule: rev_cases) (auto simp: sorted_wrt_append less_imp_le)
    ultimately show ?thesis using assms(4) by (fastforce intro: order_trans)
  qed
  have empty: "queue = [] \<Longrightarrow> tok = PagesDone" using fetch(4) by (auto simp: queue_def new_def)
  show ?thesis
  proof (cases "tok = PagesDone \<and> queue \<noteq> []")
    case True
    with final fetch und show ?thesis
      by (intro exI[of _ tok] exI[of _ as'] exI[of _ queue] exI[of _ "[]"])
        (simp add: get_next_page_def Let_def new_def[symmetric] skip queue_def[symmetric])
  next
    case False
    with fetch und empty show ?thesis
      by (intro exI[of _ tok] exI[of _ as'] exI[of _ queue] exI[of _ "pg_final_events p"])
        (auto simp: get_next_page_def Let_def new_def[symmetric] skip queue_def[symmetric])
  qed
qed

definition paginator_ok :: "HistoryPaginator \<Rightarrow> answers \<Rightarrow> bool" where
  "paginator_ok p as = (well_paged (pg_next_page_token p) as \<and> ids_increase (undelivered p as) \<and>
     list_all (\<lambda>e. event_id e > 0) (undelivered p as) \<and> undelivered p as \<noteq> [] \<and>
     event_id (last (undelivered p as)) \<ge> pg_wft_started_event_id p \<and>
     list_all (\<lambda>f. list_ex (\<lambda>e. event_id f \<le> event_id e) (undelivered p as)) (pg_final_events p))"

lemma extract_round_keeps:
  assumes "paginator_ok p as"
  shows "\<exists>res p' as'. extract_round p as = Some (res, p', as') \<and> well_paged (pg_next_page_token p') as' \<and>
    (case res of
       Some (Ok u) \<Rightarrow> hu_events u @ undelivered p' as' = undelivered p as \<and>
         (hu_has_last_wft u \<longrightarrow> undelivered p' as' = [])
     | None \<Rightarrow> paginator_ok p' as' \<and> undelivered p' as' = undelivered p as
     | _ \<Rightarrow> False)"
proof -
  obtain tok as' queue finals where page: "get_next_page p as = Some (Ok (tok \<noteq> PagesDone),
      p\<lparr> pg_next_page_token := tok, pg_event_queue := queue, pg_final_events := finals \<rparr>, as')"
    and paged: "well_paged tok as'" and all: "queue @ concat (map page_events as') = undelivered p as"
    and finals: "set finals \<subseteq> set (pg_final_events p)" and empty: "queue = [] \<longrightarrow> tok = PagesDone"
    using get_next_page_keeps[of p as] assms
    by (auto simp: paginator_ok_def list_all_iff list_ex_iff)
  have some: "queue \<noteq> []" using assms all empty paged by (auto simp: paginator_ok_def)
  have enough: "back_id queue \<ge> pg_wft_started_event_id p" if "tok = PagesDone"
    using assms all paged that some by (auto simp: paginator_ok_def back_id_def)
  define p1 where "p1 = p\<lparr> pg_next_page_token := tok, pg_event_queue := [], pg_final_events := finals \<rparr>"
  have ok: "paginator_ok (p1\<lparr> pg_event_queue := queue \<rparr>) as'" 
    using assms all finals paged by (auto simp: paginator_ok_def p1_def undelivered_def list_all_iff)
  obtain u extra where cut: "from_events queue (pg_previous_wft_started_id p) (pg_wft_started_event_id p)
      (tok = PagesDone \<and> back_id queue \<ge> pg_wft_started_event_id p) = Ok (u, extra)"
    and parts: "hu_events u @ extra = queue"
      "hu_has_last_wft u = (tok = PagesDone \<and> back_id queue \<ge> pg_wft_started_event_id p)"
      "hu_has_last_wft u \<longrightarrow> extra = []"
    using from_events_parts[of queue "pg_previous_wft_started_id p" "pg_wft_started_event_id p"
        "tok = PagesDone \<and> back_id queue \<ge> pg_wft_started_event_id p"] by blast
  have same: "queue = extra" if "extra \<noteq> []" "event_id (hd extra) = event_id (hd queue)"
    using that parts(1) ok some
    by (cases "hu_events u"; cases extra)
      (auto simp: paginator_ok_def undelivered_def p1_def sorted_wrt_append)
  have round: "extract_round p as = (
      if tok \<noteq> PagesDone \<and> hu_wft_count u < 2 then Some (None, p1\<lparr> pg_event_queue := queue \<rparr>, as')
      else if \<not> (tok = PagesDone \<and> back_id queue \<ge> pg_wft_started_event_id p) \<and>
          (case extra of e # _ \<Rightarrow> event_id e = event_id (hd queue) | [] \<Rightarrow> False)
        then Some (None, p1\<lparr> pg_event_queue := extra \<rparr>, as')
      else Some (Some (Ok u), p1\<lparr> pg_event_queue := extra, pg_id_of_last_event_in_last_extracted_update :=
                 (if hu_events u = [] then None else Some (event_id (last (hu_events u)))) \<rparr>, as'))"
    using some enough cut parts(1) by (auto simp: extract_round_def page Let_def p1_def)
  show ?thesis
    unfolding round using ok same parts paged all
    by (cases extra) (auto simp: undelivered_def p1_def)
qed

text \<open>
  C11: Pagination gives back the history.  Let the queue and the pages to come, the last of which carries an empty token, hold events with
  increasing ids up to the workflow task's started event at least, and let the events kept for the end of a
  cache miss be among them.  Then \<^verbatim>\<open>extract_next_update\<close> returns an update without waiting for a further
  answer, without an error and without panicking, and the update followed by what is still to be given is
  exactly what was to be given before; an update with the last workflow task leaves nothing.
\<close>

theorem extract_next_update_keeps_history:
  assumes "paginator_ok p as"
  shows "case extract_next_update p as of
      Some (Ok u, p', as') \<Rightarrow> hu_events u @ undelivered p' as' = undelivered p as \<and>
        well_paged (pg_next_page_token p') as' \<and> (hu_has_last_wft u \<longrightarrow> undelivered p' as' = [])
    | _ \<Rightarrow> False"
  using assms
proof (induction "length as" arbitrary: p as rule: less_induct)
  case less
  from extract_round_keeps[OF less.prems] obtain res p' as'
    where round: "extract_round p as = Some (res, p', as')" "well_paged (pg_next_page_token p') as'"
      "case res of
         Some (Ok u) \<Rightarrow> hu_events u @ undelivered p' as' = undelivered p as \<and> (hu_has_last_wft u \<longrightarrow> undelivered p' as' = [])
       | None \<Rightarrow> paginator_ok p' as' \<and> undelivered p' as' = undelivered p as
       | _ \<Rightarrow> False" by blast
  show ?case
  proof (cases res)
    case None
    then have len: "length as' < length as" and ok: "paginator_ok p' as'"
      and same: "undelivered p' as' = undelivered p as"
      using round extract_round_continues[of p as p' as'] by auto
    have "extract_next_update p as = extract_next_update p' as'"
      by (simp add: extract_next_update.simps[of p as] round(1) None)
    then show ?thesis using less.hyps[OF len ok] unfolding same by simp
  next
    case (Some r)
    with round show ?thesis by (cases r) (auto simp: extract_next_update.simps[of p as])
  qed
qed

theorem extract_next_update_keeps_history_witness:
  "let p = paginator_new (take 4 signal_history) 0 7 ''wf'' ''run'' (NextPage ''t'');
       as = [Inr \<lparr> page_history = Some (drop 4 signal_history), page_next_page_token = [] \<rparr>]
   in case extract_next_update p as of
        Some (Ok u, p', as') \<Rightarrow> hu_events u @ undelivered p' as' = signal_history
      | _ \<Rightarrow> False"
proof -
  define p where "p = paginator_new (take 4 signal_history) 0 7 ''wf'' ''run'' (NextPage ''t'')"
  define as :: answers where "as = [Inr \<lparr> page_history = Some (drop 4 signal_history), page_next_page_token = [] \<rparr>]"
  have und: "undelivered p as = signal_history"
    by (simp add: undelivered_def p_def as_def paginator_new_def page_events_def)
  have "paginator_ok p as"
    unfolding paginator_ok_def und
    by (simp add: p_def as_def paginator_new_def next_page_token_from_def signal_history_def plain_event_def)
  from extract_next_update_keeps_history[OF this] show ?thesis
    unfolding p_def[symmetric] as_def[symmetric] Let_def by (auto simp: und split: option.splits outcome.splits)
qed

section \<open>Waiting\<close>

text \<open>An answer after which no further page is requested.\<close>

definition answer_ends :: "Status + HistoryPage \<Rightarrow> bool" where
  "answer_ends a = (case a of Inl _ \<Rightarrow> True | Inr page \<Rightarrow> page_next_page_token page = [])"

lemma fetch_pages_waits:
  "fetch_pages tok as = None \<Longrightarrow> tok \<noteq> PagesDone \<and> \<not> list_ex answer_ends as"
  by (induction tok as rule: fetch_pages.induct)
    (auto simp: Let_def answer_ends_def next_page_token_from_def split: if_splits)

lemma fetch_pages_leaves_end:
  "\<lbrakk> fetch_pages tok as = Some (r, tok', as'); tok' \<noteq> PagesDone; list_ex answer_ends as \<rbrakk> \<Longrightarrow> list_ex answer_ends as'"
  by (induction tok as rule: fetch_pages.induct)
    (fastforce simp: Let_def answer_ends_def next_page_token_from_def split: if_splits)+

lemma extract_round_fetches:
  "extract_round p as = None \<Longrightarrow> fetch_pages (pg_next_page_token p) as = None"
  "extract_round p as = Some (None, p', as') \<Longrightarrow>
   \<exists>r. fetch_pages (pg_next_page_token p) as = Some (r, pg_next_page_token p', as')"
  by (cases "fetch_pages (pg_next_page_token p) as";
      auto simp: extract_round_def get_next_page_def Let_def split: outcome.splits if_splits prod.splits)+

text \<open>
  C12: The paginator waits only for pages.  \<^verbatim>\<open>extract_next_update\<close> still waits for an answer only when a page
  token was left to follow and every answer so far was a page with a token for the next: as soon as
  the server sends a page without a token, or an error, it returns.
\<close>

theorem extract_waits_only_for_pages:
  "case extract_next_update p as of
      None \<Rightarrow> pg_next_page_token p \<noteq> PagesDone \<and> \<not> list_ex answer_ends as
    | Some _ \<Rightarrow> True"
proof (induction "length as" arbitrary: p as rule: less_induct)
  case less
  show ?case
  proof (cases "extract_round p as")
    case None
    with fetch_pages_waits[OF extract_round_fetches(1)[OF None]] show ?thesis
      by (simp add: extract_next_update.simps[of p as])
  next
    case (Some a)
    obtain res p' as' where a: "a = (res, p', as')" by (cases a)
    show ?thesis
    proof (cases res)
      case go: None
      note round = Some[unfolded a go]
      obtain r where fetch: "fetch_pages (pg_next_page_token p) as = Some (r, pg_next_page_token p', as')"
        using extract_round_fetches(2)[OF round] by blast
      have more: "pg_next_page_token p' \<noteq> PagesDone" "length as' < length as"
        using extract_round_continues[OF round] by auto
      have "pg_next_page_token p \<noteq> PagesDone" using fetch more(1) by auto
      then show ?thesis
        using less.hyps[OF more(2), of p'] fetch_pages_leaves_end[OF fetch more(1)]
        by (auto simp: extract_next_update.simps[of p as] round split: option.splits)
    qed (simp add: extract_next_update.simps[of p as] Some a)
  qed
qed

end
