(* ===== verification/Spec2Isabelle.thy ===== *)
theory Spec2Isabelle
  imports WorkflowRuns HistoryPaginator
begin

text \<open>
  \<^bold>\<open>The workflow core of the Temporal Elixir SDK.\<close>
  The program is the Elixir SDK's native part: a NIF (\<^verbatim>\<open>src/native/temporal_nif\<close>) over the Rust core
  (\<^verbatim>\<open>src/sdk-core\<close>).  The core polls the Temporal server for workflow tasks, replays the history of a
  workflow through a set of state machines, and hands lang (the Elixir side) activations made of
  jobs; lang answers with commands, each of which creates or drives a machine.  This development models
  the deterministic heart of it: the machines, the data they exchange, the internal flags, the
  reading of history, and the workflow run that dispatches events, messages and commands to its
  machines.

  \<^bold>\<open>Theories and the code they model\<close> (paths under \<^verbatim>\<open>src/sdk-core\<close>, machines under
  \<^verbatim>\<open>core/src/worker/workflow/machines\<close>).
  \<^item> \<open>Prelude\<close>: results of fallible code.  \<open>Ok\<close>, \<open>Err\<close> and \<open>Panic\<close> are Rust's \<^verbatim>\<open>Ok\<close>, \<^verbatim>\<open>Err\<close> and a panic;
    an error's text is the format string of the source.
  \<^item> \<open>Fsm\<close>: the code the \<^verbatim>\<open>fsm!\<close> macro generates (\<^verbatim>\<open>fsm/rustfsm_trait\<close>, \<^verbatim>\<open>fsm/rustfsm_procmacro\<close>).  A machine is its
    state, absent after a failed handler, and its shared state; a transition table maps a state and an event to
    an arm: no match, the handler's result, or a panic.
  \<^item> \<open>Protos\<close>, \<open>HistoryEvents\<close>, \<open>Commands\<close>: the protobuf messages the machines read and write, and the
    conversions of \<^verbatim>\<open>sdk-core-protos/src/lib.rs\<close>.
  \<^item> \<open>TemporalMachine\<close>: \<^verbatim>\<open>handle_event\<close>, \<^verbatim>\<open>handle_command\<close> and \<^verbatim>\<open>process_machine_commands\<close> of \<^verbatim>\<open>mod.rs\<close> for any machine, runs
    of a machine over a sequence of calls, and the locales its users instantiate: invariants of a machine, potentials that
    bound what a run sends, traces, and incomes.
  \<^item> \<open>TimerMachine\<close>, \<open>ActivityMachine\<close>, \<open>ChildWorkflowMachine\<close>, \<open>NexusOperationMachine\<close>, \<open>ExternalMachines\<close>
    (signals and cancel requests), \<open>CommandMachines\<close> (complete, fail, cancel, continue-as-new, search attributes,
    properties), \<open>PatchMachine\<close>, \<open>WorkflowTaskMachine\<close>, \<open>UpdateMachine\<close>, \<open>LocalActivityMachine\<close>: one machine each,
    from its \<^verbatim>\<open>*_state_machine.rs\<close>, with its state as a datatype, its shared state as a record, its transition table,
    its conversions from events and commands, its adapter to responses, and its calls from lang.
  \<^item> \<open>Markers\<close>, \<open>ProtocolMessages\<close>, \<open>LocalActs\<close>: \<^verbatim>\<open>core/src/protosext\<close> (markers, update requests, validation
    of local activities) and the queue of local activities (\<^verbatim>\<open>workflow_machines/local_acts.rs\<close>).
  \<^item> \<open>RustSets\<close>, \<open>InternalFlags\<close>: hash and tree sets as an interface with two implementations, and
    \<^verbatim>\<open>core/src/internal_flags.rs\<close>.
  \<^item> \<open>HistoryUpdate\<close>, \<open>HistoryPaginator\<close>: \<^verbatim>\<open>core/src/worker/workflow/history_update.rs\<close>.
  \<^item> \<open>Machines\<close>: the sum of the sixteen machines and the dispatch of \<^verbatim>\<open>mod.rs\<close> over it.  \<open>MachineContracts\<close>: what
    a run relies on of a machine, as a locale that each machine interprets.
  \<^item> \<open>DrivenWorkflow\<close>: \<^verbatim>\<open>driven_workflow.rs\<close>, lang's side of a run, with the commands of lang
    (\<^verbatim>\<open>core/src/worker/workflow/mod.rs\<close>) and deployment versions (\<^verbatim>\<open>core-api/src/worker.rs\<close>).
  \<^item> \<open>Actions\<close>: fallible methods on a mutable state, what they keep, and a logic for their safety.
  \<^item> \<open>WorkflowMachines\<close>: \<^verbatim>\<open>workflow_machines.rs\<close>, the state of a run (\<open>WorkflowMachines\<close>, a record with the
    fields of the struct) and each of its methods as an action on it.  \<open>WorkflowManager\<close>: \<^verbatim>\<open>WorkflowManager\<close>
    and the reordering of commands of \<^verbatim>\<open>managed_run.rs\<close>.
  \<^item> \<open>RunSafety\<close>, \<open>RunOperations\<close>, \<open>RunEvents\<close>, \<open>RunOrder\<close>, \<open>WorkflowRuns\<close>: the invariant of a run, that every
    operation keeps it, what every operation keeps whatever its outcome, and whole runs as sequences of calls.

  \<^bold>\<open>What is proved.\<close>
  Each resolving machine never panics and resolves to lang exactly once or at most once over every sequence of
  events, commands and lang calls, by a potential on its states; the terminal and attribute machines accept
  exactly the sequences of their command and event; the update machine's conversation is one of four; the
  workflow task machine triggers the event loop as its history says.  Markers of patches and local
  activities and the flags of a workflow task round-trip through history.  The queue of local activities
  refines a pair of sets.  History is cut into workflow task sequences as a recursive reference says,
  without losing events, and taking them terminates.  A run, driven by any sequence of calls, composes
  all of this: by the contracts of its machines it never panics before its first error (but for a history
  that ends inside a workflow task), its loops and its recursion end, and its workflow time never goes
  back.  A machine in a final state rejects everything; the commands of lang reach the machines in order with
  at most one terminal command.  Theorems of kind error state where the code departs from
  what it means to do.

  \<^bold>\<open>Bounds, fuel and parameters.\<close>
  Recursion is structural or has a termination proof; \<open>take_sequences\<close> has fuel, and two rounds more than the events left
  suffice as every sequence has an event.  The recursion of \<^verbatim>\<open>process_machine_responses\<close> is cut at depth
  three, of which two are ever used; the loop that prepares commands has one round per queued command, as
  preparing one queues no other; the loop that applies tasks has one round per event left and one more, as a round
  that goes on has taken an event.  That none of these bounds is reached is part of the theorems.  Sequence and attempt numbers are 32-bit words, event ids are integers on
  which no arithmetic is done.  Third-party code is a parameter: the JSON serializer and time conversions (\<open>MarkerCodec\<close>,
  \<open>time_of\<close>, \<open>dur_of\<close>), protobuf encoding (\<open>encode\<close>, \<open>unpack\<close>), the clock, the server's answers (\<open>answers\<close>), the
  hash of a run id, and the slot map that holds the machines of a run, of which \<open>slot_map_laws\<close> says that keys
  are given out once and that iterating visits every entry.

  \<^bold>\<open>Not modelled.\<close>
  Asynchronous plumbing (pollers, channels, permits, the workflow stream, the activity and local activity
  managers), the gRPC client, telemetry, the C bridge, the NIF binding, configuration files, the ephemeral
  server, tests and test utilities: they are I/O or concurrency around the modelled core.  Metrics and log
  statements inside modelled functions have no effect on their results and are left out.
\<close>

end
